(* ===== verification/Prelude.thy ===== *)
theory Prelude
  imports Main "HOL-Library.AList" "HOL-Library.Sublist"
begin

section \<open>Shared vocabulary of the model\<close>

text \<open>
  The generic part of the development: how values of the Go program are written in HOL, and
  the lemmas about them that the component theories share.
  \<^item> A Go \<open>string\<close> is the list of its bytes (\<open>string\<close>).
  \<^item> A Go \<open>error\<close> is \<open>string option\<close>: \<open>None\<close> is \<open>nil\<close>, \<open>Some m\<close> an error with text \<open>m\<close>.
  \<^item> A Go \<open>map[string]string\<close> is an association list under \<open>option\<close>: \<open>None\<close> is the nil
    map, and the order of the list is one order in which \<open>range\<close> may visit the entries.
  \<^item> \<open>int32\<close> and \<open>int64\<close> fields are \<open>int\<close>; where the code does arithmetic on them the
    wrap-around is written out with \<open>to_i32\<close> and \<open>to_i64\<close>.
  \<^item> Instants and durations are \<open>int\<close>, in nanoseconds.
\<close>

named_theorems go_defs \<open>definitions of the Go helper functions\<close>
named_theorems frame \<open>fields an operation leaves unchanged\<close>

type_synonym go_error = "string option"
type_synonym instant = int
type_synonym duration = int

abbreviation (input) ok :: go_error where "ok \<equiv> None"
abbreviation (input) errorf :: "string \<Rightarrow> go_error" where "errorf m \<equiv> Some m"

text \<open>\<open>fmt.Errorf("prefix: %w", err)\<close> applied to a possibly nil error.\<close>

definition wrap_err :: "string \<Rightarrow> go_error \<Rightarrow> go_error" where
  "wrap_err p e = map_option (\<lambda>m. p @ m) e"

lemma wrap_err_simps [simp]:
  "wrap_err p None = None" "wrap_err p (Some m) = Some (p @ m)"
  by (simp_all add: wrap_err_def)

lemma wrap_err_None_iff [simp]: "wrap_err p e = None \<longleftrightarrow> e = None"
  by (simp add: wrap_err_def)

text \<open>Sequencing of checks: the first error wins, as \<open>if err != nil { return err }\<close> does.\<close>

fun first_err :: "go_error list \<Rightarrow> go_error" where
  "first_err [] = None"
| "first_err (None # es) = first_err es"
| "first_err (Some m # es) = Some m"

lemma first_err_Cons: "first_err (e # es) = (case e of None \<Rightarrow> first_err es | Some m \<Rightarrow> Some m)"
  by (cases e) simp_all

lemma first_err_None_iff [simp]: "first_err es = None \<longleftrightarrow> (\<forall>e \<in> set es. e = None)"
  by (induction es rule: first_err.induct) auto

definition check :: "bool \<Rightarrow> string \<Rightarrow> go_error" where
  "check bad m = (if bad then Some m else None)"

lemma check_None_iff [simp]: "check bad m = None \<longleftrightarrow> \<not> bad"
  by (simp add: check_def)

section \<open>Machine integers\<close>

definition to_i32 :: "int \<Rightarrow> int" where
  "to_i32 n = (n + 2 ^ 31) mod 2 ^ 32 - 2 ^ 31"

definition to_i64 :: "int \<Rightarrow> int" where
  "to_i64 n = (n + 2 ^ 63) mod 2 ^ 64 - 2 ^ 63"

lemma to_i32_id: "- (2 ^ 31) \<le> n \<Longrightarrow> n < 2 ^ 31 \<Longrightarrow> to_i32 n = n"
  by (simp add: to_i32_def)

lemma to_i64_id: "- (2 ^ 63) \<le> n \<Longrightarrow> n < 2 ^ 63 \<Longrightarrow> to_i64 n = n"
  by (simp add: to_i64_def)

lemma to_i64_pos:
  assumes "0 \<le> n" and "n \<le> 9223372036854775807" shows "to_i64 n = n"
  by (rule to_i64_id) (use assms in simp_all)

lemma to_i32_range: "- (2 ^ 31) \<le> to_i32 n \<and> to_i32 n < 2 ^ 31"
  by (simp add: to_i32_def)

lemma to_i64_range: "- (2 ^ 63) \<le> to_i64 n \<and> to_i64 n < 2 ^ 63"
  by (simp add: to_i64_def)

lemma to_i32_above:
  assumes "2 ^ 31 \<le> n" and "n < 2 ^ 32" shows "to_i32 n = n - 2 ^ 32"
proof -
  have "(n + 2 ^ 31) mod 2 ^ 32 = (n + 2 ^ 31 - 2 ^ 32) mod (2 ^ 32 :: int)"
    by (rule minus_mod_self2 [symmetric])
  also have "\<dots> = n + 2 ^ 31 - 2 ^ 32" using assms by (intro mod_pos_pos_trivial) auto
  finally show ?thesis by (simp add: to_i32_def)
qed

section \<open>Strings\<close>

definition has_prefix :: "string \<Rightarrow> string \<Rightarrow> bool" where
  "has_prefix s p = (take (length p) s = p)"

definition has_suffix :: "string \<Rightarrow> string \<Rightarrow> bool" where
  "has_suffix s p = (length p \<le> length s \<and> drop (length s - length p) s = p)"

fun str_contains :: "string \<Rightarrow> string \<Rightarrow> bool" where
  "str_contains [] p = (p = [])"
| "str_contains (c # cs) p = (has_prefix (c # cs) p \<or> str_contains cs p)"

lemma has_prefix_iff: "has_prefix s p \<longleftrightarrow> (\<exists>t. s = p @ t)"
  unfolding has_prefix_def by (metis append_eq_conv_conj append_take_drop_id)

lemma has_prefix_append [simp]: "has_prefix (p @ t) p"
  by (simp add: has_prefix_def)

lemma has_suffix_iff: "has_suffix s p \<longleftrightarrow> (\<exists>t. s = t @ p)"
proof
  assume "has_suffix s p"
  then show "\<exists>t. s = t @ p"
    unfolding has_suffix_def by (metis append_take_drop_id)
next
  assume "\<exists>t. s = t @ p"
  then show "has_suffix s p" by (auto simp: has_suffix_def)
qed

lemma has_suffix_append: "length p \<le> length b \<Longrightarrow> has_suffix (a @ b) p = has_suffix b p"
  by (simp add: has_suffix_def)

lemma str_contains_iff: "str_contains s p \<longleftrightarrow> (\<exists>a b. s = a @ p @ b)"
proof (induction s p rule: str_contains.induct)
  case (1 p)
  then show ?case by auto
next
  case (2 c cs p)
  show ?case
  proof
    assume "str_contains (c # cs) p"
    then consider "has_prefix (c # cs) p" | "str_contains cs p" by auto
    then show "\<exists>a b. c # cs = a @ p @ b"
    proof cases
      case 1
      then obtain t where "c # cs = [] @ p @ t" by (auto simp: has_prefix_iff)
      then show ?thesis by blast
    next
      case 2
      with "2.IH" obtain a b where "cs = a @ p @ b" by blast
      then have "c # cs = (c # a) @ p @ b" by simp
      then show ?thesis by blast
    qed
  next
    assume "\<exists>a b. c # cs = a @ p @ b"
    then obtain a b where ab: "c # cs = a @ p @ b" by blast
    show "str_contains (c # cs) p"
    proof (cases a)
      case Nil
      with ab have "has_prefix (c # cs) p" by (auto simp: has_prefix_iff)
      then show ?thesis by simp
    next
      case (Cons d ds)
      with ab have "cs = ds @ p @ b" by simp
      with "2.IH" show ?thesis by auto
    qed
  qed
qed

lemma str_contains_sublist: "str_contains s p \<longleftrightarrow> sublist p s"
  by (simp add: str_contains_iff sublist_def)

text \<open>\<open>strings.ToLower\<close> on ASCII letters.\<close>

definition lower_char :: "char \<Rightarrow> char" where
  "lower_char c = (if 65 \<le> (of_char c :: nat) \<and> (of_char c :: nat) \<le> 90
     then char_of ((of_char c :: nat) + 32) else c)"

definition to_lower :: "string \<Rightarrow> string" where
  "to_lower s = map lower_char s"

text \<open>\<open>strings.Split\<close> on a one-byte separator and \<open>strings.Join\<close>.\<close>

fun split_on :: "char \<Rightarrow> string \<Rightarrow> string list" where
  "split_on d [] = [[]]"
| "split_on d (c # cs) =
     (if c = d then [] # split_on d cs
      else (case split_on d cs of [] \<Rightarrow> [[c]] | p # ps \<Rightarrow> (c # p) # ps))"

fun join :: "string \<Rightarrow> string list \<Rightarrow> string" where
  "join sep [] = []"
| "join sep [s] = s"
| "join sep (s # t # ss) = s @ sep @ join sep (t # ss)"

lemma split_on_ne [simp]: "split_on d s \<noteq> []"
  by (induction d s rule: split_on.induct) (auto split: list.splits)

lemma join_split: "join [d] (split_on d s) = s"
proof (induction d s rule: split_on.induct)
  case (1 d)
  then show ?case by simp
next
  case (2 d c cs)
  obtain p ps where sp: "split_on d cs = p # ps" by (cases "split_on d cs") auto
  show ?case
  proof (cases "c = d")
    case True
    with 2 sp show ?thesis by (simp add: sp)
  next
    case False
    with 2 sp have "join [d] (p # ps) = cs" by simp
    with False sp show ?thesis by (cases ps) simp_all
  qed
qed

lemma split_parts: "p \<in> set (split_on d s) \<Longrightarrow> d \<notin> set p"
  by (induction d s arbitrary: p rule: split_on.induct) (auto split: list.splits if_splits)

lemma split_concat: "split_on d (s @ d # t) = split_on d s @ split_on d t"
proof (induction d s rule: split_on.induct)
  case (2 d c cs)
  then show ?case by (cases "split_on d cs") auto
qed simp

lemma split_free: "d \<notin> set s \<Longrightarrow> split_on d s = [s]"
  by (induction s) auto

lemma split_join:
  "xs \<noteq> [] \<Longrightarrow> \<forall>x \<in> set xs. d \<notin> set x \<Longrightarrow> split_on d (join [d] xs) = xs"
  by (induction "[d]" xs rule: join.induct) (simp_all add: split_free split_concat)

text \<open>Decimal printing, as \<open>%d\<close> and \<open>strconv.Itoa\<close> do.\<close>

definition digit_char :: "nat \<Rightarrow> char" where
  "digit_char d = char_of (48 + d)"

fun show_nat :: "nat \<Rightarrow> string" where
  "show_nat n = (if n < 10 then [digit_char n] else show_nat (n div 10) @ [digit_char (n mod 10)])"

declare show_nat.simps [simp del]

definition show_int :: "int \<Rightarrow> string" where
  "show_int i = (if i < 0 then ''-'' @ show_nat (nat (- i)) else show_nat (nat i))"

section \<open>Go maps from strings\<close>

type_synonym 'v gomap = "(string \<times> 'v) list option"

definition gm_entries :: "'v gomap \<Rightarrow> (string \<times> 'v) list" where
  "gm_entries m = (case m of None \<Rightarrow> [] | Some kvs \<Rightarrow> kvs)"

definition gm_get :: "'v gomap \<Rightarrow> string \<Rightarrow> 'v option" where
  "gm_get m k = map_of (gm_entries m) k"

text \<open>\<open>m[k]\<close> in a string-valued map: the zero value when the key is missing.\<close>

definition gm_str :: "string gomap \<Rightarrow> string \<Rightarrow> string" where
  "gm_str m k = (case gm_get m k of None \<Rightarrow> [] | Some v \<Rightarrow> v)"

definition gm_len :: "'v gomap \<Rightarrow> nat" where
  "gm_len m = length (gm_entries m)"

text \<open>
  Assignment to a map that is not nil, and \<open>make\<close> when it is nil: every write of the code
  follows an \<open>if m == nil { m = make(...) }\<close>, which \<open>gm_make\<close> is.
\<close>

definition gm_make :: "'v gomap \<Rightarrow> 'v gomap" where
  "gm_make m = Some (gm_entries m)"

definition gm_put :: "string \<Rightarrow> 'v \<Rightarrow> 'v gomap \<Rightarrow> 'v gomap" where
  "gm_put k v m = Some (AList.update k v (gm_entries m))"

definition gm_delete :: "string \<Rightarrow> 'v gomap \<Rightarrow> 'v gomap" where
  "gm_delete k m = map_option (AList.delete k) m"

text \<open>Well-formed: each key is stored once.\<close>

definition gm_wf :: "'v gomap \<Rightarrow> bool" where
  "gm_wf m = distinct (map fst (gm_entries m))"

lemma gm_entries_simps [simp]: "gm_entries None = []" "gm_entries (Some kvs) = kvs"
  by (simp_all add: gm_entries_def)

lemma gm_get_None [simp]: "gm_get None k = None"
  by (simp add: gm_get_def)

lemma gm_get_empty [simp]: "gm_get (Some []) k = None"
  by (simp add: gm_get_def)

lemma gm_get_make [simp]: "gm_get (gm_make m) k = gm_get m k"
  by (simp add: gm_get_def gm_make_def)

lemma gm_get_put [simp]: "gm_get (gm_put k v m) k' = (if k' = k then Some v else gm_get m k')"
  by (simp add: gm_get_def gm_put_def update_conv')

lemma gm_get_delete [simp]: "gm_get (gm_delete k m) k' = (if k' = k then None else gm_get m k')"
  by (cases m) (simp_all add: gm_get_def gm_delete_def delete_conv')

lemma gm_str_make [simp]: "gm_str (gm_make m) k = gm_str m k"
  by (simp add: gm_str_def)

lemma gm_str_put [simp]: "gm_str (gm_put k v m) k' = (if k' = k then v else gm_str m k')"
  by (simp add: gm_str_def)

lemma gm_put_not_nil [simp]: "gm_put k v m \<noteq> None" "gm_make m \<noteq> None"
  by (simp_all add: gm_put_def gm_make_def)

lemma gm_wf_simps [simp]: "gm_wf None" "gm_wf (Some [])"
  by (simp_all add: gm_wf_def)

lemma gm_wf_put [simp]: "gm_wf m \<Longrightarrow> gm_wf (gm_put k v m)"
  by (simp add: gm_wf_def gm_put_def distinct_update)

lemma gm_wf_make [simp]: "gm_wf (gm_make m) = gm_wf m"
  by (simp add: gm_wf_def gm_make_def)

text \<open>
  Writing a list of entries one after the other (\<open>for k, v := range src { m[k] = v }\<close>), and
  the variant that keeps what is there (\<open>if _, exists := m[k]; !exists\<close>).
\<close>

definition gm_put_all :: "(string \<times> 'v) list \<Rightarrow> 'v gomap \<Rightarrow> 'v gomap" where
  "gm_put_all kvs m = fold (\<lambda>(k, v). gm_put k v) kvs m"

definition gm_put_new :: "string \<Rightarrow> 'v \<Rightarrow> 'v gomap \<Rightarrow> 'v gomap" where
  "gm_put_new k v m = (if gm_get m k = None then gm_put k v m else m)"

definition gm_put_all_new :: "(string \<times> 'v) list \<Rightarrow> 'v gomap \<Rightarrow> 'v gomap" where
  "gm_put_all_new kvs m = fold (\<lambda>(k, v). gm_put_new k v) kvs m"

lemma gm_put_all_simps [simp]:
  "gm_put_all [] m = m"
  "gm_put_all ((k, v) # kvs) m = gm_put_all kvs (gm_put k v m)"
  by (simp_all add: gm_put_all_def)

lemma gm_put_all_new_simps [simp]:
  "gm_put_all_new [] m = m"
  "gm_put_all_new ((k, v) # kvs) m = gm_put_all_new kvs (gm_put_new k v m)"
  by (simp_all add: gm_put_all_new_def)

lemma gm_get_put_new [simp]:
  "gm_get (gm_put_new k v m) k' =
     (case gm_get m k' of Some u \<Rightarrow> Some u | None \<Rightarrow> if k' = k then Some v else None)"
  by (auto simp: gm_put_new_def split: option.splits)

lemma gm_get_put_all:
  "distinct (map fst kvs) \<Longrightarrow>
     gm_get (gm_put_all kvs m) k = (case map_of kvs k of Some v \<Rightarrow> Some v | None \<Rightarrow> gm_get m k)"
proof (induction kvs arbitrary: m)
  case Nil
  then show ?case by simp
next
  case (Cons kv kvs)
  obtain k0 v0 where kv: "kv = (k0, v0)" by (cases kv)
  from Cons.prems kv have "map_of kvs k0 = None" by (auto simp: map_of_eq_None_iff)
  with Cons kv show ?case by (auto split: option.splits)
qed

lemma gm_wf_put_all: "gm_wf m \<Longrightarrow> gm_wf (gm_put_all kvs m)"
  by (induction kvs arbitrary: m) auto

lemma gm_get_put_all_new:
  "gm_get (gm_put_all_new kvs m) k = (case gm_get m k of Some v \<Rightarrow> Some v | None \<Rightarrow> map_of kvs k)"
proof (induction kvs arbitrary: m)
  case Nil
  then show ?case by (simp split: option.splits)
next
  case (Cons kv kvs)
  obtain k0 v0 where kv: "kv = (k0, v0)" by (cases kv)
  show ?case using Cons[of "gm_put_new k0 v0 m"] kv by (auto split: option.splits)
qed

lemma gm_get_merge_new:
  "gm_get (gm_put_all_new (gm_entries e) m) k = (case gm_get m k of Some v \<Rightarrow> Some v | None \<Rightarrow> gm_get e k)"
  unfolding gm_get_put_all_new gm_get_def[of e] by (rule refl)

lemma gm_get_merge:
  "gm_wf e \<Longrightarrow> gm_get (gm_put_all (gm_entries e) m) k = (case gm_get e k of Some v \<Rightarrow> Some v | None \<Rightarrow> gm_get m k)"
  unfolding gm_wf_def gm_get_def[of e] by (rule gm_get_put_all)

lemma gm_put_same: "gm_get m k = Some v \<Longrightarrow> gm_put k v m = m"
  by (cases m) (simp_all add: gm_put_def gm_get_def update_triv)

lemma gm_make_not_nil [simp]: "m \<noteq> None \<Longrightarrow> gm_make m = m"
  by (cases m) (simp_all add: gm_make_def)

lemma gm_make_some [simp]: "gm_make m \<noteq> None"
  by (cases m) (simp_all add: gm_make_def)

lemma gm_put_new_not_nil [simp]: "m \<noteq> None \<Longrightarrow> gm_put_new k v m \<noteq> None"
  by (auto simp: gm_put_new_def gm_put_def)

lemma gm_put_all_new_not_nil [simp]: "m \<noteq> None \<Longrightarrow> gm_put_all_new kvs m \<noteq> None"
proof (induction kvs arbitrary: m)
  case (Cons kv kvs)
  have "gm_put_new (fst kv) (snd kv) m \<noteq> None" by (rule gm_put_new_not_nil[OF Cons.prems])
  from Cons.IH[OF this] show ?case by (cases kv) simp
qed simp

lemma gm_put_all_new_present:
  "\<forall>kv \<in> set kvs. gm_get m (fst kv) \<noteq> None \<Longrightarrow> gm_put_all_new kvs m = m"
proof (induction kvs)
  case (Cons kv kvs)
  then show ?case by (cases kv) (auto simp: gm_put_new_def)
qed simp

lemma gm_put_all_new_idem [simp]:
  "gm_put_all_new kvs (gm_put_all_new kvs m) = gm_put_all_new kvs m"
  by (rule gm_put_all_new_present)
     (auto simp: gm_get_put_all_new split: option.splits dest: weak_map_of_SomeI)

section \<open>Results of API calls\<close>

text \<open>
  What the Kubernetes API machinery distinguishes of an error: \<open>errors.IsNotFound\<close>,
  \<open>errors.IsConflict\<close>, anything else; each with its text.
\<close>

datatype api_error = NotFound string | Conflict string | OtherError string

fun api_msg :: "api_error \<Rightarrow> string" where
  "api_msg (NotFound m) = m"
| "api_msg (Conflict m) = m"
| "api_msg (OtherError m) = m"

fun is_not_found :: "api_error \<Rightarrow> bool" where
  "is_not_found (NotFound m) = True"
| "is_not_found (Conflict m) = False"
| "is_not_found (OtherError m) = False"

fun is_conflict :: "api_error \<Rightarrow> bool" where
  "is_conflict (NotFound m) = False"
| "is_conflict (Conflict m) = True"
| "is_conflict (OtherError m) = False"

text \<open>\<open>fmt.Errorf("prefix: %w", err)\<close> keeps the class of the wrapped API error.\<close>

fun api_wrap :: "string \<Rightarrow> api_error \<Rightarrow> api_error" where
  "api_wrap p (NotFound m) = NotFound (p @ m)"
| "api_wrap p (Conflict m) = Conflict (p @ m)"
| "api_wrap p (OtherError m) = OtherError (p @ m)"

lemma api_wrap_simps [simp]:
  "api_msg (api_wrap p e) = p @ api_msg e"
  "is_not_found (api_wrap p e) = is_not_found e"
  "is_conflict (api_wrap p e) = is_conflict e"
  by (cases e; simp)+

section \<open>Panics\<close>

text \<open>
  A call either returns or panics; in the code modelled here the only panics are nil-pointer
  dereferences and those of functions passed in by a caller.
\<close>

datatype 'a outcome = Panic | Returns (result_of: 'a)

fun returns :: "'a outcome \<Rightarrow> bool" where
  "returns Panic = False"
| "returns (Returns x) = True"

fun and_then :: "'a outcome \<Rightarrow> ('a \<Rightarrow> 'b outcome) \<Rightarrow> 'b outcome" where
  "and_then Panic f = Panic"
| "and_then (Returns x) f = f x"

text \<open>Dereferencing a pointer.\<close>

fun deref :: "'a option \<Rightarrow> 'a outcome" where
  "deref None = Panic"
| "deref (Some x) = Returns x"

text \<open>Texts joined by a separator that the first parts are free of.\<close>

lemma cut_inject: "d \<notin> set k \<Longrightarrow> d \<notin> set l \<Longrightarrow> k @ d # v = l @ d # w \<Longrightarrow> k = l \<and> v = w"
proof (induction k arbitrary: l)
  case Nil
  then show ?case by (cases l) auto
next
  case (Cons c k)
  then show ?case by (cases l) auto
qed

section \<open>Printing durations\<close>

text \<open>
  \<open>time.Duration.String\<close>: hours, minutes and seconds from one second on, otherwise the
  largest of ms, \<open>\<mu>\<close>s and ns that fits; the fraction without its trailing zeros.
\<close>

fun strip_zeros :: "string \<Rightarrow> string" where
  "strip_zeros [] = []"
| "strip_zeros (c # cs) =
     (let r = strip_zeros cs in if r = [] \<and> c = CHR ''0'' then [] else c # r)"

definition pad_zeros :: "nat \<Rightarrow> string \<Rightarrow> string" where
  "pad_zeros w s = replicate (w - length s) (CHR ''0'') @ s"

definition show_frac :: "nat \<Rightarrow> nat \<Rightarrow> string" where
  "show_frac prec v =
     (let f = strip_zeros (pad_zeros prec (show_nat (v mod 10 ^ prec)))
      in if f = [] then [] else ''.'' @ f)"

definition micro_sign :: string where
  "micro_sign = [CHR 0xC2, CHR 0xB5]"

definition show_duration :: "duration \<Rightarrow> string" where
  "show_duration d =
     (let u = nat \<bar>d\<bar>; sgn = (if d < 0 then ''-'' else []) in
      if u = 0 then ''0s''
      else if u < 1000 then sgn @ show_nat u @ ''ns''
      else if u < 1000000 then sgn @ show_nat (u div 1000) @ show_frac 3 u @ micro_sign @ ''s''
      else if u < 1000000000 then sgn @ show_nat (u div 1000000) @ show_frac 6 u @ ''ms''
      else
        (let secs = u div 1000000000; mins = secs div 60; hours = mins div 60;
             s = show_nat (secs mod 60) @ show_frac 9 u @ ''s''
         in sgn @ (if hours > 0 then show_nat hours @ ''h'' else [])
              @ (if mins > 0 then show_nat (mins mod 60) @ ''m'' else []) @ s))"

definition time_Nanosecond :: duration where "time_Nanosecond = 1"
definition time_Millisecond :: duration where "time_Millisecond = 1000000"
definition time_Second :: duration where "time_Second = 1000000000"
definition time_Minute :: duration where "time_Minute = 60000000000"
definition time_Hour :: duration where "time_Hour = 3600000000000"

lemmas time_units = time_Nanosecond_def time_Millisecond_def time_Second_def time_Minute_def
  time_Hour_def

section \<open>Runes\<close>

text \<open>
  \<open>for _, r := range s\<close> decodes UTF-8; a byte that starts no valid sequence yields the
  replacement character and is skipped alone.
\<close>

definition byte_of :: "char \<Rightarrow> nat" where "byte_of c = of_char c"

definition cont_byte :: "nat \<Rightarrow> bool" where "cont_byte b \<longleftrightarrow> 0x80 \<le> b \<and> b \<le> 0xBF"

definition second_ok :: "nat \<Rightarrow> nat \<Rightarrow> bool" where
  "second_ok b0 b1 \<longleftrightarrow>
     (if b0 = 0xE0 then 0xA0 \<le> b1 \<and> b1 \<le> 0xBF
      else if b0 = 0xED then 0x80 \<le> b1 \<and> b1 \<le> 0x9F
      else if b0 = 0xF0 then 0x90 \<le> b1 \<and> b1 \<le> 0xBF
      else if b0 = 0xF4 then 0x80 \<le> b1 \<and> b1 \<le> 0x8F
      else cont_byte b1)"

definition next_rune :: "nat list \<Rightarrow> nat \<times> nat" where
  "next_rune bs =
     (case bs of
        [] \<Rightarrow> (0xFFFD, 0)
      | b0 # r0 \<Rightarrow>
          if b0 < 0x80 then (b0, 1)
          else (case r0 of
            [] \<Rightarrow> (0xFFFD, 1)
          | b1 # r1 \<Rightarrow>
              if b0 < 0xC2 \<or> 0xF4 < b0 \<or> \<not> second_ok b0 b1 then (0xFFFD, 1)
              else if b0 < 0xE0 then ((b0 mod 0x20) * 0x40 + b1 mod 0x40, 2)
              else (case r1 of
                [] \<Rightarrow> (0xFFFD, 1)
              | b2 # r2 \<Rightarrow>
                  if \<not> cont_byte b2 then (0xFFFD, 1)
                  else if b0 < 0xF0
                  then ((b0 mod 0x10) * 0x1000 + (b1 mod 0x40) * 0x40 + b2 mod 0x40, 3)
                  else (case r2 of
                    [] \<Rightarrow> (0xFFFD, 1)
                  | b3 # _ \<Rightarrow>
                      if \<not> cont_byte b3 then (0xFFFD, 1)
                      else ((b0 mod 8) * 0x40000 + (b1 mod 0x40) * 0x1000 + (b2 mod 0x40) * 0x40
                            + b3 mod 0x40, 4)))))"

function rune_list :: "nat list \<Rightarrow> nat list" where
  "rune_list [] = []"
| "rune_list (b # bs) =
     fst (next_rune (b # bs)) # rune_list (drop (snd (next_rune (b # bs))) (b # bs))"
  by pat_completeness auto

lemma next_rune_progress: "0 < snd (next_rune (b # bs))"
  by (simp add: next_rune_def split: list.splits)

termination rune_list
proof (relation "measure length")
  show "wf (measure (length :: nat list \<Rightarrow> nat))" by simp
next
  fix b :: nat and bs
  show "(drop (snd (next_rune (b # bs))) (b # bs), b # bs) \<in> measure length"
    using next_rune_progress[of b bs] by simp
qed

definition runes :: "string \<Rightarrow> nat list" where
  "runes s = rune_list (map byte_of s)"

lemma rune_list_ascii: "\<forall>b \<in> set bs. b < 0x80 \<Longrightarrow> rune_list bs = bs"
  by (induction bs) (simp_all add: next_rune_def)

lemma runes_ascii: "\<forall>c \<in> set s. byte_of c < 0x80 \<Longrightarrow> runes s = map byte_of s"
  unfolding runes_def by (intro rune_list_ascii) auto

section \<open>Checks that read the cluster\<close>

fun and_check :: "go_error \<times> 'w \<Rightarrow> ('w \<Rightarrow> go_error \<times> 'w) \<Rightarrow> go_error \<times> 'w" where
  "and_check (None, w) f = f w"
| "and_check (Some m, w) f = (Some m, w)"

lemma fst_and_check:
  "fst (and_check r f) = (case fst r of None \<Rightarrow> fst (f (snd r)) | Some m \<Rightarrow> Some m)"
  by (cases r; cases "fst r") simp_all

end
