(* ===== verification/ApiTypes.thy ===== *)
theory ApiTypes
  imports Prelude
begin

section \<open>The custom resources (api/v1)\<close>

text \<open>
  The Go structs of \<open>api/v1/mcpserver_types.go\<close> and \<open>mcpregistry_types.go\<close> as records, with the
  fields the operator's code reads or writes, in the order of the source. A field \<open>F\<close> of a
  struct is written \<open>xx_F\<close>, with a prefix per struct, because HOL's record fields share one name
  space. A Go pointer is an \<open>option\<close>. A string-typed enumeration that a user fills in
  (isolation level, update mode, runtime type) stays a string, since the code must also handle
  the values that are none of the constants; the phases and condition types that only the
  operator writes are datatypes.
  Kubernetes values that the operator copies without looking inside (tolerations, affinity,
  match expressions) are carried as their serialised text, of type \<open>opaque\<close>.
  A \<open>resource.Quantity\<close> is carried by its numeric value in nano-units, the resolution the type
  documents, and the format it prints in; parsing, comparing, adding and printing quantities
  belong to the Kubernetes library and are a parameter of the definitions that use them
  (\<open>quantity_ops\<close> in the theory \<open>Validation\<close>).
\<close>

type_synonym opaque = string
type_synonym quantity = "int \<times> string"
type_synonym resource_list = "string gomap"

datatype int_or_string = IntVal int | StrVal string

subsection \<open>Autoscaling\<close>

record metric_target =
  mt_Type :: string
  mt_Value :: "quantity option"
  mt_AverageValue :: "quantity option"
  mt_AverageUtilization :: "int option"

record label_selector =
  ls_MatchLabels :: "string gomap"
  ls_MatchExpressions :: opaque

record metric_identifier =
  mi_Name :: string
  mi_Selector :: "label_selector option"

record cross_version_object_reference =
  cvo_Kind :: string
  cvo_Name :: string
  cvo_APIVersion :: string

record resource_metric_spec =
  rms_Name :: string
  rms_Target :: metric_target

record pods_metric_spec =
  pms_Metric :: metric_identifier
  pms_Target :: metric_target

record object_metric_spec =
  oms_DescribedObject :: cross_version_object_reference
  oms_Metric :: metric_identifier
  oms_Target :: metric_target

record external_metric_spec =
  ems_Metric :: metric_identifier
  ems_Target :: metric_target

record metric_spec =
  ms_Type :: string
  ms_Resource :: "resource_metric_spec option"
  ms_Pods :: "pods_metric_spec option"
  ms_Object :: "object_metric_spec option"
  ms_External :: "external_metric_spec option"

record hpa_scaling_policy =
  hsp_Type :: string
  hsp_Value :: int
  hsp_PeriodSeconds :: int

record hpa_scaling_rules =
  hsr_StabilizationWindowSeconds :: "int option"
  hsr_SelectPolicy :: "string option"
  hsr_Policies :: "hpa_scaling_policy list"

record hpa_behavior =
  hb_ScaleUp :: "hpa_scaling_rules option"
  hb_ScaleDown :: "hpa_scaling_rules option"

record hpa_spec =
  hpa_Enabled :: bool
  hpa_MinReplicas :: "int option"
  hpa_MaxReplicas :: int
  hpa_TargetCPUUtilizationPercentage :: "int option"
  hpa_TargetMemoryUtilizationPercentage :: "int option"
  hpa_Metrics :: "metric_spec list"
  hpa_Behavior :: "hpa_behavior option"

record vpa_container_policy =
  vcp_ContainerName :: string
  vcp_Mode :: string
  vcp_MinAllowed :: resource_list
  vcp_MaxAllowed :: resource_list
  vcp_ControlledResources :: "string list"
  vcp_ControlledValues :: string

record vpa_resource_policy =
  vrp_ContainerPolicies :: "vpa_container_policy list"

record vpa_spec =
  vpa_Enabled :: bool
  vpa_UpdateMode :: string
  vpa_ResourcePolicy :: "vpa_resource_policy option"

record autoscaling_spec =
  as_HPA :: "hpa_spec option"
  as_VPA :: "vpa_spec option"

subsection \<open>Tenancy\<close>

record network_policy_port =
  npp_Protocol :: "string option"
  npp_Port :: "int_or_string option"
  npp_EndPort :: "int option"

record ip_block =
  ipb_CIDR :: string
  ipb_Except :: "string list"

record network_policy_peer =
  npr_PodSelector :: "label_selector option"
  npr_NamespaceSelector :: "label_selector option"
  npr_IPBlock :: "ip_block option"

text \<open>An ingress or egress rule; \<open>npu_Peers\<close> is \<open>From\<close> of the one and \<open>To\<close> of the other.\<close>

record network_policy_rule =
  npu_Ports :: "network_policy_port list"
  npu_Peers :: "network_policy_peer list"

record tenant_network_policy =
  tnp_Enabled :: bool
  tnp_AllowedNamespaces :: "string list"
  tnp_AllowedPods :: "label_selector option"
  tnp_IngressRules :: "network_policy_rule list"
  tnp_EgressRules :: "network_policy_rule list"

record tenant_resource_quotas =
  trq_CPU :: "quantity option"
  trq_Memory :: "quantity option"
  trq_Storage :: "quantity option"
  trq_Pods :: "int option"
  trq_Services :: "int option"
  trq_PersistentVolumeClaims :: "int option"
  trq_ConfigMaps :: "int option"
  trq_Secrets :: "int option"

definition IsolationLevelNone :: string where "IsolationLevelNone = ''None''"
definition IsolationLevelNamespace :: string where "IsolationLevelNamespace = ''Namespace''"
definition IsolationLevelNode :: string where "IsolationLevelNode = ''Node''"
definition IsolationLevelStrict :: string where "IsolationLevelStrict = ''Strict''"

record tenancy_spec =
  ten_TenantID :: string
  ten_IsolationLevel :: string
  ten_ResourceQuotas :: "tenant_resource_quotas option"
  ten_NetworkPolicy :: "tenant_network_policy option"
  ten_Labels :: "string gomap"
  ten_Annotations :: "string gomap"

subsection \<open>Configuration sources and volumes\<close>

text \<open>A ConfigMap or Secret mounted as files: \<open>ConfigMapSource\<close> and \<open>SecretSource\<close> have the same fields.\<close>

record object_source =
  os_Name :: string
  os_Keys :: "string list"
  os_Optional :: bool

record config_source =
  cs_ConfigMap :: "object_source option"
  cs_Secret :: "object_source option"
  cs_MountPath :: string
  cs_SubPath :: string
  cs_ReadOnly :: bool

record secret_reference =
  sr_Name :: string
  sr_Key :: string
  sr_EnvVar :: string
  sr_Optional :: bool

text \<open>\<open>ConfigMapEnvSource\<close> and \<open>SecretEnvSource\<close>.\<close>

record object_env_source =
  oes_Name :: string
  oes_Optional :: bool

record env_from_source =
  ef_ConfigMapRef :: "object_env_source option"
  ef_SecretRef :: "object_env_source option"
  ef_Prefix :: string

record key_to_path =
  ktp_Key :: string
  ktp_Path :: string
  ktp_Mode :: "int option"

text \<open>\<open>ConfigMapVolumeSource\<close> and \<open>SecretVolumeSource\<close>.\<close>

record keyed_volume_source =
  kvs_Name :: string
  kvs_Items :: "key_to_path list"
  kvs_DefaultMode :: "int option"
  kvs_Optional :: bool

text \<open>\<open>ConfigMapProjection\<close> and \<open>SecretProjection\<close>.\<close>

record object_projection =
  op_Name :: string
  op_Items :: "key_to_path list"
  op_Optional :: bool

record token_projection =
  tp_Audience :: string
  tp_ExpirationSeconds :: "int option"
  tp_Path :: string

record volume_projection =
  vp_ConfigMap :: "object_projection option"
  vp_Secret :: "object_projection option"
  vp_ServiceAccountToken :: "token_projection option"

record projected_source =
  pj_Sources :: "volume_projection list"
  pj_DefaultMode :: "int option"

record empty_dir_source =
  ed_Medium :: string
  ed_SizeLimit :: "string option"

record pvc_source =
  pvc_ClaimName :: string
  pvc_ReadOnly :: bool

record host_path_source =
  hp_Path :: string
  hp_Type :: "string option"

record mcp_volume =
  vol_Name :: string
  vol_ConfigMap :: "keyed_volume_source option"
  vol_Secret :: "keyed_volume_source option"
  vol_EmptyDir :: "empty_dir_source option"
  vol_PersistentVolumeClaim :: "pvc_source option"
  vol_HostPath :: "host_path_source option"
  vol_Projected :: "projected_source option"

record volume_mount =
  vm_Name :: string
  vm_MountPath :: string
  vm_SubPath :: string
  vm_ReadOnly :: bool
  vm_MountPropagation :: "string option"
  vm_SubPathExpr :: string

subsection \<open>Deployment strategy, transport, gateway, service mesh\<close>

record rolling_update_spec =
  ru_MaxUnavailable :: "int_or_string option"
  ru_MaxSurge :: "int_or_string option"

record deployment_strategy_spec =
  ds_Type :: string
  ds_RollingUpdate :: "rolling_update_spec option"

record istio_retry_policy =
  irp_Attempts :: int
  irp_PerTryTimeout :: string
  irp_RetryOn :: string

record istio_virtual_service_spec =
  ivs_Host :: string
  ivs_Path :: string
  ivs_Timeout :: string
  ivs_Retries :: "istio_retry_policy option"
  ivs_Headers :: "string gomap"

record istio_tcp_settings =
  its_MaxConnections :: int
  its_ConnectTimeout :: string

record istio_http_settings =
  ihs_HTTP1MaxPendingRequests :: int
  ihs_HTTP2MaxRequests :: int
  ihs_MaxRequestsPerConnection :: int
  ihs_MaxRetries :: int
  ihs_IdleTimeout :: string

record istio_connection_pool_settings =
  icp_TCP :: "istio_tcp_settings option"
  icp_HTTP :: "istio_http_settings option"

text \<open>\<open>Mode\<close> and \<open>Simple\<close> are the only fields of the TLS and load-balancer settings.\<close>

record istio_traffic_policy =
  itp_TLSMode :: "string option"
  itp_ConnectionPool :: "istio_connection_pool_settings option"
  itp_LoadBalancerSimple :: "string option"

record istio_destination_rule_spec =
  idr_TrafficPolicy :: "istio_traffic_policy option"

record istio_spec =
  is_Enabled :: bool
  is_SidecarInject :: "bool option"
  is_VirtualService :: "istio_virtual_service_spec option"
  is_DestinationRule :: "istio_destination_rule_spec option"
  is_Gateway :: string

record registry_ref =
  rr_Name :: string
  rr_ServerName :: string
  rr_Registry :: string

record transport_spec =
  tr_Type :: string
  tr_Path :: string

record port_spec =
  ps_Name :: string
  ps_Port :: int
  ps_TargetPort :: int
  ps_Protocol :: string
  ps_AppProtocol :: string

record gateway_istio_spec =
  gi_Enabled :: bool
  gi_Host :: string
  gi_GatewayRef :: string

datatype env_source = FieldRef string | OtherEnvSource opaque

record env_var =
  ev_Name :: string
  ev_Value :: string
  ev_ValueFrom :: "env_source option"

record gateway_spec =
  gw_Enabled :: bool
  gw_Image :: string
  gw_Port :: int
  gw_Args :: "string list"
  gw_Env :: "env_var list"
  gw_Istio :: "gateway_istio_spec option"

record runtime_spec =
  rt_Type :: string
  rt_Image :: string
  rt_Command :: "string list"
  rt_Args :: "string list"
  rt_Env :: "string gomap"
  rt_Port :: int

record resource_requirements =
  rq_Limits :: resource_list
  rq_Requests :: resource_list

record security_context =
  sc_RunAsUser :: "int option"
  sc_RunAsGroup :: "int option"
  sc_RunAsNonRoot :: "bool option"
  sc_Other :: opaque

subsection \<open>MCPServer\<close>

record mcp_server_spec =
  sp_Registry :: "registry_ref option"
  sp_Runtime :: "runtime_spec option"
  sp_Config :: "string option"
  sp_Replicas :: "int option"
  sp_Resources :: resource_requirements
  sp_Env :: "env_var list"
  sp_ServiceAccount :: string
  sp_Selector :: "string gomap"
  sp_SecurityContext :: "security_context option"
  sp_ServiceType :: string
  sp_NodeSelector :: "string gomap"
  sp_Tolerations :: "opaque list"
  sp_Affinity :: "opaque option"
  sp_Autoscaling :: "autoscaling_spec option"
  sp_ConfigSources :: "config_source list"
  sp_SecretRefs :: "secret_reference list"
  sp_EnvFrom :: "env_from_source list"
  sp_VolumeMounts :: "volume_mount list"
  sp_Volumes :: "mcp_volume list"
  sp_Tenancy :: "tenancy_spec option"
  sp_DeploymentStrategy :: "deployment_strategy_spec option"
  sp_Transport :: "transport_spec option"
  sp_Ports :: "port_spec list"
  sp_Gateway :: "gateway_spec option"
  sp_Istio :: "istio_spec option"

datatype mcp_server_phase = NoPhase | PhasePending | PhaseRunning | PhaseFailed | PhaseTerminating

datatype condition_status = CTrue | CFalse | CUnknown

datatype mcp_server_condition_type =
    CondReady | CondAvailable | CondProgressing | CondRegistryFetched
  | CondRendered | CondApplied | CondGatewayReady | CondIstioConfigured

record mcp_server_condition =
  mc_Type :: mcp_server_condition_type
  mc_Status :: condition_status
  mc_LastTransitionTime :: instant
  mc_Reason :: string
  mc_Message :: string

record mcp_server_status =
  st_Phase :: mcp_server_phase
  st_Message :: string
  st_Reason :: string
  st_Replicas :: int
  st_ReadyReplicas :: int
  st_AvailableReplicas :: int
  st_Conditions :: "mcp_server_condition list"
  st_ServiceEndpoint :: string
  st_LastUpdateTime :: "instant option"
  st_ResolvedConfigMap :: "string option"
  st_ResolvedHash :: string

text \<open>The part of \<open>metav1.ObjectMeta\<close> the operator uses.\<close>

record object_meta =
  om_Name :: string
  om_Namespace :: string
  om_Labels :: "string gomap"
  om_Annotations :: "string gomap"
  om_Finalizers :: "string list"
  om_DeletionTimestamp :: "instant option"
  om_CreationTimestamp :: instant
  om_Generation :: int
  om_UID :: string

record mcp_server =
  srv_Meta :: object_meta
  srv_Spec :: mcp_server_spec
  srv_Status :: mcp_server_status

subsection \<open>MCPRegistry\<close>

record github_source =
  gs_Repo :: string
  gs_Branch :: string

record registry_source =
  rs_Type :: string
  rs_Github :: "github_source option"
  rs_Path :: string

record registry_auth =
  ra_SecretRef :: "secret_reference option"
  ra_Token :: string

record registry_server =
  rse_Name :: string
  rse_Title :: string
  rse_Description :: string
  rse_Version :: string
  rse_Tags :: "string list"
  rse_Path :: string

record registry_filters =
  rf_Include :: "string list"
  rf_Exclude :: "string list"

record mcp_registry_spec =
  rg_URL :: string
  rg_Type :: string
  rg_Source :: "registry_source option"
  rg_Auth :: "registry_auth option"
  rg_SyncInterval :: "duration option"
  rg_RefreshInterval :: "duration option"
  rg_Servers :: "string list"
  rg_Filters :: "registry_filters option"

datatype mcp_registry_phase = RegNoPhase | RegPending | RegReady | RegFailed | RegSyncing

datatype mcp_registry_condition_type =
    RCondReady | RCondSynced | RCondReachable | RCondSyncing
  | RCondRateLimited | RCondAuthFailed | RCondAuthenticated

record mcp_registry_condition =
  rc_Type :: mcp_registry_condition_type
  rc_Status :: condition_status
  rc_LastTransitionTime :: instant
  rc_Reason :: string
  rc_Message :: string

record mcp_registry_status =
  rgs_Phase :: mcp_registry_phase
  rgs_Message :: string
  rgs_Reason :: string
  rgs_ObservedRevision :: string
  rgs_LastSyncTime :: "instant option"
  rgs_ObservedGeneration :: int
  rgs_ServersDiscovered :: int
  rgs_Errors :: "string list"
  rgs_RateLimitRemaining :: "int option"
  rgs_Conditions :: "mcp_registry_condition list"
  rgs_Servers :: "registry_server list"

record mcp_registry =
  reg_Meta :: object_meta
  reg_Spec :: mcp_registry_spec
  reg_Status :: mcp_registry_status

section \<open>Accessors used across components\<close>

abbreviation srv_Name :: "mcp_server \<Rightarrow> string" where "srv_Name s \<equiv> om_Name (srv_Meta s)"
abbreviation srv_Namespace :: "mcp_server \<Rightarrow> string" where
  "srv_Namespace s \<equiv> om_Namespace (srv_Meta s)"
abbreviation srv_Annotations :: "mcp_server \<Rightarrow> string gomap" where
  "srv_Annotations s \<equiv> om_Annotations (srv_Meta s)"
abbreviation reg_Name :: "mcp_registry \<Rightarrow> string" where "reg_Name r \<equiv> om_Name (reg_Meta r)"

section \<open>Zero values\<close>

text \<open>
  Go's zero value of each struct, from which the witnesses build concrete resources and the
  code builds a new struct (\<open>&mcpv1.RuntimeSpec{}\<close>).
\<close>

definition zero_meta :: object_meta where
  "zero_meta = \<lparr>om_Name = [], om_Namespace = [], om_Labels = None, om_Annotations = None,
     om_Finalizers = [], om_DeletionTimestamp = None, om_CreationTimestamp = 0,
     om_Generation = 0, om_UID = []\<rparr>"

definition zero_runtime :: runtime_spec where
  "zero_runtime = \<lparr>rt_Type = [], rt_Image = [], rt_Command = [], rt_Args = [], rt_Env = None,
     rt_Port = 0\<rparr>"

definition zero_registry_ref :: registry_ref where
  "zero_registry_ref = \<lparr>rr_Name = [], rr_ServerName = [], rr_Registry = []\<rparr>"

definition zero_transport :: transport_spec where
  "zero_transport = \<lparr>tr_Type = [], tr_Path = []\<rparr>"

definition zero_spec :: mcp_server_spec where
  "zero_spec = \<lparr>sp_Registry = None, sp_Runtime = None, sp_Config = None, sp_Replicas = None,
     sp_Resources = \<lparr>rq_Limits = None, rq_Requests = None\<rparr>, sp_Env = [], sp_ServiceAccount = [],
     sp_Selector = None, sp_SecurityContext = None, sp_ServiceType = [], sp_NodeSelector = None,
     sp_Tolerations = [], sp_Affinity = None, sp_Autoscaling = None, sp_ConfigSources = [],
     sp_SecretRefs = [], sp_EnvFrom = [], sp_VolumeMounts = [], sp_Volumes = [],
     sp_Tenancy = None, sp_DeploymentStrategy = None, sp_Transport = None, sp_Ports = [],
     sp_Gateway = None, sp_Istio = None\<rparr>"

definition zero_status :: mcp_server_status where
  "zero_status = \<lparr>st_Phase = NoPhase, st_Message = [], st_Reason = [], st_Replicas = 0,
     st_ReadyReplicas = 0, st_AvailableReplicas = 0, st_Conditions = [], st_ServiceEndpoint = [],
     st_LastUpdateTime = None, st_ResolvedConfigMap = None, st_ResolvedHash = []\<rparr>"

definition zero_server :: mcp_server where
  "zero_server = \<lparr>srv_Meta = zero_meta, srv_Spec = zero_spec, srv_Status = zero_status\<rparr>"

lemmas zero_defs = zero_meta_def zero_runtime_def zero_registry_ref_def zero_transport_def
  zero_spec_def zero_status_def zero_server_def

section \<open>Which registry and server an MCPServer names\<close>

text \<open>
  The resolution repeated across the code: \<open>name\<close> before the older \<open>registry\<close> field, and the
  resource's own name where \<open>serverName\<close> is empty.
\<close>

definition ref_registry :: "registry_ref \<Rightarrow> string" where
  "ref_registry r =
     (if rr_Name r \<noteq> [] then rr_Name r
      else if rr_Registry r \<noteq> [] then rr_Registry r else [])"

definition ref_server :: "string \<Rightarrow> registry_ref \<Rightarrow> string" where
  "ref_server own r = (if rr_ServerName r \<noteq> [] then rr_ServerName r else own)"

lemma ref_registry_empty_iff [simp]: "ref_registry r = [] \<longleftrightarrow> rr_Name r = [] \<and> rr_Registry r = []"
  by (simp add: ref_registry_def)

lemma ref_server_empty_iff [simp]: "ref_server own r = [] \<longleftrightarrow> rr_ServerName r = [] \<and> own = []"
  by (simp add: ref_server_def)

end
