(* ===== verification/KubeClient.thy ===== *)
theory KubeClient
  imports ApiTypes
begin

section \<open>The Kubernetes client service\<close>

text \<open>
  \<open>pkg/services/kubernetes_client_service.go\<close>: the thin layer between the operator and the
  API server. The API server itself is not part of the program; it is the record \<open>kube_api\<close>,
  a parameter of every definition, whose state \<open>'w\<close> is the cluster. A write that succeeds
  returns the object as the server stored it, which the client decodes into the caller's object;
  a write that fails leaves the caller's object alone. A service whose client is nil is \<open>None\<close>.
\<close>

text \<open>The namespace of a list call and the labels it selects.\<close>

type_synonym list_options = "string \<times> (string \<times> string) list"

record ('w, 'o) kube_api =
  ka_type :: string
  ka_name :: "'o \<Rightarrow> string"
  ka_namespace :: "'o \<Rightarrow> string"
  ka_version :: "'o \<Rightarrow> string"
  ka_set_version :: "string \<Rightarrow> 'o \<Rightarrow> 'o"
  ka_get :: "string \<Rightarrow> string \<Rightarrow> 'w \<Rightarrow> (api_error + 'o) \<times> 'w"
  ka_create :: "'o \<Rightarrow> 'w \<Rightarrow> (api_error + 'o) \<times> 'w"
  ka_update :: "'o \<Rightarrow> 'w \<Rightarrow> (api_error + 'o) \<times> 'w"
  ka_patch :: "'o \<Rightarrow> 'o \<Rightarrow> 'w \<Rightarrow> (api_error + 'o) \<times> 'w"
  ka_update_status :: "'o \<Rightarrow> 'w \<Rightarrow> (api_error + 'o) \<times> 'w"
  ka_delete :: "'o \<Rightarrow> 'w \<Rightarrow> api_error option \<times> 'w"
  ka_list :: "list_options \<Rightarrow> 'w \<Rightarrow> (api_error + 'o list) \<times> 'w"

type_synonym ('w, 'o) kube_client = "('w, 'o) kube_api option"

text \<open>What a write through the client leaves the caller with: the error, the object, the cluster.\<close>

type_synonym ('w, 'o) written = "api_error option \<times> 'o \<times> 'w"

definition not_initialized :: api_error where
  "not_initialized = OtherError ''kubernetes client is not initialized''"

definition describe :: "('w, 'o) kube_api \<Rightarrow> 'o \<Rightarrow> string" where
  "describe k obj = ka_type k @ '' '' @ ka_namespace k obj @ ''/'' @ ka_name k obj @ '': ''"

definition write_back :: "string \<Rightarrow> 'o \<Rightarrow> (api_error + 'o) \<times> 'w \<Rightarrow> ('w, 'o) written" where
  "write_back p obj r =
     (case r of
        (Inl e, w) \<Rightarrow> (Some (api_wrap p e), obj, w)
      | (Inr stored, w) \<Rightarrow> (None, stored, w))"

subsection \<open>Single calls\<close>

definition k_Get ::
  "('w, 'o) kube_client \<Rightarrow> string \<Rightarrow> string \<Rightarrow> 'o \<Rightarrow> 'w \<Rightarrow> ('w, 'o) written" where
  "k_Get kc ns name obj w =
     (case kc of
        None \<Rightarrow> (Some not_initialized, obj, w)
      | Some k \<Rightarrow> write_back [] obj (ka_get k ns name w))"

definition k_Create :: "('w, 'o) kube_client \<Rightarrow> 'o \<Rightarrow> 'w \<Rightarrow> ('w, 'o) written" where
  "k_Create kc obj w =
     (case kc of
        None \<Rightarrow> (Some not_initialized, obj, w)
      | Some k \<Rightarrow> write_back (''failed to create '' @ describe k obj) obj (ka_create k obj w))"

definition k_Update :: "('w, 'o) kube_client \<Rightarrow> 'o \<Rightarrow> 'w \<Rightarrow> ('w, 'o) written" where
  "k_Update kc obj w =
     (case kc of
        None \<Rightarrow> (Some not_initialized, obj, w)
      | Some k \<Rightarrow> write_back (''failed to update '' @ describe k obj) obj (ka_update k obj w))"

definition k_Delete :: "('w, 'o) kube_client \<Rightarrow> 'o \<Rightarrow> 'w \<Rightarrow> api_error option \<times> 'w" where
  "k_Delete kc obj w =
     (case kc of
        None \<Rightarrow> (Some not_initialized, w)
      | Some k \<Rightarrow>
          (case ka_delete k obj w of
             (Some e, w') \<Rightarrow> (Some (api_wrap (''failed to delete '' @ describe k obj) e), w')
           | (None, w') \<Rightarrow> (None, w')))"

text \<open>\<open>patch\<close> is built from the object as it was before the caller's changes.\<close>

definition k_Patch ::
  "('w, 'o) kube_client \<Rightarrow> 'o \<Rightarrow> 'o \<Rightarrow> 'w \<Rightarrow> ('w, 'o) written" where
  "k_Patch kc before obj w =
     (case kc of
        None \<Rightarrow> (Some not_initialized, obj, w)
      | Some k \<Rightarrow> write_back (''failed to patch '' @ describe k obj) obj (ka_patch k before obj w))"

definition k_List :: "('w, 'o) kube_client \<Rightarrow> string \<Rightarrow> list_options \<Rightarrow> 'w
    \<Rightarrow> (api_error + 'o list) \<times> 'w" where
  "k_List kc list_type opts w =
     (case kc of
        None \<Rightarrow> (Inl not_initialized, w)
      | Some k \<Rightarrow>
          (case ka_list k opts w of
             (Inl e, w') \<Rightarrow> (Inl (api_wrap (''failed to list '' @ list_type @ '': '') e), w')
           | (Inr xs, w') \<Rightarrow> (Inr xs, w')))"

definition k_UpdateStatus :: "('w, 'o) kube_client \<Rightarrow> 'o \<Rightarrow> 'w \<Rightarrow> ('w, 'o) written" where
  "k_UpdateStatus kc obj w =
     (case kc of
        None \<Rightarrow> (Some not_initialized, obj, w)
      | Some k \<Rightarrow>
          write_back (''failed to update status of '' @ describe k obj) obj (ka_update_status k obj w))"

subsection \<open>Composed calls\<close>

text \<open>
  \<open>DeepCopyObject\<close> yields an equal object, so \<open>existing\<close> starts as \<open>obj\<close> itself. With a nil
  client the first \<open>Get\<close> fails already, so the version accessors are only used with a client.
\<close>

definition k_CreateOrUpdate :: "('w, 'o) kube_client \<Rightarrow> 'o \<Rightarrow> 'w \<Rightarrow> ('w, 'o) written" where
  "k_CreateOrUpdate kc obj w =
     (case kc of
        None \<Rightarrow> (Some not_initialized, obj, w)
      | Some k \<Rightarrow>
          (case k_Get kc (ka_namespace k obj) (ka_name k obj) obj w of
             (Some e, _, w1) \<Rightarrow>
               (if is_not_found e then k_Create kc obj w1 else (Some e, obj, w1))
           | (None, existing, w1) \<Rightarrow>
               k_Update kc (ka_set_version k (ka_version k existing) obj) w1))"

definition k_DeleteIfExists :: "('w, 'o) kube_client \<Rightarrow> 'o \<Rightarrow> 'w \<Rightarrow> api_error option \<times> 'w" where
  "k_DeleteIfExists kc obj w =
     (case k_Delete kc obj w of
        (Some e, w') \<Rightarrow> (if is_not_found e then (None, w') else (Some e, w'))
      | (None, w') \<Rightarrow> (None, w'))"

definition k_Exists ::
  "('w, 'o) kube_client \<Rightarrow> string \<Rightarrow> string \<Rightarrow> 'o \<Rightarrow> 'w \<Rightarrow> (api_error + bool) \<times> 'w" where
  "k_Exists kc ns name obj w =
     (case k_Get kc ns name obj w of
        (Some e, _, w') \<Rightarrow> (if is_not_found e then (Inr False, w') else (Inl e, w'))
      | (None, _, w') \<Rightarrow> (Inr True, w'))"

definition k_WaitForDeletion ::
  "('w, 'o) kube_client \<Rightarrow> string \<Rightarrow> string \<Rightarrow> 'o \<Rightarrow> 'w \<Rightarrow> api_error option \<times> 'w" where
  "k_WaitForDeletion kc ns name obj w =
     (case k_Exists kc ns name obj w of
        (Inl e, w') \<Rightarrow> (Some e, w')
      | (Inr b, w') \<Rightarrow>
          (if \<not> b then (None, w')
           else (Some (OtherError (''object '' @ ns @ ''/'' @ name @ '' still exists'')), w')))"

text \<open>
  The loop of \<open>GetWithRetry\<close>: \<open>left\<close> attempts remain, \<open>last\<close> is \<open>lastErr\<close>. The attempts follow
  each other without a delay. With no attempt at all, \<open>%w\<close> prints the nil error as
  \<open>%!w(<nil>)\<close>.
\<close>

fun get_attempts ::
  "('w, 'o) kube_client \<Rightarrow> string \<Rightarrow> string \<Rightarrow> nat \<Rightarrow> api_error option \<Rightarrow> 'o \<Rightarrow> 'w
     \<Rightarrow> api_error option \<times> bool \<times> 'o \<times> 'w" where
  "get_attempts kc ns name 0 lastErr obj w = (lastErr, False, obj, w)"
| "get_attempts kc ns name (Suc left) lastErr obj w =
     (case k_Get kc ns name obj w of
        (None, obj', w') \<Rightarrow> (None, True, obj', w')
      | (Some e, obj', w') \<Rightarrow> get_attempts kc ns name left (Some e) obj' w')"

definition k_GetWithRetry ::
  "('w, 'o) kube_client \<Rightarrow> string \<Rightarrow> string \<Rightarrow> int \<Rightarrow> 'o \<Rightarrow> 'w \<Rightarrow> ('w, 'o) written" where
  "k_GetWithRetry kc ns name maxRetries obj w =
     (case get_attempts kc ns name (nat maxRetries) None obj w of
        (_, True, obj', w') \<Rightarrow> (None, obj', w')
      | (lastErr, False, obj', w') \<Rightarrow>
          (let p = ''failed to get object after '' @ show_int maxRetries @ '' attempts: '' in
           (Some (case lastErr of None \<Rightarrow> OtherError (p @ ''%!w(<nil>)'') | Some e \<Rightarrow> api_wrap p e),
            obj', w')))"

subsection \<open>What the API server is relied on for\<close>

text \<open>
  The documented behaviour of the API server on objects of one kind, as the code uses it: a
  \<open>look\<close>up function says what the cluster stores under a key; reading reports that and changes
  nothing; creating succeeds exactly on a free key; updating with the stored resource version
  succeeds; deleting frees the key; and no write touches another key.
\<close>

definition api_reads :: "('w, 'o) kube_api \<Rightarrow> ('w \<Rightarrow> string \<times> string \<Rightarrow> 'o option) \<Rightarrow> bool" where
  "api_reads k look \<longleftrightarrow>
     (\<forall>ns n w. case look w (ns, n) of
        Some obj \<Rightarrow> ka_get k ns n w = (Inr obj, w)
      | None \<Rightarrow> (\<exists>m. ka_get k ns n w = (Inl (NotFound m), w)))"

definition api_creates :: "('w, 'o) kube_api \<Rightarrow> ('w \<Rightarrow> string \<times> string \<Rightarrow> 'o option) \<Rightarrow> bool" where
  "api_creates k look \<longleftrightarrow>
     (\<forall>obj w. look w (ka_namespace k obj, ka_name k obj) = None \<longrightarrow>
        (\<exists>stored w'. ka_create k obj w = (Inr stored, w') \<and>
           look w' = (look w)((ka_namespace k obj, ka_name k obj) \<mapsto> stored)))"

definition api_updates :: "('w, 'o) kube_api \<Rightarrow> ('w \<Rightarrow> string \<times> string \<Rightarrow> 'o option) \<Rightarrow> bool" where
  "api_updates k look \<longleftrightarrow>
     (\<forall>obj w cur. look w (ka_namespace k obj, ka_name k obj) = Some cur \<longrightarrow>
        ka_version k obj = ka_version k cur \<longrightarrow>
        (\<exists>stored w'. ka_update k obj w = (Inr stored, w') \<and>
           look w' = (look w)((ka_namespace k obj, ka_name k obj) \<mapsto> stored)))"

definition api_deletes :: "('w, 'o) kube_api \<Rightarrow> ('w \<Rightarrow> string \<times> string \<Rightarrow> 'o option) \<Rightarrow> bool" where
  "api_deletes k look \<longleftrightarrow>
     (\<forall>obj w. let key = (ka_namespace k obj, ka_name k obj) in
        if look w key = None then (\<exists>m. ka_delete k obj w = (Some (NotFound m), w))
        else (\<exists>w'. ka_delete k obj w = (None, w') \<and> look w' = (look w)(key := None)))"

definition version_laws :: "('w, 'o) kube_api \<Rightarrow> bool" where
  "version_laws k \<longleftrightarrow>
     (\<forall>v obj. ka_version k (ka_set_version k v obj) = v \<and>
        ka_name k (ka_set_version k v obj) = ka_name k obj \<and>
        ka_namespace k (ka_set_version k v obj) = ka_namespace k obj)"

lemmas kube_call_defs = k_Get_def k_Create_def k_Update_def k_Delete_def k_Patch_def k_UpdateStatus_def
  write_back_def

subsection \<open>Correctness\<close>

text \<open>A client that was never initialised does nothing and says so.\<close>

lemma uninitialised_client [simp]:
  "k_Get None ns name obj w = (Some not_initialized, obj, w)"
  "k_Create None obj w = (Some not_initialized, obj, w)"
  "k_Update None obj w = (Some not_initialized, obj, w)"
  "k_Patch None old obj w = (Some not_initialized, obj, w)"
  "k_UpdateStatus None obj w = (Some not_initialized, obj, w)"
  "k_Delete None obj w = (Some not_initialized, w)"
  "k_CreateOrUpdate None obj w = (Some not_initialized, obj, w)"
  by (simp_all add: kube_call_defs k_CreateOrUpdate_def)

lemma reads_stored: "api_reads k look \<Longrightarrow> look w (ns, n) = Some x \<Longrightarrow> ka_get k ns n w = (Inr x, w)"
  unfolding api_reads_def by (drule spec[of _ ns], drule spec[of _ n], drule spec[of _ w]) simp

lemma reads_free:
  assumes "api_reads k look" and "look w (ns, n) = None"
  obtains m where "ka_get k ns n w = (Inl (NotFound m), w)"
  using assms(1)[unfolded api_reads_def, THEN spec, THEN spec, THEN spec, of ns n w] assms(2) by auto

lemma k_Get_reads:
  assumes "api_reads k look"
  shows "k_Get (Some k) ns name obj w =
    (case look w (ns, name) of
       Some cur \<Rightarrow> (None, cur, w)
     | None \<Rightarrow> (Some (NotFound (api_msg (projl (fst (ka_get k ns name w))))), obj, w))"
  using assms[unfolded api_reads_def, rule_format, of ns name w]
  by (auto simp: kube_call_defs split: option.splits)

lemma create_free:
  assumes "api_creates k look" and "look w (ka_namespace k obj, ka_name k obj) = None"
  shows "\<exists>stored w'. k_Create (Some k) obj w = (None, stored, w') \<and>
           look w' = (look w)((ka_namespace k obj, ka_name k obj) \<mapsto> stored)"
  using assms unfolding api_creates_def by (force simp: kube_call_defs)

lemma update_current:
  assumes "api_updates k look" and "look w (ka_namespace k obj, ka_name k obj) = Some cur"
    and "ka_version k obj = ka_version k cur"
  shows "\<exists>stored w'. k_Update (Some k) obj w = (None, stored, w') \<and>
           look w' = (look w)((ka_namespace k obj, ka_name k obj) \<mapsto> stored)"
  using assms unfolding api_updates_def by (force simp: kube_call_defs)

lemma attempts_split:
  "get_attempts kc ns name n lastErr obj w = (e, found, obj', w') \<Longrightarrow> found \<Longrightarrow> e = None"
  by (induction kc ns name n lastErr obj w rule: get_attempts.induct)
     (auto split: prod.splits option.splits)

lemma attempts_found:
  "(fst (snd (get_attempts (Some k) ns name n lastErr obj w))) \<longleftrightarrow>
     (\<exists>i < n. \<not> isl (fst (ka_get k ns name (((\<lambda>w. snd (ka_get k ns name w)) ^^ i) w))))"
proof (induction n arbitrary: lastErr obj w)
  case 0
  then show ?case by simp
next
  case (Suc n)
  let ?P = "\<lambda>w i. \<not> isl (fst (ka_get k ns name (((\<lambda>w. snd (ka_get k ns name w)) ^^ i) w)))"
  have split: "(\<exists>i < Suc n. ?P w i) \<longleftrightarrow> ?P w 0 \<or> (\<exists>i < n. ?P (snd (ka_get k ns name w)) i)"
    using Ex_less_Suc2[of n "?P w"] by (simp add: funpow_Suc_right del: funpow.simps(2))
  show ?case unfolding split
    by (auto simp: Suc kube_call_defs split: prod.splits sum.splits)
qed

text \<open>\<open>GetWithRetry\<close> reports success exactly when one of the first \<open>maxRetries\<close> reads
  succeeds, each made in the cluster as the reads before it left it.\<close>

theorem get_with_retry_succeeds_iff:
  "fst (k_GetWithRetry (Some k) ns name maxRetries obj w) = None \<longleftrightarrow>
     (\<exists>i < nat maxRetries.
        \<not> isl (fst (ka_get k ns name (((\<lambda>w. snd (ka_get k ns name w)) ^^ i) w))))"
  unfolding attempts_found[of k ns name "nat maxRetries" None obj w, symmetric]
  by (auto simp: k_GetWithRetry_def Let_def split: prod.splits bool.splits)

text \<open>On a server that keeps its documented behaviour, \<open>CreateOrUpdate\<close> never fails,
  whatever resource version the caller's object carries: afterwards the cluster holds, under the
  object's key, what the server stored for this call, and nothing else has changed.\<close>

theorem create_or_update_stores:
  assumes "api_reads k look" and "api_creates k look" and "api_updates k look" and "version_laws k"
  shows "\<exists>stored w'. k_CreateOrUpdate (Some k) obj w = (None, stored, w') \<and>
           look w' = (look w)((ka_namespace k obj, ka_name k obj) \<mapsto> stored)"
proof (cases "look w (ka_namespace k obj, ka_name k obj)")
  case None
  with create_free[OF assms(2)] k_Get_reads[OF assms(1)] show ?thesis
    by (simp add: k_CreateOrUpdate_def)
next
  case (Some cur)
  let ?obj = "ka_set_version k (ka_version k cur) obj"
  have "\<exists>stored w'. k_Update (Some k) ?obj w = (None, stored, w') \<and>
           look w' = (look w)((ka_namespace k ?obj, ka_name k ?obj) \<mapsto> stored)"
    using update_current[OF assms(3), of w ?obj cur] assms(4) Some by (simp add: version_laws_def)
  with k_Get_reads[OF assms(1)] Some assms(4) show ?thesis
    by (simp add: k_CreateOrUpdate_def version_laws_def)
qed

text \<open>Deleting what may be gone already always succeeds and leaves the key free.\<close>

lemma delete_if_exists_frees:
  assumes "api_deletes k look"
  shows "\<exists>w'. k_DeleteIfExists (Some k) obj w = (None, w') \<and>
           look w' = (look w)((ka_namespace k obj, ka_name k obj) := None)"
  using assms unfolding api_deletes_def
  by (force simp: k_DeleteIfExists_def kube_call_defs Let_def split: if_splits)

subsection \<open>A concrete cluster\<close>

text \<open>
  A cluster that is a finite map and whose objects are a namespace, a name and a resource version:
  it keeps the documented behaviour, so the laws above can be met together.
\<close>

type_synonym tiny_object = "string \<times> string \<times> string"
type_synonym tiny_cluster = "string \<times> string \<Rightarrow> tiny_object option"

definition tiny_api :: "(tiny_cluster, tiny_object) kube_api" where
  "tiny_api = \<lparr>
     ka_type = ''*v1.Service'',
     ka_name = (\<lambda>(ns, n, v). n),
     ka_namespace = (\<lambda>(ns, n, v). ns),
     ka_version = (\<lambda>(ns, n, v). v),
     ka_set_version = (\<lambda>v (ns, n, _). (ns, n, v)),
     ka_get = (\<lambda>ns n w. (case w (ns, n) of None \<Rightarrow> Inl (NotFound ''not found'') | Some x \<Rightarrow> Inr x, w)),
     ka_create = (\<lambda>(ns, n, v) w. case w (ns, n) of
        None \<Rightarrow> (Inr (ns, n, ''1''), w((ns, n) \<mapsto> (ns, n, ''1'')))
      | Some _ \<Rightarrow> (Inl (OtherError ''already exists''), w)),
     ka_update = (\<lambda>(ns, n, v) w. case w (ns, n) of
        None \<Rightarrow> (Inl (NotFound ''not found''), w)
      | Some (_, _, v0) \<Rightarrow>
          if v = v0 then (Inr (ns, n, CHR ''1'' # v), w((ns, n) \<mapsto> (ns, n, CHR ''1'' # v)))
          else (Inl (Conflict ''the object has been modified''), w)),
     ka_patch = (\<lambda>_ x w. (Inr x, w)),
     ka_update_status = (\<lambda>x w. (Inr x, w)),
     ka_delete = (\<lambda>(ns, n, v) w. case w (ns, n) of
        None \<Rightarrow> (Some (NotFound ''not found''), w)
      | Some _ \<Rightarrow> (None, w((ns, n) := None))),
     ka_list = (\<lambda>opts w. (Inr [], w))\<rparr>"

lemma tiny_api_laws:
  "api_reads tiny_api (\<lambda>w. w)" "api_creates tiny_api (\<lambda>w. w)" "api_updates tiny_api (\<lambda>w. w)"
  "api_deletes tiny_api (\<lambda>w. w)" "version_laws tiny_api"
  by (auto simp: api_reads_def api_creates_def api_updates_def api_deletes_def version_laws_def
      tiny_api_def split: option.splits)

lemma tiny_keys [simp]:
  "ka_namespace tiny_api (ns, n, v) = ns" "ka_name tiny_api (ns, n, v) = n"
  by (simp_all add: tiny_api_def)

lemma create_or_update_stores_witness:
  "\<exists>stored w'. k_CreateOrUpdate (Some tiny_api) (''ns'', ''a'', ''7'')
        (Map.empty((''ns'', ''a'') \<mapsto> (''ns'', ''a'', ''4''))) = (None, stored, w') \<and>
     w' = (Map.empty((''ns'', ''a'') \<mapsto> (''ns'', ''a'', ''4'')))((''ns'', ''a'') \<mapsto> stored)"
  using create_or_update_stores[OF tiny_api_laws(1,2,3,5), of "(''ns'', ''a'', ''7'')"
      "Map.empty((''ns'', ''a'') \<mapsto> (''ns'', ''a'', ''4''))"]
  by (simp only: tiny_keys)

text \<open>A cluster whose objects of one kind are a fixed list.\<close>

definition static_api :: "'o list \<Rightarrow> ('w, 'o) kube_api" where
  "static_api xs = \<lparr>
     ka_type = ''*v1.Object'', ka_name = (\<lambda>_. []), ka_namespace = (\<lambda>_. []),
     ka_version = (\<lambda>_. []), ka_set_version = (\<lambda>_ x. x),
     ka_get = (\<lambda>_ _ w. (case xs of [] \<Rightarrow> Inl (NotFound ''not found'') | x # _ \<Rightarrow> Inr x, w)),
     ka_create = (\<lambda>x w. (Inr x, w)), ka_update = (\<lambda>x w. (Inr x, w)),
     ka_patch = (\<lambda>_ x w. (Inr x, w)), ka_update_status = (\<lambda>x w. (Inr x, w)),
     ka_delete = (\<lambda>_ w. (None, w)), ka_list = (\<lambda>_ w. (Inr xs, w))\<rparr>"

text \<open>
  A cluster that stores the objects of one kind by namespace and name; their resource version is
  the text their metadata has room for.
\<close>

definition meta_api ::
  "('o \<Rightarrow> object_meta) \<Rightarrow> (string \<Rightarrow> 'o \<Rightarrow> 'o) \<Rightarrow> (string \<times> string \<Rightarrow> 'o option, 'o) kube_api" where
  "meta_api meta put_version = \<lparr>
     ka_type = ''*v1.Object'', ka_name = (\<lambda>x. om_Name (meta x)), ka_namespace = (\<lambda>x. om_Namespace (meta x)),
     ka_version = (\<lambda>x. om_UID (meta x)), ka_set_version = put_version,
     ka_get = (\<lambda>ns n w. (case w (ns, n) of None \<Rightarrow> Inl (NotFound ''not found'') | Some x \<Rightarrow> Inr x, w)),
     ka_create = (\<lambda>x w. case w (om_Namespace (meta x), om_Name (meta x)) of
        None \<Rightarrow> (Inr x, w((om_Namespace (meta x), om_Name (meta x)) \<mapsto> x))
      | Some _ \<Rightarrow> (Inl (OtherError ''already exists''), w)),
     ka_update = (\<lambda>x w. case w (om_Namespace (meta x), om_Name (meta x)) of
        None \<Rightarrow> (Inl (NotFound ''not found''), w)
      | Some cur \<Rightarrow> if om_UID (meta x) = om_UID (meta cur)
          then (Inr x, w((om_Namespace (meta x), om_Name (meta x)) \<mapsto> x))
          else (Inl (Conflict ''the object has been modified''), w)),
     ka_patch = (\<lambda>_ x w. (Inr x, w)), ka_update_status = (\<lambda>x w. (Inr x, w)),
     ka_delete = (\<lambda>x w. case w (om_Namespace (meta x), om_Name (meta x)) of
        None \<Rightarrow> (Some (NotFound ''not found''), w)
      | Some _ \<Rightarrow> (None, w((om_Namespace (meta x), om_Name (meta x)) := None))),
     ka_list = (\<lambda>opts w. (Inr [], w))\<rparr>"

lemma meta_api_laws:
  "api_reads (meta_api meta put_version) (\<lambda>w. w)" "api_creates (meta_api meta put_version) (\<lambda>w. w)"
  "api_updates (meta_api meta put_version) (\<lambda>w. w)" "api_deletes (meta_api meta put_version) (\<lambda>w. w)"
  by (auto simp: api_reads_def api_creates_def api_updates_def api_deletes_def meta_api_def Let_def split: option.splits)

end
