(* ===== verification/Validation.thy ===== *)
theory Validation
  imports KubeClient
begin

section \<open>The validation service\<close>

text \<open>
  \<open>pkg/services/validation_service.go\<close>: the checks an MCPServer or MCPRegistry must pass before
  the operator acts on it. Parsing, comparing, adding and printing quantities are operations of
  the Kubernetes library and a parameter (\<open>quantity_ops\<close>); so is \<open>url.Parse\<close>, of which only the
  error matters. A map is checked in the order in which its list holds the entries.
\<close>

record quantity_ops =
  q_parse :: "string \<Rightarrow> string + quantity"
  q_cmp :: "quantity \<Rightarrow> quantity \<Rightarrow> int"
  q_add :: "quantity \<Rightarrow> quantity \<Rightarrow> quantity"
  q_value :: "quantity \<Rightarrow> int"
  q_set :: "quantity \<Rightarrow> int \<Rightarrow> quantity"
  q_sign :: "quantity \<Rightarrow> int"
  q_is_zero :: "quantity \<Rightarrow> bool"
  q_string :: "quantity \<Rightarrow> string"

text \<open>\<open>resource.Quantity{}\<close>.\<close>

definition zero_quantity :: quantity where "zero_quantity = (0, [])"

definition contains :: "string list \<Rightarrow> string \<Rightarrow> bool" where
  "contains slice item = list_ex (\<lambda>s. s = item) slice"

lemma contains_iff [simp]: "contains slice item \<longleftrightarrow> item \<in> set slice"
  by (auto simp: contains_def list_ex_iff)

subsection \<open>Registry reference and runtime\<close>

definition validateRegistryInfo :: "registry_ref option \<Rightarrow> go_error" where
  "validateRegistryInfo registry =
     (case registry of
        None \<Rightarrow> Some ''registry information is required''
      | Some r \<Rightarrow> first_err [
          check (\<not> (rr_Name r \<noteq> [] \<or> rr_Registry r \<noteq> []))
            ''registry name is required: use name field or registry field'',
          check (rr_Name r \<noteq> [] \<and> length (rr_Name r) > 253)
            ''registry name cannot be longer than 253 characters'',
          check (rr_Registry r \<noteq> [] \<and> length (rr_Registry r) > 253)
            ''registry registry field cannot be longer than 253 characters'',
          check (rr_ServerName r \<noteq> [] \<and> length (rr_ServerName r) > 253)
            ''registry serverName cannot be longer than 253 characters''])"

definition valid_runtime_types :: "string list" where
  "valid_runtime_types = [''docker'', ''node'', ''python'', ''binary'']"

definition validateRuntimeSpec :: "runtime_spec option \<Rightarrow> transport_spec option \<Rightarrow> go_error" where
  "validateRuntimeSpec runtime transport =
     (case runtime of
        None \<Rightarrow> Some ''runtime type is required''
      | Some r \<Rightarrow>
          let isStdio = (case transport of None \<Rightarrow> False | Some t \<Rightarrow> tr_Type t = ''stdio'') in
          first_err [
            check (rt_Type r = []) ''runtime type is required'',
            check (\<not> contains valid_runtime_types (rt_Type r))
              (''invalid runtime type: '' @ rt_Type r @ '', must be one of: '' @
                 join '', '' valid_runtime_types),
            check (rt_Type r = ''docker'' \<and> rt_Image r = []) ''image is required for docker runtime'',
            check (\<not> isStdio \<and> (rt_Port r < 0 \<or> rt_Port r > 65535))
              ''port must be between 0 and 65535''])"

subsection \<open>Resources\<close>

definition resource_entry_error ::
  "quantity_ops \<Rightarrow> string \<Rightarrow> string \<times> string \<Rightarrow> go_error" where
  "resource_entry_error q listType kv =
     (let (name, val) = kv in
      if val = [] then Some (listType @ ''.'' @ name @ '' cannot be empty'')
      else (case q_parse q val of
              Inl e \<Rightarrow> Some (''invalid '' @ listType @ ''.'' @ name @ '' value '' @ [CHR 0x27] @ val @
                             [CHR 0x27] @ '': '' @ e)
            | Inr _ \<Rightarrow> None))"

definition validateResourceList :: "quantity_ops \<Rightarrow> resource_list \<Rightarrow> string \<Rightarrow> go_error" where
  "validateResourceList q resources listType =
     first_err (map (resource_entry_error q listType) (gm_entries resources))"

definition request_exceeds :: "quantity_ops \<Rightarrow> resource_list \<Rightarrow> string \<times> string \<Rightarrow> go_error" where
  "request_exceeds q limits kv =
     (let (name, req) = kv in
      case gm_get limits name of
        None \<Rightarrow> None
      | Some lim \<Rightarrow>
          (case q_parse q req of
             Inl _ \<Rightarrow> None
           | Inr r \<Rightarrow>
               (case q_parse q lim of
                  Inl _ \<Rightarrow> None
                | Inr l \<Rightarrow>
                    check (q_cmp q r l > 0)
                      (''requests.'' @ name @ '' ('' @ req @ '') exceeds limits.'' @ name @
                         '' ('' @ lim @ '')''))))"

definition validateRequestsVsLimits ::
  "quantity_ops \<Rightarrow> resource_list \<Rightarrow> resource_list \<Rightarrow> go_error" where
  "validateRequestsVsLimits q requests limits =
     first_err (map (request_exceeds q limits) (gm_entries requests))"

definition validateResourceRequirements :: "quantity_ops \<Rightarrow> resource_requirements \<Rightarrow> go_error" where
  "validateResourceRequirements q r = first_err [
     validateResourceList q (rq_Limits r) ''limits'',
     validateResourceList q (rq_Requests r) ''requests'',
     validateRequestsVsLimits q (rq_Requests r) (rq_Limits r)]"

subsection \<open>Autoscaling\<close>

definition validate_hpa :: "hpa_spec \<Rightarrow> go_error" where
  "validate_hpa hpa = first_err [
     check (case hpa_MinReplicas hpa of None \<Rightarrow> False | Some m \<Rightarrow> m < 1)
       ''HPA minReplicas must be at least 1'',
     check (hpa_MaxReplicas hpa < 1) ''HPA maxReplicas must be at least 1'',
     check (case hpa_MinReplicas hpa of None \<Rightarrow> False | Some m \<Rightarrow> m > hpa_MaxReplicas hpa)
       ''HPA minReplicas cannot be greater than maxReplicas'']"

definition valid_vpa_modes :: "string list" where
  "valid_vpa_modes = [''Off'', ''Initial'', ''Recreate'', ''Auto'']"

definition validate_vpa :: "vpa_spec \<Rightarrow> go_error" where
  "validate_vpa vpa =
     check (\<not> contains valid_vpa_modes (vpa_UpdateMode vpa))
       (''invalid VPA update mode: '' @ vpa_UpdateMode vpa @ '', must be one of: '' @
          join '', '' valid_vpa_modes)"

definition validateAutoscalingSpec :: "autoscaling_spec \<Rightarrow> go_error" where
  "validateAutoscalingSpec a = first_err [
     (case as_HPA a of None \<Rightarrow> None | Some hpa \<Rightarrow> validate_hpa hpa),
     (case as_VPA a of None \<Rightarrow> None | Some vpa \<Rightarrow> validate_vpa vpa)]"

subsection \<open>Tenancy\<close>

definition validateIsolationLevel :: "string \<Rightarrow> go_error" where
  "validateIsolationLevel level =
     check (\<not> list_ex (\<lambda>l. level = l)
              [IsolationLevelNone, IsolationLevelNamespace, IsolationLevelNode, IsolationLevelStrict])
       (''invalid isolation level: '' @ level)"

definition quantity_not_positive :: "quantity_ops \<Rightarrow> quantity option \<Rightarrow> bool" where
  "quantity_not_positive q v =
     (case v of None \<Rightarrow> False | Some x \<Rightarrow> q_is_zero q x \<or> q_sign q x < 0)"

definition count_not_positive :: "int option \<Rightarrow> bool" where
  "count_not_positive v = (case v of None \<Rightarrow> False | Some n \<Rightarrow> n \<le> 0)"

definition validateTenantResourceQuotas :: "quantity_ops \<Rightarrow> tenant_resource_quotas \<Rightarrow> go_error" where
  "validateTenantResourceQuotas q quotas = first_err [
     check (quantity_not_positive q (trq_CPU quotas)) ''CPU quota must be positive'',
     check (quantity_not_positive q (trq_Memory quotas)) ''memory quota must be positive'',
     check (quantity_not_positive q (trq_Storage quotas)) ''storage quota must be positive'',
     check (count_not_positive (trq_Pods quotas)) ''pods quota must be positive'',
     check (count_not_positive (trq_Services quotas)) ''services quota must be positive'',
     check (count_not_positive (trq_PersistentVolumeClaims quotas))
       ''PersistentVolumeClaims quota must be positive'',
     check (count_not_positive (trq_ConfigMaps quotas)) ''ConfigMaps quota must be positive'',
     check (count_not_positive (trq_Secrets quotas)) ''secrets quota must be positive'']"

definition validateTenancySpec :: "quantity_ops \<Rightarrow> tenancy_spec \<Rightarrow> go_error" where
  "validateTenancySpec q t = first_err [
     check (ten_TenantID t = []) ''tenant ID is required'',
     validateIsolationLevel (ten_IsolationLevel t),
     (case ten_ResourceQuotas t of None \<Rightarrow> None | Some r \<Rightarrow> validateTenantResourceQuotas q r)]"

subsection \<open>The MCPServer\<close>

definition ValidateMCPServer :: "quantity_ops \<Rightarrow> mcp_server \<Rightarrow> go_error" where
  "ValidateMCPServer q s =
     (let sp = srv_Spec s in
      first_err [
        wrap_err ''registry validation failed: '' (validateRegistryInfo (sp_Registry sp)),
        wrap_err ''runtime validation failed: ''
          (validateRuntimeSpec (sp_Runtime sp) (sp_Transport sp)),
        wrap_err ''resource requirements validation failed: ''
          (validateResourceRequirements q (sp_Resources sp)),
        check (case sp_Replicas sp of None \<Rightarrow> False | Some n \<Rightarrow> n < 0) ''replicas cannot be negative'',
        (case sp_Autoscaling sp of
           None \<Rightarrow> None
         | Some a \<Rightarrow> wrap_err ''autoscaling validation failed: '' (validateAutoscalingSpec a)),
        (case sp_Tenancy sp of
           None \<Rightarrow> None
         | Some t \<Rightarrow> wrap_err ''tenancy validation failed: '' (validateTenancySpec q t))])"

subsection \<open>The MCPRegistry\<close>

definition validateRegistryAuth :: "registry_auth \<Rightarrow> go_error" where
  "validateRegistryAuth auth = first_err [
     check (ra_SecretRef auth = None \<and> ra_Token auth = [])
       ''either secretRef or token must be provided for authentication'',
     check (ra_SecretRef auth \<noteq> None \<and> ra_Token auth \<noteq> [])
       ''cannot specify both secretRef and token for authentication'',
     check (case ra_SecretRef auth of None \<Rightarrow> False | Some r \<Rightarrow> sr_Name r = [])
       ''secret name is required in secretRef'']"

definition valid_registry_types :: "string list" where
  "valid_registry_types = [''github'', ''local'', ''http'', ''https'']"

definition ValidateRegistry :: "(string \<Rightarrow> go_error) \<Rightarrow> mcp_registry \<Rightarrow> go_error" where
  "ValidateRegistry url_parse r =
     (let sp = reg_Spec r in
      first_err [
        check (rg_URL sp = []) ''registry URL is required'',
        wrap_err ''invalid registry URL: '' (url_parse (rg_URL sp)),
        check (rg_Type sp \<noteq> [] \<and> \<not> contains valid_registry_types (rg_Type sp))
          (''invalid registry type: '' @ rg_Type sp @ '', must be one of: '' @
             join '', '' valid_registry_types),
        (case rg_Auth sp of
           None \<Rightarrow> None
         | Some a \<Rightarrow> wrap_err ''authentication validation failed: '' (validateRegistryAuth a)),
        check (case rg_SyncInterval sp of None \<Rightarrow> False | Some d \<Rightarrow> d \<le> 0)
          ''sync interval must be positive''])"

subsection \<open>Current usage of a tenant\<close>

record pod =
  pod_Phase :: string
  pod_Requests :: "quantity gomap list"

definition tenant_selector :: "string \<Rightarrow> string \<Rightarrow> list_options" where
  "tenant_selector tenantID namespace = (namespace, [(''mcp.allbeone.io/tenant'', tenantID)])"

definition list_pods ::
  "('w, pod) kube_client \<Rightarrow> string \<Rightarrow> string \<Rightarrow> 'w \<Rightarrow> (string + pod list) \<times> 'w" where
  "list_pods pc tenantID ns w =
     (case k_List pc ''*v1.PodList'' (tenant_selector tenantID ns) w of
        (Inl e, w') \<Rightarrow> (Inl (''failed to list pods for tenant '' @ tenantID @ '': '' @ api_msg e), w')
      | (Inr pods, w') \<Rightarrow> (Inr pods, w'))"

definition running :: "pod list \<Rightarrow> pod list" where
  "running pods = filter (\<lambda>p. pod_Phase p = ''Running'') pods"

text \<open>Both usages sum one resource over the containers of the running pods.\<close>

definition sum_requests :: "quantity_ops \<Rightarrow> string \<Rightarrow> pod list \<Rightarrow> quantity" where
  "sum_requests q res pods =
     fold (\<lambda>req acc. case gm_get req res of None \<Rightarrow> acc | Some v \<Rightarrow> q_add q acc v)
       (concat (map pod_Requests (running pods))) zero_quantity"

definition getTenantCPUUsage ::
  "quantity_ops \<Rightarrow> ('w, pod) kube_client \<Rightarrow> string \<Rightarrow> string \<Rightarrow> 'w \<Rightarrow> (string + quantity) \<times> 'w" where
  "getTenantCPUUsage q pc tenantID ns w =
     apfst (map_sum id (sum_requests q ''cpu'')) (list_pods pc tenantID ns w)"

definition getTenantMemoryUsage ::
  "quantity_ops \<Rightarrow> ('w, pod) kube_client \<Rightarrow> string \<Rightarrow> string \<Rightarrow> 'w \<Rightarrow> (string + quantity) \<times> 'w" where
  "getTenantMemoryUsage q pc tenantID ns w =
     apfst (map_sum id (sum_requests q ''memory'')) (list_pods pc tenantID ns w)"

text \<open>\<open>runningPodCount++\<close> on an \<open>int32\<close>.\<close>

definition getTenantPodCount ::
  "('w, pod) kube_client \<Rightarrow> string \<Rightarrow> string \<Rightarrow> 'w \<Rightarrow> (string + int) \<times> 'w" where
  "getTenantPodCount pc tenantID ns w =
     apfst (map_sum id (\<lambda>pods. to_i32 (int (length (running pods))))) (list_pods pc tenantID ns w)"

definition getTenantServiceCount ::
  "('w, 'sv) kube_client \<Rightarrow> string \<Rightarrow> string \<Rightarrow> 'w \<Rightarrow> (string + int) \<times> 'w" where
  "getTenantServiceCount sc tenantID ns w =
     (case k_List sc ''*v1.ServiceList'' (tenant_selector tenantID ns) w of
        (Inl e, w') \<Rightarrow> (Inl (''failed to list services for tenant '' @ tenantID @ '': '' @ api_msg e), w')
      | (Inr svcs, w') \<Rightarrow> (Inr (to_i32 (int (length svcs))), w'))"

subsection \<open>Usage against quota\<close>

text \<open>\<open>requested.Set(requested.Value() * int64(replicas))\<close>; a quantity that does not parse is zero.\<close>

definition requested_total :: "quantity_ops \<Rightarrow> string \<Rightarrow> mcp_server \<Rightarrow> quantity" where
  "requested_total q res s =
     (let base = (case gm_get (rq_Requests (sp_Resources (srv_Spec s))) res of
                    None \<Rightarrow> zero_quantity
                  | Some str \<Rightarrow> (case q_parse q str of Inl _ \<Rightarrow> zero_quantity | Inr v \<Rightarrow> v));
          replicas = (case sp_Replicas (srv_Spec s) of None \<Rightarrow> 1 | Some n \<Rightarrow> n)
      in q_set q base (to_i64 (q_value q base * replicas)))"

definition over_quota ::
  "quantity_ops \<Rightarrow> string \<Rightarrow> quantity \<Rightarrow> quantity \<Rightarrow> quantity \<Rightarrow> go_error" where
  "over_quota q what requested current quota =
     (let total = q_add q current requested in
      check (q_cmp q total quota > 0)
        (what @ '' quota exceeded: requested '' @ q_string q requested @ '' + current '' @
           q_string q current @ '' = '' @ q_string q total @ '' > quota '' @ q_string q quota))"

definition validateCPUQuota ::
  "quantity_ops \<Rightarrow> ('w, pod) kube_client \<Rightarrow> string \<Rightarrow> mcp_server \<Rightarrow> quantity \<Rightarrow> 'w \<Rightarrow> go_error \<times> 'w" where
  "validateCPUQuota q pc tenantID s quota w =
     (case getTenantCPUUsage q pc tenantID (srv_Namespace s) w of
        (Inl e, w') \<Rightarrow> (Some (''failed to get current CPU usage: '' @ e), w')
      | (Inr current, w') \<Rightarrow> (over_quota q ''CPU'' (requested_total q ''cpu'' s) current quota, w'))"

definition validateMemoryQuota ::
  "quantity_ops \<Rightarrow> ('w, pod) kube_client \<Rightarrow> string \<Rightarrow> mcp_server \<Rightarrow> quantity \<Rightarrow> 'w \<Rightarrow> go_error \<times> 'w" where
  "validateMemoryQuota q pc tenantID s quota w =
     (case getTenantMemoryUsage q pc tenantID (srv_Namespace s) w of
        (Inl e, w') \<Rightarrow> (Some (''failed to get current Memory usage: '' @ e), w')
      | (Inr current, w') \<Rightarrow>
          (over_quota q ''memory'' (requested_total q ''memory'' s) current quota, w'))"

definition count_over :: "string \<Rightarrow> int \<Rightarrow> int \<Rightarrow> int \<Rightarrow> go_error" where
  "count_over what requested current quota =
     (let total = to_i32 (current + requested) in
      check (total > quota)
        (what @ '' quota exceeded: requested '' @ show_int requested @ '' + current '' @
           show_int current @ '' = '' @ show_int total @ '' > quota '' @ show_int quota))"

definition validatePodQuota ::
  "('w, pod) kube_client \<Rightarrow> string \<Rightarrow> mcp_server \<Rightarrow> int \<Rightarrow> 'w \<Rightarrow> go_error \<times> 'w" where
  "validatePodQuota pc tenantID s quota w =
     (case getTenantPodCount pc tenantID (srv_Namespace s) w of
        (Inl e, w') \<Rightarrow> (Some (''failed to get current Pod count: '' @ e), w')
      | (Inr current, w') \<Rightarrow>
          (count_over ''pod'' (case sp_Replicas (srv_Spec s) of None \<Rightarrow> 1 | Some n \<Rightarrow> n) current quota, w'))"

definition validateServiceQuota ::
  "('w, 'sv) kube_client \<Rightarrow> string \<Rightarrow> mcp_server \<Rightarrow> int \<Rightarrow> 'w \<Rightarrow> go_error \<times> 'w" where
  "validateServiceQuota sc tenantID s quota w =
     (case getTenantServiceCount sc tenantID (srv_Namespace s) w of
        (Inl e, w') \<Rightarrow> (Some (''failed to get current Service count: '' @ e), w')
      | (Inr current, w') \<Rightarrow> (count_over ''service'' 1 current quota, w'))"

subsection \<open>DNS labels\<close>

definition isAlphaNumeric :: "nat \<Rightarrow> bool" where
  "isAlphaNumeric b \<longleftrightarrow>
     (byte_of (CHR ''a'') \<le> b \<and> b \<le> byte_of (CHR ''z'')) \<or>
     (byte_of (CHR ''A'') \<le> b \<and> b \<le> byte_of (CHR ''Z'')) \<or>
     (byte_of (CHR ''0'') \<le> b \<and> b \<le> byte_of (CHR ''9''))"

text \<open>The loop runs over runes and truncates each to a byte (\<open>byte(char)\<close>).\<close>

definition isValidDNSLabel :: "string \<Rightarrow> bool" where
  "isValidDNSLabel label =
     (if length label = 0 \<or> length label > 63 then False
      else if \<not> isAlphaNumeric (byte_of (hd label)) \<or> \<not> isAlphaNumeric (byte_of (last label)) then False
      else list_all (\<lambda>r. isAlphaNumeric (r mod 256) \<or> r = byte_of (CHR ''-'')) (runes label))"

subsection \<open>The tenant's quotas\<close>

definition check_quota :: "string \<Rightarrow> 'q option \<Rightarrow> ('q \<Rightarrow> 'w \<Rightarrow> go_error \<times> 'w) \<Rightarrow> 'w \<Rightarrow> go_error \<times> 'w" where
  "check_quota p quota f w =
     (case quota of None \<Rightarrow> (None, w) | Some v \<Rightarrow> apfst (wrap_err p) (f v w))"

definition ValidateTenantResourceQuotas ::
  "quantity_ops \<Rightarrow> ('w, pod) kube_client \<Rightarrow> ('w, 'sv) kube_client \<Rightarrow> mcp_server \<Rightarrow> 'w
     \<Rightarrow> go_error \<times> 'w" where
  "ValidateTenantResourceQuotas q pc sc s w =
     (case sp_Tenancy (srv_Spec s) of
        None \<Rightarrow> (None, w)
      | Some t \<Rightarrow>
          (case ten_ResourceQuotas t of
             None \<Rightarrow> (None, w)
           | Some quotas \<Rightarrow>
               let tid = ten_TenantID t in
               and_check (wrap_err ''resource quotas validation failed: ''
                            (validateTenantResourceQuotas q quotas), w) (\<lambda>w.
               and_check (check_quota ''CPU quota validation failed: '' (trq_CPU quotas)
                            (validateCPUQuota q pc tid s) w) (\<lambda>w.
               and_check (check_quota ''memory quota validation failed: '' (trq_Memory quotas)
                            (validateMemoryQuota q pc tid s) w) (\<lambda>w.
               and_check (check_quota ''pod quota validation failed: '' (trq_Pods quotas)
                            (validatePodQuota pc tid s) w) (\<lambda>w.
               and_check (check_quota ''service quota validation failed: '' (trq_Services quotas)
                            (validateServiceQuota sc tid s) w) (\<lambda>w.
               (first_err [
                  wrap_err ''isolation level validation failed: ''
                    (validateIsolationLevel (ten_IsolationLevel t)),
                  check (tid = []) ''tenant ID is required when tenancy is enabled'',
                  check (length tid > 63) ''tenant ID cannot be longer than 63 characters'',
                  check (\<not> isValidDNSLabel tid) ''tenant ID must be a valid DNS label''], w))))))))"

section \<open>Correctness\<close>

subsection \<open>What a valid MCPServer is\<close>

text \<open>The specification of validity, independent of the order and the texts of the checks.\<close>

definition parses :: "quantity_ops \<Rightarrow> string \<Rightarrow> bool" where
  "parses q s \<longleftrightarrow> (\<exists>v. q_parse q s = Inr v)"

definition spec_registry :: "registry_ref option \<Rightarrow> bool" where
  "spec_registry reg \<longleftrightarrow>
     (\<exists>r. reg = Some r \<and> ref_registry r \<noteq> [] \<and> length (rr_Name r) \<le> 253 \<and>
          length (rr_Registry r) \<le> 253 \<and> length (rr_ServerName r) \<le> 253)"

definition spec_runtime :: "runtime_spec option \<Rightarrow> transport_spec option \<Rightarrow> bool" where
  "spec_runtime rt tr \<longleftrightarrow>
     (\<exists>r. rt = Some r \<and> rt_Type r \<in> {''docker'', ''node'', ''python'', ''binary''} \<and>
          (rt_Type r = ''docker'' \<longrightarrow> rt_Image r \<noteq> []) \<and>
          (map_option tr_Type tr = Some ''stdio'' \<or> (0 \<le> rt_Port r \<and> rt_Port r \<le> 65535)))"

definition spec_resources :: "quantity_ops \<Rightarrow> resource_requirements \<Rightarrow> bool" where
  "spec_resources q r \<longleftrightarrow>
     (\<forall>(n, v) \<in> set (gm_entries (rq_Limits r)) \<union> set (gm_entries (rq_Requests r)).
        v \<noteq> [] \<and> parses q v) \<and>
     (\<forall>(n, v) \<in> set (gm_entries (rq_Requests r)). \<forall>lim x y.
        gm_get (rq_Limits r) n = Some lim \<longrightarrow> q_parse q v = Inr x \<longrightarrow> q_parse q lim = Inr y \<longrightarrow>
        q_cmp q x y \<le> 0)"

definition spec_hpa :: "hpa_spec \<Rightarrow> bool" where
  "spec_hpa h \<longleftrightarrow> 1 \<le> hpa_MaxReplicas h \<and>
     (\<forall>m. hpa_MinReplicas h = Some m \<longrightarrow> 1 \<le> m \<and> m \<le> hpa_MaxReplicas h)"

definition spec_autoscaling :: "autoscaling_spec \<Rightarrow> bool" where
  "spec_autoscaling a \<longleftrightarrow> (\<forall>h. as_HPA a = Some h \<longrightarrow> spec_hpa h) \<and>
     (\<forall>v. as_VPA a = Some v \<longrightarrow> vpa_UpdateMode v \<in> {''Off'', ''Initial'', ''Recreate'', ''Auto''})"

definition spec_quotas :: "quantity_ops \<Rightarrow> tenant_resource_quotas \<Rightarrow> bool" where
  "spec_quotas q r \<longleftrightarrow>
     (\<forall>x \<in> set_option (trq_CPU r) \<union> set_option (trq_Memory r) \<union> set_option (trq_Storage r).
        \<not> q_is_zero q x \<and> 0 \<le> q_sign q x) \<and>
     (\<forall>n \<in> set_option (trq_Pods r) \<union> set_option (trq_Services r) \<union>
             set_option (trq_PersistentVolumeClaims r) \<union> set_option (trq_ConfigMaps r) \<union>
             set_option (trq_Secrets r). 0 < n)"

definition spec_tenancy :: "quantity_ops \<Rightarrow> tenancy_spec \<Rightarrow> bool" where
  "spec_tenancy q t \<longleftrightarrow> ten_TenantID t \<noteq> [] \<and>
     ten_IsolationLevel t \<in> {''None'', ''Namespace'', ''Node'', ''Strict''} \<and>
     (\<forall>r. ten_ResourceQuotas t = Some r \<longrightarrow> spec_quotas q r)"

definition valid_server :: "quantity_ops \<Rightarrow> mcp_server \<Rightarrow> bool" where
  "valid_server q s \<longleftrightarrow>
     (let sp = srv_Spec s in
      spec_registry (sp_Registry sp) \<and> spec_runtime (sp_Runtime sp) (sp_Transport sp) \<and>
      spec_resources q (sp_Resources sp) \<and>
      (\<forall>n. sp_Replicas sp = Some n \<longrightarrow> 0 \<le> n) \<and>
      (\<forall>a. sp_Autoscaling sp = Some a \<longrightarrow> spec_autoscaling a) \<and>
      (\<forall>t. sp_Tenancy sp = Some t \<longrightarrow> spec_tenancy q t))"

lemma validateRegistryInfo_iff: "validateRegistryInfo reg = None \<longleftrightarrow> spec_registry reg"
  by (cases reg) (auto simp: validateRegistryInfo_def spec_registry_def not_less)

lemma validateRuntimeSpec_iff: "validateRuntimeSpec rt tr = None \<longleftrightarrow> spec_runtime rt tr"
  by (cases rt; cases tr)
     (auto simp: validateRuntimeSpec_def spec_runtime_def valid_runtime_types_def Let_def)

lemma resource_entry_iff:
  "resource_entry_error q lt (n, v) = None \<longleftrightarrow> v \<noteq> [] \<and> parses q v"
  by (auto simp: resource_entry_error_def parses_def split: sum.splits)

lemma request_exceeds_iff:
  "request_exceeds q limits (n, v) = None \<longleftrightarrow>
     (\<forall>lim x y. gm_get limits n = Some lim \<longrightarrow> q_parse q v = Inr x \<longrightarrow> q_parse q lim = Inr y \<longrightarrow>
        q_cmp q x y \<le> 0)"
  by (auto simp: request_exceeds_def not_less split: option.splits sum.splits)

lemma validateResourceRequirements_iff:
  "validateResourceRequirements q r = None \<longleftrightarrow> spec_resources q r"
  by (simp add: validateResourceRequirements_def validateResourceList_def
      validateRequestsVsLimits_def spec_resources_def ball_Un split_beta
      resource_entry_iff[of q _ "fst kv" "snd kv" for kv, simplified]
      request_exceeds_iff[of q _ "fst kv" "snd kv" for kv, simplified] conj_assoc)

lemma validateAutoscalingSpec_iff: "validateAutoscalingSpec a = None \<longleftrightarrow> spec_autoscaling a"
  by (cases "as_HPA a"; cases "as_VPA a")
     (auto simp: validateAutoscalingSpec_def validate_hpa_def validate_vpa_def spec_autoscaling_def
       spec_hpa_def valid_vpa_modes_def not_less split: option.splits)

lemma quantity_not_positive_iff:
  "quantity_not_positive q v \<longleftrightarrow> \<not> (\<forall>x \<in> set_option v. \<not> q_is_zero q x \<and> 0 \<le> q_sign q x)"
  by (cases v) (auto simp: quantity_not_positive_def)

lemma count_not_positive_iff: "count_not_positive v \<longleftrightarrow> \<not> (\<forall>n \<in> set_option v. 0 < n)"
  by (cases v) (auto simp: count_not_positive_def)

lemma validateTenantResourceQuotas_iff: "validateTenantResourceQuotas q r = None \<longleftrightarrow> spec_quotas q r"
  by (simp add: validateTenantResourceQuotas_def spec_quotas_def quantity_not_positive_iff
      count_not_positive_iff ball_Un)

lemma validateIsolationLevel_iff:
  "validateIsolationLevel l = None \<longleftrightarrow> l \<in> {''None'', ''Namespace'', ''Node'', ''Strict''}"
  by (simp add: validateIsolationLevel_def IsolationLevelNone_def IsolationLevelNamespace_def
      IsolationLevelNode_def IsolationLevelStrict_def)

lemma validateTenancySpec_iff: "validateTenancySpec q t = None \<longleftrightarrow> spec_tenancy q t"
  by (simp add: validateTenancySpec_def spec_tenancy_def validateIsolationLevel_iff
      validateTenantResourceQuotas_iff split: option.splits)

text \<open>C8 \<open>ValidateMCPServer\<close> accepts exactly the valid servers: a named registry, a known runtime
  type with an image for docker and a port in range unless the transport is stdio, resources that
  parse with no request above its limit, consistent replicas and autoscaling bounds, and a
  tenancy with an identifier, a known isolation level and positive quotas.\<close>

theorem ValidateMCPServer_accepts_iff: "ValidateMCPServer q s = None \<longleftrightarrow> valid_server q s"
  by (simp add: ValidateMCPServer_def valid_server_def Let_def validateRegistryInfo_iff
      validateRuntimeSpec_iff validateResourceRequirements_iff validateAutoscalingSpec_iff
      validateTenancySpec_iff split: option.splits) (auto simp: not_less)

subsection \<open>Quotas\<close>

text \<open>
  The documented behaviour of \<open>resource.Quantity\<close>: comparison and addition are those of the
  values, \<open>Set\<close> stores a whole number, \<open>Value\<close> rounds up to one.
\<close>

definition ceil_units :: "int \<Rightarrow> int" where
  "ceil_units n = - ((- n) div 1000000000)"

definition quantity_laws :: "quantity_ops \<Rightarrow> bool" where
  "quantity_laws q \<longleftrightarrow>
     (\<forall>a b. (q_cmp q a b > 0) = (fst a > fst b)) \<and>
     (\<forall>a b. fst (q_add q a b) = fst a + fst b) \<and>
     (\<forall>a n. fst (q_set q a n) = n * 1000000000) \<and>
     (\<forall>a. \<bar>ceil_units (fst a)\<bar> < 2 ^ 63 \<longrightarrow> q_value q a = ceil_units (fst a))"

lemma ceil_units_upper: "n \<le> ceil_units n * 1000000000"
proof -
  have "(- n) div 1000000000 * 1000000000 \<le> - n"
    using div_mult_mod_eq[of "- n" "1000000000 :: int"] pos_mod_sign[of "1000000000 :: int" "- n"]
    by linarith
  then show ?thesis by (simp add: ceil_units_def)
qed

definition usage_nanos :: "string \<Rightarrow> pod list \<Rightarrow> int" where
  "usage_nanos res pods =
     sum_list (map (\<lambda>req. case gm_get req res of None \<Rightarrow> 0 | Some v \<Rightarrow> fst v)
       (concat (map pod_Requests (running pods))))"

lemma sum_requests_nanos:
  assumes "quantity_laws q"
  shows "fst (sum_requests q res pods) = usage_nanos res pods"
proof -
  have "fst (fold (\<lambda>req acc. case gm_get req res of None \<Rightarrow> acc | Some v \<Rightarrow> q_add q acc v) rs acc) =
          fst acc + sum_list (map (\<lambda>req. case gm_get req res of None \<Rightarrow> 0 | Some v \<Rightarrow> fst v) rs)" for rs acc
    using assms by (induction rs arbitrary: acc) (auto simp: quantity_laws_def split: option.splits)
  then show ?thesis by (simp add: sum_requests_def usage_nanos_def zero_quantity_def)
qed

text \<open>What the server requests of a resource, per replica, in nano-units.\<close>

definition request_nanos :: "quantity_ops \<Rightarrow> string \<Rightarrow> mcp_server \<Rightarrow> int" where
  "request_nanos q res s =
     (case gm_get (rq_Requests (sp_Resources (srv_Spec s))) res of
        None \<Rightarrow> 0
      | Some str \<Rightarrow> (case q_parse q str of Inl _ \<Rightarrow> 0 | Inr v \<Rightarrow> fst v))"

definition replica_count :: "mcp_server \<Rightarrow> int" where
  "replica_count s = (case sp_Replicas (srv_Spec s) of None \<Rightarrow> 1 | Some n \<Rightarrow> n)"

lemma requested_total_nanos:
  assumes "quantity_laws q" and "\<bar>ceil_units (request_nanos q res s)\<bar> < 2 ^ 63"
    and "\<bar>ceil_units (request_nanos q res s) * replica_count s\<bar> < 2 ^ 63"
  shows "fst (requested_total q res s) =
           ceil_units (request_nanos q res s) * replica_count s * 1000000000"
  using assms
  by (auto simp: requested_total_def request_nanos_def replica_count_def quantity_laws_def Let_def
      zero_quantity_def to_i64_id split: option.splits sum.splits)

text \<open>The CPU quota check accepts a server exactly when the CPU requests of the tenant's running
  pods, together with the server's own request rounded up to whole CPUs and multiplied by its
  replicas, stay within the quota.\<close>

theorem cpu_quota_accepts_iff:
  assumes "quantity_laws q"
    and "list_pods pc tid (srv_Namespace s) w = (Inr pods, w')"
    and "\<bar>ceil_units (request_nanos q ''cpu'' s)\<bar> < 2 ^ 63"
    and "\<bar>ceil_units (request_nanos q ''cpu'' s) * replica_count s\<bar> < 2 ^ 63"
  shows "fst (validateCPUQuota q pc tid s quota w) = None \<longleftrightarrow>
           usage_nanos ''cpu'' pods
             + ceil_units (request_nanos q ''cpu'' s) * replica_count s * 1000000000 \<le> fst quota"
proof -
  have "fst (validateCPUQuota q pc tid s quota w) =
          over_quota q ''CPU'' (requested_total q ''cpu'' s) (sum_requests q ''cpu'' pods) quota"
    using assms(2) by (simp add: validateCPUQuota_def getTenantCPUUsage_def)
  moreover have "q_cmp q a b > 0 \<longleftrightarrow> fst a > fst b" "fst (q_add q a b) = fst a + fst b" for a b
    using assms(1) unfolding quantity_laws_def by blast+
  ultimately show ?thesis
    by (simp add: over_quota_def Let_def requested_total_nanos[OF assms(1,3,4)]
        sum_requests_nanos[OF assms(1)] not_less)
qed

text \<open>The pod quota check works in \<open>int32\<close>: it accepts a server exactly when its replicas fit
  beside the running pods, or when the sum is so large that it wraps to a negative number.\<close>

theorem pod_quota_accepts_iff:
  assumes "list_pods pc tid (srv_Namespace s) w = (Inr pods, w')"
    and "int (length (running pods)) < 2 ^ 31"
    and "0 \<le> replica_count s" and "replica_count s < 2 ^ 31" and "0 < quota" and "quota < 2 ^ 31"
  shows "fst (validatePodQuota pc tid s quota w) = None \<longleftrightarrow>
           int (length (running pods)) + replica_count s \<le> quota \<or>
           2 ^ 31 \<le> int (length (running pods)) + replica_count s"
proof -
  let ?n = "int (length (running pods))"
  have run: "fst (validatePodQuota pc tid s quota w) =
               count_over ''pod'' (replica_count s) ?n quota"
    using assms(1,2) by (simp add: validatePodQuota_def getTenantPodCount_def replica_count_def to_i32_id)
  show ?thesis
  proof (cases "?n + replica_count s < 2 ^ 31")
    case True
    then have "to_i32 (?n + replica_count s) = ?n + replica_count s"
      using assms(3) by (intro to_i32_id) simp_all
    with True run show ?thesis by (auto simp: count_over_def Let_def not_less)
  next
    case False
    then have "to_i32 (?n + replica_count s) = ?n + replica_count s - 2 ^ 32"
      using assms by (intro to_i32_above) simp_all
    with False run assms show ?thesis by (auto simp: count_over_def Let_def not_less)
  qed
qed

subsection \<open>DNS labels\<close>

text \<open>On ASCII text \<open>isValidDNSLabel\<close> is the usual rule: 1 to 63 letters, digits and hyphens,
  the first and the last of them no hyphen; upper-case letters are let through.\<close>

theorem isValidDNSLabel_ascii:
  assumes "\<forall>c \<in> set s. byte_of c < 128"
  shows "isValidDNSLabel s \<longleftrightarrow>
           1 \<le> length s \<and> length s \<le> 63 \<and> isAlphaNumeric (byte_of (hd s)) \<and>
           isAlphaNumeric (byte_of (last s)) \<and>
           (\<forall>c \<in> set s. isAlphaNumeric (byte_of c) \<or> c = CHR ''-'')"
proof -
  have "runes s = map byte_of s" using assms by (intro runes_ascii) auto
  moreover have "byte_of c mod 256 = byte_of c" if "c \<in> set s" for c using assms that by auto
  moreover have "byte_of c = byte_of (CHR ''-'') \<longleftrightarrow> c = CHR ''-''" for c
    by (metis byte_of_def char_of_char)
  ultimately show ?thesis
    by (auto simp: isValidDNSLabel_def list_all_iff Suc_le_eq)
qed

text \<open>Beyond ASCII the check is too weak: it truncates each rune to a byte, so the label
  \<open>a\<close>, U+0161, \<open>z\<close> is accepted although U+0161 is neither a letter of a DNS label nor a hyphen.\<close>

theorem isValidDNSLabel_truncates_runes:
  "isValidDNSLabel [CHR ''a'', CHR 0xC5, CHR 0xA1, CHR ''z''] \<and>
   runes [CHR ''a'', CHR 0xC5, CHR 0xA1, CHR ''z''] = [97, 0x161, 122]"
  by code_simp

lemma isValidDNSLabel_ascii_witness: "\<not> isValidDNSLabel ''team-'' \<and> isValidDNSLabel ''team-A''"
  using isValidDNSLabel_ascii[of "''team-''"] isValidDNSLabel_ascii[of "''team-A''"]
  by (simp add: byte_of_def isAlphaNumeric_def)

section \<open>A concrete quantity\<close>

text \<open>Quantities whose notation is a small table.\<close>

definition milli_ops :: quantity_ops where
  "milli_ops = \<lparr>
     q_parse = (\<lambda>s. if s = ''100m'' then Inr (100000000, ''m'')
                    else if s = ''500m'' then Inr (500000000, ''m'')
                    else if s = ''2'' then Inr (2000000000, [])
                    else if s = ''128Mi'' then Inr (134217728000000000, ''Mi'')
                    else if s = ''512Mi'' then Inr (536870912000000000, ''Mi'')
                    else if s = ''4Gi'' then Inr (4294967296000000000, ''Gi'') else Inl ''quantities must match''),
     q_cmp = (\<lambda>a b. fst a - fst b),
     q_add = (\<lambda>a b. (fst a + fst b, snd a)),
     q_value = (\<lambda>a. ceil_units (fst a)),
     q_set = (\<lambda>a n. (n * 1000000000, snd a)),
     q_sign = (\<lambda>a. sgn (fst a)),
     q_is_zero = (\<lambda>a. fst a = 0),
     q_string = (\<lambda>a. show_int (fst a) @ ''n'')\<rparr>"

lemma milli_ops_laws: "quantity_laws milli_ops"
  by (simp add: quantity_laws_def milli_ops_def)

definition sample_requesting :: "string \<Rightarrow> int \<Rightarrow> mcp_server" where
  "sample_requesting cpu n =
     zero_server\<lparr>srv_Spec := zero_spec\<lparr>sp_Replicas := Some n,
       sp_Resources := \<lparr>rq_Limits = None, rq_Requests = Some [(''cpu'', cpu)]\<rparr>\<rparr>\<rparr>"

lemma sample_requesting_simps:
  "request_nanos milli_ops ''cpu'' (sample_requesting ''100m'' n) = 100000000"
  "replica_count (sample_requesting c n) = n"
  by (simp_all add: request_nanos_def replica_count_def sample_requesting_def milli_ops_def gm_get_def)

lemma list_pods_static:
  "list_pods (Some (static_api xs)) tid ns w = (Inr xs, w)"
  by (simp add: list_pods_def k_List_def static_api_def)

text \<open>Three replicas of a tenth of a CPU do not fit a quota of one CPU.\<close>

lemma cpu_quota_accepts_iff_witness:
  "fst (validateCPUQuota milli_ops (Some (static_api [])) ''acme'' (sample_requesting ''100m'' 3)
     (1000000000, []) ()) \<noteq> None"
  using cpu_quota_accepts_iff[OF milli_ops_laws list_pods_static[of "[]"], where tid = "''acme''"
      and s = "sample_requesting ''100m'' 3" and w = "()" and quota = "(1000000000, [])"]
  by (simp add: sample_requesting_simps usage_nanos_def running_def ceil_units_def)

text \<open>A server of 2147483647 replicas passes a quota of 10 pods when one pod is running.\<close>

lemma pod_quota_accepts_iff_witness:
  "fst (validatePodQuota (Some (static_api [\<lparr>pod_Phase = ''Running'', pod_Requests = []\<rparr>])) ''acme''
     (sample_requesting ''100m'' 2147483647) 10 ()) = None"
  using pod_quota_accepts_iff[OF list_pods_static[of "[\<lparr>pod_Phase = ''Running'', pod_Requests = []\<rparr>]"],
      where quota = 10 and s = "sample_requesting ''100m'' 2147483647" and tid = "''acme''" and w = "()"]
  by (simp add: sample_requesting_simps running_def)

end
