(* ===== verification/Webhook.thy ===== *)
theory Webhook
  imports Validation
begin

section \<open>The admission webhooks\<close>

text \<open>
  \<open>pkg/webhook/mcpserver_webhook.go\<close>: the mutating webhook, which fills in defaults, and the
  validating webhook, which collects the field errors of a server. JSON and the text of an
  aggregated error list belong to libraries and are parameters of the two handlers.
\<close>

datatype field_value = VString string | VInt int | VBool bool

datatype field_error =
    Required (fe_path: string) (fe_detail: string)
  | Invalid (fe_path: string) field_value (fe_detail: string)

definition err_if :: "bool \<Rightarrow> field_error \<Rightarrow> field_error list" where
  "err_if b e = (if b then [e] else [])"

lemma err_if_Nil [simp]: "err_if b e = [] \<longleftrightarrow> \<not> b"
  by (simp add: err_if_def)

definition trustedRegistries :: "string list" where
  "trustedRegistries = [''docker.io'', ''ghcr.io'', ''quay.io'', ''gcr.io'', ''registry.k8s.io'']"

text \<open>\<open>resource.MustParse\<close> of a constant; the program does not start when it fails.\<close>

definition must_parse :: "quantity_ops \<Rightarrow> string \<Rightarrow> quantity" where
  "must_parse q s = (case q_parse q s of Inr v \<Rightarrow> v | Inl _ \<Rightarrow> zero_quantity)"

definition maxCPU :: "quantity_ops \<Rightarrow> quantity" where "maxCPU q = must_parse q ''2''"
definition maxMemory :: "quantity_ops \<Rightarrow> quantity" where "maxMemory q = must_parse q ''4Gi''"

subsection \<open>The validating webhook\<close>

definition wh_validateRegistryInfo :: "mcp_server \<Rightarrow> field_error list" where
  "wh_validateRegistryInfo s =
     (case sp_Registry (srv_Spec s) of
        None \<Rightarrow> [Required ''spec.registry'' ''registry information is required'']
      | Some r \<Rightarrow>
          if rr_Name r = [] then [Required ''spec.registry.name'' ''registry name is required'']
          else err_if (length (rr_Name r) > 253)
                 (Invalid ''spec.registry.name'' (VString (rr_Name r))
                    ''registry name cannot be longer than 253 characters'')
             @ err_if (rr_ServerName r \<noteq> [] \<and> length (rr_ServerName r) > 253)
                 (Invalid ''spec.registry.serverName'' (VString (rr_ServerName r))
                    ''registry serverName cannot be longer than 253 characters''))"

definition wh_validateImageSecurity :: "mcp_server \<Rightarrow> field_error list" where
  "wh_validateImageSecurity s =
     (case sp_Runtime (srv_Spec s) of
        None \<Rightarrow> []
      | Some rt \<Rightarrow>
          if rt_Type rt \<noteq> ''docker'' then []
          else
            (let image = rt_Image rt;
                 registrySpecified =
                   (case sp_Registry (srv_Spec s) of None \<Rightarrow> False | Some r \<Rightarrow> rr_Name r \<noteq> []) in
             if image = [] then
               err_if (\<not> registrySpecified)
                 (Required ''spec.runtime.image''
                    ''image is required for docker runtime when registry is not specified'')
             else
               err_if (\<not> list_ex (has_prefix image) trustedRegistries)
                 (Invalid ''spec.runtime.image'' (VString image)
                    (''image must be from trusted registry: ['' @ join '' '' trustedRegistries @ '']''))
             @ err_if (has_suffix image '':latest'')
                 (Invalid ''spec.runtime.image'' (VString image)
                    (''using '' @ [CHR 0x27] @ ''latest'' @ [CHR 0x27] @
                       '' tag is not recommended for production''))))"

definition limit_exceeds ::
  "quantity_ops \<Rightarrow> resource_list \<Rightarrow> string \<Rightarrow> string \<Rightarrow> quantity \<Rightarrow> field_error list" where
  "limit_exceeds q limits key label bound =
     (case gm_get limits key of
        None \<Rightarrow> []
      | Some str \<Rightarrow>
          (case q_parse q str of
             Inl _ \<Rightarrow> []
           | Inr v \<Rightarrow>
               err_if (q_cmp q v bound > 0)
                 (Invalid (''spec.resources.limits.'' @ key) (VString str)
                    (label @ '' limit cannot exceed '' @ q_string q bound))))"

definition wh_validateResourceLimits :: "quantity_ops \<Rightarrow> mcp_server \<Rightarrow> field_error list" where
  "wh_validateResourceLimits q s =
     (let limits = rq_Limits (sp_Resources (srv_Spec s)) in
      if limits = None then [Required ''spec.resources.limits'' ''resource limits are required'']
      else limit_exceeds q limits ''cpu'' ''CPU'' (maxCPU q)
         @ limit_exceeds q limits ''memory'' ''Memory'' (maxMemory q))"

definition wh_validateReplicas :: "mcp_server \<Rightarrow> field_error list" where
  "wh_validateReplicas s =
     (case sp_Replicas (srv_Spec s) of
        None \<Rightarrow> []
      | Some n \<Rightarrow>
          err_if (n < 0) (Invalid ''spec.replicas'' (VInt n) ''replicas cannot be negative'')
        @ err_if (n > 10)
            (Invalid ''spec.replicas'' (VInt n) ''replicas cannot exceed 10 for security reasons''))"

definition wh_validateSecurityContext :: "mcp_server \<Rightarrow> field_error list" where
  "wh_validateSecurityContext s =
     (case sp_SecurityContext (srv_Spec s) of
        None \<Rightarrow> []
      | Some sc \<Rightarrow>
          (case sc_RunAsUser sc of
             None \<Rightarrow> []
           | Some u \<Rightarrow> err_if (u = 0) (Invalid ''spec.securityContext.runAsUser'' (VInt u)
                                     ''running as root (UID 0) is not allowed''))
        @ (case sc_RunAsNonRoot sc of
             None \<Rightarrow> []
           | Some b \<Rightarrow> err_if (\<not> b) (Invalid ''spec.securityContext.runAsNonRoot'' (VBool b)
                                     ''runAsNonRoot must be true'')))"

definition wh_validateTenantConfiguration :: "mcp_server \<Rightarrow> field_error list" where
  "wh_validateTenantConfiguration s =
     (case sp_Tenancy (srv_Spec s) of
        None \<Rightarrow> []
      | Some t \<Rightarrow>
          (if ten_TenantID t = []
           then [Required ''spec.tenancy.tenantId'' ''tenant ID is required when tenancy is configured'']
           else err_if (length (ten_TenantID t) > 63)
                  (Invalid ''spec.tenancy.tenantId'' (VString (ten_TenantID t))
                     ''tenant ID cannot exceed 63 characters''))
        @ (case ten_ResourceQuotas t of
             None \<Rightarrow> []
           | Some quotas \<Rightarrow>
               (case trq_Pods quotas of
                  None \<Rightarrow> []
                | Some n \<Rightarrow> err_if (n \<le> 0) (Invalid ''spec.tenancy.resourceQuotas.pods'' (VInt n)
                                          ''pod quota must be positive''))
             @ (case trq_Services quotas of
                  None \<Rightarrow> []
                | Some n \<Rightarrow> err_if (n \<le> 0) (Invalid ''spec.tenancy.resourceQuotas.services'' (VInt n)
                                          ''service quota must be positive''))))"

definition wh_validateMCPServer :: "quantity_ops \<Rightarrow> mcp_server \<Rightarrow> field_error list" where
  "wh_validateMCPServer q s =
     wh_validateRegistryInfo s @ wh_validateImageSecurity s @ wh_validateResourceLimits q s
     @ wh_validateReplicas s @ wh_validateSecurityContext s @ wh_validateTenantConfiguration s"

subsection \<open>The mutating webhook\<close>

definition default_port :: "port_spec \<Rightarrow> port_spec" where
  "default_port p =
     (let p1 = (if ps_TargetPort p = 0 then p\<lparr>ps_TargetPort := ps_Port p\<rparr> else p)
      in if ps_Protocol p1 = [] then p1\<lparr>ps_Protocol := ''TCP''\<rparr> else p1)"

definition default_registry :: "string \<Rightarrow> registry_ref option \<Rightarrow> registry_ref" where
  "default_registry own reg =
     (let r = (case reg of None \<Rightarrow> zero_registry_ref | Some r \<Rightarrow> r);
          r1 = (if rr_ServerName r = [] then r\<lparr>rr_ServerName := own\<rparr> else r)
      in if rr_Name r1 = [] then r1\<lparr>rr_Name := ''default-registry''\<rparr> else r1)"

definition default_transport :: "transport_spec \<Rightarrow> transport_spec" where
  "default_transport t =
     (if tr_Type t \<noteq> [] \<and> tr_Path t = [] then t\<lparr>tr_Path := ''/mcp''\<rparr> else t)"

definition default_security_context :: security_context where
  "default_security_context = \<lparr>sc_RunAsUser = Some 1000, sc_RunAsGroup = None,
     sc_RunAsNonRoot = Some True, sc_Other = []\<rparr>"

definition default_resources :: "resource_requirements \<Rightarrow> resource_requirements" where
  "default_resources r = \<lparr>
     rq_Limits = (if rq_Limits r = None
        then gm_put ''memory'' ''512Mi'' (gm_put ''cpu'' ''500m'' (Some [])) else rq_Limits r),
     rq_Requests = (if rq_Requests r = None
        then gm_put ''memory'' ''128Mi'' (gm_put ''cpu'' ''100m'' (Some [])) else rq_Requests r)\<rparr>"

definition default_runtime :: "runtime_spec \<Rightarrow> runtime_spec" where
  "default_runtime rt = (if rt_Port rt = 0 then rt\<lparr>rt_Port := 8080\<rparr> else rt)"

definition default_tenancy :: "tenancy_spec \<Rightarrow> tenancy_spec" where
  "default_tenancy t =
     (if ten_IsolationLevel t = [] then t\<lparr>ten_IsolationLevel := IsolationLevelNamespace\<rparr> else t)"

definition setDefaults :: "mcp_server \<Rightarrow> mcp_server" where
  "setDefaults s =
     (let sp = srv_Spec s in
      s\<lparr>srv_Spec := sp\<lparr>
        sp_Registry := Some (default_registry (srv_Name s) (sp_Registry sp)),
        sp_Ports := map default_port (sp_Ports sp),
        sp_Transport := map_option default_transport (sp_Transport sp),
        sp_Replicas := (case sp_Replicas sp of None \<Rightarrow> Some 1 | Some n \<Rightarrow> Some n),
        sp_Runtime := map_option default_runtime (sp_Runtime sp),
        sp_ServiceType := (if sp_ServiceType sp = [] then ''ClusterIP'' else sp_ServiceType sp),
        sp_SecurityContext := (case sp_SecurityContext sp of
           None \<Rightarrow> Some default_security_context | Some c \<Rightarrow> Some c),
        sp_Resources := default_resources (sp_Resources sp),
        sp_Tenancy := map_option default_tenancy (sp_Tenancy sp)\<rparr>\<rparr>)"

subsection \<open>The handlers\<close>

datatype response =
    Errored int string
  | Denied string
  | Allowed
  | Patched string string

definition validator_Handle ::
  "quantity_ops \<Rightarrow> (string \<Rightarrow> string + mcp_server) \<Rightarrow> (field_error list \<Rightarrow> string) \<Rightarrow> string \<Rightarrow> response"
where
  "validator_Handle q unmarshal aggregate raw =
     (case unmarshal raw of
        Inl e \<Rightarrow> Errored 400 e
      | Inr s \<Rightarrow>
          (let errs = wh_validateMCPServer q s in
           if length errs > 0 then Denied (aggregate errs) else Allowed))"

definition defaulter_Handle ::
  "(string \<Rightarrow> string + mcp_server) \<Rightarrow> (mcp_server \<Rightarrow> string + string) \<Rightarrow> string \<Rightarrow> response" where
  "defaulter_Handle unmarshal marshal raw =
     (case unmarshal raw of
        Inl e \<Rightarrow> Errored 400 e
      | Inr s \<Rightarrow>
          (case marshal (setDefaults s) of
             Inl e \<Rightarrow> Errored 500 e
           | Inr out \<Rightarrow> Patched raw out))"

section \<open>Correctness\<close>

subsection \<open>What is admitted\<close>

definition trusted_image :: "string \<Rightarrow> bool" where
  "trusted_image img \<longleftrightarrow>
     (\<exists>host rest. host \<in> {''docker.io'', ''ghcr.io'', ''quay.io'', ''gcr.io'', ''registry.k8s.io''} \<and>
        img = host @ rest) \<and> (\<nexists>name. img = name @ '':latest'')"

definition spec_image :: "mcp_server \<Rightarrow> bool" where
  "spec_image s \<longleftrightarrow>
     (\<forall>rt. sp_Runtime (srv_Spec s) = Some rt \<longrightarrow> rt_Type rt = ''docker'' \<longrightarrow>
        (if rt_Image rt = []
         then \<exists>r. sp_Registry (srv_Spec s) = Some r \<and> rr_Name r \<noteq> []
         else trusted_image (rt_Image rt)))"

definition within :: "quantity_ops \<Rightarrow> resource_list \<Rightarrow> string \<Rightarrow> quantity \<Rightarrow> bool" where
  "within q limits key bound \<longleftrightarrow>
     (\<forall>str v. gm_get limits key = Some str \<longrightarrow> q_parse q str = Inr v \<longrightarrow> q_cmp q v bound \<le> 0)"

definition spec_limits :: "quantity_ops \<Rightarrow> resource_list \<Rightarrow> bool" where
  "spec_limits q limits \<longleftrightarrow>
     within q limits ''cpu'' (maxCPU q) \<and> within q limits ''memory'' (maxMemory q)"

definition spec_security :: "mcp_server \<Rightarrow> bool" where
  "spec_security s \<longleftrightarrow>
     (\<forall>n. sp_Replicas (srv_Spec s) = Some n \<longrightarrow> 0 \<le> n \<and> n \<le> 10) \<and>
     (\<forall>c. sp_SecurityContext (srv_Spec s) = Some c \<longrightarrow>
        sc_RunAsUser c \<noteq> Some 0 \<and> sc_RunAsNonRoot c \<noteq> Some False) \<and>
     (\<forall>t. sp_Tenancy (srv_Spec s) = Some t \<longrightarrow>
        ten_TenantID t \<noteq> [] \<and> length (ten_TenantID t) \<le> 63 \<and>
        (\<forall>r. ten_ResourceQuotas t = Some r \<longrightarrow>
           (\<forall>n \<in> set_option (trq_Pods r) \<union> set_option (trq_Services r). 0 < n)))"

definition spec_names :: "mcp_server \<Rightarrow> bool" where
  "spec_names s \<longleftrightarrow>
     (\<exists>r. sp_Registry (srv_Spec s) = Some r \<and> rr_Name r \<noteq> [] \<and> length (rr_Name r) \<le> 253 \<and>
        length (rr_ServerName r) \<le> 253)"

lemma wh_validateRegistryInfo_iff: "wh_validateRegistryInfo s = [] \<longleftrightarrow> spec_names s"
  by (cases "sp_Registry (srv_Spec s)")
     (auto simp: wh_validateRegistryInfo_def spec_names_def not_less)

lemma list_ex_trusted:
  "list_ex (has_prefix img) trustedRegistries \<and> \<not> has_suffix img '':latest'' \<longleftrightarrow> trusted_image img"
proof -
  have "list_ex (has_prefix img) hosts \<longleftrightarrow> (\<exists>host rest. host \<in> set hosts \<and> img = host @ rest)" for hosts
    by (auto simp: list_ex_iff has_prefix_iff)
  moreover have "set trustedRegistries =
      {''docker.io'', ''ghcr.io'', ''quay.io'', ''gcr.io'', ''registry.k8s.io''}"
    unfolding trustedRegistries_def by (simp only: list.set)
  ultimately show ?thesis by (simp only: trusted_image_def has_suffix_iff not_ex)
qed

lemma wh_validateImageSecurity_iff: "wh_validateImageSecurity s = [] \<longleftrightarrow> spec_image s"
  by (cases "sp_Runtime (srv_Spec s)"; cases "sp_Registry (srv_Spec s)")
     (auto simp: wh_validateImageSecurity_def spec_image_def Let_def list_ex_trusted[symmetric])

lemma limit_exceeds_iff: "limit_exceeds q limits key label bound = [] \<longleftrightarrow> within q limits key bound"
  by (auto simp: limit_exceeds_def within_def not_less split: option.splits sum.splits)

lemma wh_validateResourceLimits_iff:
  "wh_validateResourceLimits q s = [] \<longleftrightarrow>
     rq_Limits (sp_Resources (srv_Spec s)) \<noteq> None \<and> spec_limits q (rq_Limits (sp_Resources (srv_Spec s)))"
  by (simp add: wh_validateResourceLimits_def Let_def limit_exceeds_iff spec_limits_def)

lemma wh_rest_iff:
  "wh_validateReplicas s @ wh_validateSecurityContext s @ wh_validateTenantConfiguration s = []
     \<longleftrightarrow> spec_security s"
  unfolding spec_security_def wh_validateReplicas_def wh_validateSecurityContext_def
    wh_validateTenantConfiguration_def
  by (auto simp: not_less not_le split: option.splits if_splits)

text \<open>C9 The validating webhook admits exactly the servers that name a registry, run an image of a
  trusted registry and not \<open>:latest\<close> (or none, with a registry to take it from), state limits
  of at most 2 CPUs and 4Gi, and keep the replica, root-user and tenancy rules.\<close>

theorem webhook_admits_iff:
  "validator_Handle q unmarshal aggregate raw = Allowed \<longleftrightarrow>
     (\<exists>s. unmarshal raw = Inr s \<and> spec_names s \<and> spec_image s \<and>
        rq_Limits (sp_Resources (srv_Spec s)) \<noteq> None \<and>
        spec_limits q (rq_Limits (sp_Resources (srv_Spec s))) \<and> spec_security s)"
proof -
  have "wh_validateMCPServer q s = [] \<longleftrightarrow>
          spec_names s \<and> spec_image s \<and> rq_Limits (sp_Resources (srv_Spec s)) \<noteq> None \<and>
          spec_limits q (rq_Limits (sp_Resources (srv_Spec s))) \<and> spec_security s" for s
    unfolding wh_validateMCPServer_def append_is_Nil_conv[of "wh_validateRegistryInfo s"]
      append_is_Nil_conv[of "wh_validateImageSecurity s"]
      append_is_Nil_conv[of "wh_validateResourceLimits q s"] wh_rest_iff
      wh_validateRegistryInfo_iff wh_validateImageSecurity_iff wh_validateResourceLimits_iff
    by blast
  then show ?thesis by (auto simp: validator_Handle_def Let_def split: sum.splits)
qed

text \<open>The trusted-registry check compares a prefix of the image, not its host: an image of any
  host whose name merely starts with a trusted one passes it.\<close>

theorem trusted_prefix_is_not_a_host:
  assumes "sp_Runtime (srv_Spec s) = Some rt" and "rt_Type rt = ''docker''"
    and "rt_Image rt = ''docker.io.'' @ domain @ ''/'' @ repo" and "\<not> has_suffix repo '':latest''"
    and "7 \<le> length repo"
  shows "wh_validateImageSecurity s = []"
proof -
  have "\<not> has_suffix (rt_Image rt) '':latest''"
    using assms(4,5) has_suffix_append[of "'':latest''" repo "''docker.io.'' @ domain @ ''/''"]
    by (simp add: assms(3))
  moreover have "has_prefix (rt_Image rt) ''docker.io''"
    using assms(3) by (simp add: has_prefix_def)
  ultimately show ?thesis
    using assms(1-3) by (simp add: wh_validateImageSecurity_def trustedRegistries_def Let_def)
qed

lemma trusted_prefix_is_not_a_host_witness:
  "wh_validateImageSecurity (zero_server\<lparr>srv_Spec := zero_spec\<lparr>sp_Runtime :=
     Some (zero_runtime\<lparr>rt_Type := ''docker'',
       rt_Image := ''docker.io.'' @ ''evil.example'' @ ''/'' @ ''miner:1.0''\<rparr>)\<rparr>\<rparr>) = []"
  by (rule trusted_prefix_is_not_a_host[where domain = "''evil.example''" and repo = "''miner:1.0''",
        where rt = "zero_runtime\<lparr>rt_Type := ''docker'',
          rt_Image := ''docker.io.'' @ ''evil.example'' @ ''/'' @ ''miner:1.0''\<rparr>"])
     (simp_all add: zero_server_def has_suffix_def)

subsection \<open>What the defaults do\<close>

lemma default_port_idem [simp]: "default_port (default_port p) = default_port p"
  by (simp add: default_port_def Let_def)

lemma default_registry_idem [simp]:
  "default_registry own (Some (default_registry own reg)) = default_registry own reg"
  by (simp add: default_registry_def Let_def)

lemma default_transport_idem [simp]: "default_transport (default_transport t) = default_transport t"
  by (simp add: default_transport_def)

lemma default_resources_idem [simp]: "default_resources (default_resources r) = default_resources r"
  by (simp add: default_resources_def)

lemma default_runtime_simps [simp]:
  "default_runtime (default_runtime rt) = default_runtime rt"
  "rt_Type (default_runtime rt) = rt_Type rt" "rt_Image (default_runtime rt) = rt_Image rt"
  by (simp_all add: default_runtime_def)

lemma default_tenancy_simps [simp]:
  "default_tenancy (default_tenancy t) = default_tenancy t"
  "ten_TenantID (default_tenancy t) = ten_TenantID t"
  "ten_ResourceQuotas (default_tenancy t) = ten_ResourceQuotas t"
  by (simp_all add: default_tenancy_def IsolationLevelNamespace_def)

text \<open>Defaulting is idempotent: a second pass of the mutating webhook changes nothing.\<close>

theorem setDefaults_idempotent: "setDefaults (setDefaults s) = setDefaults s"
  by (simp add: setDefaults_def Let_def option.map_comp comp_def split: option.splits)

text \<open>A defaulted server is admitted exactly when what its author wrote is in order: the
  defaults themselves never cause a denial, and never hide what the author got wrong.\<close>

theorem defaulted_server_admitted_iff:
  assumes "q_parse q ''500m'' = Inr c" and "q_cmp q c (maxCPU q) \<le> 0"
    and "q_parse q ''512Mi'' = Inr m" and "q_cmp q m (maxMemory q) \<le> 0"
  shows "wh_validateMCPServer q (setDefaults s) = [] \<longleftrightarrow>
     length (ref_server (srv_Name s) (default_registry (srv_Name s) (sp_Registry (srv_Spec s)))) \<le> 253 \<and>
     length (rr_Name (default_registry (srv_Name s) (sp_Registry (srv_Spec s)))) \<le> 253 \<and>
     (\<forall>rt. sp_Runtime (srv_Spec s) = Some rt \<longrightarrow> rt_Type rt = ''docker'' \<longrightarrow> rt_Image rt \<noteq> [] \<longrightarrow>
        trusted_image (rt_Image rt)) \<and>
     spec_limits q (rq_Limits (sp_Resources (srv_Spec s))) \<and> spec_security s"
proof -
  have names: "spec_names (setDefaults s) \<longleftrightarrow>
      length (ref_server (srv_Name s) (default_registry (srv_Name s) (sp_Registry (srv_Spec s)))) \<le> 253 \<and>
      length (rr_Name (default_registry (srv_Name s) (sp_Registry (srv_Spec s)))) \<le> 253"
    by (auto simp: spec_names_def setDefaults_def Let_def default_registry_def ref_server_def)
  have image: "spec_image (setDefaults s) \<longleftrightarrow>
      (\<forall>rt. sp_Runtime (srv_Spec s) = Some rt \<longrightarrow> rt_Type rt = ''docker'' \<longrightarrow> rt_Image rt \<noteq> [] \<longrightarrow>
        trusted_image (rt_Image rt))"
    by (auto simp: spec_image_def setDefaults_def Let_def default_registry_def)
  have limits: "spec_limits q (rq_Limits (sp_Resources (srv_Spec (setDefaults s)))) \<longleftrightarrow>
      spec_limits q (rq_Limits (sp_Resources (srv_Spec s)))"
    using assms
    by (auto simp: setDefaults_def Let_def default_resources_def spec_limits_def within_def)
  have sec: "spec_security (setDefaults s) \<longleftrightarrow> spec_security s"
    by (auto simp: spec_security_def setDefaults_def Let_def default_security_context_def
        split: option.splits if_splits)
  have given: "rq_Limits (sp_Resources (srv_Spec (setDefaults s))) \<noteq> None"
    by (simp add: setDefaults_def Let_def default_resources_def gm_put_def)
  show ?thesis
    unfolding wh_validateMCPServer_def append_is_Nil_conv[of "wh_validateRegistryInfo (setDefaults s)"]
      append_is_Nil_conv[of "wh_validateImageSecurity (setDefaults s)"]
      append_is_Nil_conv[of "wh_validateResourceLimits q (setDefaults s)"] wh_rest_iff
      wh_validateRegistryInfo_iff wh_validateImageSecurity_iff wh_validateResourceLimits_iff
    using names image limits sec given by blast
qed

lemma defaulted_server_admitted_iff_witness: "wh_validateMCPServer milli_ops (setDefaults zero_server) = []"
proof -
  have "q_parse milli_ops ''500m'' = Inr (500000000, ''m'')"
    "q_cmp milli_ops (500000000, ''m'') (maxCPU milli_ops) \<le> 0"
    "q_parse milli_ops ''512Mi'' = Inr (536870912000000000, ''Mi'')"
    "q_cmp milli_ops (536870912000000000, ''Mi'') (maxMemory milli_ops) \<le> 0"
    by (simp_all add: milli_ops_def maxCPU_def maxMemory_def must_parse_def)
  from defaulted_server_admitted_iff[OF this, of zero_server] show ?thesis
    by (simp add: zero_defs default_registry_def ref_server_def Let_def spec_limits_def within_def spec_security_def)
qed

text \<open>The defaults overrule the older \<open>registry\<close> field: a server that names its registry there
  only is sent to \<open>default-registry\<close> once the mutating webhook has seen it.\<close>

theorem deprecated_registry_overruled:
  assumes "sp_Registry (srv_Spec s) = Some r" and "rr_Name r = []"
  shows "\<exists>r'. sp_Registry (srv_Spec (setDefaults s)) = Some r' \<and> rr_Registry r' = rr_Registry r \<and>
           ref_registry r' = ''default-registry''"
  using assms by (simp add: setDefaults_def Let_def default_registry_def ref_registry_def)

lemma deprecated_registry_overruled_witness:
  "\<exists>r'. sp_Registry (srv_Spec (setDefaults (zero_server\<lparr>srv_Spec := zero_spec\<lparr>sp_Registry :=
        Some (zero_registry_ref\<lparr>rr_Registry := ''team''\<rparr>)\<rparr>\<rparr>))) = Some r' \<and>
     rr_Registry r' = rr_Registry (zero_registry_ref\<lparr>rr_Registry := ''team''\<rparr>) \<and>
     ref_registry r' = ''default-registry''"
  by (rule deprecated_registry_overruled) (simp_all add: zero_defs)

end
