(* ===== verification/CircuitBreaker.thy ===== *)
theory CircuitBreaker
  imports Prelude
begin

section \<open>The circuit breaker\<close>

text \<open>
  \<open>pkg/circuitbreaker/circuitbreaker.go\<close>. \<open>Call\<close> holds the breaker's mutex while it runs the
  function, so calls are atomic steps in some order. The guarded function is foreign code: what
  matters of it is whether it returns nil, returns an error or panics, and when. The record keeps
  the Prometheus counters and the list of state changes reported to the callback and the metrics.
\<close>

datatype cb_state = StateClosed | StateOpen | StateHalfOpen

fun cb_state_String :: "cb_state \<Rightarrow> string" where
  "cb_state_String StateClosed = ''closed''"
| "cb_state_String StateOpen = ''open''"
| "cb_state_String StateHalfOpen = ''half-open''"

record cb_config =
  cfg_Name :: string
  cfg_MaxFailures :: int
  cfg_Timeout :: duration
  cfg_MaxRequests :: int

record circuit_breaker =
  cb_config :: cb_config
  cb_state :: cb_state
  cb_failures :: int
  cb_requests :: int
  cb_lastFailureTime :: instant
  cb_rejected :: nat
  cb_failed :: nat
  cb_success :: nat
  cb_failure_total :: nat
  cb_changes :: "(cb_state \<times> cb_state) list"

definition NewCircuitBreaker :: "cb_config \<Rightarrow> circuit_breaker" where
  "NewCircuitBreaker c =
     (let c1 = (if cfg_MaxFailures c = 0 then c\<lparr>cfg_MaxFailures := 5\<rparr> else c);
          c2 = (if cfg_Timeout c1 = 0 then c1\<lparr>cfg_Timeout := 60 * time_Second\<rparr> else c1);
          c3 = (if cfg_MaxRequests c2 = 0 then c2\<lparr>cfg_MaxRequests := 1\<rparr> else c2);
          c4 = (if cfg_Name c3 = [] then c3\<lparr>cfg_Name := ''default''\<rparr> else c3)
      in \<lparr>cb_config = c4, cb_state = StateClosed, cb_failures = 0, cb_requests = 0,
          cb_lastFailureTime = 0, cb_rejected = 0, cb_failed = 0, cb_success = 0,
          cb_failure_total = 0, cb_changes = []\<rparr>)"

datatype cb_error = ErrCircuitBreakerOpen | ErrTooManyRequests

definition setState :: "cb_state \<Rightarrow> circuit_breaker \<Rightarrow> circuit_breaker" where
  "setState new cb =
     (if cb_state cb = new then cb
      else cb\<lparr>cb_state := new, cb_changes := (cb_state cb, new) # cb_changes cb\<rparr>)"

definition beforeRequest :: "instant \<Rightarrow> circuit_breaker \<Rightarrow> cb_error option \<times> circuit_breaker" where
  "beforeRequest now cb =
     (case cb_state cb of
        StateClosed \<Rightarrow> (None, cb)
      | StateOpen \<Rightarrow>
          if now - cb_lastFailureTime cb > cfg_Timeout (cb_config cb)
          then (None, (setState StateHalfOpen cb)\<lparr>cb_requests := 0\<rparr>)
          else (Some ErrCircuitBreakerOpen, cb)
      | StateHalfOpen \<Rightarrow>
          if cb_requests cb \<ge> cfg_MaxRequests (cb_config cb) then (Some ErrTooManyRequests, cb)
          else (None, cb\<lparr>cb_requests := cb_requests cb + 1\<rparr>))"

definition onFailure :: "instant \<Rightarrow> circuit_breaker \<Rightarrow> circuit_breaker" where
  "onFailure now cb0 =
     (let cb = cb0\<lparr>cb_failures := cb_failures cb0 + 1, cb_lastFailureTime := now,
                   cb_failure_total := cb_failure_total cb0 + 1\<rparr> in
      case cb_state cb of
        StateClosed \<Rightarrow>
          if cb_failures cb \<ge> cfg_MaxFailures (cb_config cb) then setState StateOpen cb else cb
      | StateHalfOpen \<Rightarrow> setState StateOpen cb
      | StateOpen \<Rightarrow> cb)"

definition onSuccess :: "circuit_breaker \<Rightarrow> circuit_breaker" where
  "onSuccess cb =
     (case cb_state cb of
        StateClosed \<Rightarrow> cb\<lparr>cb_failures := 0\<rparr>
      | StateHalfOpen \<Rightarrow> (setState StateClosed cb)\<lparr>cb_failures := 0, cb_requests := 0\<rparr>
      | StateOpen \<Rightarrow> cb)"

definition afterRequest :: "instant \<Rightarrow> go_error \<Rightarrow> circuit_breaker \<Rightarrow> circuit_breaker" where
  "afterRequest now err cb = (if err \<noteq> None then onFailure now cb else onSuccess cb)"

text \<open>
  What a caller of \<open>Call\<close> sees: a rejection, or that the function ran and what came of it. A
  panic of the function unwinds through \<open>Call\<close>, whose deferred unlock runs, but neither
  \<open>afterRequest\<close> nor a counter.
\<close>

datatype call_result = Rejected cb_error | Ran "go_error outcome"

definition Call ::
  "instant \<Rightarrow> go_error outcome \<Rightarrow> instant \<Rightarrow> circuit_breaker \<Rightarrow> call_result \<times> circuit_breaker" where
  "Call start fn stop cb =
     (case beforeRequest start cb of
        (Some e, cb1) \<Rightarrow> (Rejected e, cb1\<lparr>cb_rejected := cb_rejected cb1 + 1\<rparr>)
      | (None, cb1) \<Rightarrow>
          (case fn of
             Panic \<Rightarrow> (Ran Panic, cb1)
           | Returns err \<Rightarrow>
               (let cb2 = afterRequest stop err cb1 in
                (Ran (Returns err),
                 if err \<noteq> None then cb2\<lparr>cb_failed := cb_failed cb2 + 1\<rparr>
                 else cb2\<lparr>cb_success := cb_success cb2 + 1\<rparr>))))"

definition GetState :: "circuit_breaker \<Rightarrow> cb_state" where "GetState cb = cb_state cb"
definition GetFailures :: "circuit_breaker \<Rightarrow> int" where "GetFailures cb = cb_failures cb"

definition Reset :: "circuit_breaker \<Rightarrow> circuit_breaker" where
  "Reset cb = (setState StateClosed cb)\<lparr>cb_failures := 0, cb_requests := 0\<rparr>"

subsection \<open>Histories of a breaker\<close>

datatype cb_event = ECall instant "go_error outcome" instant | EReset

fun cb_apply :: "cb_event \<Rightarrow> circuit_breaker \<Rightarrow> call_result option \<times> circuit_breaker" where
  "cb_apply (ECall t fn t') cb = apfst Some (Call t fn t' cb)"
| "cb_apply EReset cb = (None, Reset cb)"

fun cb_run :: "cb_event list \<Rightarrow> circuit_breaker \<Rightarrow> call_result option list \<times> circuit_breaker" where
  "cb_run [] cb = ([], cb)"
| "cb_run (e # es) cb =
     (let (r, cb1) = cb_apply e cb; (rs, cb2) = cb_run es cb1 in (r # rs, cb2))"

fun no_panic :: "cb_event \<Rightarrow> bool" where
  "no_panic (ECall t fn t') = returns fn"
| "no_panic EReset = True"

inductive cb_reachable :: "cb_config \<Rightarrow> circuit_breaker \<Rightarrow> bool" for c where
  cb_init: "cb_reachable c (NewCircuitBreaker c)"
| cb_step: "cb_reachable c cb \<Longrightarrow> cb_reachable c (snd (cb_apply e cb))"

lemmas cb_defs = beforeRequest_def onFailure_def onSuccess_def afterRequest_def setState_def
  Call_def Reset_def

subsection \<open>The abstract breaker\<close>

text \<open>
  What a circuit breaker promises: closed with a count of consecutive failures, or open since
  the instant of the last failure. There is no half-open state: the probe is one call.
\<close>

datatype abs_breaker = AClosed int | AOpen instant

fun abs_apply :: "int \<Rightarrow> duration \<Rightarrow> cb_event \<Rightarrow> abs_breaker \<Rightarrow> call_result option \<times> abs_breaker" where
  "abs_apply m d EReset a = (None, AClosed 0)"
| "abs_apply m d (ECall t fn t') (AClosed k) =
     (Some (Ran fn),
      if fn = Returns None then AClosed 0 else if k + 1 \<ge> m then AOpen t' else AClosed (k + 1))"
| "abs_apply m d (ECall t fn t') (AOpen since) =
     (if t - since > d
      then (Some (Ran fn), if fn = Returns None then AClosed 0 else AOpen t')
      else (Some (Rejected ErrCircuitBreakerOpen), AOpen since))"

fun abs_run :: "int \<Rightarrow> duration \<Rightarrow> cb_event list \<Rightarrow> abs_breaker \<Rightarrow> call_result option list \<times> abs_breaker"
where
  "abs_run m d [] a = ([], a)"
| "abs_run m d (e # es) a =
     (let (r, a1) = abs_apply m d e a; (rs, a2) = abs_run m d es a1 in (r # rs, a2))"

definition cb_abs :: "circuit_breaker \<Rightarrow> abs_breaker" where
  "cb_abs cb = (if cb_state cb = StateOpen then AOpen (cb_lastFailureTime cb) else AClosed (cb_failures cb))"

lemma config_kept [simp]: "cb_config (snd (cb_apply e cb)) = cb_config cb"
  by (cases e)
     (auto simp: cb_defs Let_def split: cb_state.splits outcome.splits prod.splits if_splits)

lemma apply_refines:
  assumes "no_panic e" and "cb_state cb \<noteq> StateHalfOpen"
  shows "cb_state (snd (cb_apply e cb)) \<noteq> StateHalfOpen"
    and "abs_apply (cfg_MaxFailures (cb_config cb)) (cfg_Timeout (cb_config cb)) e (cb_abs cb) =
           apsnd cb_abs (cb_apply e cb)"
  using assms
  by (cases e; cases "cb_state cb";
      auto simp: cb_defs cb_abs_def Let_def split: outcome.splits)+

lemma run_refines:
  assumes "list_all no_panic es" and "cb_state cb \<noteq> StateHalfOpen"
  shows "cb_state (snd (cb_run es cb)) \<noteq> StateHalfOpen \<and>
         abs_run (cfg_MaxFailures (cb_config cb)) (cfg_Timeout (cb_config cb)) es (cb_abs cb) =
           apsnd cb_abs (cb_run es cb)"
  using assms
proof (induction es arbitrary: cb)
  case Nil
  then show ?case by simp
next
  case (Cons e es)
  obtain r cb1 where r: "cb_apply e cb = (r, cb1)" by (cases "cb_apply e cb")
  have c: "cb_config cb1 = cb_config cb" using config_kept[of e cb] by (simp add: r)
  have h: "cb_state cb1 \<noteq> StateHalfOpen"
    using apply_refines(1)[of e cb] Cons.prems by (simp add: r)
  have a: "abs_apply (cfg_MaxFailures (cb_config cb)) (cfg_Timeout (cb_config cb)) e (cb_abs cb) =
             (r, cb_abs cb1)"
    using apply_refines(2)[of e cb] Cons.prems by (simp add: r)
  show ?case using Cons.IH[of cb1] Cons.prems h
    by (simp add: r a c split_beta apsnd_def map_prod_def)
qed

lemma new_breaker:
  "cb_state (NewCircuitBreaker c) = StateClosed" "cb_abs (NewCircuitBreaker c) = AClosed 0"
  "cfg_MaxFailures (cb_config (NewCircuitBreaker c)) =
     (if cfg_MaxFailures c = 0 then 5 else cfg_MaxFailures c)"
  "cfg_Timeout (cb_config (NewCircuitBreaker c)) =
     (if cfg_Timeout c = 0 then 60 * time_Second else cfg_Timeout c)"
  "cfg_MaxRequests (cb_config (NewCircuitBreaker c)) =
     (if cfg_MaxRequests c = 0 then 1 else cfg_MaxRequests c)"
  by (simp_all add: NewCircuitBreaker_def Let_def cb_abs_def)

text \<open>C3 A breaker whose guarded functions never panic behaves, call for call, as the abstract
  breaker: closed until \<open>MaxFailures\<close> failures in a row, then open and rejecting until the
  timeout has passed, then deciding by one probe. It is never seen half-open and never reports
  too many requests.\<close>

theorem breaker_refines_abstract:
  assumes "list_all no_panic es"
  shows "abs_run (if cfg_MaxFailures c = 0 then 5 else cfg_MaxFailures c)
                 (if cfg_Timeout c = 0 then 60 * time_Second else cfg_Timeout c) es (AClosed 0)
           = apsnd cb_abs (cb_run es (NewCircuitBreaker c)) \<and>
         GetState (snd (cb_run es (NewCircuitBreaker c))) \<noteq> StateHalfOpen"
  using run_refines[OF assms, of "NewCircuitBreaker c"] by (simp add: new_breaker GetState_def)

lemma breaker_refines_abstract_witness:
  "abs_run 2 10 [ECall 0 (Returns (Some ''x'')) 1, ECall 2 (Returns (Some ''x'')) 3,
                 ECall 4 (Returns None) 5, ECall 14 (Returns None) 15] (AClosed 0) =
     apsnd cb_abs (cb_run [ECall 0 (Returns (Some ''x'')) 1, ECall 2 (Returns (Some ''x'')) 3,
                 ECall 4 (Returns None) 5, ECall 14 (Returns None) 15]
       (NewCircuitBreaker \<lparr>cfg_Name = [], cfg_MaxFailures = 2, cfg_Timeout = 10, cfg_MaxRequests = 1\<rparr>)) \<and>
   GetState (snd (cb_run [ECall 0 (Returns (Some ''x'')) 1, ECall 2 (Returns (Some ''x'')) 3,
                 ECall 4 (Returns None) 5, ECall 14 (Returns None) 15]
       (NewCircuitBreaker \<lparr>cfg_Name = [], cfg_MaxFailures = 2, cfg_Timeout = 10, cfg_MaxRequests = 1\<rparr>)))
     \<noteq> StateHalfOpen"
  using breaker_refines_abstract[of "[ECall 0 (Returns (Some ''x'')) 1, ECall 2 (Returns (Some ''x'')) 3,
      ECall 4 (Returns None) 5, ECall 14 (Returns None) 15]"
      "\<lparr>cfg_Name = [], cfg_MaxFailures = 2, cfg_Timeout = 10, cfg_MaxRequests = 1\<rparr>"]
  by (simp only: list.pred_inject no_panic.simps returns.simps cb_config.simps) simp

subsection \<open>Reachable breakers\<close>

text \<open>
  The invariant of every reachable breaker, panics included: a closed breaker has fewer failures
  than the threshold, the counters are not negative, and the number of admitted probes never
  exceeds the maximum.
\<close>

definition cb_inv :: "circuit_breaker \<Rightarrow> bool" where
  "cb_inv cb \<longleftrightarrow>
     0 \<le> cb_failures cb \<and>
     (cb_state cb = StateClosed \<longrightarrow> cb_failures cb < cfg_MaxFailures (cb_config cb)) \<and>
     (cb_state cb = StateHalfOpen \<longrightarrow> 0 \<le> cb_requests cb \<and>
        cb_requests cb \<le> cfg_MaxRequests (cb_config cb))"

lemma cb_inv_apply:
  assumes "cb_inv cb" and "0 < cfg_MaxFailures (cb_config cb)" and "0 < cfg_MaxRequests (cb_config cb)"
  shows "cb_inv (snd (cb_apply e cb))"
  using assms
  by (cases e; cases "cb_state cb")
     (auto simp: cb_inv_def cb_defs Let_def split: outcome.splits if_splits)

definition sane_config :: "cb_config \<Rightarrow> bool" where
  "sane_config c \<longleftrightarrow> 0 \<le> cfg_MaxFailures c \<and> 0 \<le> cfg_MaxRequests c"

lemma reachable_config:
  "cb_reachable c cb \<Longrightarrow> cb_config cb = cb_config (NewCircuitBreaker c)"
  by (induction rule: cb_reachable.induct) simp_all


lemma cb_run_reachable: "cb_reachable c cb \<Longrightarrow> cb_reachable c (snd (cb_run es cb))"
proof (induction es arbitrary: cb)
  case Nil
  then show ?case by simp
next
  case (Cons e es)
  then show ?case using cb_step[OF Cons.prems, of e] by (simp add: split_beta)
qed


subsection \<open>Open and half-open\<close>

fun rejects_within :: "instant \<Rightarrow> cb_event \<Rightarrow> bool" where
  "rejects_within limit (ECall t fn t') = (t \<le> limit)"
| "rejects_within limit EReset = False"

text \<open>While a breaker is open, no call that starts before the timeout has passed runs its
  function: each is rejected with \<open>ErrCircuitBreakerOpen\<close>, and nothing but the counter of
  rejections changes.\<close>

theorem open_breaker_rejects:
  assumes "cb_state cb = StateOpen"
    and "list_all (rejects_within (cb_lastFailureTime cb + cfg_Timeout (cb_config cb))) es"
  shows "cb_run es cb = (replicate (length es) (Some (Rejected ErrCircuitBreakerOpen)),
                         cb\<lparr>cb_rejected := cb_rejected cb + length es\<rparr>)"
  using assms
proof (induction es arbitrary: cb)
  case Nil
  then show ?case by simp
next
  case (Cons e es)
  from Cons.prems(2) obtain t fn t' where e: "e = ECall t fn t'"
    and t: "t - cb_lastFailureTime cb \<le> cfg_Timeout (cb_config cb)"
    by (cases e) auto
  have step: "cb_apply e cb =
      (Some (Rejected ErrCircuitBreakerOpen), cb\<lparr>cb_rejected := cb_rejected cb + 1\<rparr>)"
    using e t Cons.prems(1) by (simp add: cb_defs)
  show ?case using Cons.IH[of "cb\<lparr>cb_rejected := cb_rejected cb + 1\<rparr>"] Cons.prems
    by (simp add: step)
qed

fun is_call :: "cb_event \<Rightarrow> bool" where
  "is_call (ECall t fn t') = True"
| "is_call EReset = False"

lemma half_open_exhausted:
  assumes "cb_state cb = StateHalfOpen" and "cfg_MaxRequests (cb_config cb) \<le> cb_requests cb"
    and "list_all is_call es"
  shows "cb_run es cb = (replicate (length es) (Some (Rejected ErrTooManyRequests)),
                         cb\<lparr>cb_rejected := cb_rejected cb + length es\<rparr>)"
  using assms
proof (induction es arbitrary: cb)
  case Nil
  then show ?case by simp
next
  case (Cons e es)
  from Cons.prems(3) obtain t fn t' where e: "e = ECall t fn t'" by (cases e) auto
  have step: "cb_apply e cb =
      (Some (Rejected ErrTooManyRequests), cb\<lparr>cb_rejected := cb_rejected cb + 1\<rparr>)"
    using e Cons.prems(1,2) by (simp add: cb_defs)
  show ?case using Cons.IH[of "cb\<lparr>cb_rejected := cb_rejected cb + 1\<rparr>"] Cons.prems
    by (simp add: step)
qed

lemma probe_panics:
  assumes "cb_state cb = StateHalfOpen" and "cb_requests cb < cfg_MaxRequests (cb_config cb)"
  shows "Call t Panic t' cb = (Ran Panic, cb\<lparr>cb_requests := cb_requests cb + 1\<rparr>)"
  using assms by (simp add: cb_defs)

lemma probes_panic:
  assumes "cb_state cb = StateHalfOpen" and "cb_requests cb + int n \<le> cfg_MaxRequests (cb_config cb)"
  shows "snd (cb_run (replicate n (ECall t Panic t')) cb) = cb\<lparr>cb_requests := cb_requests cb + int n\<rparr>"
  using assms
proof (induction n arbitrary: cb)
  case 0
  then show ?case by simp
next
  case (Suc n)
  then show ?case
    using Suc.IH[of "cb\<lparr>cb_requests := cb_requests cb + 1\<rparr>"]
    by (simp add: probe_panics split_beta algebra_simps)
qed

lemma cb_run_append:
  "cb_run (es @ es') cb =
     (let (rs, cb1) = cb_run es cb; (rs', cb2) = cb_run es' cb1 in (rs @ rs', cb2))"
  by (induction es arbitrary: cb) (simp_all add: split_beta Let_def)

text \<open>A half-open breaker has no way back by itself. If, after the timeout, the probing functions
  panic \<open>MaxRequests + 1\<close> times, every later call is rejected with \<open>ErrTooManyRequests\<close>, at
  whatever time it comes; only \<open>Reset\<close> helps, which nothing in the operator calls.\<close>

theorem panicking_probes_block_forever:
  assumes "cb_state cb = StateOpen" and "t - cb_lastFailureTime cb > cfg_Timeout (cb_config cb)"
    and "0 < cfg_MaxRequests (cb_config cb)" and "list_all is_call es"
  shows "\<exists>cb'. snd (cb_run (replicate (Suc (nat (cfg_MaxRequests (cb_config cb)))) (ECall t Panic t)) cb) = cb' \<and>
           fst (cb_run es cb') = replicate (length es) (Some (Rejected ErrTooManyRequests)) \<and>
           GetState (snd (cb_run es cb')) = StateHalfOpen"
proof -
  let ?h = "(setState StateHalfOpen cb)\<lparr>cb_requests := 0\<rparr>"
  let ?n = "nat (cfg_MaxRequests (cb_config cb))"
  have first: "cb_apply (ECall t Panic t) cb = (Some (Ran Panic), ?h)"
    using assms by (simp add: cb_defs)
  have h: "cb_state ?h = StateHalfOpen" "cb_config ?h = cb_config cb" "cb_requests ?h = 0"
    by (simp_all add: setState_def)
  have "snd (cb_run (replicate (Suc ?n) (ECall t Panic t)) cb) =
          ?h\<lparr>cb_requests := cb_requests ?h + int ?n\<rparr>"
    using probes_panic[of ?h ?n t t] h assms(3) first by (simp add: split_beta)
  moreover have "cb_state (?h\<lparr>cb_requests := cb_requests ?h + int ?n\<rparr>) = StateHalfOpen"
    using h by simp
  ultimately show ?thesis
    using half_open_exhausted[of "?h\<lparr>cb_requests := cb_requests ?h + int ?n\<rparr>" es] h assms(3,4)
    by (simp add: GetState_def)
qed

definition opened :: circuit_breaker where
  "opened = snd (cb_run [ECall 0 (Returns (Some ''down'')) 5]
     (NewCircuitBreaker \<lparr>cfg_Name = ''r'', cfg_MaxFailures = 1, cfg_Timeout = 10, cfg_MaxRequests = 1\<rparr>))"

lemma opened_simps [simp]:
  "cb_state opened = StateOpen" "cb_lastFailureTime opened = 5"
  "cfg_Timeout (cb_config opened) = 10" "cfg_MaxRequests (cb_config opened) = 1"
  by (simp_all add: opened_def cb_defs NewCircuitBreaker_def Let_def)

lemma open_breaker_rejects_witness:
  "cb_run [ECall 6 (Returns None) 7, ECall 15 (Returns None) 16] opened =
     (replicate (length [ECall 6 (Returns None) 7, ECall 15 (Returns None) 16])
        (Some (Rejected ErrCircuitBreakerOpen)),
      opened\<lparr>cb_rejected := cb_rejected opened +
        length [ECall 6 (Returns None) 7, ECall 15 (Returns None) 16]\<rparr>)"
  by (rule open_breaker_rejects) simp_all

lemma panicking_probes_block_forever_witness:
  "\<exists>cb'. snd (cb_run (replicate (Suc (nat (cfg_MaxRequests (cb_config opened)))) (ECall 20 Panic 20)) opened) = cb' \<and>
     fst (cb_run [ECall 1000000 (Returns None) 1000001] cb') =
       replicate (length [ECall 1000000 (Returns None) 1000001]) (Some (Rejected ErrTooManyRequests)) \<and>
     GetState (snd (cb_run [ECall 1000000 (Returns None) 1000001] cb')) = StateHalfOpen"
  by (rule panicking_probes_block_forever) simp_all

end
