(* ===== verification/Conditions.thy ===== *)
theory Conditions
  imports ApiTypes
begin

section \<open>The contract of a condition list\<close>

text \<open>
  Every resource of the operator carries a list of conditions, and four functions of the code
  set one of them: \<open>SetCondition\<close> and \<open>SetRegistryCondition\<close> of the status service,
  \<open>setCondition\<close> of the registry controller and \<open>updateConditions\<close> of the backup controller.
  They differ in what they do with the transition time, the reason and the message, but they
  share a contract, which is the locale \<open>condition_setter\<close>: setting a condition replaces the
  entry of its type in place or appends it, gives it the new status, and touches no entry of
  another type. The locale \<open>transition_keeper\<close> adds what three of the four promise about the
  transition time: it changes only when the status does.
\<close>

definition cond_lookup :: "('c \<Rightarrow> 'k) \<Rightarrow> 'k \<Rightarrow> 'c list \<Rightarrow> 'c option" where
  "cond_lookup ty k cs = find (\<lambda>c. ty c = k) cs"

lemma cond_lookup_simps [simp]:
  "cond_lookup ty k [] = None"
  "cond_lookup ty k (c # cs) = (if ty c = k then Some c else cond_lookup ty k cs)"
  by (simp_all add: cond_lookup_def)

lemma cond_lookup_Some_type: "cond_lookup ty k cs = Some c \<Longrightarrow> ty c = k \<and> c \<in> set cs"
  by (induction cs) (auto split: if_splits)

lemma cond_lookup_None_iff: "cond_lookup ty k cs = None \<longleftrightarrow> k \<notin> ty ` set cs"
  by (induction cs) auto

locale condition_setter =
  fixes ty :: "'c \<Rightarrow> 'k"
    and status :: "'c \<Rightarrow> 's"
    and set_cond :: "'c \<Rightarrow> 'c list \<Rightarrow> 'c list"
  assumes types_set:
      "map ty (set_cond c cs) =
         (if ty c \<in> ty ` set cs then map ty cs else map ty cs @ [ty c])"
    and status_set:
      "map_option status (cond_lookup ty (ty c) (set_cond c cs)) = Some (status c)"
    and other_set:
      "k \<noteq> ty c \<Longrightarrow> cond_lookup ty k (set_cond c cs) = cond_lookup ty k cs"
begin

lemma status_after:
  "map_option status (cond_lookup ty k (set_cond c cs)) =
     (if k = ty c then Some (status c) else map_option status (cond_lookup ty k cs))"
  using status_set other_set by auto

text \<open>No type ever appears twice.\<close>

lemma distinct_set:
  "distinct (map ty cs) \<Longrightarrow> distinct (map ty (set_cond c cs))"
  by (auto simp: types_set)

lemma distinct_fold: "distinct (map ty cs) \<Longrightarrow> distinct (map ty (fold set_cond us cs))"
  by (induction us arbitrary: cs) (simp_all add: distinct_set)

text \<open>A condition once set is never lost.\<close>

lemma types_grow: "ty ` set cs \<subseteq> ty ` set (set_cond c cs)"
proof -
  have "set (map ty cs) \<subseteq> set (map ty (set_cond c cs))" by (auto simp: types_set)
  then show ?thesis by simp
qed

lemma types_after: "ty ` set (set_cond c cs) = insert (ty c) (ty ` set cs)"
proof -
  have "set (map ty (set_cond c cs)) = insert (ty c) (set (map ty cs))"
    by (auto simp: types_set)
  then show ?thesis by simp
qed

lemma types_fold: "ty ` set (fold set_cond us cs) = ty ` set us \<union> ty ` set cs"
  by (induction us arbitrary: cs) (auto simp: types_after)

text \<open>The status that counts is the last one set for the type.\<close>

lemma status_fold:
  "map_option status (cond_lookup ty k (fold set_cond us cs)) =
     (case cond_lookup ty k (rev us) of
        Some u \<Rightarrow> Some (status u)
      | None \<Rightarrow> map_option status (cond_lookup ty k cs))"
proof (induction us rule: rev_induct)
  case Nil
  then show ?case by simp
next
  case (snoc u us)
  then show ?case by (auto simp: status_after)
qed

text \<open>The list never grows beyond the number of types in play.\<close>

lemma length_set: "length (set_cond c cs) \<le> Suc (length cs)"
proof -
  have "length (map ty (set_cond c cs)) \<le> Suc (length (map ty cs))"
    by (simp add: types_set)
  then show ?thesis by simp
qed

end

locale transition_keeper = condition_setter +
  fixes time :: "'a \<Rightarrow> instant"
  assumes time_set:
    "map_option time (cond_lookup ty (ty c) (set_cond c cs)) =
       (case cond_lookup ty (ty c) cs of
          Some old \<Rightarrow> Some (if status old = status c then time old else time c)
        | None \<Rightarrow> Some (time c))"
begin

text \<open>Setting the status a condition has already keeps its transition time.\<close>

lemma time_kept:
  assumes "cond_lookup ty k cs = Some old" and "status c = status old" and "ty c = k"
  shows "map_option time (cond_lookup ty k (set_cond c cs)) = Some (time old)"
  using time_set[of c cs] assms by (auto simp del: cond_lookup_simps split: option.splits)

lemma time_restarted:
  assumes "\<And>old. cond_lookup ty k cs = Some old \<Longrightarrow> status old \<noteq> status c" and "ty c = k"
  shows "map_option time (cond_lookup ty k (set_cond c cs)) = Some (time c)"
  using time_set[of c cs] assms by (auto simp del: cond_lookup_simps split: option.splits)

end

end
