(* ===== verification/StatusService.thy ===== *)
theory StatusService
  imports Conditions KubeClient
begin

section \<open>The status service\<close>

text \<open>
  \<open>pkg/services/status_service.go\<close>: how the phase, the replica counts and the conditions of an
  MCPServer and an MCPRegistry follow a deployment. \<open>now\<close> is the reading of the clock; the
  readings within one call are taken to be equal. Conditions are set to \<open>True\<close> or \<open>False\<close>
  only, so the \<open>status string\<close> parameter is a \<open>condition_status\<close>.
\<close>

subsection \<open>Setting conditions and phases\<close>

text \<open>The loop over the conditions with its \<open>break\<close> at the first entry of the type.\<close>

fun set_mcp_condition :: "mcp_server_condition \<Rightarrow> mcp_server_condition list \<Rightarrow> mcp_server_condition list"
where
  "set_mcp_condition c [] = [c]"
| "set_mcp_condition c (d # ds) =
     (if mc_Type d = mc_Type c then
        (if mc_Status d \<noteq> mc_Status c then c # ds
         else d\<lparr>mc_Reason := mc_Reason c, mc_Message := mc_Message c\<rparr> # ds)
      else d # set_mcp_condition c ds)"

definition SetCondition ::
  "instant \<Rightarrow> mcp_server_condition_type \<Rightarrow> condition_status \<Rightarrow> string \<Rightarrow> string
     \<Rightarrow> mcp_server \<Rightarrow> mcp_server" where
  "SetCondition now ty st reason msg s =
     s\<lparr>srv_Status := (srv_Status s)\<lparr>st_Conditions :=
        set_mcp_condition \<lparr>mc_Type = ty, mc_Status = st, mc_LastTransitionTime = now,
          mc_Reason = reason, mc_Message = msg\<rparr> (st_Conditions (srv_Status s))\<rparr>\<rparr>"

fun set_registry_condition ::
  "mcp_registry_condition \<Rightarrow> mcp_registry_condition list \<Rightarrow> mcp_registry_condition list" where
  "set_registry_condition c [] = [c]"
| "set_registry_condition c (d # ds) =
     (if rc_Type d = rc_Type c then
        (if rc_Status d \<noteq> rc_Status c then c # ds
         else d\<lparr>rc_Reason := rc_Reason c, rc_Message := rc_Message c\<rparr> # ds)
      else d # set_registry_condition c ds)"

definition SetRegistryCondition ::
  "instant \<Rightarrow> mcp_registry_condition_type \<Rightarrow> condition_status \<Rightarrow> string \<Rightarrow> string
     \<Rightarrow> mcp_registry \<Rightarrow> mcp_registry" where
  "SetRegistryCondition now ty st reason msg r =
     r\<lparr>reg_Status := (reg_Status r)\<lparr>rgs_Conditions :=
        set_registry_condition \<lparr>rc_Type = ty, rc_Status = st, rc_LastTransitionTime = now,
          rc_Reason = reason, rc_Message = msg\<rparr> (rgs_Conditions (reg_Status r))\<rparr>\<rparr>"

definition SetMCPServerPhase ::
  "instant \<Rightarrow> mcp_server_phase \<Rightarrow> string \<Rightarrow> string \<Rightarrow> mcp_server \<Rightarrow> mcp_server" where
  "SetMCPServerPhase now phase msg reason s =
     (let st = srv_Status s in
      s\<lparr>srv_Status := st\<lparr>st_Phase := phase,
          st_Message := (if msg \<noteq> [] then msg else st_Message st),
          st_Reason := (if reason \<noteq> [] then reason else st_Reason st),
          st_LastUpdateTime := Some now\<rparr>\<rparr>)"

definition SetMCPRegistryPhase ::
  "mcp_registry_phase \<Rightarrow> string \<Rightarrow> string \<Rightarrow> mcp_registry \<Rightarrow> mcp_registry" where
  "SetMCPRegistryPhase phase msg reason r =
     (let st = reg_Status r in
      r\<lparr>reg_Status := st\<lparr>rgs_Phase := phase,
          rgs_Message := (if msg \<noteq> [] then msg else rgs_Message st),
          rgs_Reason := (if reason \<noteq> [] then reason else rgs_Reason st)\<rparr>\<rparr>)"

definition GetMCPServerCondition ::
  "mcp_server_condition_type \<Rightarrow> mcp_server \<Rightarrow> mcp_server_condition option" where
  "GetMCPServerCondition ty s = cond_lookup mc_Type ty (st_Conditions (srv_Status s))"

definition GetMCPRegistryCondition ::
  "mcp_registry_condition_type \<Rightarrow> mcp_registry \<Rightarrow> mcp_registry_condition option" where
  "GetMCPRegistryCondition ty r = cond_lookup rc_Type ty (rgs_Conditions (reg_Status r))"

definition IsMCPServerConditionTrue :: "mcp_server_condition_type \<Rightarrow> mcp_server \<Rightarrow> bool" where
  "IsMCPServerConditionTrue ty s =
     (case GetMCPServerCondition ty s of None \<Rightarrow> False | Some c \<Rightarrow> mc_Status c = CTrue)"

definition IsMCPRegistryConditionTrue :: "mcp_registry_condition_type \<Rightarrow> mcp_registry \<Rightarrow> bool" where
  "IsMCPRegistryConditionTrue ty r =
     (case GetMCPRegistryCondition ty r of None \<Rightarrow> False | Some c \<Rightarrow> rc_Status c = CTrue)"

definition ClearMCPServerConditions :: "mcp_server \<Rightarrow> mcp_server" where
  "ClearMCPServerConditions s = s\<lparr>srv_Status := (srv_Status s)\<lparr>st_Conditions := []\<rparr>\<rparr>"

definition ClearMCPRegistryConditions :: "mcp_registry \<Rightarrow> mcp_registry" where
  "ClearMCPRegistryConditions r = r\<lparr>reg_Status := (reg_Status r)\<lparr>rgs_Conditions := []\<rparr>\<rparr>"

subsection \<open>Writing the status\<close>

definition UpdateMCPServerStatus ::
  "('w, mcp_server) kube_client \<Rightarrow> instant \<Rightarrow> mcp_server \<Rightarrow> 'w \<Rightarrow> ('w, mcp_server) written" where
  "UpdateMCPServerStatus kc now s w =
     (let s1 = s\<lparr>srv_Status := (srv_Status s)\<lparr>st_LastUpdateTime := Some now\<rparr>\<rparr> in
      case k_UpdateStatus kc s1 w of
        (Some e, s2, w2) \<Rightarrow> (Some (api_wrap ''failed to update MCPServer status: '' e), s2, w2)
      | (None, s2, w2) \<Rightarrow> (None, s2, w2))"

definition UpdateMCPRegistryStatus ::
  "('w, mcp_registry) kube_client \<Rightarrow> instant \<Rightarrow> mcp_registry \<Rightarrow> 'w \<Rightarrow> ('w, mcp_registry) written" where
  "UpdateMCPRegistryStatus kc now r w =
     (let st = reg_Status r;
          r1 = (if rgs_Phase st = RegReady \<or> rgs_Phase st = RegSyncing
                then r\<lparr>reg_Status := st\<lparr>rgs_LastSyncTime := Some now\<rparr>\<rparr> else r) in
      case k_UpdateStatus kc r1 w of
        (Some e, r2, w2) \<Rightarrow> (Some (api_wrap ''failed to update MCPRegistry status: '' e), r2, w2)
      | (None, r2, w2) \<Rightarrow> (None, r2, w2))"

subsection \<open>Following the deployment\<close>

text \<open>
  The status of an \<open>apps/v1\<close> Deployment as the service reads it. The condition type is a
  string of which two values matter.
\<close>

record deployment_condition =
  dc_Type :: string
  dc_Status :: condition_status
  dc_Reason :: string
  dc_Message :: string

record deployment_status =
  dps_Replicas :: int
  dps_ReadyReplicas :: int
  dps_AvailableReplicas :: int
  dps_UpdatedReplicas :: int
  dps_UnavailableReplicas :: int
  dps_ObservedGeneration :: int
  dps_Conditions :: "deployment_condition list"

definition copy_replicas :: "deployment_status \<Rightarrow> mcp_server \<Rightarrow> mcp_server" where
  "copy_replicas d s =
     s\<lparr>srv_Status := (srv_Status s)\<lparr>st_Replicas := dps_Replicas d,
        st_ReadyReplicas := dps_ReadyReplicas d,
        st_AvailableReplicas := dps_AvailableReplicas d\<rparr>\<rparr>"

text \<open>The endpoint is set once; the port comes from the runtime, whose pointer may be nil.\<close>

definition set_endpoint :: "mcp_server \<Rightarrow> mcp_server outcome" where
  "set_endpoint s =
     (if st_ServiceEndpoint (srv_Status s) = [] then
        and_then (deref (sp_Runtime (srv_Spec s))) (\<lambda>rt.
          let port = (if rt_Port rt > 0 then rt_Port rt else 8080) in
          Returns (s\<lparr>srv_Status := (srv_Status s)\<lparr>st_ServiceEndpoint :=
             srv_Name s @ ''.'' @ srv_Namespace s @ ''.svc.cluster.local:'' @ show_int port\<rparr>\<rparr>))
      else Returns s)"

definition phase_from_deployment :: "instant \<Rightarrow> deployment_status \<Rightarrow> mcp_server \<Rightarrow> mcp_server outcome"
where
  "phase_from_deployment now d s =
     (if dps_ReadyReplicas d > 0 then
        set_endpoint
          (SetCondition now CondReady CTrue ''DeploymentReady'' ''MCPServer deployment is ready''
            (SetMCPServerPhase now PhaseRunning ''MCP server is running'' ''DeploymentReady'' s))
      else if dps_Replicas d = 0 then
        Returns
          (SetCondition now CondProgressing CTrue ''DeploymentScaling''
            ''Waiting for deployment to scale up''
            (SetMCPServerPhase now PhasePending ''Waiting for deployment'' ''DeploymentScaling'' s))
      else
        Returns
          (SetCondition now CondProgressing CTrue ''DeploymentProgressing'' ''Deployment is progressing''
            (SetMCPServerPhase now PhasePending ''Deployment in progress'' ''DeploymentProgressing'' s)))"

definition follow_condition :: "instant \<Rightarrow> deployment_condition \<Rightarrow> mcp_server \<Rightarrow> mcp_server" where
  "follow_condition now c s =
     (if dc_Type c = ''Progressing'' then
        (if dc_Status c = CFalse
         then SetCondition now CondProgressing CFalse (dc_Reason c) (dc_Message c) s else s)
      else if dc_Type c = ''ReplicaFailure'' then
        (if dc_Status c = CTrue
         then SetCondition now CondReady CFalse (dc_Reason c) (dc_Message c)
                (SetMCPServerPhase now PhaseFailed (dc_Message c) (dc_Reason c) s) else s)
      else s)"

definition deployment_followed :: "instant \<Rightarrow> deployment_status \<Rightarrow> mcp_server \<Rightarrow> mcp_server outcome" where
  "deployment_followed now d s =
     and_then (phase_from_deployment now d (copy_replicas d s)) (\<lambda>s1.
       Returns (fold (follow_condition now) (dps_Conditions d) s1))"

definition UpdateMCPServerFromDeployment ::
  "('w, mcp_server) kube_client \<Rightarrow> instant \<Rightarrow> deployment_status \<Rightarrow> mcp_server \<Rightarrow> 'w
     \<Rightarrow> ('w, mcp_server) written outcome" where
  "UpdateMCPServerFromDeployment kc now d s w =
     and_then (deployment_followed now d s) (\<lambda>s1. Returns (UpdateMCPServerStatus kc now s1 w))"

subsection \<open>Deployment timeouts\<close>

definition CheckDeploymentTimeout :: "instant \<Rightarrow> duration \<Rightarrow> mcp_server \<Rightarrow> bool" where
  "CheckDeploymentTimeout now timeout s =
     (if st_Phase (srv_Status s) \<noteq> PhasePending then False
      else (case GetMCPServerCondition CondProgressing s of
              None \<Rightarrow> False
            | Some c \<Rightarrow>
                if mc_Status c \<noteq> CTrue then False
                else now - mc_LastTransitionTime c > timeout))"

definition MarkDeploymentAsTimedOut :: "instant \<Rightarrow> duration \<Rightarrow> mcp_server \<Rightarrow> mcp_server" where
  "MarkDeploymentAsTimedOut now timeout s =
     SetCondition now CondProgressing CFalse ''DeploymentTimeout''
       (''Deployment timeout exceeded after '' @ show_duration timeout)
     (SetCondition now CondReady CFalse ''DeploymentTimeout''
       (''Deployment has been stuck for '' @ show_duration timeout @
        '', exceeding timeout of '' @ show_duration timeout)
     (SetMCPServerPhase now PhaseFailed
       (''Deployment timeout exceeded ('' @ show_duration timeout @ '')'') ''DeploymentTimeout'' s))"

subsection \<open>The condition lists keep their contract\<close>

lemma set_mcp_types:
  "map mc_Type (set_mcp_condition c cs) =
     (if mc_Type c \<in> mc_Type ` set cs then map mc_Type cs else map mc_Type cs @ [mc_Type c])"
  by (induction c cs rule: set_mcp_condition.induct) auto

lemma set_registry_types:
  "map rc_Type (set_registry_condition c cs) =
     (if rc_Type c \<in> rc_Type ` set cs then map rc_Type cs else map rc_Type cs @ [rc_Type c])"
  by (induction c cs rule: set_registry_condition.induct) auto

lemma set_mcp_lookup:
  "cond_lookup mc_Type k (set_mcp_condition c cs) =
     (if k = mc_Type c then
        (case cond_lookup mc_Type k cs of
           None \<Rightarrow> Some c
         | Some d \<Rightarrow> Some (if mc_Status d \<noteq> mc_Status c then c
                           else d\<lparr>mc_Reason := mc_Reason c, mc_Message := mc_Message c\<rparr>))
      else cond_lookup mc_Type k cs)"
  by (induction c cs rule: set_mcp_condition.induct) auto

lemma set_registry_lookup:
  "cond_lookup rc_Type k (set_registry_condition c cs) =
     (if k = rc_Type c then
        (case cond_lookup rc_Type k cs of
           None \<Rightarrow> Some c
         | Some d \<Rightarrow> Some (if rc_Status d \<noteq> rc_Status c then c
                           else d\<lparr>rc_Reason := rc_Reason c, rc_Message := rc_Message c\<rparr>))
      else cond_lookup rc_Type k cs)"
  by (induction c cs rule: set_registry_condition.induct) auto

interpretation mcp_conditions: transition_keeper mc_Type mc_Status set_mcp_condition mc_LastTransitionTime
  by unfold_locales (auto simp: set_mcp_types set_mcp_lookup split: option.splits)

interpretation registry_conditions:
  transition_keeper rc_Type rc_Status set_registry_condition rc_LastTransitionTime
  by unfold_locales (auto simp: set_registry_types set_registry_lookup split: option.splits)

subsection \<open>Frames\<close>

definition cond_status :: "mcp_server_condition_type \<Rightarrow> mcp_server \<Rightarrow> condition_status option" where
  "cond_status ty s = map_option mc_Status (GetMCPServerCondition ty s)"

definition cond_time :: "mcp_server_condition_type \<Rightarrow> mcp_server \<Rightarrow> instant option" where
  "cond_time ty s = map_option mc_LastTransitionTime (GetMCPServerCondition ty s)"

lemma IsMCPServerConditionTrue_iff: "IsMCPServerConditionTrue ty s \<longleftrightarrow> cond_status ty s = Some CTrue"
  by (simp add: IsMCPServerConditionTrue_def cond_status_def split: option.splits)

lemma cond_status_SetCondition [simp]:
  "cond_status ty (SetCondition now ty' st r m s) = (if ty = ty' then Some st else cond_status ty s)"
  by (simp add: cond_status_def GetMCPServerCondition_def SetCondition_def
      mcp_conditions.status_after)

lemma cond_time_kept:
  "cond_status ty s = Some st \<Longrightarrow> cond_time ty (SetCondition now ty st r m s) = cond_time ty s"
  by (auto simp: cond_status_def cond_time_def GetMCPServerCondition_def SetCondition_def
      set_mcp_lookup)

lemma cond_time_restarted:
  "cond_status ty s \<noteq> Some st \<Longrightarrow> cond_time ty (SetCondition now ty st r m s) = Some now"
  by (auto simp: cond_status_def cond_time_def GetMCPServerCondition_def SetCondition_def
      set_mcp_lookup split: option.splits)

lemma cond_time_other:
  "ty \<noteq> ty' \<Longrightarrow> cond_time ty (SetCondition now ty' st r m s) = cond_time ty s"
  by (simp add: cond_time_def GetMCPServerCondition_def SetCondition_def set_mcp_lookup)

lemma SetCondition_frame [simp]:
  "srv_Meta (SetCondition now ty st r m s) = srv_Meta s"
  "srv_Spec (SetCondition now ty st r m s) = srv_Spec s"
  "st_Phase (srv_Status (SetCondition now ty st r m s)) = st_Phase (srv_Status s)"
  "st_Message (srv_Status (SetCondition now ty st r m s)) = st_Message (srv_Status s)"
  "st_Reason (srv_Status (SetCondition now ty st r m s)) = st_Reason (srv_Status s)"
  "st_ServiceEndpoint (srv_Status (SetCondition now ty st r m s)) = st_ServiceEndpoint (srv_Status s)"
  by (simp_all add: SetCondition_def)

lemma SetMCPServerPhase_frame [simp]:
  "srv_Meta (SetMCPServerPhase now p m r s) = srv_Meta s"
  "srv_Spec (SetMCPServerPhase now p m r s) = srv_Spec s"
  "st_Phase (srv_Status (SetMCPServerPhase now p m r s)) = p"
  "st_Conditions (srv_Status (SetMCPServerPhase now p m r s)) = st_Conditions (srv_Status s)"
  "st_ServiceEndpoint (srv_Status (SetMCPServerPhase now p m r s)) = st_ServiceEndpoint (srv_Status s)"
  by (simp_all add: SetMCPServerPhase_def Let_def)

lemma cond_frame [simp]:
  "cond_status ty (SetMCPServerPhase now p m r s) = cond_status ty s"
  "cond_status ty (copy_replicas d s) = cond_status ty s"
  "cond_time ty (SetMCPServerPhase now p m r s) = cond_time ty s"
  "cond_time ty (copy_replicas d s) = cond_time ty s"
  by (simp_all add: cond_status_def cond_time_def GetMCPServerCondition_def SetMCPServerPhase_def
      copy_replicas_def Let_def)

lemma copy_replicas_frame [simp]:
  "srv_Spec (copy_replicas d s) = srv_Spec s"
  "st_ServiceEndpoint (srv_Status (copy_replicas d s)) = st_ServiceEndpoint (srv_Status s)"
  by (simp_all add: copy_replicas_def)

lemma set_endpoint_returns:
  "set_endpoint s = Returns s' \<Longrightarrow>
     cond_status ty s' = cond_status ty s \<and> cond_time ty s' = cond_time ty s \<and>
     st_Phase (srv_Status s') = st_Phase (srv_Status s)"
  by (cases "sp_Runtime (srv_Spec s)")
     (auto simp: set_endpoint_def Let_def cond_status_def cond_time_def GetMCPServerCondition_def
       split: if_splits)

lemma set_endpoint_panics:
  "set_endpoint s = Panic \<longleftrightarrow>
     st_ServiceEndpoint (srv_Status s) = [] \<and> sp_Runtime (srv_Spec s) = None"
  by (cases "sp_Runtime (srv_Spec s)") (auto simp: set_endpoint_def Let_def)

subsection \<open>Phase and conditions as functions of the deployment\<close>

text \<open>What the service promises, without the order of its writes.\<close>

definition replica_failure :: "deployment_condition \<Rightarrow> bool" where
  "replica_failure c \<longleftrightarrow> dc_Type c = ''ReplicaFailure'' \<and> dc_Status c = CTrue"

definition stalled :: "deployment_condition \<Rightarrow> bool" where
  "stalled c \<longleftrightarrow> dc_Type c = ''Progressing'' \<and> dc_Status c = CFalse"

definition spec_phase :: "deployment_status \<Rightarrow> mcp_server_phase" where
  "spec_phase d =
     (if list_ex replica_failure (dps_Conditions d) then PhaseFailed
      else if dps_ReadyReplicas d > 0 then PhaseRunning else PhasePending)"

definition spec_ready :: "deployment_status \<Rightarrow> condition_status option \<Rightarrow> condition_status option" where
  "spec_ready d old =
     (if list_ex replica_failure (dps_Conditions d) then Some CFalse
      else if dps_ReadyReplicas d > 0 then Some CTrue else old)"

definition spec_progressing ::
  "deployment_status \<Rightarrow> condition_status option \<Rightarrow> condition_status option" where
  "spec_progressing d old =
     (if list_ex stalled (dps_Conditions d) then Some CFalse
      else if dps_ReadyReplicas d > 0 then old else Some CTrue)"

lemma follow_conditions:
  "st_Phase (srv_Status (fold (follow_condition now) cs s)) =
     (if list_ex replica_failure cs then PhaseFailed else st_Phase (srv_Status s))"
  "cond_status CondReady (fold (follow_condition now) cs s) =
     (if list_ex replica_failure cs then Some CFalse else cond_status CondReady s)"
  "cond_status CondProgressing (fold (follow_condition now) cs s) =
     (if list_ex stalled cs then Some CFalse else cond_status CondProgressing s)"
  by (induction cs arbitrary: s)
     (simp_all add: follow_condition_def replica_failure_def stalled_def)

lemma follow_conditions_time:
  "\<not> list_ex stalled cs \<Longrightarrow>
     cond_time CondProgressing (fold (follow_condition now) cs s) = cond_time CondProgressing s"
proof (induction cs arbitrary: s)
  case Nil
  then show ?case by simp
next
  case (Cons c cs)
  have "cond_time CondProgressing (SetCondition now CondReady st r m s) = cond_time CondProgressing s"
    for st r m s
    by (simp add: cond_time_def GetMCPServerCondition_def SetCondition_def set_mcp_lookup)
  with Cons show ?case by (auto simp: follow_condition_def stalled_def)
qed

lemma phase_from_deployment_returns:
  assumes "phase_from_deployment now d s = Returns s'"
  shows "st_Phase (srv_Status s') = (if dps_ReadyReplicas d > 0 then PhaseRunning else PhasePending)"
    and "cond_status CondReady s' =
           (if dps_ReadyReplicas d > 0 then Some CTrue else cond_status CondReady s)"
    and "cond_status CondProgressing s' =
           (if dps_ReadyReplicas d > 0 then cond_status CondProgressing s else Some CTrue)"
  using assms
  by (auto simp: phase_from_deployment_def dest!: set_endpoint_returns split: if_splits)

lemma deployment_followedE:
  assumes "deployment_followed now d s = Returns s'"
  obtains s1 where "phase_from_deployment now d (copy_replicas d s) = Returns s1"
    and "s' = fold (follow_condition now) (dps_Conditions d) s1"
  using assms by (cases "phase_from_deployment now d (copy_replicas d s)")
    (auto simp: deployment_followed_def)

lemma deployment_followed_panics:
  "deployment_followed now d s = Panic \<longleftrightarrow>
     dps_ReadyReplicas d > 0 \<and> st_ServiceEndpoint (srv_Status s) = [] \<and> sp_Runtime (srv_Spec s) = None"
proof -
  have "deployment_followed now d s = Panic \<longleftrightarrow>
          phase_from_deployment now d (copy_replicas d s) = Panic"
    by (cases "phase_from_deployment now d (copy_replicas d s)") (simp_all add: deployment_followed_def)
  then show ?thesis by (simp add: phase_from_deployment_def set_endpoint_panics)
qed

lemma deployment_followed_returns:
  assumes "deployment_followed now d s = Returns s'"
  shows "st_Phase (srv_Status s') = spec_phase d"
    and "cond_status CondReady s' = spec_ready d (cond_status CondReady s)"
    and "cond_status CondProgressing s' = spec_progressing d (cond_status CondProgressing s)"
  using assms
  by (elim deployment_followedE,
      simp add: follow_conditions phase_from_deployment_returns spec_phase_def spec_ready_def
        spec_progressing_def)+

text \<open>C4 The phase, the Ready and the Progressing condition the service writes are the ones its
  abstract specification gives: Failed on a replica failure, else Running with a ready replica,
  else Pending; and the call panics exactly when a replica is ready, no endpoint is recorded yet
  and the runtime is nil.\<close>

theorem status_refines_deployment:
  "(case deployment_followed now d s of
      Panic \<Rightarrow> dps_ReadyReplicas d > 0 \<and> st_ServiceEndpoint (srv_Status s) = [] \<and>
               sp_Runtime (srv_Spec s) = None
    | Returns s' \<Rightarrow>
        st_Phase (srv_Status s') = spec_phase d \<and>
        cond_status CondReady s' = spec_ready d (cond_status CondReady s) \<and>
        cond_status CondProgressing s' = spec_progressing d (cond_status CondProgressing s))"
  using deployment_followed_panics[of now d s]
  by (cases "deployment_followed now d s") (simp_all add: deployment_followed_returns)

text \<open>A server that was Ready stays Ready, in its condition, when its deployment loses every
  replica: the phase goes back to Pending while the Ready condition keeps the value True.\<close>

theorem ready_condition_outlives_replicas:
  assumes "cond_status CondReady s = Some CTrue"
    and "dps_ReadyReplicas d \<le> 0" and "\<not> list_ex replica_failure (dps_Conditions d)"
  shows "\<exists>s'. deployment_followed now d s = Returns s' \<and>
           st_Phase (srv_Status s') = PhasePending \<and> IsMCPServerConditionTrue CondReady s'"
  using assms deployment_followed_panics[of now d s]
  by (cases "deployment_followed now d s")
     (auto simp: deployment_followed_returns spec_phase_def spec_ready_def
       IsMCPServerConditionTrue_iff)

lemma ready_condition_outlives_replicas_witness:
  "\<exists>s'. deployment_followed 9
      \<lparr>dps_Replicas = 1, dps_ReadyReplicas = 0, dps_AvailableReplicas = 0, dps_UpdatedReplicas = 1,
        dps_UnavailableReplicas = 1, dps_ObservedGeneration = 1, dps_Conditions = []\<rparr>
      (SetCondition 3 CondReady CTrue ''DeploymentReady'' [] zero_server) = Returns s' \<and>
    st_Phase (srv_Status s') = PhasePending \<and> IsMCPServerConditionTrue CondReady s'"
  by (rule ready_condition_outlives_replicas) simp_all

subsection \<open>What the deployment timeout measures\<close>

definition quiet :: "deployment_status \<Rightarrow> bool" where
  "quiet d \<longleftrightarrow> \<not> list_ex replica_failure (dps_Conditions d) \<and> \<not> list_ex stalled (dps_Conditions d)"

fun watch :: "(instant \<times> deployment_status) list \<Rightarrow> mcp_server \<Rightarrow> mcp_server outcome" where
  "watch [] s = Returns s"
| "watch ((t, d) # obs) s = and_then (deployment_followed t d s) (watch obs)"

lemma watch_append: "watch (obs @ obs') s = and_then (watch obs s) (watch obs')"
proof (induction obs s rule: watch.induct)
  case (1 s)
  then show ?case by simp
next
  case (2 t d obs s)
  then show ?case by (cases "deployment_followed t d s") simp_all
qed

lemma follow_spec [simp]: "srv_Spec (fold (follow_condition now) cs s) = srv_Spec s"
  by (induction cs arbitrary: s) (simp_all add: follow_condition_def)

lemma set_endpoint_spec: "set_endpoint s = Returns s' \<Longrightarrow> srv_Spec s' = srv_Spec s"
  by (cases "sp_Runtime (srv_Spec s)") (auto simp: set_endpoint_def Let_def split: if_splits)

lemma deployment_followed_spec: "deployment_followed now d s = Returns s' \<Longrightarrow> srv_Spec s' = srv_Spec s"
  by (elim deployment_followedE)
     (auto simp: phase_from_deployment_def dest!: set_endpoint_spec split: if_splits)

lemma phase_progressing_time:
  assumes "phase_from_deployment now d s = Returns s'"
  shows "dps_ReadyReplicas d \<le> 0 \<Longrightarrow> cond_status CondProgressing s \<noteq> Some CTrue
           \<Longrightarrow> cond_time CondProgressing s' = Some now"
    and "cond_status CondProgressing s = Some CTrue
           \<Longrightarrow> cond_time CondProgressing s' = cond_time CondProgressing s"
  using assms set_endpoint_returns[where ty = CondProgressing and s' = s']
  by (auto simp: phase_from_deployment_def cond_time_restarted cond_time_kept cond_time_other
      split: if_splits)

lemma progressing_time:
  assumes "deployment_followed now d s = Returns s'" and "quiet d"
  shows "dps_ReadyReplicas d \<le> 0 \<Longrightarrow> cond_status CondProgressing s \<noteq> Some CTrue
           \<Longrightarrow> cond_time CondProgressing s' = Some now"
    and "cond_status CondProgressing s = Some CTrue
           \<Longrightarrow> cond_time CondProgressing s' = cond_time CondProgressing s"
  using assms phase_progressing_time[of now d "copy_replicas d s"]
  by (auto elim!: deployment_followedE simp: quiet_def follow_conditions_time)

text \<open>Once Progressing is True, a quiet watch never moves its transition time.\<close>

lemma watch_keeps_time:
  assumes "watch obs s = Returns s'" and "\<forall>(t, d) \<in> set obs. quiet d"
    and "cond_status CondProgressing s = Some CTrue"
  shows "cond_status CondProgressing s' = Some CTrue \<and>
         cond_time CondProgressing s' = cond_time CondProgressing s"
  using assms
proof (induction obs s rule: watch.induct)
  case (1 s)
  then show ?case by simp
next
  case (2 t d obs s)
  then obtain s1 where s1: "deployment_followed t d s = Returns s1" and w: "watch obs s1 = Returns s'"
    by (cases "deployment_followed t d s") auto
  have "cond_status CondProgressing s1 = Some CTrue"
    using deployment_followed_returns(3)[OF s1] 2 by (simp add: spec_progressing_def quiet_def)
  with 2 s1 w progressing_time(2)[OF s1] show ?case by auto
qed

lemma watch_returns:
  "sp_Runtime (srv_Spec s) \<noteq> None \<Longrightarrow> \<exists>s'. watch obs s = Returns s'"
proof (induction obs s rule: watch.induct)
  case (1 s)
  then show ?case by simp
next
  case (2 t d obs s)
  then show ?case
    using deployment_followed_panics[of t d s]
    by (cases "deployment_followed t d s") (auto simp: deployment_followed_spec)
qed

lemma timeout_reads_time:
  "CheckDeploymentTimeout now timeout s \<longleftrightarrow>
     st_Phase (srv_Status s) = PhasePending \<and> cond_status CondProgressing s = Some CTrue \<and>
     (\<exists>t. cond_time CondProgressing s = Some t \<and> now - t > timeout)"
  by (auto simp: CheckDeploymentTimeout_def cond_status_def cond_time_def split: option.splits)

text \<open>The deployment timeout is measured from the first time the server was seen without a
  ready replica, and nothing that happens in between restarts it: also after any stretch in
  which replicas were ready, a server that is pending again has timed out as soon as that first
  sighting is long enough ago.\<close>

theorem timeout_counts_from_first_pending:
  assumes "sp_Runtime (srv_Spec s) \<noteq> None" and "cond_status CondProgressing s \<noteq> Some CTrue"
    and "dps_ReadyReplicas d0 \<le> 0" and "dps_ReadyReplicas d1 \<le> 0"
    and "\<forall>(t, d) \<in> set ((t0, d0) # mid @ [(t1, d1)]). quiet d"
  shows "\<exists>s'. watch ((t0, d0) # mid @ [(t1, d1)]) s = Returns s' \<and>
           (\<forall>now timeout. CheckDeploymentTimeout now timeout s' \<longleftrightarrow> now - t0 > timeout)"
proof -
  let ?rest = "mid @ [(t1, d1)]"
  obtain sa where sa: "deployment_followed t0 d0 s = Returns sa"
    using deployment_followed_panics[of t0 d0 s] assms(3)
    by (cases "deployment_followed t0 d0 s") auto
  have q0: "quiet d0" and qr: "\<forall>(t, d) \<in> set ?rest. quiet d" using assms(5) by auto
  have a: "cond_time CondProgressing sa = Some t0" "cond_status CondProgressing sa = Some CTrue"
    using progressing_time(1)[OF sa q0] deployment_followed_returns(3)[OF sa] assms q0
    by (auto simp: spec_progressing_def quiet_def)
  obtain sb where sb: "watch mid sa = Returns sb"
    using watch_returns[of sa mid] deployment_followed_spec[OF sa] assms(1) by auto
  obtain sc where sc: "deployment_followed t1 d1 sb = Returns sc"
    using deployment_followed_panics[of t1 d1 sb] assms(4)
    by (cases "deployment_followed t1 d1 sb") auto
  have all: "watch ?rest sa = Returns sc" by (simp add: watch_append sb sc)
  have "cond_status CondProgressing sc = Some CTrue" "cond_time CondProgressing sc = Some t0"
    using watch_keeps_time[OF all qr a(2)] a(1) by auto
  moreover have "st_Phase (srv_Status sc) = PhasePending"
    using deployment_followed_returns(1)[OF sc] qr assms(4) by (simp add: spec_phase_def quiet_def)
  ultimately have "\<forall>now timeout. CheckDeploymentTimeout now timeout sc \<longleftrightarrow> now - t0 > timeout"
    by (simp add: timeout_reads_time)
  then show ?thesis using sa all by auto
qed

text \<open>A marked server is Failed, not Ready, and is not marked again.\<close>

lemma marked_as_timed_out:
  "st_Phase (srv_Status (MarkDeploymentAsTimedOut now timeout s)) = PhaseFailed"
  "\<not> IsMCPServerConditionTrue CondReady (MarkDeploymentAsTimedOut now timeout s)"
  "\<not> CheckDeploymentTimeout now' timeout' (MarkDeploymentAsTimedOut now timeout s)"
  by (simp_all add: MarkDeploymentAsTimedOut_def IsMCPServerConditionTrue_iff timeout_reads_time)

text \<open>One replica that is or is not ready, seen at minute 1, 2 and 30 of a server's life.\<close>

definition one_replica :: "int \<Rightarrow> deployment_status" where
  "one_replica r = \<lparr>dps_Replicas = 1, dps_ReadyReplicas = r, dps_AvailableReplicas = r,
     dps_UpdatedReplicas = 1, dps_UnavailableReplicas = 1 - r, dps_ObservedGeneration = 1,
     dps_Conditions = []\<rparr>"

lemma one_replica_simps [simp]: "dps_ReadyReplicas (one_replica r) = r" "quiet (one_replica r)"
  by (simp_all add: one_replica_def quiet_def)

lemma timeout_counts_from_first_pending_witness:
  "\<exists>s'. watch ((time_Minute, one_replica 0) # [(2 * time_Minute, one_replica 1)] @
                [(30 * time_Minute, one_replica 0)])
              (zero_server\<lparr>srv_Spec := zero_spec\<lparr>sp_Runtime := Some zero_runtime\<rparr>\<rparr>) = Returns s' \<and>
     (\<forall>now timeout. CheckDeploymentTimeout now timeout s' \<longleftrightarrow> now - time_Minute > timeout)"
  by (rule timeout_counts_from_first_pending)
     (simp_all add: zero_server_def zero_status_def cond_status_def GetMCPServerCondition_def)

end
