(* ===== verification/RegistryService.thy ===== *)
theory RegistryService
  imports StatusService
begin

section \<open>Server templates\<close>

text \<open>
  \<open>pkg/registry/types.go\<close>: what a registry knows of a server. The transport and the ports have
  the same fields as in the API and share its records; the JSON schema of the configuration is
  opaque.
\<close>

record template_runtime =
  trt_Type :: string
  trt_Image :: string
  trt_Command :: "string list"
  trt_Args :: "string list"
  trt_Env :: "string gomap"

record template_config =
  tcf_Schema :: opaque
  tcf_Required :: "string list"
  tcf_Properties :: "opaque gomap"

record server_template =
  tpl_Name :: string
  tpl_Version :: string
  tpl_Description :: string
  tpl_Repository :: string
  tpl_License :: string
  tpl_Author :: string
  tpl_Homepage :: string
  tpl_Keywords :: "string list"
  tpl_Runtime :: template_runtime
  tpl_Config :: template_config
  tpl_Capabilities :: "string list"
  tpl_Environment :: "string gomap"
  tpl_Transport :: "transport_spec option"
  tpl_Ports :: "port_spec list"
  tpl_TemplateDigest :: string

record server_info =
  sin_Name :: string
  sin_Path :: string
  sin_UpdatedAt :: instant
  sin_Size :: int
  sin_DownloadURL :: string
  sin_HTMLURL :: string

definition zero_template :: server_template where
  "zero_template = \<lparr>tpl_Name = [], tpl_Version = [], tpl_Description = [], tpl_Repository = [],
     tpl_License = [], tpl_Author = [], tpl_Homepage = [], tpl_Keywords = [],
     tpl_Runtime = \<lparr>trt_Type = [], trt_Image = [], trt_Command = [], trt_Args = [], trt_Env = None\<rparr>,
     tpl_Config = \<lparr>tcf_Schema = [], tcf_Required = [], tcf_Properties = None\<rparr>,
     tpl_Capabilities = [], tpl_Environment = None, tpl_Transport = None, tpl_Ports = [],
     tpl_TemplateDigest = []\<rparr>"

section \<open>The registry service\<close>

text \<open>
  \<open>pkg/services/registry_service.go\<close>. The registry client is its environment: what it answers
  for a server's specification and for the list of servers. The enrichments return the error and
  the server as the caller finds it afterwards, since they change it in place even when they fail.
\<close>

record 'w registry_client =
  rcl_GetServerSpec :: "string \<Rightarrow> 'w \<Rightarrow> (string + server_template) \<times> 'w"
  rcl_ListServers :: "'w \<Rightarrow> (string + server_info list) \<times> 'w"

type_synonym 'w enriched = "((go_error \<times> mcp_server) \<times> 'w) outcome"

definition FetchServerSpec ::
  "'w registry_client option \<Rightarrow> string \<Rightarrow> string \<Rightarrow> 'w \<Rightarrow> (string + server_template) \<times> 'w" where
  "FetchServerSpec rc registryName serverName w =
     (case rc of
        None \<Rightarrow> (Inl ''registry client is not initialized'', w)
      | Some c \<Rightarrow>
          (case rcl_GetServerSpec c serverName w of
             (Inl e, w1) \<Rightarrow> (Inl (''failed to fetch server spec for '' @ serverName @ '': '' @ e), w1)
           | (Inr spec, w1) \<Rightarrow> (Inr spec, w1)))"

subsection \<open>Annotations\<close>

definition an_version :: string where "an_version = ''mcp.allbeone.io/registry-version''"
definition an_description :: string where "an_description = ''mcp.allbeone.io/registry-description''"
definition an_repository :: string where "an_repository = ''mcp.allbeone.io/registry-repository''"
definition an_license :: string where "an_license = ''mcp.allbeone.io/registry-license''"
definition an_author :: string where "an_author = ''mcp.allbeone.io/registry-author''"
definition an_digest :: string where "an_digest = ''mcp.allbeone.io/template-digest''"

lemmas an_defs = an_version_def an_description_def an_repository_def an_license_def an_author_def
  an_digest_def

definition template_annotations :: "server_template \<Rightarrow> (string \<times> string) list" where
  "template_annotations t =
     [(an_version, tpl_Version t), (an_description, tpl_Description t),
      (an_repository, tpl_Repository t), (an_license, tpl_License t), (an_author, tpl_Author t)]"

text \<open>\<open>if annotations[k] == "" { annotations[k] = v }\<close>.\<close>

definition put_if_empty :: "string \<times> string \<Rightarrow> string gomap \<Rightarrow> string gomap" where
  "put_if_empty kv m = (if gm_str m (fst kv) = [] then gm_put (fst kv) (snd kv) m else m)"

definition annotate_missing :: "server_template \<Rightarrow> string gomap \<Rightarrow> string gomap" where
  "annotate_missing t m = fold put_if_empty (template_annotations t) m"

definition annotate_all :: "server_template \<Rightarrow> string gomap \<Rightarrow> string gomap" where
  "annotate_all t m = gm_put_all (template_annotations t) m"

definition annotate_digest :: "server_template \<Rightarrow> string gomap \<Rightarrow> string gomap" where
  "annotate_digest t m =
     (if tpl_TemplateDigest t \<noteq> [] then gm_put an_digest (tpl_TemplateDigest t) (gm_make m) else gm_make m)"

definition with_annotations :: "string gomap \<Rightarrow> mcp_server \<Rightarrow> mcp_server" where
  "with_annotations m s = s\<lparr>srv_Meta := (srv_Meta s)\<lparr>om_Annotations := m\<rparr>\<rparr>"

definition with_runtime :: "runtime_spec \<Rightarrow> mcp_server \<Rightarrow> mcp_server" where
  "with_runtime rt s = s\<lparr>srv_Spec := (srv_Spec s)\<lparr>sp_Runtime := Some rt\<rparr>\<rparr>"

subsection \<open>Enrichment from the registry\<close>

text \<open>Filling in what the user left empty.\<close>

definition fill_runtime :: "template_runtime \<Rightarrow> runtime_spec \<Rightarrow> runtime_spec" where
  "fill_runtime t rt = rt\<lparr>
     rt_Type := (if rt_Type rt = [] then trt_Type t else rt_Type rt),
     rt_Image := (if rt_Image rt = [] then trt_Image t else rt_Image rt),
     rt_Command := (if length (rt_Command rt) = 0 then trt_Command t else rt_Command rt),
     rt_Args := (if length (rt_Args rt) = 0 then trt_Args t else rt_Args rt),
     rt_Env := gm_put_all_new (gm_entries (trt_Env t)) (gm_make (rt_Env rt))\<rparr>"

definition EnrichMCPServer ::
  "'w registry_client option \<Rightarrow> mcp_server \<Rightarrow> string \<Rightarrow> 'w \<Rightarrow> 'w enriched" where
  "EnrichMCPServer rc s registryName w =
     (let s0 = with_annotations (gm_make (srv_Annotations s)) s;
          versioned = gm_str (srv_Annotations s0) an_version \<noteq> [] in
      and_then
        (if versioned then and_then (deref (sp_Runtime (srv_Spec s0))) (\<lambda>rt. Returns (rt_Image rt \<noteq> []))
         else Returns False) (\<lambda>already.
      if already then Returns ((None, s0), w)
      else and_then (deref (sp_Registry (srv_Spec s0))) (\<lambda>reg.
        case FetchServerSpec rc registryName (rr_ServerName reg) w of
          (Inl e, w1) \<Rightarrow>
            Returns ((Some (''failed to fetch server spec for enrichment: '' @ e), s0), w1)
        | (Inr t, w1) \<Rightarrow>
            and_then (deref (sp_Runtime (srv_Spec s0))) (\<lambda>rt.
              Returns ((None,
                with_annotations (annotate_digest t (annotate_missing t (srv_Annotations s0)))
                  (with_runtime (fill_runtime (tpl_Runtime t) rt) s0)), w1)))))"

text \<open>Overwriting it.\<close>

definition force_runtime :: "template_runtime \<Rightarrow> runtime_spec \<Rightarrow> runtime_spec" where
  "force_runtime t rt = rt\<lparr>rt_Type := trt_Type t, rt_Image := trt_Image t,
     rt_Command := trt_Command t, rt_Args := trt_Args t,
     rt_Env := gm_put_all (gm_entries (trt_Env t))
        (fold gm_delete (map fst (gm_entries (rt_Env rt))) (gm_make (rt_Env rt)))\<rparr>"

definition ForceEnrichMCPServer ::
  "'w registry_client option \<Rightarrow> mcp_server \<Rightarrow> string \<Rightarrow> 'w \<Rightarrow> 'w enriched" where
  "ForceEnrichMCPServer rc s registryName w =
     (let s0 = with_annotations (gm_make (srv_Annotations s)) s in
      and_then (deref (sp_Registry (srv_Spec s0))) (\<lambda>reg.
        case FetchServerSpec rc registryName (rr_ServerName reg) w of
          (Inl e, w1) \<Rightarrow>
            Returns ((Some (''failed to fetch server spec for force enrichment: '' @ e), s0), w1)
        | (Inr t, w1) \<Rightarrow>
            and_then (deref (sp_Runtime (srv_Spec s0))) (\<lambda>rt.
              Returns ((None,
                with_annotations (annotate_digest t (annotate_all t (srv_Annotations s0)))
                  (with_runtime (force_runtime (tpl_Runtime t) rt) s0)), w1))))"

subsection \<open>Enrichment from the cached ConfigMap\<close>

record config_map =
  cm_Name :: string
  cm_Namespace :: string
  cm_Labels :: "string gomap"
  cm_Annotations :: "string gomap"
  cm_Data :: "string gomap"

definition cached_runtime :: "template_runtime \<Rightarrow> runtime_spec \<Rightarrow> runtime_spec" where
  "cached_runtime t rt0 =
     (let rt1 = (if rt_Type rt0 = [] \<and> trt_Type t \<noteq> [] then rt0\<lparr>rt_Type := trt_Type t\<rparr> else rt0);
          rt2 = (if (rt_Type rt1 = ''docker'' \<or> rt_Type rt1 = ''Docker'') \<and> rt_Image rt1 = [] \<and> trt_Image t \<noteq> []
                 then rt1\<lparr>rt_Image := trt_Image t\<rparr> else rt1)
      in rt2\<lparr>
        rt_Command := (if length (rt_Command rt2) = 0 then trt_Command t else rt_Command rt2),
        rt_Args := (if length (rt_Args rt2) = 0 then trt_Args t else rt_Args rt2),
        rt_Env := gm_put_all_new (gm_entries (trt_Env t)) (gm_make (rt_Env rt2))\<rparr>)"

text \<open>Template values first, then detection from the presence of ports in the template.\<close>

definition cached_transport :: "server_template \<Rightarrow> transport_spec option \<Rightarrow> transport_spec option" where
  "cached_transport t tr =
     (let tr1 = (case (tr, tpl_Transport t) of
            (None, Some x) \<Rightarrow> Some \<lparr>tr_Type = tr_Type x, tr_Path = tr_Path x\<rparr>
          | (Some y, Some x) \<Rightarrow>
              Some (y\<lparr>tr_Type := (if tr_Type y = [] then tr_Type x else tr_Type y),
                      tr_Path := (if tr_Path y = [] then tr_Path x else tr_Path y)\<rparr>)
          | (_, None) \<Rightarrow> tr);
          undecided = (case tr1 of None \<Rightarrow> True | Some y \<Rightarrow> tr_Type y = [])
      in if \<not> undecided then tr1
         else (let y = (case tr1 of None \<Rightarrow> zero_transport | Some y \<Rightarrow> y);
                   y1 = (if tr_Type y = []
                         then y\<lparr>tr_Type := (if length (tpl_Ports t) = 0 then ''stdio'' else ''http'')\<rparr> else y);
                   path = (case tpl_Transport t of None \<Rightarrow> [] | Some x \<Rightarrow> tr_Path x)
               in Some (if tr_Path y1 = [] \<and> path \<noteq> [] then y1\<lparr>tr_Path := path\<rparr> else y1)))"

definition cached_ports :: "server_template \<Rightarrow> port_spec list \<Rightarrow> port_spec list" where
  "cached_ports t ports = (if length ports = 0 \<and> length (tpl_Ports t) > 0 then tpl_Ports t else ports)"

definition enrich_from_template :: "server_template \<Rightarrow> mcp_server \<Rightarrow> mcp_server" where
  "enrich_from_template t s =
     (let rt0 = (case sp_Runtime (srv_Spec s) of None \<Rightarrow> zero_runtime | Some rt \<Rightarrow> rt);
          s1 = with_annotations (annotate_missing t (gm_make (srv_Annotations s)))
                 (with_runtime (cached_runtime (tpl_Runtime t) rt0) s);
          s2 = s1\<lparr>srv_Spec := (srv_Spec s1)\<lparr>
                 sp_Transport := cached_transport t (sp_Transport (srv_Spec s1)),
                 sp_Ports := cached_ports t (sp_Ports (srv_Spec s1))\<rparr>\<rparr>
      in with_annotations (annotate_digest t (srv_Annotations s2)) s2)"

text \<open>The ConfigMap that caches the template of a server.\<close>

definition cache_name :: "string \<Rightarrow> registry_ref \<Rightarrow> string" where
  "cache_name own reg = ''mcpregistry-'' @ rr_Name reg @ ''-'' @ ref_server own reg"

definition EnrichMCPServerFromCache ::
  "('w, config_map) kube_api \<Rightarrow> (string \<Rightarrow> string + server_template) \<Rightarrow> mcp_server \<Rightarrow> string \<Rightarrow> 'w
     \<Rightarrow> 'w enriched" where
  "EnrichMCPServerFromCache api parse_yaml s namespace w =
     and_then (deref (sp_Registry (srv_Spec s))) (\<lambda>reg.
       if rr_Name reg = [] then
         Returns ((Some ''registry name is required for cache enrichment'', s), w)
       else
         (let name = cache_name (srv_Name s) reg;
              ns = (if namespace = [] then srv_Namespace s else namespace) in
          case ka_get api ns name w of
            (Inl e, w1) \<Rightarrow>
              Returns ((Some (if is_not_found e
                 then ''registry cache not found: ConfigMap '' @ name @ '' not found in namespace '' @ ns
                 else ''failed to get ConfigMap '' @ name @ '': '' @ api_msg e), s), w1)
          | (Inr cm, w1) \<Rightarrow>
              (case gm_get (cm_Data cm) ''server.yaml'' of
                 None \<Rightarrow> Returns ((Some (''server.yaml not found in ConfigMap '' @ name), s), w1)
               | Some y \<Rightarrow>
                   (case parse_yaml y of
                      Inl e \<Rightarrow>
                        Returns ((Some (''failed to parse server.yaml from ConfigMap '' @ name @ '': '' @ e), s), w1)
                    | Inr t \<Rightarrow> Returns ((None, enrich_from_template t s), w1)))))"

subsection \<open>Tokens\<close>

record secret_object =
  sec_Name :: string
  sec_Data :: "string gomap"

definition supportedKeys :: "string list" where
  "supportedKeys = [''token'', ''GITHUB_TOKEN'']"

definition first_key :: "string gomap \<Rightarrow> string list \<Rightarrow> string option" where
  "first_key m ks = (case find (\<lambda>k. gm_get m k \<noteq> None) ks of None \<Rightarrow> None | Some k \<Rightarrow> gm_get m k)"

definition getGitHubTokenFromSecret ::
  "('w, secret_object) kube_api \<Rightarrow> secret_reference option \<Rightarrow> string \<Rightarrow> 'w \<Rightarrow> (string + string) \<times> 'w" where
  "getGitHubTokenFromSecret api ref namespace w =
     (case ref of
        None \<Rightarrow> (Inr [], w)
      | Some r \<Rightarrow>
          (case ka_get api namespace (sr_Name r) w of
             (Inl e, w1) \<Rightarrow>
               (if is_not_found e \<and> sr_Optional r then (Inr [], w1)
                else (Inl (''failed to get secret '' @ namespace @ ''/'' @ sr_Name r @ '': '' @ api_msg e), w1))
           | (Inr sec, w1) \<Rightarrow>
               (case (if sr_Key r \<noteq> [] then gm_get (sec_Data sec) (sr_Key r) else None) of
                  Some tok \<Rightarrow> (Inr tok, w1)
                | None \<Rightarrow>
                    (case first_key (sec_Data sec) supportedKeys of
                       Some tok \<Rightarrow> (Inr tok, w1)
                     | None \<Rightarrow>
                         if \<not> sr_Optional r then
                           (Inl (''GitHub token not found in secret '' @ namespace @ ''/'' @ sr_Name r @
                             '', tried keys: ['' @ join '' '' (sr_Key r # supportedKeys) @ '']''), w1)
                         else (Inr [], w1)))))"

text \<open>\<open>env\<close> is the value of \<open>GITHUB_TOKEN\<close> in the environment of the process.\<close>

definition getGitHubToken ::
  "('w, secret_object) kube_api \<Rightarrow> string \<Rightarrow> mcp_registry \<Rightarrow> 'w \<Rightarrow> string \<times> 'w" where
  "getGitHubToken api env r w =
     (case rg_Auth (reg_Spec r) of
        None \<Rightarrow> (env, w)
      | Some a \<Rightarrow>
          if ra_Token a \<noteq> [] then (ra_Token a, w)
          else (case ra_SecretRef a of
            None \<Rightarrow> (env, w)
          | Some ref \<Rightarrow>
              (case getGitHubTokenFromSecret api (Some ref) (om_Namespace (reg_Meta r)) w of
                 (Inl e, w1) \<Rightarrow> (env, w1)
               | (Inr tok, w1) \<Rightarrow> (if tok \<noteq> [] then tok else env, w1))))"

subsection \<open>Synchronisation\<close>

text \<open>\<open>new_client\<close> is the constructor of a registry client from a token, which may be empty.\<close>

definition listAvailableServersWithClient ::
  "'w registry_client option \<Rightarrow> 'w \<Rightarrow> (string + server_info list) \<times> 'w" where
  "listAvailableServersWithClient rc w =
     (case rc of
        None \<Rightarrow> (Inl ''registry client is not initialized'', w)
      | Some c \<Rightarrow>
          (case rcl_ListServers c w of
             (Inl e, w1) \<Rightarrow> (Inl (''failed to list servers: '' @ e), w1)
           | (Inr ss, w1) \<Rightarrow> (Inr ss, w1)))"

definition status_server :: "server_info \<Rightarrow> registry_server" where
  "status_server i = \<lparr>rse_Name = sin_Name i, rse_Title = [],
     rse_Description = ''Server from '' @ sin_Path i, rse_Version = [], rse_Tags = [],
     rse_Path = sin_Path i\<rparr>"

definition SyncRegistry ::
  "(string \<Rightarrow> 'w registry_client) \<Rightarrow> ('w, secret_object) kube_api \<Rightarrow> string \<Rightarrow> mcp_registry \<Rightarrow> 'w
     \<Rightarrow> (go_error \<times> mcp_registry) \<times> 'w" where
  "SyncRegistry new_client api env r w =
     (let (token, w1) = getGitHubToken api env r w in
      case listAvailableServersWithClient (Some (new_client token)) w1 of
        (Inl e, w2) \<Rightarrow> ((Some (''failed to list available servers: '' @ e), r), w2)
      | (Inr servers, w2) \<Rightarrow>
          ((None, r\<lparr>reg_Status := (reg_Status r)\<lparr>
              rgs_ServersDiscovered := to_i32 (int (length servers)),
              rgs_Servers := map status_server servers\<rparr>\<rparr>), w2))"

definition ValidateRegistryConnection ::
  "(string \<Rightarrow> 'w registry_client) \<Rightarrow> ('w, secret_object) kube_api \<Rightarrow> string \<Rightarrow> mcp_registry \<Rightarrow> 'w
     \<Rightarrow> go_error \<times> 'w" where
  "ValidateRegistryConnection new_client api env r w =
     (let (token, w1) = getGitHubToken api env r w in
      case rcl_ListServers (new_client token) w1 of
        (Inl e, w2) \<Rightarrow> (Some (''registry connection validation failed: '' @ e), w2)
      | (Inr _, w2) \<Rightarrow> (None, w2))"

section \<open>Correctness\<close>

text \<open>The name of the registry plays no part in fetching a specification from it.\<close>

lemma fetch_ignores_registry: "FetchServerSpec rc r1 server w = FetchServerSpec rc r2 server w"
  by (simp add: FetchServerSpec_def)

subsection \<open>Annotations\<close>

lemma put_if_empty_get:
  "gm_str (put_if_empty (k, v) m) k' =
     (if k' = k \<and> gm_str m k = [] then v else gm_str m k')"
  by (simp add: put_if_empty_def)

lemma annotate_missing_str:
  "gm_str (annotate_missing t m) k =
     (if gm_str m k \<noteq> [] then gm_str m k
      else (case map_of (template_annotations t) k of None \<Rightarrow> [] | Some v \<Rightarrow> v))"
  by (auto simp: annotate_missing_def template_annotations_def put_if_empty_get an_defs)

lemma annotate_digest_str:
  "gm_str (annotate_digest t m) k =
     (if k = an_digest \<and> tpl_TemplateDigest t \<noteq> [] then tpl_TemplateDigest t else gm_str m k)"
  by (simp add: annotate_digest_def)

lemma with_fields [simp]:
  "srv_Spec (with_annotations m s) = srv_Spec s"
  "srv_Annotations (with_annotations m s) = m"
  "srv_Status (with_annotations m s) = srv_Status s"
  "srv_Name (with_annotations m s) = srv_Name s"
  "srv_Namespace (with_annotations m s) = srv_Namespace s"
  "srv_Meta (with_runtime rt s) = srv_Meta s"
  "sp_Runtime (srv_Spec (with_runtime rt s)) = Some rt"
  "sp_Transport (srv_Spec (with_runtime rt s)) = sp_Transport (srv_Spec s)"
  "sp_Ports (srv_Spec (with_runtime rt s)) = sp_Ports (srv_Spec s)"
  "sp_Registry (srv_Spec (with_runtime rt s)) = sp_Registry (srv_Spec s)"
  by (simp_all add: with_annotations_def with_runtime_def)

subsection \<open>Enrichment from the cache\<close>

definition user_runtime :: "mcp_server \<Rightarrow> runtime_spec" where
  "user_runtime s = (case sp_Runtime (srv_Spec s) of None \<Rightarrow> zero_runtime | Some rt \<Rightarrow> rt)"

lemma cached_runtime_fields:
  "rt_Type (cached_runtime t rt) = (if rt_Type rt = [] then trt_Type t else rt_Type rt)"
  "rt_Image rt \<noteq> [] \<Longrightarrow> rt_Image (cached_runtime t rt) = rt_Image rt"
  "rt_Type (cached_runtime t rt) = ''docker'' \<Longrightarrow> rt_Image rt = [] \<Longrightarrow>
     rt_Image (cached_runtime t rt) = trt_Image t"
  "rt_Command (cached_runtime t rt) = (if rt_Command rt = [] then trt_Command t else rt_Command rt)"
  "rt_Args (cached_runtime t rt) = (if rt_Args rt = [] then trt_Args t else rt_Args rt)"
  "rt_Port (cached_runtime t rt) = rt_Port rt"
  "gm_get (rt_Env (cached_runtime t rt)) k =
     (case gm_get (rt_Env rt) k of Some v \<Rightarrow> Some v | None \<Rightarrow> gm_get (trt_Env t) k)"
  by (auto simp: cached_runtime_def Let_def gm_get_merge_new
      split: if_splits)

lemma cached_transport_type:
  "\<exists>tr'. cached_transport t tr = Some tr' \<and> tr_Type tr' \<noteq> [] \<and>
     (\<forall>y. tr = Some y \<longrightarrow> (tr_Type y \<noteq> [] \<longrightarrow> tr_Type tr' = tr_Type y) \<and>
                         (tr_Path y \<noteq> [] \<longrightarrow> tr_Path tr' = tr_Path y))"
  by (cases tr; cases "tpl_Transport t")
     (auto simp: cached_transport_def Let_def zero_transport_def)

text \<open>Enrichment from a cached template keeps everything the user wrote (type, image, command,
  arguments, environment entries, transport, ports and annotations), fills the rest from the
  template, and always leaves a runtime and a transport with a type.\<close>

theorem cache_enrichment_conservative:
  assumes "s' = enrich_from_template t s" and "u = user_runtime s"
  shows "\<exists>rt tr. sp_Runtime (srv_Spec s') = Some rt \<and> sp_Transport (srv_Spec s') = Some tr \<and>
     rt_Type rt = (if rt_Type u = [] then trt_Type (tpl_Runtime t) else rt_Type u) \<and>
     (rt_Image u \<noteq> [] \<longrightarrow> rt_Image rt = rt_Image u) \<and>
     (rt_Type rt = ''docker'' \<and> rt_Image u = [] \<longrightarrow> rt_Image rt = trt_Image (tpl_Runtime t)) \<and>
     rt_Command rt = (if rt_Command u = [] then trt_Command (tpl_Runtime t) else rt_Command u) \<and>
     rt_Args rt = (if rt_Args u = [] then trt_Args (tpl_Runtime t) else rt_Args u) \<and>
     (\<forall>k. gm_get (rt_Env rt) k =
        (case gm_get (rt_Env u) k of Some v \<Rightarrow> Some v | None \<Rightarrow> gm_get (trt_Env (tpl_Runtime t)) k)) \<and>
     tr_Type tr \<noteq> [] \<and>
     (\<forall>y. sp_Transport (srv_Spec s) = Some y \<longrightarrow> (tr_Type y \<noteq> [] \<longrightarrow> tr_Type tr = tr_Type y) \<and>
        (tr_Path y \<noteq> [] \<longrightarrow> tr_Path tr = tr_Path y)) \<and>
     sp_Ports (srv_Spec s') = (if sp_Ports (srv_Spec s) = [] then tpl_Ports t else sp_Ports (srv_Spec s)) \<and>
     (\<forall>k. k \<noteq> an_digest \<longrightarrow> gm_str (srv_Annotations s) k \<noteq> [] \<longrightarrow>
        gm_str (srv_Annotations s') k = gm_str (srv_Annotations s) k)"
proof -
  obtain tr where tr: "cached_transport t (sp_Transport (srv_Spec s)) = Some tr" "tr_Type tr \<noteq> []"
    "\<forall>y. sp_Transport (srv_Spec s) = Some y \<longrightarrow> (tr_Type y \<noteq> [] \<longrightarrow> tr_Type tr = tr_Type y) \<and>
       (tr_Path y \<noteq> [] \<longrightarrow> tr_Path tr = tr_Path y)"
    using cached_transport_type[of t "sp_Transport (srv_Spec s)"] by blast
  let ?rt = "cached_runtime (tpl_Runtime t) u"
  have "sp_Runtime (srv_Spec s') = Some ?rt" "sp_Transport (srv_Spec s') = Some tr"
    "sp_Ports (srv_Spec s') = (if sp_Ports (srv_Spec s) = [] then tpl_Ports t else sp_Ports (srv_Spec s))"
    using assms tr(1)
    by (simp_all add: enrich_from_template_def Let_def user_runtime_def cached_ports_def)
  moreover have "gm_str (srv_Annotations s') k = gm_str (srv_Annotations s) k"
    if "k \<noteq> an_digest" "gm_str (srv_Annotations s) k \<noteq> []" for k
    using that assms(1)
    by (simp add: enrich_from_template_def Let_def annotate_digest_str annotate_missing_str)
  moreover note tr(2,3)
  ultimately show ?thesis
    using cached_runtime_fields[where t = "tpl_Runtime t" and rt = u] by (intro exI[of _ ?rt] exI[of _ tr]) blast
qed

definition sample_template :: server_template where
  "sample_template = zero_template\<lparr>tpl_Version := ''1.2'', tpl_Runtime :=
     \<lparr>trt_Type = ''docker'', trt_Image = ''ghcr.io/acme/fetch:1.2'', trt_Command = [], trt_Args = [''serve''],
       trt_Env = Some [(''MODE'', ''prod'')]\<rparr>\<rparr>"

lemma cache_enrichment_conservative_witness:
  "\<exists>rt tr. sp_Runtime (srv_Spec (enrich_from_template sample_template zero_server)) = Some rt \<and>
     sp_Transport (srv_Spec (enrich_from_template sample_template zero_server)) = Some tr \<and>
     rt_Image rt = ''ghcr.io/acme/fetch:1.2'' \<and> rt_Args rt = [''serve''] \<and> tr_Type tr \<noteq> []"
proof -
  have u: "user_runtime zero_server = zero_runtime" "sp_Runtime (srv_Spec zero_server) = None"
    by (simp_all add: user_runtime_def zero_server_def zero_spec_def)
  have t: "trt_Image (tpl_Runtime sample_template) = ''ghcr.io/acme/fetch:1.2''"
    "trt_Args (tpl_Runtime sample_template) = [''serve'']"
    "trt_Type (tpl_Runtime sample_template) = ''docker''"
    by (simp_all add: sample_template_def)
  have z: "rt_Type zero_runtime = []" "rt_Image zero_runtime = []" "rt_Args zero_runtime = []"
    by (simp_all add: zero_runtime_def)
  show ?thesis
    using cache_enrichment_conservative[OF refl refl, of sample_template zero_server]
    unfolding u t z by (elim exE conjE) (intro exI conjI, assumption+, simp_all)
qed

text \<open>A second enrichment from the same template changes nothing.\<close>

lemma cached_runtime_alt:
  assumes "ty = (if rt_Type rt = [] then trt_Type t else rt_Type rt)"
  shows "cached_runtime t rt = rt\<lparr>rt_Type := ty,
     rt_Image := (if (ty = ''docker'' \<or> ty = ''Docker'') \<and> rt_Image rt = [] then trt_Image t else rt_Image rt),
     rt_Command := (if rt_Command rt = [] then trt_Command t else rt_Command rt),
     rt_Args := (if rt_Args rt = [] then trt_Args t else rt_Args rt),
     rt_Env := gm_put_all_new (gm_entries (trt_Env t)) (gm_make (rt_Env rt))\<rparr>"
proof -
  define D where "D x = (x = ''docker'' \<or> x = ''Docker'')" for x :: string
  show ?thesis
    unfolding assms cached_runtime_def Let_def D_def[symmetric]
    by (rule runtime_spec.equality) simp_all
qed

lemma cached_runtime_idem: "cached_runtime t (cached_runtime t rt) = cached_runtime t rt"
proof -
  define D where "D x = (x = ''docker'' \<or> x = ''Docker'')" for x :: string
  show ?thesis
    unfolding cached_runtime_alt[OF refl] D_def[symmetric]
    by (rule runtime_spec.equality) (simp_all del: not_None_eq)
qed

lemma cached_transport_decided:
  "tr_Type y \<noteq> [] \<Longrightarrow> cached_transport t (Some y) =
     Some (y\<lparr>tr_Path := (if tr_Path y = [] then (case tpl_Transport t of None \<Rightarrow> [] | Some x \<Rightarrow> tr_Path x)
                        else tr_Path y)\<rparr>)"
  by (cases "tpl_Transport t") (simp_all add: cached_transport_def)

lemma cached_transport_path:
  "map_option tr_Path (cached_transport t tr) =
     Some (let path = (case tpl_Transport t of None \<Rightarrow> [] | Some x \<Rightarrow> tr_Path x);
               user = (case tr of None \<Rightarrow> [] | Some y \<Rightarrow> tr_Path y)
           in if user = [] then path else user)"
proof -
  define S H where "S = ''stdio''" and "H = ''http''"
  have "S \<noteq> []" "H \<noteq> []" by (simp_all add: S_def H_def)
  then show ?thesis
    unfolding cached_transport_def S_def[symmetric] H_def[symmetric] zero_transport_def
    by (cases tr; cases "tpl_Transport t") (simp_all add: Let_def)
qed

lemma cached_transport_idem: "cached_transport t (cached_transport t tr) = cached_transport t tr"
proof -
  obtain y where y: "cached_transport t tr = Some y" "tr_Type y \<noteq> []"
    using cached_transport_type[of t tr] by blast
  then have "tr_Path y = [] \<Longrightarrow> (case tpl_Transport t of None \<Rightarrow> [] | Some x \<Rightarrow> tr_Path x) = tr_Path y"
    using cached_transport_path[of t tr] by (simp add: Let_def split: if_splits)
  then show ?thesis by (simp add: y cached_transport_decided)
qed

lemma put_if_empty_present:
  "\<forall>kv \<in> set kvs. gm_str m (fst kv) \<noteq> [] \<or> gm_get m (fst kv) = Some (snd kv) \<Longrightarrow>
     fold put_if_empty kvs m = m"
  by (induction kvs) (auto simp: put_if_empty_def gm_put_same)

lemma put_if_empty_stays:
  "gm_str m k \<noteq> [] \<or> gm_get m k = Some v \<Longrightarrow> \<forall>kv \<in> set kvs. fst kv = k \<longrightarrow> snd kv = v \<Longrightarrow>
     gm_str (fold put_if_empty kvs m) k \<noteq> [] \<or> gm_get (fold put_if_empty kvs m) k = Some v"
proof (induction kvs arbitrary: m)
  case (Cons kv kvs)
  then have "gm_str (put_if_empty kv m) k \<noteq> [] \<or> gm_get (put_if_empty kv m) k = Some v"
    by (auto simp: put_if_empty_def)
  with Cons show ?case by simp
qed simp

lemma put_if_empty_sets:
  "distinct (map fst kvs) \<Longrightarrow> kv \<in> set kvs \<Longrightarrow>
     gm_str (fold put_if_empty kvs m) (fst kv) \<noteq> [] \<or>
     gm_get (fold put_if_empty kvs m) (fst kv) = Some (snd kv)"
proof (induction kvs arbitrary: m)
  case (Cons x kvs)
  show ?case
  proof (cases "x = kv")
    case True
    have "gm_str (put_if_empty x m) (fst x) \<noteq> [] \<or> gm_get (put_if_empty x m) (fst x) = Some (snd x)"
      by (simp add: put_if_empty_def)
    moreover have "\<forall>kv \<in> set kvs. fst kv = fst x \<longrightarrow> snd kv = snd x"
      using Cons.prems(1) by (force simp: image_iff)
    ultimately have "gm_str (fold put_if_empty kvs (put_if_empty x m)) (fst x) \<noteq> [] \<or>
        gm_get (fold put_if_empty kvs (put_if_empty x m)) (fst x) = Some (snd x)"
      by (rule put_if_empty_stays)
    then show ?thesis using True by simp
  next
    case False
    with Cons show ?thesis by simp
  qed
qed simp

lemma distinct_annotations: "distinct (map fst (template_annotations t))"
  by (simp add: template_annotations_def an_defs)

lemma annotations_idem:
  assumes "m2 = annotate_digest t (annotate_missing t (gm_make m))"
  shows "annotate_digest t (annotate_missing t (gm_make m2)) = m2"
proof -
  have nn: "m2 \<noteq> None"
    by (simp add: assms annotate_digest_def gm_put_def annotate_missing_def del: not_None_eq)
  have "gm_str m2 (fst kv) \<noteq> [] \<or> gm_get m2 (fst kv) = Some (snd kv)"
    if "kv \<in> set (template_annotations t)" for kv
  proof -
    have "fst kv \<noteq> an_digest" using that by (auto simp: template_annotations_def an_defs)
    then show ?thesis
      using put_if_empty_sets[OF distinct_annotations that, of "gm_make m"]
      by (simp add: assms annotate_digest_def annotate_missing_def)
  qed
  then have "annotate_missing t m2 = m2"
    unfolding annotate_missing_def by (intro put_if_empty_present) blast
  moreover have "tpl_TemplateDigest t \<noteq> [] \<Longrightarrow> gm_get m2 an_digest = Some (tpl_TemplateDigest t)"
    by (simp add: assms annotate_digest_def)
  ultimately show ?thesis using nn by (simp add: annotate_digest_def gm_put_same)
qed

text \<open>Enrichment from a cached template is idempotent.\<close>

theorem cache_enrichment_idempotent:
  "enrich_from_template t (enrich_from_template t s) = enrich_from_template t s"
proof -
  let ?s1 = "enrich_from_template t s"
  have ann: "srv_Annotations ?s1 = annotate_digest t (annotate_missing t (gm_make (srv_Annotations s)))"
    by (simp add: enrich_from_template_def Let_def)
  have "sp_Runtime (srv_Spec ?s1) = Some (cached_runtime (tpl_Runtime t) (user_runtime s))"
    "sp_Transport (srv_Spec ?s1) = cached_transport t (sp_Transport (srv_Spec s))"
    "sp_Ports (srv_Spec ?s1) = cached_ports t (sp_Ports (srv_Spec s))"
    by (simp_all add: enrich_from_template_def Let_def user_runtime_def)
  then show ?thesis
    using annotations_idem[OF ann]
    by (simp add: enrich_from_template_def[of t ?s1] Let_def cached_runtime_idem cached_transport_idem
        cached_ports_def with_annotations_def with_runtime_def)
qed

end
