(* ===== verification/AutoUpdate.thy ===== *)
theory AutoUpdate
  imports RegistryService
begin

section \<open>Keeping servers up to date with their templates\<close>

text \<open>
  \<open>pkg/services/auto_update_service.go\<close> and \<open>controllers/auto_update_controller.go\<close>: the
  periodic sweep that compares every MCPServer with its registry template, the backoff of the
  servers whose update failed, and the life cycle of the goroutine that drives it.

  The environment is a record of the four things the service is given: the API server, the
  registry client behind the registry service, the event recorder and the clock, which is read
  from the world at every \<open>time.Now()\<close>.
\<close>

datatype event_type = EventNormal | EventWarning

record event =
  ev_Type :: event_type
  ev_Reason :: string
  ev_Message :: string

record 'w update_env =
  ue_api :: "('w, mcp_server) kube_api"
  ue_registry :: "'w registry_client option"
  ue_event :: "mcp_server \<Rightarrow> event \<Rightarrow> 'w \<Rightarrow> 'w"
  ue_now :: "'w \<Rightarrow> instant"

subsection \<open>Comparing a server with its template\<close>

definition areRuntimeSpecsEqual :: "runtime_spec \<Rightarrow> template_runtime \<Rightarrow> bool" where
  "areRuntimeSpecsEqual current latest =
     (if rt_Type current \<noteq> trt_Type latest then False
      else if length (rt_Command current) \<noteq> length (trt_Command latest) then False
      else if \<exists>i < length (rt_Command current). rt_Command current ! i \<noteq> trt_Command latest ! i then False
      else if length (rt_Args current) \<noteq> length (trt_Args latest) then False
      else if \<exists>i < length (rt_Args current). rt_Args current ! i \<noteq> trt_Args latest ! i then False
      else True)"

text \<open>The decision once the template is there; the image is read through the runtime pointer.\<close>

definition update_check :: "mcp_server \<Rightarrow> server_template \<Rightarrow> bool outcome" where
  "update_check s t =
     (let currentDigest = gm_str (srv_Annotations s) an_digest;
          currentVersion = gm_str (srv_Annotations s) an_version in
      if currentDigest \<noteq> [] \<and> tpl_TemplateDigest t \<noteq> [] \<and> currentDigest \<noteq> tpl_TemplateDigest t
      then Returns True
      else if currentVersion \<noteq> tpl_Version t then Returns True
      else and_then (deref (sp_Runtime (srv_Spec s))) (\<lambda>rt.
        if rt_Image rt \<noteq> trt_Image (tpl_Runtime t) then Returns True
        else if \<not> areRuntimeSpecsEqual rt (tpl_Runtime t) then Returns True
        else Returns False))"

definition IsUpdateRequired ::
  "'w update_env \<Rightarrow> mcp_server \<Rightarrow> 'w \<Rightarrow> ((string + bool \<times> server_template option) \<times> 'w) outcome" where
  "IsUpdateRequired env s w =
     and_then (deref (sp_Registry (srv_Spec s))) (\<lambda>reg.
       if rr_Name reg = [] \<and> rr_Registry reg = [] then Returns (Inr (False, None), w)
       else
         (case FetchServerSpec (ue_registry env) (ref_registry reg) (ref_server (srv_Name s) reg) w of
            (Inl e, w1) \<Rightarrow> Returns (Inl (''failed to fetch latest server specification: '' @ e), w1)
          | (Inr t, w1) \<Rightarrow>
              and_then (update_check s t) (\<lambda>required. Returns (Inr (required, Some t), w1))))"

definition applied_runtime :: "template_runtime \<Rightarrow> runtime_spec \<Rightarrow> runtime_spec" where
  "applied_runtime t rt = rt\<lparr>rt_Type := trt_Type t, rt_Image := trt_Image t,
     rt_Command := trt_Command t, rt_Args := trt_Args t,
     rt_Env := gm_put_all (gm_entries (trt_Env t)) (gm_make (rt_Env rt))\<rparr>"

definition applyTemplateUpdates :: "mcp_server \<Rightarrow> server_template \<Rightarrow> mcp_server outcome" where
  "applyTemplateUpdates s t =
     (let s1 = with_annotations (annotate_all t (gm_make (srv_Annotations s))) s in
      and_then (deref (sp_Runtime (srv_Spec s1))) (\<lambda>rt.
        let s2 = with_runtime (applied_runtime (tpl_Runtime t) rt) s1 in
        Returns (with_annotations (annotate_digest t (srv_Annotations s2)) s2)))"

subsection \<open>Updating one server\<close>

definition version_change :: "server_template \<Rightarrow> string" where
  "version_change t = ''Updated from template version  to '' @ tpl_Version t"

text \<open>
  The result is the error or whether the server was updated, with the server as the caller holds
  it afterwards: the condition set after a successful write stays in the caller's copy only.
\<close>

definition UpdateServerFromTemplate ::
  "'w update_env \<Rightarrow> mcp_server \<Rightarrow> 'w \<Rightarrow> (((string + bool) \<times> mcp_server) \<times> 'w) outcome" where
  "UpdateServerFromTemplate env s w =
     and_then (IsUpdateRequired env s w) (\<lambda>(r, w1).
       case r of
         Inl e \<Rightarrow> Returns ((Inl (''failed to check if update is required: '' @ e), s), w1)
       | Inr (required, latest) \<Rightarrow>
           if \<not> required then Returns ((Inr False, s), w1)
           else and_then (deref (sp_Runtime (srv_Spec s))) (\<lambda>original.
             and_then (deref latest) (\<lambda>t.
             and_then (applyTemplateUpdates s t) (\<lambda>s1.
               case ka_update (ue_api env) s1 w1 of
                 (Inl e, w2) \<Rightarrow>
                   (let m = ''Failed to update MCPServer resource: '' @ api_msg e;
                        s2 = SetCondition (ue_now env w2) CondReady CFalse ''TemplateUpdateResourceFailed'' m s1;
                        w3 = ue_event env s2 \<lparr>ev_Type = EventWarning, ev_Reason = ''TemplateUpdateResourceFailed'',
                               ev_Message = m\<rparr> w2
                    in case UpdateMCPServerStatus (Some (ue_api env)) (ue_now env w3) s2 w3 of (_, s3, w4) \<Rightarrow>
                         Returns ((Inl (''failed to update MCPServer resource: '' @ api_msg e), s3), w4))
               | (Inr stored, w2) \<Rightarrow>
                   (let s2 = SetCondition (ue_now env w2) CondRegistryFetched CTrue ''TemplateUpdated''
                               (version_change t) stored;
                        w3 = ue_event env s2 \<lparr>ev_Type = EventNormal, ev_Reason = ''TemplateUpdated'',
                               ev_Message = version_change t @ '', image '' @ rt_Image original @ '' to '' @
                                 trt_Image (tpl_Runtime t)\<rparr> w2
                    in Returns ((Inr True, s2), w3))))))"

subsection \<open>Backoff\<close>

record update_failure =
  uf_FailureCount :: int
  uf_LastFailureTime :: instant
  uf_NextRetryTime :: instant

type_synonym tracker = "update_failure gomap"

text \<open>
  \<open>1 << uint(n - 1)\<close> on a 64-bit \<open>int\<close>: the count is converted to an unsigned integer, and a
  shift by the width or more yields 0.
\<close>

definition shl_one :: "int \<Rightarrow> int" where
  "shl_one k = (let u = k mod 2 ^ 64 in if u < 64 then to_i64 (2 ^ nat u) else 0)"

definition calculateBackoffDuration :: "int \<Rightarrow> duration" where
  "calculateBackoffDuration failureCount =
     (let backoffMinutes = shl_one (to_i64 (failureCount - 1));
          capped = (if backoffMinutes > 1440 then 1440 else backoffMinutes)
      in to_i64 (capped * time_Minute))"

definition isInBackoffPeriod :: "instant \<Rightarrow> string \<Rightarrow> tracker \<Rightarrow> bool" where
  "isInBackoffPeriod now key tr =
     (case gm_get tr key of None \<Rightarrow> False | Some f \<Rightarrow> now < uf_NextRetryTime f)"

definition recordFailure :: "instant \<Rightarrow> string \<Rightarrow> tracker \<Rightarrow> tracker" where
  "recordFailure now key tr =
     (case gm_get tr key of
        Some f \<Rightarrow>
          (let n = to_i64 (uf_FailureCount f + 1) in
           gm_put key \<lparr>uf_FailureCount = n, uf_LastFailureTime = now,
             uf_NextRetryTime = now + calculateBackoffDuration n\<rparr> tr)
      | None \<Rightarrow>
           gm_put key \<lparr>uf_FailureCount = 1, uf_LastFailureTime = now,
             uf_NextRetryTime = now + calculateBackoffDuration 1\<rparr> tr)"

definition recordSuccess :: "string \<Rightarrow> tracker \<Rightarrow> tracker" where
  "recordSuccess key tr = gm_delete key tr"

subsection \<open>The sweep\<close>

definition server_key :: "mcp_server \<Rightarrow> string" where
  "server_key s = srv_Namespace s @ ''/'' @ srv_Name s"

definition has_registry :: "mcp_server \<Rightarrow> bool" where
  "has_registry s = (case sp_Registry (srv_Spec s) of
     None \<Rightarrow> False | Some r \<Rightarrow> \<not> (rr_Registry r = [] \<and> rr_Name r = []))"

text \<open>The failure branch: the tracker, the condition, the event and the status write, in that order.\<close>

definition update_failed ::
  "'w update_env \<Rightarrow> string \<Rightarrow> string \<Rightarrow> mcp_server \<Rightarrow> tracker \<times> 'w \<Rightarrow> tracker \<times> 'w" where
  "update_failed env key e s = (\<lambda>(tr, w).
     (let tr1 = recordFailure (ue_now env w) key tr;
          m = ''Failed to update from template: '' @ e;
          s1 = SetCondition (ue_now env w) CondReady CFalse ''TemplateUpdateFailed'' m s;
          w1 = ue_event env s1 \<lparr>ev_Type = EventWarning, ev_Reason = ''TemplateUpdateFailed'', ev_Message = m\<rparr> w
      in case UpdateMCPServerStatus (Some (ue_api env)) (ue_now env w1) s1 w1 of (_, _, w2) \<Rightarrow> (tr1, w2)))"

definition check_server ::
  "'w update_env \<Rightarrow> mcp_server \<Rightarrow> tracker \<times> 'w \<Rightarrow> (tracker \<times> 'w) outcome" where
  "check_server env s = (\<lambda>(tr, w).
     if \<not> has_registry s then Returns (tr, w)
     else if isInBackoffPeriod (ue_now env w) (server_key s) tr then Returns (tr, w)
     else and_then (IsUpdateRequired env s w) (\<lambda>(r, w1).
       case r of
         Inl e \<Rightarrow> Returns (tr, w1)
       | Inr (required, latest) \<Rightarrow>
           if \<not> required then Returns (tr, w1)
           else and_then (deref (sp_Runtime (srv_Spec s))) (\<lambda>_.
             and_then (UpdateServerFromTemplate env s w1) (\<lambda>((r2, s2), w2).
               case r2 of
                 Inl e \<Rightarrow> Returns (update_failed env (server_key s) e s2 (tr, w2))
               | Inr updated \<Rightarrow> Returns (if updated then recordSuccess (server_key s) tr else tr, w2)))))"

fun sweep :: "'w update_env \<Rightarrow> mcp_server list \<Rightarrow> tracker \<times> 'w \<Rightarrow> (tracker \<times> 'w) outcome" where
  "sweep env [] st = Returns st"
| "sweep env (s # ss) st = and_then (check_server env s st) (sweep env ss)"

definition CheckForUpdates :: "'w update_env \<Rightarrow> tracker \<Rightarrow> 'w \<Rightarrow> (go_error \<times> tracker \<times> 'w) outcome" where
  "CheckForUpdates env tr w =
     (case ka_list (ue_api env) ([], []) w of
        (Inl e, w1) \<Rightarrow> Returns (Some (''failed to list MCPServers: '' @ api_msg e), tr, w1)
      | (Inr items, w1) \<Rightarrow> and_then (sweep env items (tr, w1)) (\<lambda>(tr2, w2). Returns (None, tr2, w2)))"

section \<open>Correctness\<close>

subsection \<open>Convergence\<close>

lemma areRuntimeSpecsEqual_iff:
  "areRuntimeSpecsEqual rt t \<longleftrightarrow>
     rt_Type rt = trt_Type t \<and> rt_Command rt = trt_Command t \<and> rt_Args rt = trt_Args t"
  unfolding areRuntimeSpecsEqual_def by (auto simp: list_eq_iff_nth_eq)

text \<open>When an update is due, stated on what the server and the template hold.\<close>

definition outdated :: "string gomap \<Rightarrow> runtime_spec \<Rightarrow> server_template \<Rightarrow> bool" where
  "outdated ann rt t \<longleftrightarrow>
     (gm_str ann an_digest \<noteq> [] \<and> tpl_TemplateDigest t \<noteq> [] \<and> gm_str ann an_digest \<noteq> tpl_TemplateDigest t) \<or>
     gm_str ann an_version \<noteq> tpl_Version t \<or>
     (rt_Type rt, rt_Image rt, rt_Command rt, rt_Args rt) \<noteq>
       (trt_Type (tpl_Runtime t), trt_Image (tpl_Runtime t), trt_Command (tpl_Runtime t), trt_Args (tpl_Runtime t))"

lemma update_check_iff:
  "sp_Runtime (srv_Spec s) = Some rt \<Longrightarrow> update_check s t = Returns (outdated (srv_Annotations s) rt t)"
  unfolding update_check_def outdated_def Let_def by (simp add: areRuntimeSpecsEqual_iff)

lemma annotate_all_str:
  "gm_str (annotate_all t m) k =
     (case map_of (template_annotations t) k of None \<Rightarrow> gm_str m k | Some v \<Rightarrow> v)"
  by (simp add: annotate_all_def template_annotations_def an_defs)

lemma apply_returns:
  "applyTemplateUpdates s t =
     (case sp_Runtime (srv_Spec s) of
        None \<Rightarrow> Panic
      | Some rt \<Rightarrow> Returns (with_annotations
          (annotate_digest t (annotate_all t (gm_make (srv_Annotations s))))
          (with_runtime (applied_runtime (tpl_Runtime t) rt)
            (with_annotations (annotate_all t (gm_make (srv_Annotations s))) s))))"
  by (simp add: applyTemplateUpdates_def Let_def with_runtime_def split: option.splits)

text \<open>C31 An update converges: a server just brought up to date with a template is not due for an
  update to the same template, whatever its annotations held before, and the environment
  variables its author set beyond those of the template are still there.\<close>

theorem update_converges:
  assumes "applyTemplateUpdates s t = Returns s'" and "sp_Runtime (srv_Spec s) = Some rt"
    and "gm_wf (trt_Env (tpl_Runtime t))"
  shows "update_check s' t = Returns False \<and>
     (\<exists>rt'. sp_Runtime (srv_Spec s') = Some rt' \<and> rt_Port rt' = rt_Port rt \<and>
        (\<forall>k. gm_get (rt_Env rt') k =
           (case gm_get (trt_Env (tpl_Runtime t)) k of Some v \<Rightarrow> Some v | None \<Rightarrow> gm_get (rt_Env rt) k))) \<and>
     (\<forall>k. k \<noteq> an_digest \<longrightarrow> k \<notin> fst ` set (template_annotations t) \<longrightarrow>
        gm_str (srv_Annotations s') k = gm_str (srv_Annotations s) k)"
proof -
  let ?rt = "applied_runtime (tpl_Runtime t) rt"
  have s': "s' = with_annotations (annotate_digest t (annotate_all t (gm_make (srv_Annotations s))))
      (with_runtime ?rt (with_annotations (annotate_all t (gm_make (srv_Annotations s))) s))"
    using assms(1,2) by (simp add: apply_returns)
  have "\<not> outdated (srv_Annotations s') ?rt t"
    by (simp add: outdated_def s' annotate_digest_str annotate_all_str template_annotations_def
        applied_runtime_def an_defs)
  moreover have "gm_get (rt_Env ?rt) k =
      (case gm_get (trt_Env (tpl_Runtime t)) k of Some v \<Rightarrow> Some v | None \<Rightarrow> gm_get (rt_Env rt) k)" for k
    using assms(3) by (simp add: applied_runtime_def gm_get_merge split: option.split)
  moreover have "gm_str (srv_Annotations s') k = gm_str (srv_Annotations s) k"
    if "k \<noteq> an_digest" "k \<notin> fst ` set (template_annotations t)" for k
    using that by (simp add: s' annotate_digest_str annotate_all_str map_of_eq_None_iff[THEN iffD2])
  moreover have "rt_Port ?rt = rt_Port rt" by (simp add: applied_runtime_def)
  ultimately show ?thesis by (simp add: s' update_check_iff)
qed

lemma update_converges_witness:
  "\<exists>s'. applyTemplateUpdates (with_runtime zero_runtime zero_server) sample_template = Returns s' \<and>
     update_check s' sample_template = Returns False"
proof -
  have rt: "sp_Runtime (srv_Spec (with_runtime zero_runtime zero_server)) = Some zero_runtime"
    by simp
  have wf: "gm_wf (trt_Env (tpl_Runtime sample_template))"
    by (simp add: sample_template_def gm_wf_def)
  obtain s' where s': "applyTemplateUpdates (with_runtime zero_runtime zero_server) sample_template = Returns s'"
    by (simp add: apply_returns)
  with update_converges[OF s' rt wf] show ?thesis by blast
qed

text \<open>The reconciler and the auto-update work against each other: when a template changes in nothing
  but a variable of its environment, enriching the server from the new template records the new
  digest but keeps the old value, and no update is due any more.\<close>

theorem enrichment_masks_update:
  assumes "applyTemplateUpdates s t0 = Returns s1" and "gm_wf (trt_Env (tpl_Runtime t0))"
    and "tpl_Version t = tpl_Version t0" and "tpl_Version t \<noteq> []"
    and "trt_Type (tpl_Runtime t) = trt_Type (tpl_Runtime t0)"
    and "trt_Image (tpl_Runtime t) = trt_Image (tpl_Runtime t0)"
    and "trt_Command (tpl_Runtime t) = trt_Command (tpl_Runtime t0)"
    and "trt_Args (tpl_Runtime t) = trt_Args (tpl_Runtime t0)"
    and "gm_get (trt_Env (tpl_Runtime t0)) k = Some v0"
  shows "update_check (enrich_from_template t s1) t = Returns False \<and>
     (\<exists>rt. sp_Runtime (srv_Spec (enrich_from_template t s1)) = Some rt \<and> gm_get (rt_Env rt) k = Some v0)"
proof -
  obtain rt where rt: "sp_Runtime (srv_Spec s) = Some rt"
    using assms(1) by (auto simp: apply_returns split: option.splits)
  let ?rt = "applied_runtime (tpl_Runtime t0) rt" and ?s2 = "enrich_from_template t s1"
  have s1: "s1 = with_annotations (annotate_digest t0 (annotate_all t0 (gm_make (srv_Annotations s))))
      (with_runtime ?rt (with_annotations (annotate_all t0 (gm_make (srv_Annotations s))) s))"
    using assms(1) rt by (simp add: apply_returns)
  have r2: "sp_Runtime (srv_Spec ?s2) = Some (cached_runtime (tpl_Runtime t) ?rt)"
    by (simp add: enrich_from_template_def Let_def s1)
  have version: "gm_str (srv_Annotations s1) an_version = tpl_Version t"
    by (simp add: s1 assms(3) annotate_digest_str annotate_all_str template_annotations_def an_defs)
  have fields: "rt_Type ?rt = trt_Type (tpl_Runtime t)" "rt_Image ?rt = trt_Image (tpl_Runtime t)"
    "rt_Command ?rt = trt_Command (tpl_Runtime t)" "rt_Args ?rt = trt_Args (tpl_Runtime t)"
    by (simp_all add: applied_runtime_def assms)
  have image: "rt_Image (cached_runtime (tpl_Runtime t) ?rt) = trt_Image (tpl_Runtime t)"
    by (simp add: cached_runtime_alt[OF refl] fields del: list.inject char.inject)
  have "gm_str (srv_Annotations ?s2) an_version = tpl_Version t"
    using version assms(4)
    by (simp add: enrich_from_template_def Let_def annotate_digest_str annotate_missing_str)
       (simp add: an_defs)
  moreover have "gm_str (srv_Annotations ?s2) an_digest = tpl_TemplateDigest t" if "tpl_TemplateDigest t \<noteq> []"
    using that by (simp add: enrich_from_template_def Let_def annotate_digest_str)
  ultimately have "\<not> outdated (srv_Annotations ?s2) (cached_runtime (tpl_Runtime t) ?rt) t"
    by (auto simp: outdated_def image cached_runtime_fields fields)
  moreover have "gm_get (rt_Env ?rt) k = Some v0"
    using assms(2,9) by (simp add: applied_runtime_def gm_get_merge)
  ultimately show ?thesis by (simp add: r2 update_check_iff cached_runtime_fields)
qed

lemma enrichment_masks_update_witness:
  "\<exists>s1. applyTemplateUpdates (with_runtime zero_runtime zero_server) sample_template = Returns s1 \<and>
     update_check (enrich_from_template (sample_template\<lparr>tpl_Runtime := (tpl_Runtime sample_template)\<lparr>trt_Env :=
       Some [(''MODE'', ''debug'')]\<rparr>, tpl_TemplateDigest := ''2''\<rparr>) s1)
       (sample_template\<lparr>tpl_Runtime := (tpl_Runtime sample_template)\<lparr>trt_Env := Some [(''MODE'', ''debug'')]\<rparr>,
         tpl_TemplateDigest := ''2''\<rparr>) = Returns False"
proof -
  let ?t = "sample_template\<lparr>tpl_Runtime := (tpl_Runtime sample_template)\<lparr>trt_Env := Some [(''MODE'', ''debug'')]\<rparr>,
    tpl_TemplateDigest := ''2''\<rparr>"
  obtain s1 where s1: "applyTemplateUpdates (with_runtime zero_runtime zero_server) sample_template = Returns s1"
    by (simp add: apply_returns)
  have wf: "gm_wf (trt_Env (tpl_Runtime sample_template))"
    by (simp add: sample_template_def gm_wf_def)
  have env: "gm_get (trt_Env (tpl_Runtime sample_template)) ''MODE'' = Some ''prod''"
    by (simp add: sample_template_def gm_get_def)
  have "tpl_Version ?t \<noteq> []" by (simp add: sample_template_def)
  from enrichment_masks_update[OF s1 wf _ this _ _ _ _ env] s1 show ?thesis by simp
qed

subsection \<open>Backoff\<close>

lemma shl_one_small: "0 \<le> k \<Longrightarrow> k < 63 \<Longrightarrow> shl_one k = 2 ^ nat k"
proof -
  assume k: "0 \<le> k" "k < 63"
  then have "nat k \<le> 62" by simp
  then have "(2::int) ^ nat k \<le> 2 ^ 62" by (intro power_increasing) auto
  then have "to_i64 (2 ^ nat k) = 2 ^ nat k" by (intro to_i64_pos) auto
  moreover have "k mod 2 ^ 64 = k" using k by (intro mod_pos_pos_trivial) auto
  ultimately show ?thesis using k by (simp add: shl_one_def Let_def)
qed

lemma shl_one_top: "shl_one 63 = - (2 ^ 63)"
  by (simp add: shl_one_def to_i64_def)

lemma shl_one_out: "64 \<le> k \<Longrightarrow> k < 2 ^ 63 \<Longrightarrow> shl_one k = 0"
proof -
  assume k: "64 \<le> k" "k < 2 ^ 63"
  then have "k mod 2 ^ 64 = k" by (intro mod_pos_pos_trivial) auto
  with k show ?thesis by (simp add: shl_one_def Let_def)
qed

definition backoff_after :: "int \<Rightarrow> duration" where
  "backoff_after n =
     (if n \<le> 11 then 2 ^ nat (n - 1) * time_Minute else if n \<le> 63 then 24 * time_Hour else 0)"

lemma small_powers: "k \<le> 10 \<Longrightarrow> (2::int) ^ k \<le> 1024"
  using power_increasing[of k 10 "2::int"] by simp

lemma calculateBackoffDuration_eq:
  assumes "1 \<le> n" and "n < 2 ^ 63"
  shows "calculateBackoffDuration n = backoff_after n"
proof -
  have n1: "to_i64 (n - 1) = n - 1" using assms by (intro to_i64_id) auto
  consider "n \<le> 11" | "12 \<le> n" "n \<le> 63" | "n = 64" | "65 \<le> n" by linarith
  then show ?thesis
  proof cases
    case 1
    with assms have sh: "shl_one (n - 1) = 2 ^ nat (n - 1)" by (intro shl_one_small) auto
    have p: "(2::int) ^ nat (n - 1) \<le> 1024" using 1 by (intro small_powers) auto
    moreover have "0 \<le> (2::int) ^ nat (n - 1)" by simp
    ultimately have "to_i64 (2 ^ nat (n - 1) * time_Minute) = 2 ^ nat (n - 1) * time_Minute"
      unfolding time_Minute_def by (intro to_i64_pos) auto
    with 1 p show ?thesis by (simp add: calculateBackoffDuration_def backoff_after_def n1 sh Let_def)
  next
    case 2
    then have sh: "shl_one (n - 1) = 2 ^ nat (n - 1)" by (intro shl_one_small) auto
    have "11 \<le> nat (n - 1)" using 2 by linarith
    then have "(2::int) ^ 11 \<le> 2 ^ nat (n - 1)" by (intro power_increasing) auto
    then have "1440 < (2::int) ^ nat (n - 1)" by simp
    with 2 show ?thesis
      by (simp add: calculateBackoffDuration_def backoff_after_def n1 sh Let_def time_units to_i64_def)
  next
    case 3
    then show ?thesis
      by (simp add: calculateBackoffDuration_def backoff_after_def shl_one_top to_i64_def Let_def time_units)
  next
    case 4
    with assms have "shl_one (n - 1) = 0" by (intro shl_one_out) auto
    moreover have "to_i64 0 = 0" by (simp add: to_i64_pos)
    ultimately show ?thesis using 4
      by (simp add: calculateBackoffDuration_def backoff_after_def n1 Let_def)
  qed
qed

text \<open>The wait after the \<open>n\<close>-th failure in a row doubles from one minute, is a day from the
  twelfth failure on, and is nothing at all from the sixty-fourth on, where the shift leaves
  the range of a 64-bit integer.\<close>

theorem backoff_table:
  assumes "1 \<le> n" and "n < 2 ^ 63"
  shows "calculateBackoffDuration n = backoff_after n"
  by (rule calculateBackoffDuration_eq[OF assms])

lemma backoff_table_witness:
  "calculateBackoffDuration 1 = time_Minute \<and> calculateBackoffDuration 12 = 24 * time_Hour \<and>
   calculateBackoffDuration 64 = 0"
  using backoff_table[of 1] backoff_table[of 12] backoff_table[of 64] by (simp add: backoff_after_def)

text \<open>What happens to the tracker over time, and the failures of a server since its last success.\<close>

datatype update_outcome = Failed string instant | Updated string

fun track :: "update_outcome \<Rightarrow> tracker \<Rightarrow> tracker" where
  "track (Failed k now) tr = recordFailure now k tr"
| "track (Updated k) tr = recordSuccess k tr"

fun failure_times :: "string \<Rightarrow> update_outcome \<Rightarrow> instant list \<Rightarrow> instant list" where
  "failure_times k (Failed k' now) ts = (if k' = k then ts @ [now] else ts)"
| "failure_times k (Updated k') ts = (if k' = k then [] else ts)"

definition tracked :: "instant list \<Rightarrow> update_failure option" where
  "tracked ts = (if ts = [] then None else
     Some \<lparr>uf_FailureCount = int (length ts), uf_LastFailureTime = last ts,
       uf_NextRetryTime = last ts + calculateBackoffDuration (int (length ts))\<rparr>)"

lemma track_step:
  assumes "gm_get tr k = tracked ts" and "int (length ts) + 1 < 2 ^ 63"
  shows "gm_get (track op tr) k = tracked (failure_times k op ts)"
proof (cases op)
  case (Failed k' now)
  have "to_i64 (int (length ts) + 1) = int (length ts) + 1" using assms(2) by (intro to_i64_id) auto
  with assms(1) Failed show ?thesis
    by (auto simp: recordFailure_def tracked_def Let_def add.commute split: option.splits)
next
  case (Updated k')
  with assms(1) show ?thesis by (simp add: recordSuccess_def tracked_def)
qed

lemma failure_times_length: "length (failure_times k op ts) \<le> Suc (length ts)"
  by (cases op) auto

lemma track_history:
  assumes "gm_get tr k = tracked ts" and "int (length ts) + int (length ops) < 2 ^ 63"
  shows "gm_get (fold track ops tr) k = tracked (fold (failure_times k) ops ts)"
  using assms
proof (induction ops arbitrary: tr ts)
  case (Cons op ops)
  have "gm_get (track op tr) k = tracked (failure_times k op ts)"
    using Cons.prems by (intro track_step) auto
  moreover have "int (length (failure_times k op ts)) + int (length ops) < 2 ^ 63"
    using Cons.prems(2) failure_times_length[of k op ts] by simp
  ultimately show ?case by (simp add: Cons.IH)
qed simp

text \<open>C34 Over any history of failures and successes, a server is in backoff exactly when it failed
  since its last success and less than the tabulated wait for that many failures has passed since
  the last of them: one server's history does not touch another's, and after 64 failures in a row
  a server is never skipped again.\<close>

theorem backoff_history:
  assumes "int (length ops) < 2 ^ 63" and "ts = fold (failure_times k) ops []"
  shows "isInBackoffPeriod now k (fold track ops (Some [])) \<longleftrightarrow>
           ts \<noteq> [] \<and> now < last ts + backoff_after (int (length ts))"
proof -
  have len: "length (fold (failure_times k) ops ts0) \<le> length ts0 + length ops" for ts0
  proof (induction ops arbitrary: ts0)
    case (Cons op ops)
    show ?case
      using failure_times_length[of k op ts0] Cons[of "failure_times k op ts0"] by simp
  qed simp
  have "gm_get (fold track ops (Some [])) k = tracked ts"
    unfolding assms(2) using assms(1) by (intro track_history) (simp_all add: tracked_def)
  moreover have "int (length ts) < 2 ^ 63" using assms len[of "[]"] by simp
  moreover from this have "ts \<noteq> [] \<Longrightarrow> calculateBackoffDuration (int (length ts)) = backoff_after (int (length ts))"
    by (intro calculateBackoffDuration_eq) (cases ts, simp_all)
  ultimately show ?thesis by (simp add: isInBackoffPeriod_def tracked_def)
qed

lemma backoff_history_witness:
  "isInBackoffPeriod 100 ''a/x'' (fold track [Failed ''a/x'' 5, Failed ''b/y'' 6, Failed ''a/x'' 7] (Some []))"
  using backoff_history[OF _ refl, where now = 100 and k = "''a/x''" and
      ops = "[Failed ''a/x'' 5, Failed ''b/y'' 6, Failed ''a/x'' 7]"]
  by (simp add: backoff_after_def time_Minute_def)

subsection \<open>One sweep\<close>

definition can_check :: "mcp_server \<Rightarrow> bool" where
  "can_check s \<longleftrightarrow> (has_registry s \<longrightarrow> sp_Runtime (srv_Spec s) \<noteq> None)"

lemma IsUpdateRequired_returns:
  assumes "has_registry s" and "sp_Runtime (srv_Spec s) = Some rt"
  shows "\<exists>r w1. IsUpdateRequired env s w = Returns (r, w1) \<and>
           (case r of Inl e \<Rightarrow> True | Inr (required, latest) \<Rightarrow> latest \<noteq> None)"
proof -
  obtain reg where reg: "sp_Registry (srv_Spec s) = Some reg" "\<not> (rr_Name reg = [] \<and> rr_Registry reg = [])"
    using assms(1) by (auto simp: has_registry_def split: option.splits)
  then show ?thesis
    by (auto simp: IsUpdateRequired_def update_check_iff[OF assms(2)] split: prod.split sum.split)
qed

lemma UpdateServerFromTemplate_returns:
  assumes "has_registry s" and "sp_Runtime (srv_Spec s) = Some rt"
  shows "\<exists>r s1 w1. UpdateServerFromTemplate env s w = Returns ((r, s1), w1)"
proof -
  obtain r w1 where r: "IsUpdateRequired env s w = Returns (r, w1)"
    "case r of Inl e \<Rightarrow> True | Inr (required, latest) \<Rightarrow> latest \<noteq> None"
    using IsUpdateRequired_returns[OF assms, of env w] by blast
  show ?thesis
  proof (cases r)
    case (Inl e)
    then show ?thesis by (simp add: UpdateServerFromTemplate_def r(1))
  next
    case (Inr p)
    with r(2) obtain required t where p: "p = (required, Some t)" by (cases p) auto
    obtain s1 where "applyTemplateUpdates s t = Returns s1"
      using assms(2) by (simp add: apply_returns)
    with Inr p assms(2) show ?thesis
      by (simp add: UpdateServerFromTemplate_def r(1) Let_def split: prod.split sum.split)
  qed
qed

text \<open>What a sweep may do to the entry of one server.\<close>

definition entry_step :: "string \<Rightarrow> tracker \<Rightarrow> tracker \<Rightarrow> bool" where
  "entry_step k tr tr' \<longleftrightarrow>
     gm_get tr' k = gm_get tr k \<or> gm_get tr' k = None \<or>
     (\<exists>now. gm_get tr' k = gm_get (recordFailure now k tr) k)"

lemma recordFailure_other [simp]: "k' \<noteq> k \<Longrightarrow> gm_get (recordFailure now k tr) k' = gm_get tr k'"
  by (simp add: recordFailure_def Let_def split: option.split)

lemma recordFailure_cong:
  "gm_get tr k = gm_get tr2 k \<Longrightarrow>
     gm_get (recordFailure now k tr) k = gm_get (recordFailure now k tr2) k"
  by (simp add: recordFailure_def Let_def split: option.split)

lemma check_server_returns:
  assumes "can_check s"
  shows "\<exists>tr' w'. check_server env s (tr, w) = Returns (tr', w') \<and> entry_step (server_key s) tr tr' \<and>
           (\<forall>k. k \<noteq> server_key s \<longrightarrow> gm_get tr' k = gm_get tr k)"
proof (cases "has_registry s \<and> \<not> isInBackoffPeriod (ue_now env w) (server_key s) tr")
  case False
  then show ?thesis by (auto simp: check_server_def entry_step_def)
next
  case True
  with assms obtain rt where rt: "sp_Runtime (srv_Spec s) = Some rt" by (auto simp: can_check_def)
  obtain r w1 where r: "IsUpdateRequired env s w = Returns (r, w1)"
    using IsUpdateRequired_returns[of s rt env w] True rt by blast
  obtain r2 s2 w2 where u: "UpdateServerFromTemplate env s w1 = Returns ((r2, s2), w2)"
    using UpdateServerFromTemplate_returns[of s rt env w1] True rt by blast
  have f: "\<exists>w3. update_failed env (server_key s) e s2 (tr, w2) =
      (recordFailure (ue_now env w2) (server_key s) tr, w3)" for e
    by (simp add: update_failed_def Let_def split: prod.split)
  show ?thesis
  proof (cases r)
    case (Inl e)
    with True r show ?thesis by (simp add: check_server_def entry_step_def)
  next
    case (Inr p)
    obtain required latest where p: "p = (required, latest)" by (cases p)
    show ?thesis
    proof (cases "required \<and> isl r2")
      case True
      then obtain e where e: "r2 = Inl e" by (cases r2) auto
      obtain w3 where "update_failed env (server_key s) e s2 (tr, w2) =
          (recordFailure (ue_now env w2) (server_key s) tr, w3)" using f by blast
      with True \<open>has_registry s \<and> _\<close> Inr p r u rt e show ?thesis
        by (auto simp: check_server_def entry_step_def)
    next
      case False
      with True Inr p r u rt show ?thesis
        by (cases r2) (auto simp: check_server_def entry_step_def recordSuccess_def)
    qed
  qed
qed

lemma sweep_returns:
  assumes "\<forall>s \<in> set ss. can_check s"
  shows "\<exists>tr' w'. sweep env ss (tr, w) = Returns (tr', w') \<and>
     (\<forall>k. k \<notin> server_key ` set ss \<longrightarrow> gm_get tr' k = gm_get tr k) \<and>
     (distinct (map server_key ss) \<longrightarrow> (\<forall>s \<in> set ss. entry_step (server_key s) tr tr'))"
  using assms
proof (induction ss arbitrary: tr w)
  case (Cons s ss)
  obtain tr1 w1 where c: "check_server env s (tr, w) = Returns (tr1, w1)" "entry_step (server_key s) tr tr1"
    "\<forall>k. k \<noteq> server_key s \<longrightarrow> gm_get tr1 k = gm_get tr k"
    using check_server_returns[of s env tr w] Cons.prems by auto
  obtain tr2 w2 where i: "sweep env ss (tr1, w1) = Returns (tr2, w2)"
    "\<forall>k. k \<notin> server_key ` set ss \<longrightarrow> gm_get tr2 k = gm_get tr1 k"
    "distinct (map server_key ss) \<longrightarrow> (\<forall>s \<in> set ss. entry_step (server_key s) tr1 tr2)"
    using Cons.IH[of tr1 w1] Cons.prems by auto
  have own: "entry_step (server_key s) tr tr2" if "server_key s \<notin> server_key ` set ss"
    using c(2) i(2) that by (simp add: entry_step_def)
  have rest: "entry_step (server_key x) tr tr2"
    if "entry_step (server_key x) tr1 tr2" "server_key x \<noteq> server_key s" for x
    using that c(3) recordFailure_cong[of tr1 "server_key x" tr] by (simp add: entry_step_def)
  show ?case using c i own rest by (auto simp: image_iff)
qed simp

text \<open>A failing server never keeps the others from their update: as long as every server with a
  registry has a runtime, the sweep goes through the whole list and reports no error, the backoff
  of servers that are not in the list stays as it is, and that of a listed one is kept, cleared or
  moved on by one failure.\<close>

theorem sweep_never_aborted:
  assumes "ka_list (ue_api env) ([], []) w = (Inr items, w1)" and "\<forall>s \<in> set items. can_check s"
  shows "\<exists>tr' w'. CheckForUpdates env tr w = Returns (None, tr', w') \<and>
     (\<forall>k. k \<notin> server_key ` set items \<longrightarrow> gm_get tr' k = gm_get tr k) \<and>
     (distinct (map server_key items) \<longrightarrow> (\<forall>s \<in> set items. entry_step (server_key s) tr tr'))"
  using sweep_returns[OF assms(2), of env tr w1] assms(1) by (auto simp: CheckForUpdates_def)

lemma sweep_append: "sweep env (xs @ ys) st = and_then (sweep env xs st) (sweep env ys)"
proof (induction xs arbitrary: st)
  case (Cons x xs)
  then show ?case by (cases "check_server env x st") simp_all
qed simp

text \<open>A small environment: a fixed list of servers, one template for all of them.\<close>

definition sample_update_env :: "mcp_server list \<Rightarrow> unit update_env" where
  "sample_update_env items = \<lparr>ue_api = static_api items,
     ue_registry = Some \<lparr>rcl_GetServerSpec = (\<lambda>_ w. (Inr sample_template, w)), rcl_ListServers = (\<lambda>w. (Inr [], w))\<rparr>,
     ue_event = (\<lambda>_ _ w. w), ue_now = (\<lambda>_. 0)\<rparr>"

definition hub_server :: "runtime_spec option \<Rightarrow> mcp_server" where
  "hub_server rt = zero_server\<lparr>srv_Spec := zero_spec\<lparr>sp_Runtime := rt,
     sp_Registry := Some (zero_registry_ref\<lparr>rr_Name := ''hub''\<rparr>)\<rparr>\<rparr>"

lemma sweep_never_aborted_witness:
  "\<exists>tr' w'. CheckForUpdates (sample_update_env [hub_server (Some zero_runtime), zero_server]) (Some []) () =
     Returns (None, tr', w')"
proof -
  let ?items = "[hub_server (Some zero_runtime), zero_server]"
  have l: "ka_list (ue_api (sample_update_env ?items)) ([], []) () = (Inr ?items, ())"
    by (simp add: sample_update_env_def static_api_def)
  have c: "\<forall>s \<in> set ?items. can_check s"
    by (simp add: can_check_def has_registry_def hub_server_def zero_server_def zero_spec_def)
  show ?thesis using sweep_never_aborted[OF l c, of "Some []"] by blast
qed

text \<open>A server with a registry but no runtime brings the sweep down as soon as its template can
  be fetched, wherever it stands in the list: the goroutine that sweeps recovers from nothing, so
  the operator goes down with it.\<close>

theorem nil_runtime_panics:
  assumes "sweep env before st = Returns (tr, w)"
    and "sp_Registry (srv_Spec s) = Some reg" and "ref_registry reg \<noteq> []"
    and "sp_Runtime (srv_Spec s) = None"
    and "\<not> isInBackoffPeriod (ue_now env w) (server_key s) tr"
    and "FetchServerSpec (ue_registry env) (ref_registry reg) (ref_server (srv_Name s) reg) w = (Inr t, w1)"
  shows "sweep env (before @ s # after) st = Panic"
proof -
  have "has_registry s" using assms(2,3) by (auto simp: has_registry_def)
  moreover have "IsUpdateRequired env s w \<in> {Panic, Returns (Inr (True, Some t), w1)}"
    using assms(2,3,4,6) by (auto simp: IsUpdateRequired_def update_check_def Let_def)
  ultimately have "check_server env s (tr, w) = Panic"
    using assms(4,5) by (auto simp: check_server_def)
  then show ?thesis by (simp add: sweep_append assms(1))
qed

lemma nil_runtime_panics_witness:
  "sweep (sample_update_env []) ([] @ hub_server None # [zero_server]) (Some [], ()) = Panic"
proof (rule nil_runtime_panics)
  show "sweep (sample_update_env []) [] (Some [], ()) = Returns (Some [], ())" by simp
  show "sp_Registry (srv_Spec (hub_server None)) = Some (zero_registry_ref\<lparr>rr_Name := ''hub''\<rparr>)"
    "sp_Runtime (srv_Spec (hub_server None)) = None"
    by (simp_all add: hub_server_def)
  show "ref_registry (zero_registry_ref\<lparr>rr_Name := ''hub''\<rparr>) \<noteq> []" by simp
  show "\<not> isInBackoffPeriod (ue_now (sample_update_env []) ()) (server_key (hub_server None)) (Some [])"
    by (simp add: isInBackoffPeriod_def)
qed (simp add: FetchServerSpec_def sample_update_env_def)

end
