(* ===== verification/PeriodicSync.thy ===== *)
theory PeriodicSync
  imports AutoUpdate
begin

section \<open>The life cycle of the periodic sweep\<close>

text \<open>
  \<open>StartPeriodicSync\<close> and \<open>StopPeriodicSync\<close> of \<open>pkg/services/auto_update_service.go\<close> and the
  controller of \<open>controllers/auto_update_controller.go\<close> above them.

  The state is the flag and the current channel of the service, the channels that were closed and
  the goroutines alive. Channels are numbered in the order they are made. A goroutine reads
  \<open>s.stopChan\<close> each time it enters its \<open>select\<close>: it is about to do so (\<open>AtSelect\<close>), waits on the
  channel it read (\<open>Waiting\<close>), or is inside \<open>CheckForUpdates\<close> (\<open>Sweeping\<close>).
\<close>

datatype sync_loop = AtSelect | Waiting nat | Sweeping

record sync_state =
  sy_running :: bool
  sy_chan :: nat
  sy_made :: nat
  sy_closed :: "nat list"
  sy_loops :: "sync_loop list"

text \<open>What the constructor makes: one channel, nothing running.\<close>

definition sync_init :: sync_state where
  "sync_init = \<lparr>sy_running = False, sy_chan = 0, sy_made = 1, sy_closed = [], sy_loops = []\<rparr>"

definition StartPeriodicSync :: "sync_state \<Rightarrow> go_error \<times> sync_state" where
  "StartPeriodicSync s =
     (if sy_running s then (Some ''periodic sync is already running'', s)
      else (None, s\<lparr>sy_running := True, sy_chan := sy_made s, sy_made := Suc (sy_made s),
                    sy_loops := sy_loops s @ [AtSelect]\<rparr>))"

text \<open>Closing a closed channel panics.\<close>

definition StopPeriodicSync :: "sync_state \<Rightarrow> sync_state outcome" where
  "StopPeriodicSync s =
     (if sy_running s then
        (if sy_chan s \<in> set (sy_closed s) then Panic
         else Returns (s\<lparr>sy_closed := sy_chan s # sy_closed s, sy_running := False\<rparr>))
      else Returns s)"

definition remove_nth :: "nat \<Rightarrow> 'a list \<Rightarrow> 'a list" where
  "remove_nth i xs = take i xs @ drop (Suc i) xs"

text \<open>
  One step of goroutine \<open>i\<close>. When the ticker and the channel are both ready, \<open>select\<close> takes
  either; the ticker may fire at any time.
\<close>

inductive loop_step :: "sync_state \<Rightarrow> sync_state \<Rightarrow> bool" where
  enter_select: "i < length (sy_loops s) \<Longrightarrow> sy_loops s ! i = AtSelect \<Longrightarrow>
     loop_step s (s\<lparr>sy_loops := (sy_loops s)[i := Waiting (sy_chan s)]\<rparr>)"
| tick: "i < length (sy_loops s) \<Longrightarrow> sy_loops s ! i = Waiting c \<Longrightarrow>
     loop_step s (s\<lparr>sy_loops := (sy_loops s)[i := Sweeping]\<rparr>)"
| swept: "i < length (sy_loops s) \<Longrightarrow> sy_loops s ! i = Sweeping \<Longrightarrow>
     loop_step s (s\<lparr>sy_loops := (sy_loops s)[i := AtSelect]\<rparr>)"
| stopped: "i < length (sy_loops s) \<Longrightarrow> sy_loops s ! i = Waiting c \<Longrightarrow> c \<in> set (sy_closed s) \<Longrightarrow>
     loop_step s (s\<lparr>sy_loops := remove_nth i (sy_loops s)\<rparr>)"

inductive sync_reachable :: "sync_state \<Rightarrow> bool" where
  initial: "sync_reachable sync_init"
| started: "sync_reachable s \<Longrightarrow> sync_reachable (snd (StartPeriodicSync s))"
| stop: "sync_reachable s \<Longrightarrow> StopPeriodicSync s = Returns s' \<Longrightarrow> sync_reachable s'"
| stepped: "sync_reachable s \<Longrightarrow> loop_step s s' \<Longrightarrow> sync_reachable s'"

subsection \<open>The controller\<close>

text \<open>
  The controller keeps a flag and an interval of its own above the service. Its monitoring
  goroutine only logs and is left out.
\<close>

record auto_update_controller =
  ac_interval :: duration
  ac_running :: bool

definition DefaultAutoUpdateInterval :: duration where
  "DefaultAutoUpdateInterval = 24 * time_Hour"

definition NewAutoUpdateController :: "duration \<Rightarrow> auto_update_controller" where
  "NewAutoUpdateController interval =
     \<lparr>ac_interval = (if interval \<le> 0 then DefaultAutoUpdateInterval else interval), ac_running = False\<rparr>"

definition AutoUpdateController_Start ::
  "auto_update_controller \<Rightarrow> sync_state \<Rightarrow> go_error \<times> auto_update_controller \<times> sync_state" where
  "AutoUpdateController_Start c s =
     (if ac_running c then (None, c, s)
      else
        (case StartPeriodicSync s of
           (Some e, s1) \<Rightarrow> (Some e, c\<lparr>ac_running := False\<rparr>, s1)
         | (None, s1) \<Rightarrow> (None, c\<lparr>ac_running := True\<rparr>, s1)))"

definition AutoUpdateController_Stop ::
  "auto_update_controller \<Rightarrow> sync_state \<Rightarrow> (auto_update_controller \<times> sync_state) outcome" where
  "AutoUpdateController_Stop c s =
     (if \<not> ac_running c then Returns (c, s)
      else and_then (StopPeriodicSync s) (\<lambda>s1. Returns (c\<lparr>ac_running := False\<rparr>, s1)))"

subsection \<open>Correctness\<close>

text \<open>
  The channel of a running service is open and the newest; an open channel other than it has no
  goroutine waiting on it; a stopped service that has goroutines has closed its channel.
\<close>

definition sync_inv :: "sync_state \<Rightarrow> bool" where
  "sync_inv s \<longleftrightarrow>
     sy_chan s < sy_made s \<and> (\<forall>c \<in> set (sy_closed s). c < sy_made s) \<and>
     (sy_running s \<longrightarrow> sy_chan s \<notin> set (sy_closed s)) \<and>
     (\<not> sy_running s \<longrightarrow> sy_loops s \<noteq> [] \<longrightarrow> sy_chan s \<in> set (sy_closed s)) \<and>
     (\<forall>c. Waiting c \<in> set (sy_loops s) \<longrightarrow> c = sy_chan s \<or> c \<in> set (sy_closed s))"

lemma set_remove_nth: "set (remove_nth i xs) \<subseteq> set xs"
  by (auto simp: remove_nth_def dest: in_set_takeD in_set_dropD)

lemma inv_start: "sync_inv s \<Longrightarrow> sync_inv (snd (StartPeriodicSync s))"
  by (auto simp: sync_inv_def StartPeriodicSync_def less_Suc_eq split: if_splits)

lemma inv_stop: "sync_inv s \<Longrightarrow> StopPeriodicSync s = Returns s' \<Longrightarrow> sync_inv s'"
  by (auto simp: sync_inv_def StopPeriodicSync_def split: if_splits)

lemma inv_step: "loop_step s s' \<Longrightarrow> sync_inv s \<Longrightarrow> sync_inv s'"
proof (induction rule: loop_step.induct)
  case (stopped i s c)
  then show ?case using set_remove_nth[of i "sy_loops s"] by (auto simp: sync_inv_def)
qed (auto simp: sync_inv_def dest!: subsetD[OF set_update_subset_insert])

lemma reachable_inv: "sync_reachable s \<Longrightarrow> sync_inv s"
proof (induction rule: sync_reachable.induct)
  case initial
  then show ?case by (simp add: sync_inv_def sync_init_def)
qed (auto intro: inv_start inv_stop inv_step)

text \<open>Stopping never closes a channel twice, and once the service is stopped every goroutine
  can leave: one that waits does so on a closed channel, and one about to wait will.\<close>

theorem stop_is_safe:
  assumes "sync_reachable s"
  shows "\<exists>s'. StopPeriodicSync s = Returns s' \<and> \<not> sy_running s' \<and>
     (\<forall>i < length (sy_loops s').
        (\<forall>c. sy_loops s' ! i = Waiting c \<longrightarrow> loop_step s' (s'\<lparr>sy_loops := remove_nth i (sy_loops s')\<rparr>)) \<and>
        (sy_loops s' ! i = AtSelect \<longrightarrow> sy_chan s' \<in> set (sy_closed s')))"
proof -
  have inv: "sync_inv s" by (rule reachable_inv[OF assms])
  then obtain s' where s': "StopPeriodicSync s = Returns s'" "\<not> sy_running s'"
    by (cases "sy_running s") (auto simp: StopPeriodicSync_def sync_inv_def)
  have inv': "sync_inv s'" by (rule inv_stop[OF inv s'(1)])
  have closed: "sy_chan s' \<in> set (sy_closed s')" if "i < length (sy_loops s')" for i
    using inv' s'(2) that by (cases "sy_loops s'") (auto simp: sync_inv_def)
  have "loop_step s' (s'\<lparr>sy_loops := remove_nth i (sy_loops s')\<rparr>)"
    if "i < length (sy_loops s')" "sy_loops s' ! i = Waiting c" for i c
  proof -
    have "Waiting c \<in> set (sy_loops s')" using that nth_mem by metis
    then have "c \<in> set (sy_closed s')" using inv' closed[OF that(1)] by (auto simp: sync_inv_def)
    then show ?thesis by (rule stopped[OF that])
  qed
  then show ?thesis using s' closed by blast
qed

lemma stop_is_safe_witness:
  "\<exists>s'. StopPeriodicSync (snd (StartPeriodicSync sync_init)) = Returns s' \<and> \<not> sy_running s'"
  using stop_is_safe[OF started[OF initial]] by blast

text \<open>A service that is stopped and started again while a sweep is under way ends up with two
  goroutines that both wait on the new channel: the first one missed the close and sweeps on.\<close>

theorem restart_during_sweep_leaks:
  "\<exists>s. sync_reachable s \<and> sy_running s \<and> sy_loops s = [Waiting (sy_chan s), Waiting (sy_chan s)]"
proof -
  define s1 where "s1 = snd (StartPeriodicSync sync_init)"
  define s2 where "s2 = s1\<lparr>sy_loops := (sy_loops s1)[0 := Waiting (sy_chan s1)]\<rparr>"
  define s3 where "s3 = s2\<lparr>sy_loops := (sy_loops s2)[0 := Sweeping]\<rparr>"
  define s4 where "s4 = s3\<lparr>sy_closed := sy_chan s3 # sy_closed s3, sy_running := False\<rparr>"
  define s5 where "s5 = snd (StartPeriodicSync s4)"
  define s6 where "s6 = s5\<lparr>sy_loops := (sy_loops s5)[0 := AtSelect]\<rparr>"
  define s7 where "s7 = s6\<lparr>sy_loops := (sy_loops s6)[0 := Waiting (sy_chan s6)]\<rparr>"
  define s8 where "s8 = s7\<lparr>sy_loops := (sy_loops s7)[1 := Waiting (sy_chan s7)]\<rparr>"
  note states = s1_def s2_def s3_def s4_def s5_def s6_def s7_def s8_def sync_init_def
    StartPeriodicSync_def
  have "sync_reachable s1" unfolding s1_def by (rule started[OF initial])
  moreover have "loop_step s1 s2" unfolding s2_def by (rule enter_select) (simp_all add: states)
  moreover have "loop_step s2 s3" unfolding s3_def by (rule tick[where c = "sy_chan s1"]) (simp_all add: states)
  ultimately have "sync_reachable s3" by (blast intro: stepped)
  moreover have "StopPeriodicSync s3 = Returns s4" by (simp add: StopPeriodicSync_def states)
  ultimately have "sync_reachable s5" unfolding s5_def by (blast intro: stop started)
  moreover have "loop_step s5 s6" unfolding s6_def by (rule swept) (simp_all add: states)
  moreover have "loop_step s6 s7" unfolding s7_def by (rule enter_select) (simp_all add: states)
  moreover have "loop_step s7 s8" unfolding s8_def by (rule enter_select) (simp_all add: states)
  ultimately have "sync_reachable s8" by (blast intro: stepped)
  moreover have "sy_running s8 \<and> sy_loops s8 = [Waiting (sy_chan s8), Waiting (sy_chan s8)]"
    by (simp add: states)
  ultimately show ?thesis by blast
qed

text \<open>The controller and the service it started agree, and starting or stopping twice is harmless.\<close>

lemma controller_start:
  "\<not> sy_running s \<Longrightarrow> AutoUpdateController_Start (NewAutoUpdateController d) s = (e, c, s') \<Longrightarrow>
     e = None \<and> ac_running c \<and> sy_running s' \<and> ac_interval c > 0 \<and>
     AutoUpdateController_Start c s' = (None, c, s')"
  by (auto simp: AutoUpdateController_Start_def NewAutoUpdateController_def StartPeriodicSync_def
      DefaultAutoUpdateInterval_def time_units split: if_splits)

lemma controller_stop:
  "sync_reachable s \<Longrightarrow> ac_running c \<Longrightarrow>
     \<exists>c' s'. AutoUpdateController_Stop c s = Returns (c', s') \<and> \<not> ac_running c' \<and> \<not> sy_running s' \<and>
       AutoUpdateController_Stop c' s' = Returns (c', s')"
  using reachable_inv[of s]
  by (auto simp: AutoUpdateController_Stop_def StopPeriodicSync_def sync_inv_def)

end
