(* ===== verification/KubeObjects.thy ===== *)
theory KubeObjects
  imports ApiTypes
begin

section \<open>The Kubernetes objects the operator builds\<close>

text \<open>
  The structs of the Kubernetes API that the resource builders fill in, with the fields they set.
  A slice that may be nil is a list, since the API does not distinguish nil from empty. The rules
  of a network policy, label selectors, metric targets, scaling behaviour and volume mounts have
  the same fields there as in \<open>api/v1\<close> and share its records. Of a metadata struct only the name,
  the namespace, the labels and the annotations are ever set; it is the record \<open>object_meta\<close>.
\<close>

definition built_meta :: "string \<Rightarrow> string \<Rightarrow> string gomap \<Rightarrow> object_meta" where
  "built_meta name ns labels = zero_meta\<lparr>om_Name := name, om_Namespace := ns, om_Labels := labels\<rparr>"

lemma built_meta_fields [simp]:
  "om_Name (built_meta n ns l) = n" "om_Namespace (built_meta n ns l) = ns"
  "om_Labels (built_meta n ns l) = l"
  by (simp_all add: built_meta_def)

subsection \<open>Pods\<close>

record container_port =
  cp_Name :: string
  cp_ContainerPort :: int
  cp_Protocol :: string

text \<open>A probe that opens a TCP connection.\<close>

record tcp_probe =
  pb_Port :: int
  pb_InitialDelaySeconds :: int
  pb_PeriodSeconds :: int
  pb_TimeoutSeconds :: int
  pb_FailureThreshold :: int
  pb_SuccessThreshold :: int

record requirements =
  qr_Limits :: "quantity gomap"
  qr_Requests :: "quantity gomap"

record container =
  ct_Name :: string
  ct_Image :: string
  ct_Command :: "string list"
  ct_Args :: "string list"
  ct_Ports :: "container_port list"
  ct_Env :: "env_var list"
  ct_Resources :: requirements
  ct_VolumeMounts :: "volume_mount list"
  ct_SecurityContext :: "security_context option"
  ct_LivenessProbe :: "tcp_probe option"
  ct_ReadinessProbe :: "tcp_probe option"

datatype volume_source =
    FromConfigMap string "key_to_path list" "int option" bool
  | FromSecret string "key_to_path list" "int option" bool
  | FromEmptyDir string "quantity option"
  | FromClaim string bool
  | FromHostPath string "string option"
  | NoSource

record pod_volume =
  pv_Name :: string
  pv_Source :: volume_source

record pod_spec =
  po_Containers :: "container list"
  po_ServiceAccountName :: string
  po_SecurityContext :: "(int option \<times> int option) option"
  po_NodeSelector :: "string gomap"
  po_Tolerations :: "opaque list"
  po_Affinity :: "opaque option"
  po_Volumes :: "pod_volume list"

record pod_template =
  pt_Labels :: "string gomap"
  pt_Annotations :: "string gomap"
  pt_Spec :: pod_spec

subsection \<open>Workloads and services\<close>

datatype deployment_strategy =
    NoStrategy
  | Recreate
  | RollingUpdate int_or_string int_or_string

text \<open>The two arguments are \<open>MaxUnavailable\<close> and \<open>MaxSurge\<close>.\<close>

record kube_deployment =
  kd_Meta :: object_meta
  kd_Selector :: "string gomap"
  kd_Template :: pod_template
  kd_Strategy :: deployment_strategy
  kd_Replicas :: "int option"

record service_port =
  svp_Name :: string
  svp_Port :: int
  svp_TargetPort :: int
  svp_Protocol :: string

record kube_service =
  ks_Meta :: object_meta
  ks_Type :: string
  ks_Selector :: "string gomap"
  ks_Ports :: "service_port list"
  ks_ClusterIP :: string

record kube_configmap =
  kc_Meta :: object_meta
  kc_Data :: "string gomap"

record kube_secret =
  kx_Meta :: object_meta
  kx_Type :: string
  kx_Data :: "string gomap"

datatype hpa_metric =
    ResourceMetric string metric_target
  | PodsMetric metric_identifier metric_target
  | ObjectMetric cross_version_object_reference metric_identifier metric_target
  | ExternalMetric metric_identifier metric_target

record kube_hpa =
  kh_Meta :: object_meta
  kh_ScaleTargetRef :: cross_version_object_reference
  kh_MinReplicas :: "int option"
  kh_MaxReplicas :: int
  kh_Metrics :: "hpa_metric list"
  kh_Behavior :: "hpa_behavior option"

record kube_network_policy =
  kn_Meta :: object_meta
  kn_PodSelector :: label_selector
  kn_PolicyTypes :: "string list"
  kn_Ingress :: "network_policy_rule list"
  kn_Egress :: "network_policy_rule list"

text \<open>
  An unstructured object is a tree of Go values. The labels of one that the code puts together as
  a literal are a \<open>map[string]string\<close>, those set through its accessor a \<open>map[string]interface{}\<close>
  of strings; the accessor \<open>GetLabels\<close> of the Kubernetes library reads the latter only. The two
  accessors are the parameter \<open>label_ops\<close>, with what their documentation says as \<open>label_laws\<close>.
\<close>

datatype tree =
    Text string
  | Number int
  | Texts "string list"
  | StringMap "string gomap"
  | Items "tree list"
  | Fields "(string \<times> tree) list"

record unstructured =
  un_APIVersion :: string
  un_Kind :: string
  un_Name :: string
  un_Namespace :: string
  un_Labels :: tree
  un_Spec :: tree

record label_ops =
  lo_get :: "unstructured \<Rightarrow> string gomap"
  lo_set :: "string gomap \<Rightarrow> unstructured \<Rightarrow> unstructured"

definition label_laws :: "label_ops \<Rightarrow> bool" where
  "label_laws lo \<longleftrightarrow>
     (\<forall>l u. lo_get lo (lo_set lo (Some l) u) = Some l) \<and>
     (\<forall>l u. un_Labels u = StringMap l \<longrightarrow> lo_get lo u = None) \<and>
     (\<forall>l u. un_Name (lo_set lo l u) = un_Name u \<and> un_Namespace (lo_set lo l u) = un_Namespace u \<and>
        un_Kind (lo_set lo l u) = un_Kind u \<and> un_APIVersion (lo_set lo l u) = un_APIVersion u \<and>
        un_Spec (lo_set lo l u) = un_Spec u)"

text \<open>Accessors that keep their documentation: a \<open>map[string]interface{}\<close> of strings is a tree of texts.\<close>

definition tree_labels :: label_ops where
  "tree_labels = \<lparr>
     lo_get = (\<lambda>u. case un_Labels u of
        Fields kvs \<Rightarrow>
          if list_all (\<lambda>(k, t). case t of Text v \<Rightarrow> True | _ \<Rightarrow> False) kvs
          then Some (map (\<lambda>(k, t). (k, case t of Text v \<Rightarrow> v | _ \<Rightarrow> [])) kvs) else None
      | _ \<Rightarrow> None),
     lo_set = (\<lambda>l u. u\<lparr>un_Labels := Fields (map (\<lambda>(k, v). (k, Text v)) (gm_entries l))\<rparr>)\<rparr>"

lemma tree_labels_laws: "label_laws tree_labels"
  by (auto simp: label_laws_def tree_labels_def list_all_iff comp_def case_prod_unfold)

subsection \<open>Selecting\<close>

text \<open>A selector of labels alone selects what carries each of them.\<close>

definition selects :: "string gomap \<Rightarrow> string gomap \<Rightarrow> bool" where
  "selects selector labels \<longleftrightarrow> (\<forall>(k, v) \<in> set (gm_entries selector). gm_get labels k = Some v)"

lemma selects_iff:
  "gm_wf selector \<Longrightarrow> selects selector labels \<longleftrightarrow>
     (\<forall>k v. gm_get selector k = Some v \<longrightarrow> gm_get labels k = Some v)"
  by (auto simp: selects_def gm_wf_def gm_get_def[of selector])

end
