(* ===== verification/PodBuilder.thy ===== *)
theory PodBuilder
  imports KubeObjects Validation
begin

section \<open>Building pods\<close>

text \<open>
  The part of \<open>pkg/services/resource_builder_service.go\<close> that builds labels, containers and the
  pod template of a server. A pointer that is followed may be nil, so the builders that read the
  runtime return an \<open>outcome\<close>. The environment of a runtime is visited in the order of its list.
\<close>

subsection \<open>Labels\<close>

definition system_prefixes :: "string list" where
  "system_prefixes = [''app.kubernetes.io/'', ''mcp.allbeone.io/'', ''kubernetes.io/'', ''k8s.io/'']"

definition isSystemLabel :: "string \<Rightarrow> bool" where
  "isSystemLabel key = list_ex (has_prefix key) system_prefixes"

definition standard_labels :: "mcp_server \<Rightarrow> (string \<times> string) list" where
  "standard_labels s =
     [(''app.kubernetes.io/name'', ''mcp-server''), (''app.kubernetes.io/instance'', srv_Name s),
      (''app.kubernetes.io/component'', ''server''), (''app.kubernetes.io/part-of'', ''mcp-operator''),
      (''app.kubernetes.io/managed-by'', ''mcp-operator'')]"

definition registry_labels :: "mcp_server \<Rightarrow> string gomap \<Rightarrow> string gomap" where
  "registry_labels s l =
     (case sp_Registry (srv_Spec s) of
        None \<Rightarrow> l
      | Some r \<Rightarrow>
          (let serverName = ref_server (srv_Name s) r in
           if serverName \<noteq> [] then gm_put ''mcp.allbeone.io/server-name'' serverName l else l))"

definition version_label :: "mcp_server \<Rightarrow> string gomap \<Rightarrow> string gomap" where
  "version_label s l =
     (let v = gm_str (srv_Annotations s) ''mcp.allbeone.io/registry-version'' in
      if v \<noteq> [] then gm_put ''mcp.allbeone.io/server-version'' v l else l)"

definition tenant_label :: "mcp_server \<Rightarrow> string gomap \<Rightarrow> string gomap" where
  "tenant_label s l =
     (case sp_Tenancy (srv_Spec s) of
        None \<Rightarrow> l
      | Some t \<Rightarrow> if ten_TenantID t \<noteq> [] then gm_put ''mcp.allbeone.io/tenant-id'' (ten_TenantID t) l else l)"

definition custom_labels :: "mcp_server \<Rightarrow> (string \<times> string) list" where
  "custom_labels s = filter (\<lambda>(k, v). \<not> isSystemLabel k) (gm_entries (om_Labels (srv_Meta s)))"

definition buildLabels :: "mcp_server \<Rightarrow> string gomap" where
  "buildLabels s =
     gm_put_all (custom_labels s) (tenant_label s (version_label s (registry_labels s (Some (standard_labels s)))))"

definition buildSelector :: "mcp_server \<Rightarrow> string gomap" where
  "buildSelector s =
     gm_put_all (gm_entries (sp_Selector (srv_Spec s)))
       (Some [(''app.kubernetes.io/name'', ''mcp-server''), (''app.kubernetes.io/instance'', srv_Name s)])"

subsection \<open>Ports\<close>

definition gateway_enabled :: "mcp_server \<Rightarrow> bool" where
  "gateway_enabled s = (case sp_Gateway (srv_Spec s) of None \<Rightarrow> False | Some g \<Rightarrow> gw_Enabled g)"

definition is_stdio :: "mcp_server \<Rightarrow> bool" where
  "is_stdio s = (case sp_Transport (srv_Spec s) of None \<Rightarrow> False | Some t \<Rightarrow> tr_Type t = ''stdio'')"

definition spec_container_port :: "port_spec \<Rightarrow> container_port" where
  "spec_container_port p = \<lparr>cp_Name = ps_Name p,
     cp_ContainerPort = (if ps_TargetPort p > 0 then ps_TargetPort p else ps_Port p),
     cp_Protocol = (if ps_Protocol p = ''UDP'' then ''UDP'' else ''TCP'')\<rparr>"

definition mcp_port :: "int \<Rightarrow> container_port" where
  "mcp_port n = \<lparr>cp_Name = ''mcp'', cp_ContainerPort = n, cp_Protocol = ''TCP''\<rparr>"

definition runtime_port :: "mcp_server \<Rightarrow> int" where
  "runtime_port s = (case sp_Runtime (srv_Spec s) of None \<Rightarrow> 0 | Some rt \<Rightarrow> rt_Port rt)"

definition collectContainerPorts :: "mcp_server \<Rightarrow> container_port list" where
  "collectContainerPorts s =
     (if is_stdio s \<and> \<not> gateway_enabled s then []
      else if length (sp_Ports (srv_Spec s)) > 0 then map spec_container_port (sp_Ports (srv_Spec s))
      else if runtime_port s > 0 then [mcp_port (runtime_port s)]
      else [mcp_port 8080])"

subsection \<open>Environment variables\<close>

definition env_value :: "string \<Rightarrow> string \<Rightarrow> env_var" where
  "env_value n v = \<lparr>ev_Name = n, ev_Value = v, ev_ValueFrom = None\<rparr>"

definition env_field :: "string \<Rightarrow> string \<Rightarrow> env_var" where
  "env_field n path = \<lparr>ev_Name = n, ev_Value = [], ev_ValueFrom = Some (FieldRef path)\<rparr>"

definition mcp_env :: "env_var list" where
  "mcp_env = [env_field ''MCP_SERVER_NAME'' ''metadata.name'', env_field ''MCP_SERVER_NAMESPACE'' ''metadata.namespace'']"

definition runtime_env :: "runtime_spec \<Rightarrow> env_var list" where
  "runtime_env rt = map (\<lambda>(k, v). env_value k v) (gm_entries (rt_Env rt))"

definition buildEnvironmentVariables :: "mcp_server \<Rightarrow> runtime_spec \<Rightarrow> container_port list \<Rightarrow> env_var list" where
  "buildEnvironmentVariables s rt ports =
     runtime_env rt @ map (\<lambda>e. env_value (ev_Name e) (ev_Value e)) (sp_Env (srv_Spec s)) @ mcp_env @
     [env_value ''MCP_SERVER_PORT'' (case ports of [] \<Rightarrow> ''8080'' | p # _ \<Rightarrow> show_int (cp_ContainerPort p))]"

definition buildBinaryEnvironmentVariables :: "mcp_server \<Rightarrow> runtime_spec \<Rightarrow> int \<Rightarrow> env_var list" where
  "buildBinaryEnvironmentVariables s rt proxyPort =
     runtime_env rt @ sp_Env (srv_Spec s) @ mcp_env @
     [env_value ''MCP_SERVER_PORT'' (show_int proxyPort), env_value ''MCP_RUNTIME_TYPE'' ''binary'']"

definition gateway_port :: "gateway_spec \<Rightarrow> int" where
  "gateway_port g = (if gw_Port g = 0 then 8000 else gw_Port g)"

definition buildGatewayEnvironmentVariables ::
  "mcp_server \<Rightarrow> gateway_spec \<Rightarrow> runtime_spec option \<Rightarrow> env_var list" where
  "buildGatewayEnvironmentVariables s g rt =
     gw_Env g @ (case rt of None \<Rightarrow> [] | Some r \<Rightarrow> runtime_env r) @ sp_Env (srv_Spec s) @ mcp_env @
     [env_value ''GATEWAY_PORT'' (show_int (gateway_port g))]"

subsection \<open>Resources and volumes\<close>

definition parsed_list :: "quantity_ops \<Rightarrow> resource_list \<Rightarrow> quantity gomap" where
  "parsed_list q m =
     (if gm_len m > 0 then
        fold (\<lambda>(k, v) acc. case q_parse q v of Inl e \<Rightarrow> acc | Inr x \<Rightarrow> gm_put k x acc) (gm_entries m) (Some [])
      else None)"

definition buildResourceRequirements :: "quantity_ops \<Rightarrow> resource_requirements \<Rightarrow> requirements" where
  "buildResourceRequirements q r =
     \<lparr>qr_Limits = parsed_list q (rq_Limits r), qr_Requests = parsed_list q (rq_Requests r)\<rparr>"

definition isResourceRequirementsEmpty :: "resource_requirements \<Rightarrow> bool" where
  "isResourceRequirementsEmpty r \<longleftrightarrow> gm_len (rq_Limits r) = 0 \<and> gm_len (rq_Requests r) = 0"

definition container_resources :: "quantity_ops \<Rightarrow> mcp_server \<Rightarrow> requirements" where
  "container_resources q s =
     (if \<not> isResourceRequirementsEmpty (sp_Resources (srv_Spec s))
      then buildResourceRequirements q (sp_Resources (srv_Spec s))
      else \<lparr>qr_Limits = None, qr_Requests = None\<rparr>)"

definition convertKeyToPathItems :: "key_to_path list \<Rightarrow> key_to_path list" where
  "convertKeyToPathItems items =
     (if length items = 0 then []
      else map (\<lambda>i. \<lparr>ktp_Key = ktp_Key i, ktp_Path = ktp_Path i, ktp_Mode = ktp_Mode i\<rparr>) items)"

definition build_volume_source :: "quantity_ops \<Rightarrow> mcp_volume \<Rightarrow> volume_source" where
  "build_volume_source q v =
     (case vol_ConfigMap v of
        Some c \<Rightarrow> FromConfigMap (kvs_Name c) (convertKeyToPathItems (kvs_Items c)) (kvs_DefaultMode c) (kvs_Optional c)
      | None \<Rightarrow>
     (case vol_Secret v of
        Some c \<Rightarrow> FromSecret (kvs_Name c) (convertKeyToPathItems (kvs_Items c)) (kvs_DefaultMode c) (kvs_Optional c)
      | None \<Rightarrow>
     (case vol_EmptyDir v of
        Some d \<Rightarrow>
          FromEmptyDir (ed_Medium d)
            (case ed_SizeLimit d of
               None \<Rightarrow> None
             | Some l \<Rightarrow> (case q_parse q l of Inl e \<Rightarrow> None | Inr x \<Rightarrow> Some x))
      | None \<Rightarrow>
     (case vol_PersistentVolumeClaim v of
        Some c \<Rightarrow> FromClaim (pvc_ClaimName c) (pvc_ReadOnly c)
      | None \<Rightarrow>
     (case vol_HostPath v of
        Some h \<Rightarrow> FromHostPath (hp_Path h) (hp_Type h)
      | None \<Rightarrow> NoSource)))))"

definition buildVolumes :: "quantity_ops \<Rightarrow> mcp_volume list \<Rightarrow> pod_volume list" where
  "buildVolumes q vs = map (\<lambda>v. \<lparr>pv_Name = vol_Name v, pv_Source = build_volume_source q v\<rparr>) vs"

text \<open>Of a mount the propagation and the sub-path expression are not copied.\<close>

definition buildVolumeMounts :: "volume_mount list \<Rightarrow> volume_mount list" where
  "buildVolumeMounts ms = map (\<lambda>m. \<lparr>vm_Name = vm_Name m, vm_MountPath = vm_MountPath m, vm_SubPath = vm_SubPath m,
     vm_ReadOnly = vm_ReadOnly m, vm_MountPropagation = None, vm_SubPathExpr = []\<rparr>) ms"

subsection \<open>Containers\<close>

definition liveness_probe :: "int \<Rightarrow> tcp_probe" where
  "liveness_probe port = \<lparr>pb_Port = port, pb_InitialDelaySeconds = 30, pb_PeriodSeconds = 10,
     pb_TimeoutSeconds = 5, pb_FailureThreshold = 3, pb_SuccessThreshold = 1\<rparr>"

definition readiness_probe :: "int \<Rightarrow> tcp_probe" where
  "readiness_probe port = \<lparr>pb_Port = port, pb_InitialDelaySeconds = 5, pb_PeriodSeconds = 5,
     pb_TimeoutSeconds = 3, pb_FailureThreshold = 3, pb_SuccessThreshold = 1\<rparr>"

definition plain_container :: "quantity_ops \<Rightarrow> mcp_server \<Rightarrow> runtime_spec \<Rightarrow> container" where
  "plain_container q s rt =
     (let ports = collectContainerPorts s in
      \<lparr>ct_Name = ''mcp-server'', ct_Image = rt_Image rt, ct_Command = rt_Command rt, ct_Args = rt_Args rt,
       ct_Ports = ports, ct_Env = buildEnvironmentVariables s rt ports, ct_Resources = container_resources q s,
       ct_VolumeMounts = buildVolumeMounts (sp_VolumeMounts (srv_Spec s)),
       ct_SecurityContext = sp_SecurityContext (srv_Spec s),
       ct_LivenessProbe = (case ports of [] \<Rightarrow> None | p # _ \<Rightarrow> Some (liveness_probe (cp_ContainerPort p))),
       ct_ReadinessProbe = (case ports of [] \<Rightarrow> None | p # _ \<Rightarrow> Some (readiness_probe (cp_ContainerPort p)))\<rparr>)"

definition binary_command :: "runtime_spec \<Rightarrow> string list \<times> string list" where
  "binary_command rt =
     (if length (rt_Command rt) > 0 then (rt_Command rt, rt_Args rt)
      else (case rt_Args rt of
              exe # rest \<Rightarrow> ([exe], rest)
            | [] \<Rightarrow> ([''/bin/sh'', ''-c'', ''echo '' @ [CHR 0x27] @ ''Binary executable not specified'' @ [CHR 0x27] @
                      ''; sleep infinity''], [])))"

definition buildBinaryContainer :: "quantity_ops \<Rightarrow> mcp_server \<Rightarrow> runtime_spec \<Rightarrow> container" where
  "buildBinaryContainer q s rt =
     (let proxyPort = (if rt_Port rt = 0 then 8080 else rt_Port rt); (command, args) = binary_command rt in
      \<lparr>ct_Name = ''mcp-binary'', ct_Image = (if rt_Image rt = [] then ''alpine:latest'' else rt_Image rt),
       ct_Command = command, ct_Args = args, ct_Ports = [mcp_port proxyPort],
       ct_Env = buildBinaryEnvironmentVariables s rt proxyPort, ct_Resources = container_resources q s,
       ct_VolumeMounts = buildVolumeMounts (sp_VolumeMounts (srv_Spec s)),
       ct_SecurityContext = sp_SecurityContext (srv_Spec s),
       ct_LivenessProbe = Some (liveness_probe proxyPort), ct_ReadinessProbe = Some (readiness_probe proxyPort)\<rparr>)"

text \<open>The command that takes the place of \<open><cmd>\<close>, put together with its checks for emptiness.\<close>

definition subprocess_command :: "runtime_spec \<Rightarrow> string" where
  "subprocess_command rt =
     (let cmd = (case rt_Command rt of
            [] \<Rightarrow> []
          | c # cs \<Rightarrow> if length cs > 0 then c @ '' '' @ join '' '' cs else c)
      in if length (rt_Args rt) > 0
         then (if cmd \<noteq> [] then cmd @ '' '' @ join '' '' (rt_Args rt) else join '' '' (rt_Args rt))
         else cmd)"

fun gateway_args :: "runtime_spec option \<Rightarrow> string list \<Rightarrow> string list outcome" where
  "gateway_args rt [] = Returns []"
| "gateway_args rt (a # as) =
     and_then (if a = ''<cmd>'' then and_then (deref rt) (\<lambda>r. Returns (subprocess_command r)) else Returns a) (\<lambda>b.
       and_then (gateway_args rt as) (\<lambda>bs. Returns (b # bs)))"

definition buildGatewayContainer :: "quantity_ops \<Rightarrow> mcp_server \<Rightarrow> gateway_spec \<Rightarrow> container outcome" where
  "buildGatewayContainer q s g =
     and_then (gateway_args (sp_Runtime (srv_Spec s)) (gw_Args g)) (\<lambda>args.
       Returns \<lparr>ct_Name = ''gateway'', ct_Image = gw_Image g, ct_Command = [], ct_Args = args,
         ct_Ports = [\<lparr>cp_Name = ''gateway'', cp_ContainerPort = gateway_port g, cp_Protocol = ''TCP''\<rparr>],
         ct_Env = buildGatewayEnvironmentVariables s g (sp_Runtime (srv_Spec s)),
         ct_Resources = container_resources q s,
         ct_VolumeMounts = buildVolumeMounts (sp_VolumeMounts (srv_Spec s)),
         ct_SecurityContext = sp_SecurityContext (srv_Spec s),
         ct_LivenessProbe = Some (liveness_probe (gateway_port g)),
         ct_ReadinessProbe = Some (readiness_probe (gateway_port g))\<rparr>)"

definition buildContainer :: "quantity_ops \<Rightarrow> mcp_server \<Rightarrow> container outcome" where
  "buildContainer q s =
     (if gateway_enabled s \<and> is_stdio s then and_then (deref (sp_Gateway (srv_Spec s))) (buildGatewayContainer q s)
      else and_then (deref (sp_Runtime (srv_Spec s))) (\<lambda>rt.
        if rt_Type rt = ''binary'' then Returns (buildBinaryContainer q s rt) else Returns (plain_container q s rt)))"

subsection \<open>The pod template\<close>

definition buildPodTemplate :: "quantity_ops \<Rightarrow> mcp_server \<Rightarrow> string gomap \<Rightarrow> pod_template outcome" where
  "buildPodTemplate q s labels =
     and_then (buildContainer q s) (\<lambda>container.
       let sp = srv_Spec s;
           istio = (case sp_Gateway sp of
              None \<Rightarrow> False
            | Some g \<Rightarrow> (case gw_Istio g of None \<Rightarrow> False | Some gi \<Rightarrow> gi_Enabled gi))
       in Returns \<lparr>pt_Labels = labels,
            pt_Annotations = Some (if istio then [(''sidecar.istio.io/inject'', ''true'')] else []),
            pt_Spec = \<lparr>po_Containers = [container], po_ServiceAccountName = sp_ServiceAccount sp,
              po_SecurityContext = map_option (\<lambda>c. (sc_RunAsUser c, sc_RunAsGroup c)) (sp_SecurityContext sp),
              po_NodeSelector = (if gm_len (sp_NodeSelector sp) > 0 then sp_NodeSelector sp else None),
              po_Tolerations = sp_Tolerations sp, po_Affinity = sp_Affinity sp,
              po_Volumes = buildVolumes q (sp_Volumes sp)\<rparr>\<rparr>)"

section \<open>What the builders promise\<close>

subsection \<open>Labels\<close>

text \<open>The labels the operator sets itself, the one that wins first.\<close>

definition operator_labels :: "mcp_server \<Rightarrow> (string \<times> string) list" where
  "operator_labels s =
     (case sp_Tenancy (srv_Spec s) of
        None \<Rightarrow> []
      | Some t \<Rightarrow> if ten_TenantID t = [] then [] else [(''mcp.allbeone.io/tenant-id'', ten_TenantID t)]) @
     (let v = gm_str (srv_Annotations s) ''mcp.allbeone.io/registry-version'' in
        if v = [] then [] else [(''mcp.allbeone.io/server-version'', v)]) @
     (case sp_Registry (srv_Spec s) of
        None \<Rightarrow> []
      | Some r \<Rightarrow> if ref_server (srv_Name s) r = [] then []
                  else [(''mcp.allbeone.io/server-name'', ref_server (srv_Name s) r)]) @
     standard_labels s"

lemma get_registry_labels:
  "gm_get (registry_labels s l) k =
     (case map_of (case sp_Registry (srv_Spec s) of
        None \<Rightarrow> []
      | Some r \<Rightarrow> if ref_server (srv_Name s) r = [] then []
                  else [(''mcp.allbeone.io/server-name'', ref_server (srv_Name s) r)]) k of
        Some v \<Rightarrow> Some v | None \<Rightarrow> gm_get l k)"
  by (cases "sp_Registry (srv_Spec s)") (simp_all add: registry_labels_def Let_def del: ref_server_empty_iff)

lemma get_version_label:
  "gm_get (version_label s l) k =
     (case map_of (let v = gm_str (srv_Annotations s) ''mcp.allbeone.io/registry-version'' in
        if v = [] then [] else [(''mcp.allbeone.io/server-version'', v)]) k of
        Some v \<Rightarrow> Some v | None \<Rightarrow> gm_get l k)"
  by (simp add: version_label_def Let_def)

lemma get_tenant_label:
  "gm_get (tenant_label s l) k =
     (case map_of (case sp_Tenancy (srv_Spec s) of
        None \<Rightarrow> []
      | Some t \<Rightarrow> if ten_TenantID t = [] then [] else [(''mcp.allbeone.io/tenant-id'', ten_TenantID t)]) k of
        Some v \<Rightarrow> Some v | None \<Rightarrow> gm_get l k)"
  by (cases "sp_Tenancy (srv_Spec s)") (simp_all add: tenant_label_def)

lemma map_of_filter_key:
  "map_of (filter (\<lambda>(k, v). P k) kvs) k = (if P k then map_of kvs k else None)"
  by (induction kvs) auto

lemma distinct_filter_keys: "distinct (map fst kvs) \<Longrightarrow> distinct (map fst (filter P kvs))"
  by (induction kvs) auto

lemma operator_keys_system: "(k, v) \<in> set (operator_labels s) \<Longrightarrow> isSystemLabel k"
proof -
  have keys: "isSystemLabel ''mcp.allbeone.io/tenant-id''" "isSystemLabel ''mcp.allbeone.io/server-version''"
    "isSystemLabel ''mcp.allbeone.io/server-name''" "isSystemLabel ''app.kubernetes.io/name''"
    "isSystemLabel ''app.kubernetes.io/instance''" "isSystemLabel ''app.kubernetes.io/component''"
    "isSystemLabel ''app.kubernetes.io/part-of''" "isSystemLabel ''app.kubernetes.io/managed-by''"
    by (simp_all add: isSystemLabel_def system_prefixes_def has_prefix_def)
  have std: "list_all (\<lambda>(k, v). isSystemLabel k) (standard_labels s)"
    by (simp add: standard_labels_def keys)
  have "list_all (\<lambda>(k, v). isSystemLabel k) (operator_labels s)"
    unfolding operator_labels_def Let_def list_all_append using std keys
    by (simp split: option.split del: ref_server_empty_iff)
  then show "(k, v) \<in> set (operator_labels s) \<Longrightarrow> isSystemLabel k" by (auto simp: list_all_iff)
qed

lemma get_buildLabels:
  assumes "gm_wf (om_Labels (srv_Meta s))"
  shows "gm_get (buildLabels s) k =
     (if isSystemLabel k then map_of (operator_labels s) k else gm_get (om_Labels (srv_Meta s)) k)"
proof -
  have custom: "map_of (custom_labels s) k =
      (if isSystemLabel k then None else gm_get (om_Labels (srv_Meta s)) k)"
    unfolding custom_labels_def map_of_filter_key gm_get_def by simp
  have "distinct (map fst (custom_labels s))"
    using assms unfolding custom_labels_def gm_wf_def by (rule distinct_filter_keys)
  then have "gm_get (buildLabels s) k = (case map_of (custom_labels s) k of Some v \<Rightarrow> Some v
      | None \<Rightarrow> gm_get (tenant_label s (version_label s (registry_labels s (Some (standard_labels s))))) k)"
    unfolding buildLabels_def by (rule gm_get_put_all)
  moreover have "gm_get (tenant_label s (version_label s (registry_labels s (Some (standard_labels s))))) k
      = map_of (operator_labels s) k"
    unfolding get_tenant_label get_version_label get_registry_labels operator_labels_def gm_get_def[of "Some (standard_labels s)"]
      gm_entries_simps map_of_append map_add_def
    by (rule refl)
  moreover have "\<not> isSystemLabel k \<Longrightarrow> map_of (operator_labels s) k = None"
    using operator_keys_system by (fastforce simp: map_of_eq_None_iff)
  ultimately show ?thesis
    unfolding custom by (simp split: option.split)
qed

lemma get_buildSelector:
  assumes "gm_wf (sp_Selector (srv_Spec s))"
  shows "gm_get (buildSelector s) k =
     (case gm_get (sp_Selector (srv_Spec s)) k of
        Some v \<Rightarrow> Some v
      | None \<Rightarrow> map_of [(''app.kubernetes.io/name'', ''mcp-server''), (''app.kubernetes.io/instance'', srv_Name s)] k)"
  unfolding buildSelector_def gm_get_merge[OF assms] gm_get_def[of "Some _"] gm_entries_simps by (rule refl)

lemma buildSelector_wf: "gm_wf (buildSelector s)"
  unfolding buildSelector_def by (rule gm_wf_put_all) (simp add: gm_wf_def)

lemma get_standard_label:
  assumes "gm_wf (om_Labels (srv_Meta s))"
  shows "gm_get (buildLabels s) ''app.kubernetes.io/name'' = Some ''mcp-server''"
    and "gm_get (buildLabels s) ''app.kubernetes.io/instance'' = Some (srv_Name s)"
    and "gm_get (buildLabels s) ''app.kubernetes.io/component'' = Some ''server''"
proof -
  have "isSystemLabel ''app.kubernetes.io/name''" "isSystemLabel ''app.kubernetes.io/instance''"
      "isSystemLabel ''app.kubernetes.io/component''"
    by (simp_all add: isSystemLabel_def system_prefixes_def has_prefix_def)
  moreover have "map_of (operator_labels s) ''app.kubernetes.io/name'' = Some ''mcp-server''"
      "map_of (operator_labels s) ''app.kubernetes.io/instance'' = Some (srv_Name s)"
      "map_of (operator_labels s) ''app.kubernetes.io/component'' = Some ''server''"
    by (cases "sp_Tenancy (srv_Spec s)"; cases "sp_Registry (srv_Spec s)";
        simp add: operator_labels_def standard_labels_def Let_def map_add_def del: ref_server_empty_iff)+
  ultimately show "gm_get (buildLabels s) ''app.kubernetes.io/name'' = Some ''mcp-server''"
    "gm_get (buildLabels s) ''app.kubernetes.io/instance'' = Some (srv_Name s)"
    "gm_get (buildLabels s) ''app.kubernetes.io/component'' = Some ''server''"
    by (simp_all add: get_buildLabels[OF assms])
qed

subsection \<open>Containers\<close>

lemma gateway_args_eq:
  "gateway_args rt as =
     (if rt = None \<and> ''<cmd>'' \<in> set as then Panic
      else Returns (map (\<lambda>a. if a = ''<cmd>'' then subprocess_command (the rt) else a) as))"
proof -
  define cmd where "cmd = ''<cmd>''"
  have "gateway_args rt as = (if rt = None \<and> cmd \<in> set as then Panic
      else Returns (map (\<lambda>a. if a = cmd then subprocess_command (the rt) else a) as))"
    by (induction as) (cases rt; auto simp: cmd_def[symmetric])+
  then show ?thesis unfolding cmd_def .
qed

lemma join_append:
  "as \<noteq> [] \<Longrightarrow> bs \<noteq> [] \<Longrightarrow> join d (as @ bs) = join d as @ d @ join d bs"
proof (induction as)
  case (Cons a as)
  then show ?case by (cases as; cases bs) simp_all
qed simp

text \<open>The checks for emptiness come to joining all words, but for a command that is one empty word.\<close>

lemma subprocess_command_join:
  assumes "rt_Command rt \<noteq> [[]]"
  shows "subprocess_command rt = join '' '' (rt_Command rt @ rt_Args rt)"
proof (cases "rt_Command rt")
  case Nil
  then show ?thesis by (simp add: subprocess_command_def)
next
  case (Cons c cs)
  have head: "(if length cs > 0 then c @ '' '' @ join '' '' cs else c) = join '' '' (c # cs)"
    by (cases cs) simp_all
  have "join '' '' (c # cs) \<noteq> []"
    using assms Cons by (cases cs) auto
  then show ?thesis
    using join_append[of "c # cs" "rt_Args rt" "'' ''"] Cons head
    by (cases "rt_Args rt") (simp_all add: subprocess_command_def Let_def)
qed

text \<open>Which container is built, and from what.\<close>

definition gateway_container :: "mcp_server \<Rightarrow> bool" where
  "gateway_container s \<longleftrightarrow> gateway_enabled s \<and> is_stdio s"

definition binary_runtime :: "mcp_server \<Rightarrow> bool" where
  "binary_runtime s = (case sp_Runtime (srv_Spec s) of None \<Rightarrow> False | Some rt \<Rightarrow> rt_Type rt = ''binary'')"

definition gateway_built :: "quantity_ops \<Rightarrow> mcp_server \<Rightarrow> gateway_spec \<Rightarrow> container" where
  "gateway_built q s g = \<lparr>ct_Name = ''gateway'', ct_Image = gw_Image g, ct_Command = [],
     ct_Args = map (\<lambda>a. if a = ''<cmd>'' then subprocess_command (the (sp_Runtime (srv_Spec s))) else a) (gw_Args g),
     ct_Ports = [\<lparr>cp_Name = ''gateway'', cp_ContainerPort = gateway_port g, cp_Protocol = ''TCP''\<rparr>],
     ct_Env = buildGatewayEnvironmentVariables s g (sp_Runtime (srv_Spec s)),
     ct_Resources = container_resources q s,
     ct_VolumeMounts = buildVolumeMounts (sp_VolumeMounts (srv_Spec s)),
     ct_SecurityContext = sp_SecurityContext (srv_Spec s),
     ct_LivenessProbe = Some (liveness_probe (gateway_port g)),
     ct_ReadinessProbe = Some (readiness_probe (gateway_port g))\<rparr>"

lemma buildContainer_eq:
  "buildContainer q s =
     (if gateway_container s then
        (let g = the (sp_Gateway (srv_Spec s)) in
         if sp_Runtime (srv_Spec s) = None \<and> ''<cmd>'' \<in> set (gw_Args g) then Panic
         else Returns (gateway_built q s g))
      else case sp_Runtime (srv_Spec s) of
        None \<Rightarrow> Panic
      | Some rt \<Rightarrow> Returns (if binary_runtime s then buildBinaryContainer q s rt else plain_container q s rt))"
proof (cases "gateway_container s")
  case True
  then obtain g where g: "sp_Gateway (srv_Spec s) = Some g"
    by (auto simp: gateway_container_def gateway_enabled_def split: option.splits)
  have "buildContainer q s = buildGatewayContainer q s g"
    using True g by (simp add: buildContainer_def gateway_container_def)
  also have "\<dots> = (if sp_Runtime (srv_Spec s) = None \<and> ''<cmd>'' \<in> set (gw_Args g) then Panic
         else Returns (gateway_built q s g))"
    unfolding buildGatewayContainer_def gateway_args_eq gateway_built_def by simp
  finally show ?thesis unfolding g Let_def using True by simp
next
  case False
  then have neither: "(gateway_enabled s \<and> is_stdio s) = False" "gateway_container s = False"
    by (simp_all add: gateway_container_def)
  show ?thesis
    unfolding buildContainer_def binary_runtime_def neither if_False
    by (cases "sp_Runtime (srv_Spec s)") simp_all
qed

lemma buildContainer_cases:
  assumes "buildContainer q s = Returns c"
  obtains (gateway) g where "gateway_container s" "sp_Gateway (srv_Spec s) = Some g" "gw_Enabled g" "c = gateway_built q s g"
  | (binary) rt where "\<not> gateway_container s" "sp_Runtime (srv_Spec s) = Some rt" "binary_runtime s"
      "c = buildBinaryContainer q s rt"
  | (plain) rt where "\<not> gateway_container s" "sp_Runtime (srv_Spec s) = Some rt" "\<not> binary_runtime s"
      "c = plain_container q s rt"
proof (cases "gateway_container s")
  case True
  then obtain g where g: "sp_Gateway (srv_Spec s) = Some g" "gw_Enabled g"
    by (auto simp: gateway_container_def gateway_enabled_def split: option.splits)
  with assms True show ?thesis
    using gateway by (simp add: buildContainer_eq Let_def split: if_splits)
next
  case False
  with assms show ?thesis
    using binary plain by (auto simp: buildContainer_eq split: option.splits if_splits)
qed

lemma buildContainer_panics_iff:
  "buildContainer q s = Panic \<longleftrightarrow> sp_Runtime (srv_Spec s) = None \<and>
     (gateway_container s \<longrightarrow> (\<exists>g. sp_Gateway (srv_Spec s) = Some g \<and> ''<cmd>'' \<in> set (gw_Args g)))"
proof -
  have "gateway_container s \<Longrightarrow> \<exists>g. sp_Gateway (srv_Spec s) = Some g"
    by (auto simp: gateway_container_def gateway_enabled_def split: option.splits)
  then show ?thesis
    unfolding buildContainer_eq Let_def by (cases "sp_Runtime (srv_Spec s)") auto
qed

text \<open>
  A container is well formed when its probes ask for the first of its ports, and when the port it
  announces in its environment is that one.
\<close>

definition announced :: "env_var list \<Rightarrow> string \<Rightarrow> string option" where
  "announced env n = map_option ev_Value (find (\<lambda>e. ev_Name e = n) (rev env))"

definition port_variable :: "container \<Rightarrow> string" where
  "port_variable c = (if ct_Name c = ''gateway'' then ''GATEWAY_PORT'' else ''MCP_SERVER_PORT'')"

definition container_ok :: "container \<Rightarrow> bool" where
  "container_ok c =
     (case ct_Ports c of
        [] \<Rightarrow> ct_LivenessProbe c = None \<and> ct_ReadinessProbe c = None
      | p # _ \<Rightarrow> map_option pb_Port (ct_LivenessProbe c) = Some (cp_ContainerPort p) \<and>
                map_option pb_Port (ct_ReadinessProbe c) = Some (cp_ContainerPort p) \<and>
                announced (ct_Env c) (port_variable c) = Some (show_int (cp_ContainerPort p)))"

lemma gateway_built_ok: "container_ok (gateway_built q s g)"
  by (simp add: container_ok_def gateway_built_def announced_def port_variable_def
      buildGatewayEnvironmentVariables_def env_value_def liveness_probe_def readiness_probe_def)

lemma binary_container_ok: "container_ok (buildBinaryContainer q s rt)"
  by (simp add: container_ok_def buildBinaryContainer_def announced_def port_variable_def Let_def case_prod_unfold
      buildBinaryEnvironmentVariables_def env_value_def liveness_probe_def readiness_probe_def mcp_port_def)

lemma plain_container_ok: "container_ok (plain_container q s rt)"
  by (simp add: container_ok_def plain_container_def announced_def port_variable_def Let_def
      buildEnvironmentVariables_def env_value_def liveness_probe_def readiness_probe_def split: list.split)

lemma collectContainerPorts_empty_iff:
  "collectContainerPorts s = [] \<longleftrightarrow> is_stdio s \<and> \<not> gateway_enabled s"
  by (simp add: collectContainerPorts_def)

text \<open>C40 Every container that is built is well formed, and only a plain one for the stdio transport without a gateway has no ports.\<close>

theorem built_container_ok:
  assumes "buildContainer q s = Returns c"
  shows "container_ok c \<and> (ct_Ports c = [] \<longleftrightarrow> is_stdio s \<and> \<not> gateway_enabled s \<and> \<not> binary_runtime s)"
  using assms
proof (cases rule: buildContainer_cases)
  case (gateway g)
  then show ?thesis using gateway_built_ok by (auto simp: gateway_built_def gateway_container_def)
next
  case (binary rt)
  then show ?thesis using binary_container_ok by (auto simp: buildBinaryContainer_def Let_def case_prod_unfold)
next
  case (plain rt)
  then show ?thesis using plain_container_ok
    by (auto simp: plain_container_def Let_def collectContainerPorts_empty_iff)
qed

end
