(* ===== verification/WorkloadBuilder.thy ===== *)
theory WorkloadBuilder
  imports PodBuilder
begin

section \<open>Building the deployment, its service and its configuration\<close>

text \<open>
  \<open>BuildDeployment\<close>, \<open>BuildService\<close>, \<open>BuildConfigMap\<close> and \<open>BuildSecret\<close> of
  \<open>pkg/services/resource_builder_service.go\<close>, and how what they build fits together: whether the
  selector finds the pods, whether the service reaches a port a container listens on.
\<close>

definition buildDeploymentStrategy :: "mcp_server \<Rightarrow> deployment_strategy" where
  "buildDeploymentStrategy s =
     (case sp_DeploymentStrategy (srv_Spec s) of
        None \<Rightarrow> RollingUpdate (IntVal 0) (IntVal 1)
      | Some strategy \<Rightarrow>
          if ds_Type strategy = ''Recreate'' then Recreate
          else (case ds_RollingUpdate strategy of
                  None \<Rightarrow> RollingUpdate (IntVal 0) (IntVal 1)
                | Some ru \<Rightarrow>
                    RollingUpdate (case ru_MaxUnavailable ru of None \<Rightarrow> IntVal 0 | Some x \<Rightarrow> x)
                                  (case ru_MaxSurge ru of None \<Rightarrow> IntVal 1 | Some x \<Rightarrow> x)))"

definition autoscaling_hpa :: "mcp_server \<Rightarrow> hpa_spec option" where
  "autoscaling_hpa s = (case sp_Autoscaling (srv_Spec s) of None \<Rightarrow> None | Some a \<Rightarrow> as_HPA a)"

definition hpa_enabled :: "mcp_server \<Rightarrow> bool" where
  "hpa_enabled s = (case autoscaling_hpa s of None \<Rightarrow> False | Some h \<Rightarrow> hpa_Enabled h)"

definition or_one :: "int option \<Rightarrow> int" where
  "or_one r = (case r of None \<Rightarrow> 1 | Some n \<Rightarrow> n)"

definition deployment_replicas :: "mcp_server \<Rightarrow> int option" where
  "deployment_replicas s =
     (case autoscaling_hpa s of
        None \<Rightarrow> Some (or_one (sp_Replicas (srv_Spec s)))
      | Some h \<Rightarrow>
          if \<not> hpa_Enabled h then Some (or_one (sp_Replicas (srv_Spec s)))
          else (case hpa_MinReplicas h of None \<Rightarrow> Some 1 | Some n \<Rightarrow> Some n))"

definition BuildDeployment :: "quantity_ops \<Rightarrow> mcp_server \<Rightarrow> kube_deployment outcome" where
  "BuildDeployment q s =
     (let labels = buildLabels s; selector = buildSelector s in
      and_then (buildPodTemplate q s labels) (\<lambda>podTemplate.
        Returns \<lparr>kd_Meta = built_meta (srv_Name s) (srv_Namespace s) labels, kd_Selector = selector,
          kd_Template = podTemplate, kd_Strategy = buildDeploymentStrategy s,
          kd_Replicas = deployment_replicas s\<rparr>))"

definition tcp_service_port :: "string \<Rightarrow> int \<Rightarrow> service_port" where
  "tcp_service_port n p = \<lparr>svp_Name = n, svp_Port = p, svp_TargetPort = p, svp_Protocol = ''TCP''\<rparr>"

definition service_port_of :: "container_port \<Rightarrow> service_port" where
  "service_port_of p = \<lparr>svp_Name = cp_Name p, svp_Port = cp_ContainerPort p, svp_TargetPort = cp_ContainerPort p,
     svp_Protocol = (if cp_Protocol p \<noteq> [] then cp_Protocol p else ''TCP'')\<rparr>"

definition configured_ports :: "mcp_server \<Rightarrow> service_port list" where
  "configured_ports s =
     (case sp_Gateway (srv_Spec s) of
        Some g \<Rightarrow>
          if gw_Enabled g then [tcp_service_port ''gateway'' (if gw_Port g = 0 then 8080 else gw_Port g)]
          else map service_port_of (collectContainerPorts s)
      | None \<Rightarrow> map service_port_of (collectContainerPorts s))"

definition service_ports :: "mcp_server \<Rightarrow> service_port list" where
  "service_ports s =
     (if length (configured_ports s) = 0 then [tcp_service_port ''mcp'' 8080] else configured_ports s)"

definition BuildService :: "mcp_server \<Rightarrow> kube_service" where
  "BuildService s =
     (let labels = buildLabels s; selector = buildSelector s in
      \<lparr>ks_Meta = built_meta (srv_Name s) (srv_Namespace s) labels,
       ks_Type = (if sp_ServiceType (srv_Spec s) \<noteq> [] then sp_ServiceType (srv_Spec s) else ''ClusterIP''),
       ks_Selector = selector, ks_Ports = service_ports s, ks_ClusterIP = []\<rparr>)"

definition config_data :: "mcp_server \<Rightarrow> string gomap" where
  "config_data s =
     gm_put_all (map (\<lambda>e. (ev_Name e, ev_Value e)) (sp_Env (srv_Spec s)))
       (case sp_Config (srv_Spec s) of
          None \<Rightarrow> Some []
        | Some raw \<Rightarrow> gm_put ''config.json'' raw (Some []))"

definition BuildConfigMap :: "mcp_server \<Rightarrow> kube_configmap" where
  "BuildConfigMap s =
     \<lparr>kc_Meta = built_meta (srv_Name s @ ''-config'') (srv_Namespace s) (buildLabels s), kc_Data = config_data s\<rparr>"

definition secret_data :: "mcp_server \<Rightarrow> string gomap" where
  "secret_data s =
     gm_put_all (map (\<lambda>r. (sr_Key r, ''secret-data-for-'' @ sr_Key r)) (sp_SecretRefs (srv_Spec s))) (Some [])"

definition BuildSecret :: "mcp_server \<Rightarrow> kube_secret option" where
  "BuildSecret s =
     (if gm_len (secret_data s) = 0 then None
      else Some \<lparr>kx_Meta = built_meta (srv_Name s @ ''-secret'') (srv_Namespace s) (buildLabels s),
                 kx_Type = ''Opaque'', kx_Data = secret_data s\<rparr>)"

section \<open>How they fit together\<close>

lemma BuildDeployment_eq:
  "BuildDeployment q s = Returns d \<longleftrightarrow>
     (\<exists>t. buildPodTemplate q s (buildLabels s) = Returns t \<and>
        d = \<lparr>kd_Meta = built_meta (srv_Name s) (srv_Namespace s) (buildLabels s), kd_Selector = buildSelector s,
          kd_Template = t, kd_Strategy = buildDeploymentStrategy s, kd_Replicas = deployment_replicas s\<rparr>)"
  by (cases "buildPodTemplate q s (buildLabels s)") (auto simp: BuildDeployment_def)

lemma buildPodTemplate_container:
  "buildPodTemplate q s l = Returns t \<Longrightarrow> pt_Labels t = l \<and>
     (\<exists>c. buildContainer q s = Returns c \<and> po_Containers (pt_Spec t) = [c])"
  by (cases "buildContainer q s") (auto simp: buildPodTemplate_def Let_def)

lemma buildPodTemplate_panics_iff: "buildPodTemplate q s l = Panic \<longleftrightarrow> buildContainer q s = Panic"
  by (cases "buildContainer q s") (auto simp: buildPodTemplate_def Let_def)

lemma built_deployment:
  assumes "BuildDeployment q s = Returns d"
  obtains c where "buildContainer q s = Returns c" "po_Containers (pt_Spec (kd_Template d)) = [c]"
    "pt_Labels (kd_Template d) = buildLabels s" "kd_Selector d = buildSelector s"
    "kd_Replicas d = deployment_replicas s" "om_Name (kd_Meta d) = srv_Name s" "om_Namespace (kd_Meta d) = srv_Namespace s"
  using assms buildPodTemplate_container unfolding BuildDeployment_eq by fastforce

lemma BuildDeployment_panics: "BuildDeployment q s = Panic \<longleftrightarrow> buildContainer q s = Panic"
  unfolding buildPodTemplate_panics_iff[of q s "buildLabels s", symmetric]
  by (cases "buildPodTemplate q s (buildLabels s)") (simp_all add: BuildDeployment_def)

lemma build_deployment_returns:
  assumes "sp_Runtime (srv_Spec s) \<noteq> None"
  shows "\<exists>d. BuildDeployment q s = Returns d"
proof -
  have "BuildDeployment q s \<noteq> Panic"
    unfolding BuildDeployment_panics buildContainer_panics_iff using assms by blast
  then show ?thesis by (cases "BuildDeployment q s") simp_all
qed

text \<open>C30 Building the deployment panics exactly for a server without a runtime, unless its container is
  a gateway none of whose arguments asks for the command of the runtime.\<close>

theorem build_deployment_panics_iff:
  "BuildDeployment q s = Panic \<longleftrightarrow> sp_Runtime (srv_Spec s) = None \<and>
     (gateway_container s \<longrightarrow> (\<exists>g. sp_Gateway (srv_Spec s) = Some g \<and> ''<cmd>'' \<in> set (gw_Args g)))"
  unfolding BuildDeployment_panics by (rule buildContainer_panics_iff)

text \<open>C7 The selector of a deployment selects the pods of its template exactly when the author's own
  selector asks only for labels that the operator gives the pods: the author's selector is not
  added to them, so that any other entry makes a deployment that the API server rejects.\<close>

theorem deployment_selects_iff:
  assumes built: "BuildDeployment q s = Returns d"
    and wf: "gm_wf (sp_Selector (srv_Spec s))" "gm_wf (om_Labels (srv_Meta s))"
  shows "selects (kd_Selector d) (pt_Labels (kd_Template d)) \<longleftrightarrow>
     (\<forall>k v. gm_get (sp_Selector (srv_Spec s)) k = Some v \<longrightarrow>
        (if isSystemLabel k then map_of (operator_labels s) k else gm_get (om_Labels (srv_Meta s)) k) = Some v)"
proof -
  have sel_wf: "gm_wf (buildSelector s)"
    by (simp add: buildSelector_wf)
  show ?thesis
  proof (rule built_deployment[OF built])
    fix c
    assume d: "pt_Labels (kd_Template d) = buildLabels s" "kd_Selector d = buildSelector s"
    show ?thesis
      unfolding d selects_iff[OF sel_wf] get_buildLabels[OF wf(2), symmetric]
      using get_standard_label[OF wf(2)] by (auto simp: get_buildSelector[OF wf(1)] split: option.splits)
  qed
qed

text \<open>
  The service reaches its pods when each of its ports leads to a port that a container of the
  template listens on.
\<close>

definition reaches :: "kube_service \<Rightarrow> pod_template \<Rightarrow> bool" where
  "reaches svc pod \<longleftrightarrow>
     (\<forall>p \<in> set (ks_Ports svc). \<exists>c \<in> set (po_Containers (pt_Spec pod)).
        svp_TargetPort p \<in> set (map cp_ContainerPort (ct_Ports c)))"

definition proxy_port :: "mcp_server \<Rightarrow> int" where
  "proxy_port s = (if runtime_port s = 0 then 8080 else runtime_port s)"

definition gateway_port_field :: "mcp_server \<Rightarrow> int" where
  "gateway_port_field s = (case sp_Gateway (srv_Spec s) of None \<Rightarrow> 0 | Some g \<Rightarrow> gw_Port g)"

definition own_ports :: "mcp_server \<Rightarrow> int list" where
  "own_ports s = (if binary_runtime s then [proxy_port s] else map cp_ContainerPort (collectContainerPorts s))"

definition published_ports :: "mcp_server \<Rightarrow> int list" where
  "published_ports s =
     (if gateway_enabled s then [if gateway_port_field s = 0 then 8080 else gateway_port_field s]
      else if is_stdio s then [8080] else map cp_ContainerPort (collectContainerPorts s))"

lemma service_targets: "map svp_TargetPort (service_ports s) = published_ports s"
proof (cases "gateway_enabled s")
  case True
  then obtain g where "sp_Gateway (srv_Spec s) = Some g" "gw_Enabled g"
    by (auto simp: gateway_enabled_def split: option.splits)
  then show ?thesis using True
    by (simp add: service_ports_def configured_ports_def published_ports_def tcp_service_port_def gateway_port_field_def)
next
  case False
  then have "configured_ports s = map service_port_of (collectContainerPorts s)"
    by (auto simp: configured_ports_def gateway_enabled_def split: option.splits)
  then show ?thesis using False collectContainerPorts_empty_iff[of s]
    by (auto simp: service_ports_def published_ports_def tcp_service_port_def service_port_of_def)
qed

lemma container_listens:
  assumes "buildContainer q s = Returns c"
  shows "map cp_ContainerPort (ct_Ports c) =
     (if gateway_container s then [if gateway_port_field s = 0 then 8000 else gateway_port_field s] else own_ports s)"
  using assms
proof (cases rule: buildContainer_cases)
  case (gateway g)
  then show ?thesis by (simp add: gateway_built_def gateway_port_def gateway_port_field_def)
next
  case (binary rt)
  then show ?thesis
    by (simp add: buildBinaryContainer_def Let_def case_prod_unfold own_ports_def proxy_port_def runtime_port_def mcp_port_def)
next
  case (plain rt)
  then show ?thesis by (simp add: plain_container_def Let_def own_ports_def)
qed

text \<open>C6 Whether the service reaches the pods it selects: of a gateway container exactly when the gateway's
  port is set, since the container listens on 8000 by default and the service publishes 8080; of
  the others when what is published is what the container listens on, where a binary runtime
  ignores the ports of the specification and a server behind a gateway without the stdio transport
  publishes a port of its own.\<close>

theorem service_reaches_pods_iff:
  assumes built: "BuildDeployment q s = Returns d"
  shows "reaches (BuildService s) (kd_Template d) \<longleftrightarrow>
     (if gateway_container s then gateway_port_field s \<noteq> 0
      else if gateway_enabled s then (if gateway_port_field s = 0 then 8080 else gateway_port_field s) \<in> set (own_ports s)
      else if is_stdio s then binary_runtime s \<and> proxy_port s = 8080
      else binary_runtime s \<longrightarrow> set (map cp_ContainerPort (collectContainerPorts s)) \<subseteq> {proxy_port s})"
proof (rule built_deployment[OF built])
  fix c
  assume c: "buildContainer q s = Returns c" "po_Containers (pt_Spec (kd_Template d)) = [c]"
  have "ks_Ports (BuildService s) = service_ports s" by (simp add: BuildService_def Let_def)
  then have "reaches (BuildService s) (kd_Template d) \<longleftrightarrow>
      set (published_ports s) \<subseteq> set (map cp_ContainerPort (ct_Ports c))"
    unfolding reaches_def c(2) service_targets[symmetric] by auto
  then show ?thesis
    unfolding container_listens[OF c(1)] published_ports_def own_ports_def
    using collectContainerPorts_empty_iff[of s] by (auto simp: gateway_container_def)
qed

lemma replicas_always_set:
  "BuildDeployment q s = Returns d \<Longrightarrow> kd_Replicas d \<noteq> None"
  by (rule built_deployment) (auto simp: deployment_replicas_def split: option.split)

section \<open>Concrete servers\<close>

text \<open>A server behind a gateway that takes every default.\<close>

definition sample_gateway_server :: mcp_server where
  "sample_gateway_server = zero_server\<lparr>srv_Meta := zero_meta\<lparr>om_Name := ''demo'', om_Namespace := ''prod''\<rparr>,
     srv_Spec := zero_spec\<lparr>
       sp_Runtime := Some (zero_runtime\<lparr>rt_Type := ''docker'', rt_Image := ''tool'', rt_Command := [''run'']\<rparr>),
       sp_Transport := Some (zero_transport\<lparr>tr_Type := ''stdio''\<rparr>),
       sp_Gateway := Some \<lparr>gw_Enabled = True, gw_Image = ''gw'', gw_Port = 0, gw_Args = [''<cmd>''], gw_Env = [], gw_Istio = None\<rparr>,
       sp_Selector := Some [(''team'', ''a'')]\<rparr>\<rparr>"

lemma sample_gateway_facts:
  "gateway_container sample_gateway_server" "gateway_port_field sample_gateway_server = 0"
  "sp_Runtime (srv_Spec sample_gateway_server) \<noteq> None" "gm_wf (sp_Selector (srv_Spec sample_gateway_server))"
  "gm_wf (om_Labels (srv_Meta sample_gateway_server))"
  "gm_get (sp_Selector (srv_Spec sample_gateway_server)) ''team'' = Some ''a''"
  "om_Labels (srv_Meta sample_gateway_server) = None"
  by (simp_all add: sample_gateway_server_def gateway_container_def gateway_enabled_def is_stdio_def zero_defs
      gateway_port_field_def gm_wf_def gm_get_def)

lemma sample_gateway_builds: "\<exists>d. BuildDeployment q sample_gateway_server = Returns d"
  by (rule build_deployment_returns[OF sample_gateway_facts(3)])

lemma deployment_selects_iff_witness:
  "\<exists>d. BuildDeployment milli_ops sample_gateway_server = Returns d \<and>
     \<not> selects (kd_Selector d) (pt_Labels (kd_Template d))"
proof -
  obtain d where d: "BuildDeployment milli_ops sample_gateway_server = Returns d"
    using sample_gateway_builds by blast
  have "\<not> isSystemLabel ''team''" by (simp add: isSystemLabel_def system_prefixes_def has_prefix_def)
  then have "\<not> selects (kd_Selector d) (pt_Labels (kd_Template d))"
    using deployment_selects_iff[OF d sample_gateway_facts(4,5)] sample_gateway_facts(6,7) by auto
  with d show ?thesis by blast
qed

lemma service_reaches_pods_iff_witness:
  "\<exists>d. BuildDeployment milli_ops sample_gateway_server = Returns d \<and>
     \<not> reaches (BuildService sample_gateway_server) (kd_Template d)"
proof -
  obtain d where d: "BuildDeployment milli_ops sample_gateway_server = Returns d"
    using sample_gateway_builds by blast
  with service_reaches_pods_iff[OF d] sample_gateway_facts(1,2) show ?thesis by auto
qed

lemma build_deployment_panics_iff_witness:
  "BuildDeployment milli_ops sample_gateway_server \<noteq> Panic \<and> BuildDeployment milli_ops zero_server = Panic"
proof -
  have "\<not> gateway_container zero_server" "sp_Runtime (srv_Spec zero_server) = None"
    by (simp_all add: gateway_container_def gateway_enabled_def zero_defs)
  then show ?thesis
    using build_deployment_panics_iff[of milli_ops sample_gateway_server] build_deployment_panics_iff[of milli_ops zero_server]
      sample_gateway_facts(3) by simp
qed

lemma built_container_ok_witness:
  "\<exists>c. buildContainer milli_ops sample_gateway_server = Returns c \<and> container_ok c \<and> ct_Ports c \<noteq> []"
proof -
  obtain c where c: "buildContainer milli_ops sample_gateway_server = Returns c"
    using built_deployment sample_gateway_builds by metis
  with built_container_ok[OF c] sample_gateway_facts(1) show ?thesis
    by (auto simp: gateway_container_def)
qed

end
