(* ===== verification/PolicyBuilder.thy ===== *)
theory PolicyBuilder
  imports WorkloadBuilder
begin

section \<open>Building autoscalers, network policies and Istio objects\<close>

text \<open>
  The rest of \<open>pkg/services/resource_builder_service.go\<close>: \<open>BuildHPA\<close>, \<open>BuildVPA\<close>,
  \<open>BuildNetworkPolicy\<close>, \<open>BuildVirtualService\<close>, \<open>BuildDestinationRule\<close> and their helpers.
  \<open>SetNestedMap\<close> on a path of one field of an object without that field cannot fail.
\<close>

subsection \<open>Autoscaling\<close>

definition utilization_metric :: "string \<Rightarrow> int \<Rightarrow> hpa_metric" where
  "utilization_metric resource n = ResourceMetric resource
     \<lparr>mt_Type = ''Utilization'', mt_Value = None, mt_AverageValue = None, mt_AverageUtilization = Some n\<rparr>"

definition buildMetricTarget :: "metric_target \<Rightarrow> metric_target" where
  "buildMetricTarget t = \<lparr>mt_Type = mt_Type t, mt_Value = mt_Value t, mt_AverageValue = mt_AverageValue t,
     mt_AverageUtilization = mt_AverageUtilization t\<rparr>"

definition buildCustomMetric :: "metric_spec \<Rightarrow> hpa_metric option" where
  "buildCustomMetric m =
     (if ms_Type m = ''Resource'' then
        map_option (\<lambda>r. ResourceMetric (rms_Name r) (buildMetricTarget (rms_Target r))) (ms_Resource m)
      else if ms_Type m = ''Pods'' then
        map_option (\<lambda>p. PodsMetric \<lparr>mi_Name = mi_Name (pms_Metric p), mi_Selector = mi_Selector (pms_Metric p)\<rparr>
          (buildMetricTarget (pms_Target p))) (ms_Pods m)
      else if ms_Type m = ''Object'' then
        map_option (\<lambda>p. ObjectMetric
          \<lparr>cvo_Kind = cvo_Kind (oms_DescribedObject p), cvo_Name = cvo_Name (oms_DescribedObject p),
           cvo_APIVersion = cvo_APIVersion (oms_DescribedObject p)\<rparr>
          \<lparr>mi_Name = mi_Name (oms_Metric p), mi_Selector = mi_Selector (oms_Metric p)\<rparr>
          (buildMetricTarget (oms_Target p))) (ms_Object m)
      else if ms_Type m = ''External'' then
        map_option (\<lambda>p. ExternalMetric \<lparr>mi_Name = mi_Name (ems_Metric p), mi_Selector = mi_Selector (ems_Metric p)\<rparr>
          (buildMetricTarget (ems_Target p))) (ms_External m)
      else None)"

definition asked_metrics :: "hpa_spec \<Rightarrow> hpa_metric list" where
  "asked_metrics h =
     (case hpa_TargetCPUUtilizationPercentage h of None \<Rightarrow> [] | Some n \<Rightarrow> [utilization_metric ''cpu'' n]) @
     (case hpa_TargetMemoryUtilizationPercentage h of None \<Rightarrow> [] | Some n \<Rightarrow> [utilization_metric ''memory'' n]) @
     List.map_filter buildCustomMetric (hpa_Metrics h)"

definition buildHPAMetrics :: "hpa_spec \<Rightarrow> hpa_metric list" where
  "buildHPAMetrics h =
     (if length (asked_metrics h) = 0 then [utilization_metric ''cpu'' 80] else asked_metrics h)"

definition buildHPAScalingRules :: "hpa_scaling_rules \<Rightarrow> hpa_scaling_rules" where
  "buildHPAScalingRules r =
     \<lparr>hsr_StabilizationWindowSeconds = hsr_StabilizationWindowSeconds r, hsr_SelectPolicy = hsr_SelectPolicy r,
      hsr_Policies = map (\<lambda>p. \<lparr>hsp_Type = hsp_Type p, hsp_Value = hsp_Value p,
        hsp_PeriodSeconds = hsp_PeriodSeconds p\<rparr>) (hsr_Policies r)\<rparr>"

definition buildHPABehavior :: "hpa_spec \<Rightarrow> hpa_behavior option" where
  "buildHPABehavior h = map_option (\<lambda>b.
     \<lparr>hb_ScaleUp = map_option buildHPAScalingRules (hb_ScaleUp b),
      hb_ScaleDown = map_option buildHPAScalingRules (hb_ScaleDown b)\<rparr>) (hpa_Behavior h)"

definition deployment_ref :: "mcp_server \<Rightarrow> cross_version_object_reference" where
  "deployment_ref s = \<lparr>cvo_Kind = ''Deployment'', cvo_Name = srv_Name s, cvo_APIVersion = ''apps/v1''\<rparr>"

definition BuildHPA :: "mcp_server \<Rightarrow> kube_hpa option" where
  "BuildHPA s =
     (case autoscaling_hpa s of
        None \<Rightarrow> None
      | Some h \<Rightarrow> Some \<lparr>kh_Meta = built_meta (srv_Name s) (srv_Namespace s) (buildLabels s),
          kh_ScaleTargetRef = deployment_ref s, kh_MinReplicas = Some (or_one (hpa_MinReplicas h)),
          kh_MaxReplicas = hpa_MaxReplicas h, kh_Metrics = buildHPAMetrics h, kh_Behavior = buildHPABehavior h\<rparr>)"

definition autoscaling_vpa :: "mcp_server \<Rightarrow> vpa_spec option" where
  "autoscaling_vpa s = (case sp_Autoscaling (srv_Spec s) of None \<Rightarrow> None | Some a \<Rightarrow> as_VPA a)"

definition vpa_tree :: "mcp_server \<Rightarrow> vpa_spec \<Rightarrow> tree" where
  "vpa_tree s v = Fields [
     (''targetRef'', Fields [(''apiVersion'', Text ''apps/v1''), (''kind'', Text ''Deployment''), (''name'', Text (srv_Name s))]),
     (''updatePolicy'', Fields [(''updateMode'', Text (vpa_UpdateMode v))])]"

definition BuildVPA :: "label_ops \<Rightarrow> mcp_server \<Rightarrow> unstructured option" where
  "BuildVPA lo s =
     (case autoscaling_vpa s of
        None \<Rightarrow> None
      | Some v \<Rightarrow> Some ((lo_set lo (buildLabels s)
          \<lparr>un_APIVersion = ''autoscaling.k8s.io/v1'', un_Kind = ''VerticalPodAutoscaler'',
           un_Name = srv_Name s, un_Namespace = srv_Namespace s, un_Labels = Fields [], un_Spec = Fields []\<rparr>)
          \<lparr>un_Spec := vpa_tree s v\<rparr>))"

subsection \<open>Network policies\<close>

definition buildNetworkPolicyPorts :: "network_policy_port list \<Rightarrow> network_policy_port list" where
  "buildNetworkPolicyPorts ps =
     map (\<lambda>p. \<lparr>npp_Protocol = npp_Protocol p, npp_Port = npp_Port p, npp_EndPort = npp_EndPort p\<rparr>) ps"

definition buildNetworkPolicyPeers :: "network_policy_peer list \<Rightarrow> network_policy_peer list" where
  "buildNetworkPolicyPeers ps =
     map (\<lambda>p. \<lparr>npr_PodSelector = npr_PodSelector p, npr_NamespaceSelector = npr_NamespaceSelector p,
       npr_IPBlock = map_option (\<lambda>b. \<lparr>ipb_CIDR = ipb_CIDR b, ipb_Except = ipb_Except b\<rparr>) (npr_IPBlock p)\<rparr>) ps"

definition buildIngressRules :: "network_policy_rule list \<Rightarrow> network_policy_rule list" where
  "buildIngressRules rs = map (\<lambda>r. \<lparr>npu_Ports = buildNetworkPolicyPorts (npu_Ports r),
     npu_Peers = buildNetworkPolicyPeers (npu_Peers r)\<rparr>) rs"

definition buildEgressRules :: "network_policy_rule list \<Rightarrow> network_policy_rule list" where
  "buildEgressRules rs = map (\<lambda>r. \<lparr>npu_Ports = buildNetworkPolicyPorts (npu_Ports r),
     npu_Peers = buildNetworkPolicyPeers (npu_Peers r)\<rparr>) rs"

definition match_label :: "string \<Rightarrow> string \<Rightarrow> label_selector" where
  "match_label k v = \<lparr>ls_MatchLabels = Some [(k, v)], ls_MatchExpressions = []\<rparr>"

definition pod_peer :: "label_selector \<Rightarrow> network_policy_peer" where
  "pod_peer sel = \<lparr>npr_PodSelector = Some sel, npr_NamespaceSelector = None, npr_IPBlock = None\<rparr>"

definition namespace_peer :: "string \<Rightarrow> network_policy_peer" where
  "namespace_peer ns = \<lparr>npr_PodSelector = None,
     npr_NamespaceSelector = Some (match_label ''kubernetes.io/metadata.name'' ns), npr_IPBlock = None\<rparr>"

definition peer_rule :: "network_policy_peer \<Rightarrow> network_policy_rule" where
  "peer_rule p = \<lparr>npu_Ports = [], npu_Peers = [p]\<rparr>"

definition allowed_rules :: "tenant_network_policy \<Rightarrow> network_policy_rule list" where
  "allowed_rules n =
     map (\<lambda>ns. peer_rule (namespace_peer ns)) (tnp_AllowedNamespaces n) @
     (case tnp_AllowedPods n of None \<Rightarrow> [] | Some sel \<Rightarrow> [peer_rule (pod_peer sel)])"

definition tenant_pod_selector :: "tenancy_spec \<Rightarrow> label_selector" where
  "tenant_pod_selector t = match_label ''mcp.allbeone.io/tenant'' (ten_TenantID t)"

definition tenant_allowed :: "tenancy_spec \<Rightarrow> network_policy_rule list" where
  "tenant_allowed t = (case ten_NetworkPolicy t of None \<Rightarrow> [] | Some n \<Rightarrow> allowed_rules n)"

definition buildDefaultIngressRules :: "tenancy_spec \<Rightarrow> network_policy_rule list" where
  "buildDefaultIngressRules t = peer_rule (pod_peer (tenant_pod_selector t)) # tenant_allowed t"

definition dns_port :: "string \<Rightarrow> network_policy_port" where
  "dns_port protocol = \<lparr>npp_Protocol = Some protocol, npp_Port = Some (IntVal 53), npp_EndPort = None\<rparr>"

definition dns_rule :: network_policy_rule where
  "dns_rule = \<lparr>npu_Ports = [dns_port ''UDP'', dns_port ''TCP''], npu_Peers = [namespace_peer ''kube-system'']\<rparr>"

definition buildDefaultEgressRules :: "tenancy_spec \<Rightarrow> network_policy_rule list" where
  "buildDefaultEgressRules t = peer_rule (pod_peer (tenant_pod_selector t)) # dns_rule # tenant_allowed t"

definition BuildNetworkPolicy :: "mcp_server \<Rightarrow> kube_network_policy option" where
  "BuildNetworkPolicy s =
     (case sp_Tenancy (srv_Spec s) of
        None \<Rightarrow> None
      | Some t \<Rightarrow>
          (case ten_NetworkPolicy t of
             None \<Rightarrow> None
           | Some n \<Rightarrow>
               if \<not> tnp_Enabled n then None
               else Some \<lparr>kn_Meta = built_meta (''mcp-tenant-'' @ ten_TenantID t) (srv_Namespace s) (buildLabels s),
                 kn_PodSelector = tenant_pod_selector t,
                 kn_PolicyTypes = [''Ingress'', ''Egress''],
                 kn_Ingress = (if length (tnp_IngressRules n) > 0 then buildIngressRules (tnp_IngressRules n)
                               else buildDefaultIngressRules t),
                 kn_Egress = (if length (tnp_EgressRules n) > 0 then buildEgressRules (tnp_EgressRules n)
                              else buildDefaultEgressRules t)\<rparr>))"

subsection \<open>Istio\<close>

definition active_gateway_istio :: "mcp_server \<Rightarrow> gateway_istio_spec option" where
  "active_gateway_istio s =
     (case sp_Gateway (srv_Spec s) of
        None \<Rightarrow> None
      | Some g \<Rightarrow> (case gw_Istio g of None \<Rightarrow> None | Some i \<Rightarrow> if gi_Enabled i then Some i else None))"

definition service_host :: "mcp_server \<Rightarrow> string" where
  "service_host s = srv_Name s @ ''.'' @ srv_Namespace s @ ''.svc.cluster.local''"

definition transport_path :: "mcp_server \<Rightarrow> string" where
  "transport_path s =
     (case sp_Transport (srv_Spec s) of
        None \<Rightarrow> ''/mcp''
      | Some t \<Rightarrow> if tr_Path t \<noteq> [] then tr_Path t else ''/mcp'')"

definition destination_port :: "mcp_server \<Rightarrow> int" where
  "destination_port s =
     (case sp_Gateway (srv_Spec s) of
        Some g \<Rightarrow>
          if gw_Enabled g \<and> gw_Port g > 0 then gw_Port g
          else (case collectContainerPorts s of p # _ \<Rightarrow> cp_ContainerPort p | [] \<Rightarrow> 8080)
      | None \<Rightarrow> (case collectContainerPorts s of p # _ \<Rightarrow> cp_ContainerPort p | [] \<Rightarrow> 8080))"

definition route_tree :: "string \<Rightarrow> string \<Rightarrow> string \<Rightarrow> string \<Rightarrow> int \<Rightarrow> tree" where
  "route_tree host gateway path destination port = Fields [
     (''hosts'', Texts [host]), (''gateways'', Texts [gateway]),
     (''http'', Items [Fields [
        (''match'', Items [Fields [(''uri'', Fields [(''prefix'', Text path)])]]),
        (''route'', Items [Fields [(''destination'', Fields [
           (''host'', Text destination), (''port'', Fields [(''number'', Number port)])])]])]])]"

definition istio_object :: "string \<Rightarrow> mcp_server \<Rightarrow> tree \<Rightarrow> unstructured" where
  "istio_object kind s spec = \<lparr>un_APIVersion = ''networking.istio.io/v1beta1'', un_Kind = kind,
     un_Name = srv_Name s, un_Namespace = srv_Namespace s, un_Labels = StringMap (buildLabels s), un_Spec = spec\<rparr>"

definition BuildVirtualService :: "mcp_server \<Rightarrow> unstructured option" where
  "BuildVirtualService s =
     (case active_gateway_istio s of
        None \<Rightarrow> None
      | Some i \<Rightarrow>
          if gi_Host i = [] then None
          else Some (istio_object ''VirtualService'' s
            (route_tree (gi_Host i) (if gi_GatewayRef i = [] then ''default'' else gi_GatewayRef i)
               (transport_path s) (service_host s) (destination_port s))))"

definition BuildDestinationRule :: "mcp_server \<Rightarrow> unstructured option" where
  "BuildDestinationRule s =
     (case active_gateway_istio s of
        None \<Rightarrow> None
      | Some i \<Rightarrow> Some (istio_object ''DestinationRule'' s (Fields [
          (''host'', Text (service_host s)),
          (''subsets'', Items [Fields [(''name'', Text ''default''),
             (''labels'', Fields [(''app.kubernetes.io/name'', Text ''mcp-server''),
                (''app.kubernetes.io/instance'', Text (srv_Name s))])]])])))"

section \<open>What is built\<close>

text \<open>Rules, ports, peers, targets and scaling rules are copied field by field, hence unchanged.\<close>

lemma buildNetworkPolicyPorts_id [simp]: "buildNetworkPolicyPorts ps = ps"
  by (simp add: buildNetworkPolicyPorts_def map_idI)

lemma buildNetworkPolicyPeers_id [simp]: "buildNetworkPolicyPeers ps = ps"
  unfolding buildNetworkPolicyPeers_def
proof (rule map_idI)
  fix p :: network_policy_peer
  assume "p \<in> set ps"
  show "\<lparr>npr_PodSelector = npr_PodSelector p, npr_NamespaceSelector = npr_NamespaceSelector p,
       npr_IPBlock = map_option (\<lambda>b. \<lparr>ipb_CIDR = ipb_CIDR b, ipb_Except = ipb_Except b\<rparr>) (npr_IPBlock p)\<rparr> = p"
    by (cases "npr_IPBlock p") (simp_all add: network_policy_peer.equality)
qed

lemma explicit_rules_id [simp]: "buildIngressRules rs = rs" "buildEgressRules rs = rs"
  by (simp_all add: buildIngressRules_def buildEgressRules_def map_idI)

lemma buildHPAScalingRules_id [simp]: "buildHPAScalingRules r = r"
  by (simp add: buildHPAScalingRules_def map_idI)

lemma buildHPABehavior_id [simp]: "buildHPABehavior h = hpa_Behavior h"
proof -
  have "map_option buildHPAScalingRules r = r" for r :: "hpa_scaling_rules option"
    by (cases r) simp_all
  then show ?thesis by (cases "hpa_Behavior h") (simp_all add: buildHPABehavior_def)
qed

lemma buildMetricTarget_id [simp]: "buildMetricTarget t = t"
  by (simp add: buildMetricTarget_def)

lemma buildHPAMetrics_not_empty: "buildHPAMetrics h \<noteq> []"
  by (auto simp: buildHPAMetrics_def)

text \<open>An autoscaler is built whenever one is configured, also when it is disabled, always with a
  metric and a minimum; and the deployment fixes a replica count in every case: with the autoscaler
  enabled its minimum, so that each time the deployment is applied the autoscaler's choice is undone.\<close>

theorem autoscaler_and_deployment_compete:
  assumes configured: "autoscaling_hpa s = Some a" and built: "BuildDeployment q s = Returns d"
  shows "\<exists>h. BuildHPA s = Some h \<and> kh_Metrics h \<noteq> [] \<and> kh_MinReplicas h = Some (or_one (hpa_MinReplicas a)) \<and>
     cvo_Name (kh_ScaleTargetRef h) = om_Name (kd_Meta d) \<and>
     kd_Replicas d = (if hpa_Enabled a then kh_MinReplicas h else Some (or_one (sp_Replicas (srv_Spec s))))"
proof (rule built_deployment[OF built])
  assume "kd_Replicas d = deployment_replicas s" "om_Name (kd_Meta d) = srv_Name s"
  with configured show ?thesis
    by (simp add: BuildHPA_def buildHPAMetrics_not_empty deployment_ref_def deployment_replicas_def or_one_def
        split: option.split)
qed

text \<open>The label the network policies select by is none of those any pod is given.\<close>

lemma no_tenant_label:
  assumes "gm_wf (om_Labels (srv_Meta s))"
  shows "gm_get (buildLabels s) ''mcp.allbeone.io/tenant'' = None"
proof -
  have sys: "isSystemLabel ''mcp.allbeone.io/tenant''"
    by (simp add: isSystemLabel_def system_prefixes_def has_prefix_def)
  have "map_of (operator_labels s) ''mcp.allbeone.io/tenant'' = None"
    by (cases "sp_Tenancy (srv_Spec s)"; cases "sp_Registry (srv_Spec s)";
        simp add: operator_labels_def standard_labels_def Let_def map_add_def del: ref_server_empty_iff)
  with sys show ?thesis by (simp add: get_buildLabels[OF assms])
qed

lemma match_label_selects: "selects (ls_MatchLabels (match_label k v)) l \<longleftrightarrow> gm_get l k = Some v"
  by (simp add: match_label_def selects_def)

text \<open>The network policy of a tenant selects no pod of any server, of that tenant or another, and
  neither does the rule that is to let pods of the same tenant through: both ask for the label
  \<open>mcp.allbeone.io/tenant\<close>, while pods carry \<open>mcp.allbeone.io/tenant-id\<close> and an author's label
  under this prefix is dropped.\<close>

theorem network_policy_selects_no_pod:
  assumes policy: "BuildNetworkPolicy s = Some p"
    and built: "BuildDeployment q s' = Returns d" and wf: "gm_wf (om_Labels (srv_Meta s'))"
  shows "\<not> selects (ls_MatchLabels (kn_PodSelector p)) (pt_Labels (kd_Template d)) \<and>
     (\<forall>t sel. sp_Tenancy (srv_Spec s) = Some t \<and>
        npr_PodSelector (hd (npu_Peers (hd (buildDefaultIngressRules t)))) = Some sel \<longrightarrow>
        \<not> selects (ls_MatchLabels sel) (pt_Labels (kd_Template d)))"
proof -
  obtain t where t: "sp_Tenancy (srv_Spec s) = Some t" "kn_PodSelector p = tenant_pod_selector t"
    using policy by (auto simp: BuildNetworkPolicy_def split: option.splits if_splits)
  have labels: "pt_Labels (kd_Template d) = buildLabels s'"
    by (rule built_deployment[OF built])
  have "\<not> selects (ls_MatchLabels (tenant_pod_selector u)) (pt_Labels (kd_Template d))" for u
    unfolding tenant_pod_selector_def match_label_selects labels no_tenant_label[OF wf] by simp
  with t show ?thesis by (simp add: buildDefaultIngressRules_def peer_rule_def pod_peer_def)
qed

text \<open>The first port of the server, as the virtual service takes it.\<close>

definition first_port :: "mcp_server \<Rightarrow> int" where
  "first_port s = (case collectContainerPorts s of p # _ \<Rightarrow> cp_ContainerPort p | [] \<Rightarrow> 8080)"

lemma service_published: "map svp_Port (ks_Ports (BuildService s)) = published_ports s"
proof -
  have "map svp_Port (service_ports s) = map svp_TargetPort (service_ports s)"
    by (auto simp: service_ports_def configured_ports_def tcp_service_port_def service_port_of_def split: option.splits)
  then show ?thesis by (simp add: BuildService_def Let_def service_targets)
qed

lemma destination_port_eq:
  "destination_port s =
     (if gateway_enabled s \<and> gateway_port_field s > 0 then gateway_port_field s else first_port s)"
  by (cases "sp_Gateway (srv_Spec s)")
     (simp_all add: destination_port_def gateway_enabled_def gateway_port_field_def first_port_def)

text \<open>The virtual service leads to the service of its server, and to a port that service publishes
  exactly when the gateway is off, its port is set, or the first port of the server is 8080 as well.\<close>

theorem virtual_service_reaches_service_iff:
  assumes built: "BuildVirtualService s = Some v" and port: "0 \<le> gateway_port_field s"
  shows "\<exists>host gateway n. un_Spec v = route_tree host gateway (transport_path s) (service_host s) n \<and>
     (n \<in> set (map svp_Port (ks_Ports (BuildService s))) \<longleftrightarrow>
        \<not> gateway_enabled s \<or> gateway_port_field s \<noteq> 0 \<or> first_port s = 8080)"
proof -
  obtain i where i: "active_gateway_istio s = Some i" using built by (auto simp: BuildVirtualService_def split: option.splits)
  have v: "v = istio_object ''VirtualService'' s
      (route_tree (gi_Host i) (if gi_GatewayRef i = [] then ''default'' else gi_GatewayRef i)
         (transport_path s) (service_host s) (destination_port s))"
    using built unfolding BuildVirtualService_def i by (cases "gi_Host i = []") simp_all
  have spec: "\<exists>host gateway. un_Spec v =
      route_tree host gateway (transport_path s) (service_host s) (destination_port s)"
    unfolding v istio_object_def unstructured.simps by (intro exI) (rule refl)
  have "first_port s \<in> set (published_ports s)" if "\<not> gateway_enabled s"
    using that collectContainerPorts_empty_iff[of s]
    by (auto simp: published_ports_def first_port_def split: list.split)
  then have "destination_port s \<in> set (published_ports s) \<longleftrightarrow>
      \<not> gateway_enabled s \<or> gateway_port_field s \<noteq> 0 \<or> first_port s = 8080"
    using port by (auto simp: destination_port_eq published_ports_def)
  with spec show ?thesis unfolding service_published by blast
qed

section \<open>A concrete tenant\<close>

definition sample_tenant_server :: mcp_server where
  "sample_tenant_server = sample_gateway_server\<lparr>srv_Spec := (srv_Spec sample_gateway_server)\<lparr>
     sp_Tenancy := Some \<lparr>ten_TenantID = ''acme'', ten_IsolationLevel = ''Strict'', ten_ResourceQuotas = None,
       ten_NetworkPolicy = Some \<lparr>tnp_Enabled = True, tnp_AllowedNamespaces = [''shared''], tnp_AllowedPods = None,
         tnp_IngressRules = [], tnp_EgressRules = []\<rparr>,
       ten_Labels = None, ten_Annotations = None\<rparr>,
     sp_Autoscaling := Some \<lparr>as_HPA = Some \<lparr>hpa_Enabled = True, hpa_MinReplicas = Some 2, hpa_MaxReplicas = 9,
         hpa_TargetCPUUtilizationPercentage = None, hpa_TargetMemoryUtilizationPercentage = None,
         hpa_Metrics = [], hpa_Behavior = None\<rparr>, as_VPA = None\<rparr>,
     sp_Gateway := Some \<lparr>gw_Enabled = True, gw_Image = ''gw'', gw_Port = 0, gw_Args = [], gw_Env = [],
       gw_Istio = Some \<lparr>gi_Enabled = True, gi_Host = ''demo.example.com'', gi_GatewayRef = []\<rparr>\<rparr>,
     sp_Ports := [\<lparr>ps_Name = ''web'', ps_Port = 9000, ps_TargetPort = 0, ps_Protocol = [], ps_AppProtocol = []\<rparr>]\<rparr>\<rparr>"

lemma sample_tenant_facts:
  "sp_Runtime (srv_Spec sample_tenant_server) \<noteq> None" "gm_wf (om_Labels (srv_Meta sample_tenant_server))"
  "BuildNetworkPolicy sample_tenant_server \<noteq> None" "BuildVirtualService sample_tenant_server \<noteq> None"
  "gateway_enabled sample_tenant_server" "gateway_port_field sample_tenant_server = 0"
  "first_port sample_tenant_server = 9000" "autoscaling_hpa sample_tenant_server \<noteq> None"
  by (simp_all add: sample_tenant_server_def sample_gateway_server_def zero_defs gm_wf_def BuildNetworkPolicy_def
      BuildVirtualService_def active_gateway_istio_def gateway_enabled_def gateway_port_field_def first_port_def
      collectContainerPorts_def spec_container_port_def autoscaling_hpa_def)

lemma sample_tenant_builds: "\<exists>d. BuildDeployment q sample_tenant_server = Returns d"
  by (rule build_deployment_returns[OF sample_tenant_facts(1)])

lemma autoscaler_and_deployment_compete_witness:
  "\<exists>h d. BuildHPA sample_tenant_server = Some h \<and> BuildDeployment milli_ops sample_tenant_server = Returns d \<and>
     cvo_Name (kh_ScaleTargetRef h) = om_Name (kd_Meta d) \<and> kh_MinReplicas h \<noteq> None"
proof -
  obtain a where a: "autoscaling_hpa sample_tenant_server = Some a" using sample_tenant_facts(8) by blast
  obtain d where d: "BuildDeployment milli_ops sample_tenant_server = Returns d" using sample_tenant_builds by blast
  from autoscaler_and_deployment_compete[OF a d] d show ?thesis by auto
qed

lemma network_policy_selects_no_pod_witness:
  "\<exists>p d. BuildNetworkPolicy sample_tenant_server = Some p \<and> BuildDeployment milli_ops sample_tenant_server = Returns d \<and>
     \<not> selects (ls_MatchLabels (kn_PodSelector p)) (pt_Labels (kd_Template d))"
proof -
  obtain p where p: "BuildNetworkPolicy sample_tenant_server = Some p" using sample_tenant_facts(3) by blast
  obtain d where d: "BuildDeployment milli_ops sample_tenant_server = Returns d" using sample_tenant_builds by blast
  from network_policy_selects_no_pod[OF p d sample_tenant_facts(2)] p d show ?thesis by blast
qed

lemma virtual_service_reaches_service_iff_witness:
  "\<exists>v n. BuildVirtualService sample_tenant_server = Some v \<and>
     n \<notin> set (map svp_Port (ks_Ports (BuildService sample_tenant_server)))"
proof -
  obtain v where v: "BuildVirtualService sample_tenant_server = Some v" using sample_tenant_facts(4) by blast
  have "0 \<le> gateway_port_field sample_tenant_server" by (simp add: sample_tenant_facts(6))
  from virtual_service_reaches_service_iff[OF v this] v show ?thesis
    by (auto simp: sample_tenant_facts(5-7))
qed

end
