(* ===== verification/SimpleBuilder.thy ===== *)
theory SimpleBuilder
  imports PolicyBuilder
begin

section \<open>The simple resource builder\<close>

text \<open>
  \<open>pkg/services/resource_builder_service_simple.go\<close>, the builder that \<open>main.go\<close> uses. It reads
  the runtime of a server without asking whether there is one. Where its code repeats that of the
  default builder word for word, the definition of the latter is used.
\<close>

subsection \<open>Pods\<close>

definition simple_buildLabels :: "mcp_server \<Rightarrow> string gomap" where
  "simple_buildLabels s = tenant_label s (version_label s (registry_labels s (Some (standard_labels s))))"

definition simple_buildSelector :: "mcp_server \<Rightarrow> string gomap" where
  "simple_buildSelector s =
     gm_put_all (gm_entries (sp_Selector (srv_Spec s)))
       (Some [(''app.kubernetes.io/name'', ''mcp-server''), (''app.kubernetes.io/instance'', srv_Name s)])"

definition simple_port :: "runtime_spec \<Rightarrow> int" where
  "simple_port rt = (if rt_Port rt > 0 then rt_Port rt else 8080)"

definition simple_buildEnvironmentVariables :: "mcp_server \<Rightarrow> runtime_spec \<Rightarrow> env_var list" where
  "simple_buildEnvironmentVariables s rt =
     runtime_env rt @ map (\<lambda>e. env_value (ev_Name e) (ev_Value e)) (sp_Env (srv_Spec s)) @ mcp_env @
     [env_value ''MCP_SERVER_PORT'' (show_int (rt_Port rt))]"

definition simple_buildResourceRequirements :: "quantity_ops \<Rightarrow> resource_requirements \<Rightarrow> requirements" where
  "simple_buildResourceRequirements q r =
     \<lparr>qr_Limits = parsed_list q (rq_Limits r), qr_Requests = parsed_list q (rq_Requests r)\<rparr>"

definition simple_buildContainer :: "quantity_ops \<Rightarrow> mcp_server \<Rightarrow> runtime_spec \<Rightarrow> container" where
  "simple_buildContainer q s rt =
     \<lparr>ct_Name = ''mcp-server'', ct_Image = rt_Image rt, ct_Command = rt_Command rt, ct_Args = rt_Args rt,
      ct_Ports = [mcp_port (simple_port rt)], ct_Env = simple_buildEnvironmentVariables s rt,
      ct_Resources =
        (if \<not> isResourceRequirementsEmpty (sp_Resources (srv_Spec s))
         then simple_buildResourceRequirements q (sp_Resources (srv_Spec s))
         else \<lparr>qr_Limits = None, qr_Requests = None\<rparr>),
      ct_VolumeMounts = [], ct_SecurityContext = sp_SecurityContext (srv_Spec s),
      ct_LivenessProbe = None, ct_ReadinessProbe = None\<rparr>"

definition simple_buildPodAnnotations :: "mcp_server \<Rightarrow> string gomap" where
  "simple_buildPodAnnotations s =
     (case sp_Istio (srv_Spec s) of
        None \<Rightarrow> Some []
      | Some i \<Rightarrow>
          if is_Enabled i then
            (case is_SidecarInject i of
               Some b \<Rightarrow> gm_put ''sidecar.istio.io/inject'' (if b then ''true'' else ''false'') (Some [])
             | None \<Rightarrow> gm_put ''sidecar.istio.io/inject'' ''true'' (Some []))
          else Some [])"

definition simple_buildDeploymentStrategy :: "mcp_server \<Rightarrow> deployment_strategy" where
  "simple_buildDeploymentStrategy s =
     (case sp_DeploymentStrategy (srv_Spec s) of
        None \<Rightarrow> RollingUpdate (IntVal 0) (IntVal 1)
      | Some strategy \<Rightarrow>
          if ds_Type strategy = ''Recreate'' then Recreate
          else (case ds_RollingUpdate strategy of
                  None \<Rightarrow> RollingUpdate (IntVal 0) (IntVal 1)
                | Some ru \<Rightarrow>
                    RollingUpdate (case ru_MaxUnavailable ru of None \<Rightarrow> IntVal 0 | Some x \<Rightarrow> x)
                                  (case ru_MaxSurge ru of None \<Rightarrow> IntVal 1 | Some x \<Rightarrow> x)))"

subsection \<open>Workloads\<close>

definition simple_BuildDeployment :: "quantity_ops \<Rightarrow> mcp_server \<Rightarrow> kube_deployment outcome" where
  "simple_BuildDeployment q s =
     (let replicas = or_one (sp_Replicas (srv_Spec s));
          labels = simple_buildLabels s; selector = simple_buildSelector s in
      and_then (deref (sp_Runtime (srv_Spec s))) (\<lambda>rt.
        Returns \<lparr>kd_Meta = built_meta (srv_Name s) (srv_Namespace s) labels, kd_Selector = selector,
          kd_Template = \<lparr>pt_Labels = labels, pt_Annotations = simple_buildPodAnnotations s,
            pt_Spec = \<lparr>po_Containers = [simple_buildContainer q s rt], po_ServiceAccountName = [],
              po_SecurityContext = None, po_NodeSelector = None, po_Tolerations = [], po_Affinity = None,
              po_Volumes = []\<rparr>\<rparr>,
          kd_Strategy = simple_buildDeploymentStrategy s, kd_Replicas = Some replicas\<rparr>))"

definition simple_BuildService :: "mcp_server \<Rightarrow> kube_service outcome" where
  "simple_BuildService s =
     and_then (deref (sp_Runtime (srv_Spec s))) (\<lambda>rt.
       Returns \<lparr>ks_Meta = built_meta (srv_Name s) (srv_Namespace s) (simple_buildLabels s),
         ks_Type = (if sp_ServiceType (srv_Spec s) \<noteq> [] then sp_ServiceType (srv_Spec s) else ''ClusterIP''),
         ks_Selector = simple_buildSelector s, ks_Ports = [tcp_service_port ''mcp'' (simple_port rt)], ks_ClusterIP = []\<rparr>)"

definition simple_BuildConfigMap :: "mcp_server \<Rightarrow> kube_configmap" where
  "simple_BuildConfigMap s =
     \<lparr>kc_Meta = built_meta (srv_Name s @ ''-config'') (srv_Namespace s) (simple_buildLabels s),
      kc_Data = config_data s\<rparr>"

definition simple_BuildSecret :: "mcp_server \<Rightarrow> kube_secret option" where
  "simple_BuildSecret s =
     (if gm_len (secret_data s) = 0 then None
      else Some \<lparr>kx_Meta = built_meta (srv_Name s @ ''-secret'') (srv_Namespace s) (simple_buildLabels s),
                 kx_Type = ''Opaque'', kx_Data = secret_data s\<rparr>)"

subsection \<open>Autoscalers and network policies\<close>

definition simple_buildHPAMetrics :: "hpa_spec \<Rightarrow> hpa_metric list" where
  "simple_buildHPAMetrics h =
     (case hpa_TargetCPUUtilizationPercentage h of None \<Rightarrow> [] | Some n \<Rightarrow> [utilization_metric ''cpu'' n]) @
     (case hpa_TargetMemoryUtilizationPercentage h of None \<Rightarrow> [] | Some n \<Rightarrow> [utilization_metric ''memory'' n])"

definition simple_BuildHPA :: "mcp_server \<Rightarrow> kube_hpa option" where
  "simple_BuildHPA s =
     (case autoscaling_hpa s of
        None \<Rightarrow> None
      | Some h \<Rightarrow> Some \<lparr>kh_Meta = built_meta (srv_Name s) (srv_Namespace s) (simple_buildLabels s),
          kh_ScaleTargetRef = deployment_ref s, kh_MinReplicas = Some (or_one (hpa_MinReplicas h)),
          kh_MaxReplicas = hpa_MaxReplicas h, kh_Metrics = simple_buildHPAMetrics h, kh_Behavior = None\<rparr>)"

definition simple_BuildVPA :: "label_ops \<Rightarrow> mcp_server \<Rightarrow> unstructured option" where
  "simple_BuildVPA lo s =
     (case autoscaling_vpa s of
        None \<Rightarrow> None
      | Some v \<Rightarrow> Some ((lo_set lo (simple_buildLabels s)
          \<lparr>un_APIVersion = ''autoscaling.k8s.io/v1'', un_Kind = ''VerticalPodAutoscaler'',
           un_Name = srv_Name s, un_Namespace = srv_Namespace s, un_Labels = Fields [], un_Spec = Fields []\<rparr>)
          \<lparr>un_Spec := vpa_tree s v\<rparr>))"

definition tenant_policy :: "mcp_server \<Rightarrow> tenant_network_policy option" where
  "tenant_policy s =
     (case sp_Tenancy (srv_Spec s) of
        None \<Rightarrow> None
      | Some t \<Rightarrow> (case ten_NetworkPolicy t of None \<Rightarrow> None | Some n \<Rightarrow> if tnp_Enabled n then Some n else None))"

definition simple_BuildNetworkPolicy :: "mcp_server \<Rightarrow> kube_network_policy option outcome" where
  "simple_BuildNetworkPolicy s =
     (case tenant_policy s of
        None \<Rightarrow> Returns None
      | Some n \<Rightarrow>
          and_then (deref (sp_Runtime (srv_Spec s))) (\<lambda>rt.
            Returns (Some \<lparr>kn_Meta = built_meta (srv_Name s @ ''-network-policy'') (srv_Namespace s) (simple_buildLabels s),
              kn_PodSelector = \<lparr>ls_MatchLabels = simple_buildSelector s, ls_MatchExpressions = []\<rparr>,
              kn_PolicyTypes = [''Ingress''],
              kn_Ingress = [\<lparr>npu_Ports = [\<lparr>npp_Protocol = Some ''TCP'', npp_Port = Some (IntVal (simple_port rt)),
                npp_EndPort = None\<rparr>], npu_Peers = []\<rparr>],
              kn_Egress = []\<rparr>)))"

subsection \<open>Istio\<close>

definition istio_on :: "mcp_server \<Rightarrow> istio_spec option" where
  "istio_on s = (case sp_Istio (srv_Spec s) of None \<Rightarrow> None | Some i \<Rightarrow> if is_Enabled i then Some i else None)"

definition simple_istio_object :: "string \<Rightarrow> mcp_server \<Rightarrow> tree \<Rightarrow> unstructured" where
  "simple_istio_object kind s spec = \<lparr>un_APIVersion = ''networking.istio.io/v1beta1'', un_Kind = kind,
     un_Name = srv_Name s, un_Namespace = srv_Namespace s, un_Labels = StringMap (simple_buildLabels s), un_Spec = spec\<rparr>"

definition simple_BuildVirtualService :: "mcp_server \<Rightarrow> unstructured option outcome" where
  "simple_BuildVirtualService s =
     (case istio_on s of
        None \<Rightarrow> Returns None
      | Some i \<Rightarrow>
          (case is_VirtualService i of
             None \<Rightarrow> Returns None
           | Some vs \<Rightarrow>
               and_then (deref (sp_Runtime (srv_Spec s))) (\<lambda>rt.
                 Returns (Some (simple_istio_object ''VirtualService'' s
                   (route_tree (ivs_Host vs) (if is_Gateway i = [] then ''default'' else is_Gateway i)
                      (if ivs_Path vs = [] then ''/'' else ivs_Path vs) (service_host s) (rt_Port rt)))))))"

definition simple_BuildDestinationRule :: "mcp_server \<Rightarrow> unstructured option" where
  "simple_BuildDestinationRule s =
     (case istio_on s of
        None \<Rightarrow> None
      | Some i \<Rightarrow>
          (case is_DestinationRule i of
             None \<Rightarrow> None
           | Some dr \<Rightarrow> Some (simple_istio_object ''DestinationRule'' s (Fields [
               (''host'', Text (service_host s)),
               (''trafficPolicy'', Fields [(''tls'', Fields [(''mode'', Text ''ISTIO_MUTUAL'')])])]))))"

section \<open>How the two builders differ\<close>

text \<open>
  For a plain server (no gateway, not binary, a port of the runtime and none of its own, no label
  of the author's) both publish the same service.
\<close>

definition plain_server :: "mcp_server \<Rightarrow> bool" where
  "plain_server s \<longleftrightarrow> \<not> gateway_enabled s \<and> \<not> is_stdio s \<and> sp_Ports (srv_Spec s) = [] \<and>
     custom_labels s = []"

lemma simple_service_agrees:
  assumes "plain_server s" and "sp_Runtime (srv_Spec s) = Some rt"
  shows "simple_BuildService s = Returns (BuildService s)"
proof -
  have labels: "simple_buildLabels s = buildLabels s" "simple_buildSelector s = buildSelector s"
    using assms(1)
    by (simp_all add: simple_buildLabels_def buildLabels_def simple_buildSelector_def buildSelector_def plain_server_def)
  have "collectContainerPorts s = [mcp_port (simple_port rt)]"
    using assms by (simp add: collectContainerPorts_def plain_server_def runtime_port_def simple_port_def)
  moreover have "configured_ports s = map service_port_of (collectContainerPorts s)"
    using assms(1) by (auto simp: configured_ports_def plain_server_def gateway_enabled_def split: option.splits)
  ultimately have "service_ports s = [tcp_service_port ''mcp'' (simple_port rt)]"
    by (simp add: service_ports_def service_port_of_def mcp_port_def tcp_service_port_def)
  then show ?thesis
    using labels assms(2) by (simp add: simple_BuildService_def BuildService_def Let_def)
qed

text \<open>What the simple builder publishes always leads to the port its container listens on, unlike the
  port it announces in the environment and the one its virtual service routes to: these are the
  runtime's as written, 0 where it is left out.\<close>

theorem simple_ports:
  assumes "simple_BuildDeployment q s = Returns d" and "simple_BuildService s = Returns svc"
    and "sp_Runtime (srv_Spec s) = Some rt"
  shows "reaches svc (kd_Template d) \<and>
     (\<forall>c \<in> set (po_Containers (pt_Spec (kd_Template d))).
        announced (ct_Env c) ''MCP_SERVER_PORT'' = Some (show_int (rt_Port rt))) \<and>
     (\<forall>v. simple_BuildVirtualService s = Returns (Some v) \<longrightarrow>
        (\<exists>host gateway path. un_Spec v = route_tree host gateway path (service_host s) (rt_Port rt)))"
proof -
  have d: "po_Containers (pt_Spec (kd_Template d)) = [simple_buildContainer q s rt]"
    using assms(1) unfolding simple_BuildDeployment_def assms(3) Let_def by auto
  have svc: "ks_Ports svc = [tcp_service_port ''mcp'' (simple_port rt)]"
    using assms(2) unfolding simple_BuildService_def assms(3) by auto
  have "reaches svc (kd_Template d)"
    by (simp add: reaches_def d svc tcp_service_port_def simple_buildContainer_def mcp_port_def)
  moreover have "announced (simple_buildEnvironmentVariables s rt) ''MCP_SERVER_PORT'' = Some (show_int (rt_Port rt))"
    by (simp add: announced_def simple_buildEnvironmentVariables_def env_value_def)
  moreover have "\<exists>host gateway path. un_Spec v = route_tree host gateway path (service_host s) (rt_Port rt)"
    if v: "simple_BuildVirtualService s = Returns (Some v)" for v
  proof -
    obtain i vs where iv: "istio_on s = Some i" "is_VirtualService i = Some vs"
      using v by (auto simp: simple_BuildVirtualService_def split: option.splits)
    have "v = simple_istio_object ''VirtualService'' s
        (route_tree (ivs_Host vs) (if is_Gateway i = [] then ''default'' else is_Gateway i)
           (if ivs_Path vs = [] then ''/'' else ivs_Path vs) (service_host s) (rt_Port rt))"
      using v iv unfolding simple_BuildVirtualService_def assms(3)
      by (cases "is_Gateway i = []"; cases "ivs_Path vs = []") simp_all
    then show ?thesis unfolding simple_istio_object_def by (intro exI) simp
  qed
  ultimately show ?thesis by (simp add: d simple_buildContainer_def)
qed

text \<open>The tenant's rules are not looked at: any source may reach the port.\<close>

lemma simple_policy_ignores_rules:
  assumes "tenant_policy s = Some n" and "tenant_policy s' = Some n'" and "srv_Meta s = srv_Meta s'"
    and "sp_Runtime (srv_Spec s) = sp_Runtime (srv_Spec s')" and "simple_BuildNetworkPolicy s = Returns (Some p)"
    and "simple_BuildNetworkPolicy s' = Returns (Some p')"
  shows "kn_Ingress p = kn_Ingress p' \<and> kn_Egress p = [] \<and> (\<forall>r \<in> set (kn_Ingress p). npu_Peers r = [])"
proof -
  obtain rt where rt: "sp_Runtime (srv_Spec s) = Some rt"
    using assms(1,5) by (cases "sp_Runtime (srv_Spec s)") (auto simp: simple_BuildNetworkPolicy_def)
  have rt': "sp_Runtime (srv_Spec s') = Some rt" using rt assms(4) by simp
  show ?thesis
    using assms(5,6) unfolding simple_BuildNetworkPolicy_def assms(1,2) rt rt' by auto
qed

lemma simple_ports_witness:
  "\<exists>d svc. simple_BuildDeployment milli_ops sample_gateway_server = Returns d \<and>
     simple_BuildService sample_gateway_server = Returns svc \<and> reaches svc (kd_Template d) \<and>
     (\<forall>c \<in> set (po_Containers (pt_Spec (kd_Template d))). announced (ct_Env c) ''MCP_SERVER_PORT'' = Some ''0'')"
proof -
  obtain rt where rt: "sp_Runtime (srv_Spec sample_gateway_server) = Some rt" "rt_Port rt = 0"
    by (simp add: sample_gateway_server_def zero_defs)
  obtain d where d: "simple_BuildDeployment milli_ops sample_gateway_server = Returns d"
    by (simp add: simple_BuildDeployment_def rt(1) Let_def)
  obtain svc where svc: "simple_BuildService sample_gateway_server = Returns svc"
    by (simp add: simple_BuildService_def rt(1))
  have "show_int 0 = ''0''" by code_simp
  with simple_ports[OF d svc rt(1)] d svc rt(2) show ?thesis by auto
qed

end
