(* ===== verification/ResourceBuilder.thy ===== *)
theory ResourceBuilder
  imports SimpleBuilder
begin

section \<open>The interface of the resource builders\<close>

text \<open>
  \<open>ResourceBuilderService\<close> of \<open>pkg/services/interfaces.go\<close>, which both builders implement and the
  renderer and the deployment service use. The record holds the operations; the locale states what
  its clients rely on: every object is in the namespace of its server and has labels, all but the
  network policy bear its name (the configuration with a suffix), the template of a deployment
  holds the labels of its metadata, and which objects there are depends on the runtime only through
  a panic.
\<close>

record resource_builder =
  rb_deployment :: "mcp_server \<Rightarrow> kube_deployment outcome"
  rb_service :: "mcp_server \<Rightarrow> kube_service outcome"
  rb_configmap :: "mcp_server \<Rightarrow> kube_configmap"
  rb_secret :: "mcp_server \<Rightarrow> kube_secret option"
  rb_hpa :: "mcp_server \<Rightarrow> kube_hpa option"
  rb_vpa :: "mcp_server \<Rightarrow> unstructured option"
  rb_network_policy :: "mcp_server \<Rightarrow> kube_network_policy option outcome"
  rb_virtual_service :: "mcp_server \<Rightarrow> unstructured option outcome"
  rb_destination_rule :: "mcp_server \<Rightarrow> unstructured option"

definition made_for :: "mcp_server \<Rightarrow> string \<Rightarrow> object_meta \<Rightarrow> bool" where
  "made_for s name m \<longleftrightarrow> om_Name m = name \<and> om_Namespace m = srv_Namespace s \<and> om_Labels m \<noteq> None"

definition named_after :: "mcp_server \<Rightarrow> unstructured option \<Rightarrow> bool" where
  "named_after s obj = (case obj of None \<Rightarrow> True | Some u \<Rightarrow> un_Name u = srv_Name s \<and> un_Namespace u = srv_Namespace s)"

locale resource_building =
  fixes B :: resource_builder
  assumes deployment_made: "rb_deployment B s = Returns d \<Longrightarrow>
      made_for s (srv_Name s) (kd_Meta d) \<and> pt_Labels (kd_Template d) = om_Labels (kd_Meta d) \<and> kd_Replicas d \<noteq> None"
    and service_made: "rb_service B s = Returns svc \<Longrightarrow> made_for s (srv_Name s) (ks_Meta svc) \<and> ks_Ports svc \<noteq> []"
    and configmap_made: "made_for s (srv_Name s @ ''-config'') (kc_Meta (rb_configmap B s))"
    and secret_made: "rb_secret B s = Some x \<Longrightarrow> made_for s (srv_Name s @ ''-secret'') (kx_Meta x)"
    and hpa_made: "rb_hpa B s = Some h \<Longrightarrow> made_for s (srv_Name s) (kh_Meta h)"
    and vpa_made: "named_after s (rb_vpa B s)"
    and policy_made: "rb_network_policy B s = Returns (Some p) \<Longrightarrow> made_for s (om_Name (kn_Meta p)) (kn_Meta p)"
    and virtual_service_made: "rb_virtual_service B s = Returns v \<Longrightarrow> named_after s v"
    and destination_rule_made: "named_after s (rb_destination_rule B s)"
    and needs_runtime: "sp_Runtime (srv_Spec s) \<noteq> None \<Longrightarrow>
      rb_deployment B s \<noteq> Panic \<and> rb_service B s \<noteq> Panic \<and> rb_network_policy B s \<noteq> Panic \<and> rb_virtual_service B s \<noteq> Panic"

subsection \<open>Both builders implement it\<close>

definition default_builder :: "quantity_ops \<Rightarrow> label_ops \<Rightarrow> resource_builder" where
  "default_builder q lo = \<lparr>rb_deployment = BuildDeployment q, rb_service = (\<lambda>s. Returns (BuildService s)),
     rb_configmap = BuildConfigMap, rb_secret = BuildSecret, rb_hpa = BuildHPA, rb_vpa = BuildVPA lo,
     rb_network_policy = (\<lambda>s. Returns (BuildNetworkPolicy s)),
     rb_virtual_service = (\<lambda>s. Returns (BuildVirtualService s)), rb_destination_rule = BuildDestinationRule\<rparr>"

definition simple_builder :: "quantity_ops \<Rightarrow> label_ops \<Rightarrow> resource_builder" where
  "simple_builder q lo = \<lparr>rb_deployment = simple_BuildDeployment q, rb_service = simple_BuildService,
     rb_configmap = simple_BuildConfigMap, rb_secret = simple_BuildSecret, rb_hpa = simple_BuildHPA,
     rb_vpa = simple_BuildVPA lo, rb_network_policy = simple_BuildNetworkPolicy,
     rb_virtual_service = simple_BuildVirtualService, rb_destination_rule = simple_BuildDestinationRule\<rparr>"

lemma put_all_not_nil: "m \<noteq> None \<Longrightarrow> gm_put_all kvs m \<noteq> None"
proof -
  have "\<exists>y. gm_put_all kvs (Some x) = Some y" for x
    by (induction kvs arbitrary: x) (auto simp: gm_put_def)
  then show "m \<noteq> None \<Longrightarrow> gm_put_all kvs m \<noteq> None" by (cases m) auto
qed

lemma labels_not_nil: "simple_buildLabels s \<noteq> None" "buildLabels s \<noteq> None"
proof -
  have "tenant_label s (version_label s (registry_labels s (Some (standard_labels s)))) \<noteq> None"
    by (cases "sp_Tenancy (srv_Spec s)"; cases "sp_Registry (srv_Spec s)";
        simp add: tenant_label_def version_label_def registry_labels_def Let_def del: ref_server_empty_iff not_None_eq)
  then show "simple_buildLabels s \<noteq> None" "buildLabels s \<noteq> None"
    unfolding simple_buildLabels_def buildLabels_def by (assumption, rule put_all_not_nil)
qed

lemma built_made_for [simp]:
  "made_for s n (built_meta n (srv_Namespace s) (buildLabels s))"
  "made_for s n (built_meta n (srv_Namespace s) (simple_buildLabels s))"
  by (simp_all add: made_for_def labels_not_nil del: not_None_eq)

lemma tree_labels_names [simp]:
  "un_Name (lo_set tree_labels l u) = un_Name u" "un_Namespace (lo_set tree_labels l u) = un_Namespace u"
  by (simp_all add: tree_labels_def)

lemma istio_objects_named:
  "named_after s (Some (istio_object kind s t))" "named_after s (Some (simple_istio_object kind s t))"
  by (simp_all add: named_after_def istio_object_def simple_istio_object_def)

lemmas builder_defs = default_builder_def simple_builder_def

lemma default_builder_made:
  fixes q
  defines "B \<equiv> default_builder q tree_labels"
  shows "rb_deployment B s = Returns d \<Longrightarrow>
      made_for s (srv_Name s) (kd_Meta d) \<and> pt_Labels (kd_Template d) = om_Labels (kd_Meta d) \<and> kd_Replicas d \<noteq> None"
    and "rb_service B s = Returns svc \<Longrightarrow> made_for s (srv_Name s) (ks_Meta svc) \<and> ks_Ports svc \<noteq> []"
    and "made_for s (srv_Name s @ ''-config'') (kc_Meta (rb_configmap B s))"
    and "rb_secret B s = Some x \<Longrightarrow> made_for s (srv_Name s @ ''-secret'') (kx_Meta x)"
    and "rb_hpa B s = Some h \<Longrightarrow> made_for s (srv_Name s) (kh_Meta h)"
    and "named_after s (rb_vpa B s)"
    and "rb_network_policy B s = Returns (Some p) \<Longrightarrow> made_for s (om_Name (kn_Meta p)) (kn_Meta p)"
    and "rb_virtual_service B s = Returns v \<Longrightarrow> named_after s v"
    and "named_after s (rb_destination_rule B s)"
proof -
  show "rb_deployment B s = Returns d \<Longrightarrow>
      made_for s (srv_Name s) (kd_Meta d) \<and> pt_Labels (kd_Template d) = om_Labels (kd_Meta d) \<and> kd_Replicas d \<noteq> None"
    using replicas_always_set[of q s d] buildPodTemplate_container[of q s "buildLabels s"]
    by (auto simp: B_def builder_defs BuildDeployment_eq)
  show "rb_service B s = Returns svc \<Longrightarrow> made_for s (srv_Name s) (ks_Meta svc) \<and> ks_Ports svc \<noteq> []"
    by (auto simp: B_def builder_defs BuildService_def Let_def service_ports_def split: if_splits)
  show "made_for s (srv_Name s @ ''-config'') (kc_Meta (rb_configmap B s))"
    by (simp add: B_def builder_defs BuildConfigMap_def)
  show "rb_secret B s = Some x \<Longrightarrow> made_for s (srv_Name s @ ''-secret'') (kx_Meta x)"
    by (auto simp: B_def builder_defs BuildSecret_def split: if_splits)
  show "rb_hpa B s = Some h \<Longrightarrow> made_for s (srv_Name s) (kh_Meta h)"
    by (auto simp: B_def builder_defs BuildHPA_def split: option.splits)
  show "named_after s (rb_vpa B s)"
    by (simp add: B_def builder_defs BuildVPA_def named_after_def split: option.split)
  show "rb_network_policy B s = Returns (Some p) \<Longrightarrow> made_for s (om_Name (kn_Meta p)) (kn_Meta p)"
    by (auto simp: B_def builder_defs BuildNetworkPolicy_def split: option.splits if_splits)
  show "rb_virtual_service B s = Returns v \<Longrightarrow> named_after s v"
    using istio_objects_named(1) by (auto simp: B_def builder_defs BuildVirtualService_def named_after_def istio_object_def
        split: option.splits if_splits)
  show "named_after s (rb_destination_rule B s)"
    by (simp add: B_def builder_defs BuildDestinationRule_def named_after_def istio_object_def split: option.split)
qed

lemma simple_builder_made:
  fixes q
  defines "B \<equiv> simple_builder q tree_labels"
  shows "rb_deployment B s = Returns d \<Longrightarrow>
      made_for s (srv_Name s) (kd_Meta d) \<and> pt_Labels (kd_Template d) = om_Labels (kd_Meta d) \<and> kd_Replicas d \<noteq> None"
    and "rb_service B s = Returns svc \<Longrightarrow> made_for s (srv_Name s) (ks_Meta svc) \<and> ks_Ports svc \<noteq> []"
    and "made_for s (srv_Name s @ ''-config'') (kc_Meta (rb_configmap B s))"
    and "rb_secret B s = Some x \<Longrightarrow> made_for s (srv_Name s @ ''-secret'') (kx_Meta x)"
    and "rb_hpa B s = Some h \<Longrightarrow> made_for s (srv_Name s) (kh_Meta h)"
    and "named_after s (rb_vpa B s)"
    and "rb_network_policy B s = Returns (Some p) \<Longrightarrow> made_for s (om_Name (kn_Meta p)) (kn_Meta p)"
    and "rb_virtual_service B s = Returns v \<Longrightarrow> named_after s v"
    and "named_after s (rb_destination_rule B s)"
proof -
  note runtime = option.exhaust[of "sp_Runtime (srv_Spec s)"]
  show "rb_deployment B s = Returns d \<Longrightarrow>
      made_for s (srv_Name s) (kd_Meta d) \<and> pt_Labels (kd_Template d) = om_Labels (kd_Meta d) \<and> kd_Replicas d \<noteq> None"
    by (rule runtime) (auto simp: B_def builder_defs simple_BuildDeployment_def Let_def)
  show "rb_service B s = Returns svc \<Longrightarrow> made_for s (srv_Name s) (ks_Meta svc) \<and> ks_Ports svc \<noteq> []"
    by (rule runtime) (auto simp: B_def builder_defs simple_BuildService_def)
  show "made_for s (srv_Name s @ ''-config'') (kc_Meta (rb_configmap B s))"
    by (simp add: B_def builder_defs simple_BuildConfigMap_def)
  show "rb_secret B s = Some x \<Longrightarrow> made_for s (srv_Name s @ ''-secret'') (kx_Meta x)"
    by (auto simp: B_def builder_defs simple_BuildSecret_def split: if_splits)
  show "rb_hpa B s = Some h \<Longrightarrow> made_for s (srv_Name s) (kh_Meta h)"
    by (auto simp: B_def builder_defs simple_BuildHPA_def split: option.splits)
  show "named_after s (rb_vpa B s)"
    by (simp add: B_def builder_defs simple_BuildVPA_def named_after_def split: option.split)
  show "rb_network_policy B s = Returns (Some p) \<Longrightarrow> made_for s (om_Name (kn_Meta p)) (kn_Meta p)"
    by (rule runtime) (auto simp: B_def builder_defs simple_BuildNetworkPolicy_def split: option.splits)
  show "rb_virtual_service B s = Returns v \<Longrightarrow> named_after s v"
    by (rule runtime) (auto simp: B_def builder_defs simple_BuildVirtualService_def named_after_def simple_istio_object_def
        split: option.splits)
  show "named_after s (rb_destination_rule B s)"
    by (simp add: B_def builder_defs simple_BuildDestinationRule_def named_after_def simple_istio_object_def
        split: option.split)
qed

lemma default_needs_runtime:
  assumes "sp_Runtime (srv_Spec s) \<noteq> None"
  shows "rb_deployment (default_builder q lo) s \<noteq> Panic \<and> rb_service (default_builder q lo) s \<noteq> Panic \<and>
    rb_network_policy (default_builder q lo) s \<noteq> Panic \<and> rb_virtual_service (default_builder q lo) s \<noteq> Panic"
  using build_deployment_returns[OF assms, of q] by (auto simp: builder_defs)

lemma simple_needs_runtime:
  assumes "sp_Runtime (srv_Spec s) \<noteq> None"
  shows "rb_deployment (simple_builder q lo) s \<noteq> Panic \<and> rb_service (simple_builder q lo) s \<noteq> Panic \<and>
    rb_network_policy (simple_builder q lo) s \<noteq> Panic \<and> rb_virtual_service (simple_builder q lo) s \<noteq> Panic"
proof -
  obtain rt where "sp_Runtime (srv_Spec s) = Some rt" using assms by blast
  then show ?thesis
    by (simp add: builder_defs simple_BuildDeployment_def simple_BuildService_def simple_BuildNetworkPolicy_def
        simple_BuildVirtualService_def Let_def split: option.split)
qed

interpretation default_rb: resource_building "default_builder q tree_labels" for q
  by unfold_locales (rule default_builder_made default_needs_runtime; assumption?)+

interpretation simple_rb: resource_building "simple_builder q tree_labels" for q
  by unfold_locales (rule simple_builder_made simple_needs_runtime; assumption?)+

end
