(* ===== verification/TtlCache.thy ===== *)
theory TtlCache
  imports ApiTypes
begin

section \<open>The cache service\<close>

text \<open>
  \<open>pkg/services/cache_service.go\<close>: three in-memory caches with expiry behind one read-write
  mutex. Writers exclude every other call, so the operations are atomic steps; \<open>now\<close> is the
  reading of the clock, taken once per call. Deep copies are equal values. The data of an entry
  always has the type its cache stores, so the type assertion of the getters succeeds.
\<close>

record 'v cache_entry =
  ce_Data :: 'v
  ce_ExpiresAt :: instant

definition IsExpired :: "instant \<Rightarrow> 'v cache_entry \<Rightarrow> bool" where
  "IsExpired now e \<longleftrightarrow> now > ce_ExpiresAt e"

record cache_stats =
  cst_RegistryHits :: int
  cst_RegistryMisses :: int
  cst_MCPServerHits :: int
  cst_MCPServerMisses :: int
  cst_RegistryServersHits :: int
  cst_RegistryServersMisses :: int
  cst_TotalEntries :: int
  cst_ExpiredEntries :: int

record cache_service =
  chs_registryCache :: "mcp_registry cache_entry gomap"
  chs_mcpServerCache :: "mcp_server cache_entry gomap"
  chs_registryServersCache :: "mcp_server list cache_entry gomap"
  chs_stats :: cache_stats

definition NewDefaultCacheService :: cache_service where
  "NewDefaultCacheService = \<lparr>chs_registryCache = Some [], chs_mcpServerCache = Some [],
     chs_registryServersCache = Some [],
     chs_stats = \<lparr>cst_RegistryHits = 0, cst_RegistryMisses = 0, cst_MCPServerHits = 0,
       cst_MCPServerMisses = 0, cst_RegistryServersHits = 0, cst_RegistryServersMisses = 0,
       cst_TotalEntries = 0, cst_ExpiredEntries = 0\<rparr>\<rparr>"

text \<open>What each getter reads and each setter writes in its map.\<close>

definition live :: "instant \<Rightarrow> string \<Rightarrow> 'v cache_entry gomap \<Rightarrow> 'v option" where
  "live now key m =
     (case gm_get m key of
        None \<Rightarrow> None
      | Some e \<Rightarrow> if IsExpired now e then None else Some (ce_Data e))"

definition entry :: "instant \<Rightarrow> 'v \<Rightarrow> duration \<Rightarrow> 'v cache_entry" where
  "entry now v ttl = \<lparr>ce_Data = v, ce_ExpiresAt = now + ttl\<rparr>"

subsection \<open>Registries\<close>

definition GetRegistry :: "instant \<Rightarrow> string \<Rightarrow> cache_service \<Rightarrow> mcp_registry option \<times> cache_service" where
  "GetRegistry now key c =
     (case live now key (chs_registryCache c) of
        None \<Rightarrow> (None, c\<lparr>chs_stats := (chs_stats c)\<lparr>cst_RegistryMisses :=
                    cst_RegistryMisses (chs_stats c) + 1\<rparr>\<rparr>)
      | Some v \<Rightarrow> (Some v, c\<lparr>chs_stats := (chs_stats c)\<lparr>cst_RegistryHits :=
                    cst_RegistryHits (chs_stats c) + 1\<rparr>\<rparr>))"

definition SetRegistry ::
  "instant \<Rightarrow> string \<Rightarrow> mcp_registry \<Rightarrow> duration \<Rightarrow> cache_service \<Rightarrow> cache_service" where
  "SetRegistry now key r ttl c =
     c\<lparr>chs_registryCache := gm_put key (entry now r ttl) (chs_registryCache c)\<rparr>"

definition InvalidateRegistry :: "string \<Rightarrow> cache_service \<Rightarrow> cache_service" where
  "InvalidateRegistry key c = c\<lparr>chs_registryCache := gm_delete key (chs_registryCache c)\<rparr>"

subsection \<open>MCPServers\<close>

definition GetMCPServer :: "instant \<Rightarrow> string \<Rightarrow> cache_service \<Rightarrow> mcp_server option \<times> cache_service" where
  "GetMCPServer now key c =
     (case live now key (chs_mcpServerCache c) of
        None \<Rightarrow> (None, c\<lparr>chs_stats := (chs_stats c)\<lparr>cst_MCPServerMisses :=
                    cst_MCPServerMisses (chs_stats c) + 1\<rparr>\<rparr>)
      | Some v \<Rightarrow> (Some v, c\<lparr>chs_stats := (chs_stats c)\<lparr>cst_MCPServerHits :=
                    cst_MCPServerHits (chs_stats c) + 1\<rparr>\<rparr>))"

definition SetMCPServer ::
  "instant \<Rightarrow> string \<Rightarrow> mcp_server \<Rightarrow> duration \<Rightarrow> cache_service \<Rightarrow> cache_service" where
  "SetMCPServer now key s ttl c =
     c\<lparr>chs_mcpServerCache := gm_put key (entry now s ttl) (chs_mcpServerCache c)\<rparr>"

definition InvalidateMCPServer :: "string \<Rightarrow> cache_service \<Rightarrow> cache_service" where
  "InvalidateMCPServer key c = c\<lparr>chs_mcpServerCache := gm_delete key (chs_mcpServerCache c)\<rparr>"

subsection \<open>Server lists of a registry\<close>

definition GetRegistryServers ::
  "instant \<Rightarrow> string \<Rightarrow> cache_service \<Rightarrow> mcp_server list option \<times> cache_service" where
  "GetRegistryServers now key c =
     (case live now key (chs_registryServersCache c) of
        None \<Rightarrow> (None, c\<lparr>chs_stats := (chs_stats c)\<lparr>cst_RegistryServersMisses :=
                    cst_RegistryServersMisses (chs_stats c) + 1\<rparr>\<rparr>)
      | Some v \<Rightarrow> (Some v, c\<lparr>chs_stats := (chs_stats c)\<lparr>cst_RegistryServersHits :=
                    cst_RegistryServersHits (chs_stats c) + 1\<rparr>\<rparr>))"

definition SetRegistryServers ::
  "instant \<Rightarrow> string \<Rightarrow> mcp_server list \<Rightarrow> duration \<Rightarrow> cache_service \<Rightarrow> cache_service" where
  "SetRegistryServers now key ss ttl c =
     c\<lparr>chs_registryServersCache := gm_put key (entry now ss ttl) (chs_registryServersCache c)\<rparr>"

definition InvalidateRegistryServers :: "string \<Rightarrow> cache_service \<Rightarrow> cache_service" where
  "InvalidateRegistryServers key c =
     c\<lparr>chs_registryServersCache := gm_delete key (chs_registryServersCache c)\<rparr>"

subsection \<open>Management\<close>

definition drop_expired :: "instant \<Rightarrow> 'v cache_entry gomap \<Rightarrow> 'v cache_entry gomap" where
  "drop_expired now m = map_option (filter (\<lambda>(k, e). \<not> IsExpired now e)) m"

definition ClearExpired :: "instant \<Rightarrow> cache_service \<Rightarrow> cache_service" where
  "ClearExpired now c =
     c\<lparr>chs_registryCache := drop_expired now (chs_registryCache c),
       chs_mcpServerCache := drop_expired now (chs_mcpServerCache c),
       chs_registryServersCache := drop_expired now (chs_registryServersCache c)\<rparr>"

definition ClearAll :: "cache_service \<Rightarrow> cache_service" where
  "ClearAll c = c\<lparr>chs_registryCache := Some [], chs_mcpServerCache := Some [],
                  chs_registryServersCache := Some []\<rparr>"

definition expired_count :: "instant \<Rightarrow> 'v cache_entry gomap \<Rightarrow> int" where
  "expired_count now m = int (length (filter (\<lambda>(k, e). IsExpired now e) (gm_entries m)))"

definition GetStats :: "instant \<Rightarrow> cache_service \<Rightarrow> cache_stats" where
  "GetStats now c =
     (chs_stats c)\<lparr>
       cst_TotalEntries := int (gm_len (chs_registryCache c)) + int (gm_len (chs_mcpServerCache c))
         + int (gm_len (chs_registryServersCache c)),
       cst_ExpiredEntries := expired_count now (chs_registryCache c)
         + expired_count now (chs_mcpServerCache c) + expired_count now (chs_registryServersCache c)\<rparr>"

section \<open>The contract of a cache\<close>

datatype 'v cache_op =
    OGet instant string
  | OSet instant string 'v duration
  | OInvalidate string
  | OClearExpired instant
  | OClearAll

text \<open>
  A client sees a cache through what it looks up. The locale states the laws over a lookup
  function \<open>look\<close>, which yields the value stored for a key and the instant it expires.
\<close>

locale ttl_cache =
  fixes get :: "instant \<Rightarrow> string \<Rightarrow> 's \<Rightarrow> 'v option \<times> 's"
    and put :: "instant \<Rightarrow> string \<Rightarrow> 'v \<Rightarrow> duration \<Rightarrow> 's \<Rightarrow> 's"
    and invalidate :: "string \<Rightarrow> 's \<Rightarrow> 's"
    and clear_expired :: "instant \<Rightarrow> 's \<Rightarrow> 's"
    and clear_all :: "'s \<Rightarrow> 's"
    and look :: "'s \<Rightarrow> string \<Rightarrow> ('v \<times> instant) option"
    and inv :: "'s \<Rightarrow> bool"
  assumes get_val: "inv s \<Longrightarrow> fst (get now k s) =
      (case look s k of None \<Rightarrow> None | Some (v, e) \<Rightarrow> if now > e then None else Some v)"
    and get_look: "look (snd (get now k s)) = look s"
    and put_look: "look (put now k v ttl s) = (look s)(k \<mapsto> (v, now + ttl))"
    and invalidate_look: "look (invalidate k s) = (look s)(k := None)"
    and clear_expired_look: "inv s \<Longrightarrow> look (clear_expired now s) =
      (\<lambda>k. case look s k of None \<Rightarrow> None | Some (v, e) \<Rightarrow> if now > e then None else Some (v, e))"
    and clear_all_look: "look (clear_all s) = Map.empty"
    and inv_kept: "inv s \<Longrightarrow> inv (snd (get now k s)) \<and> inv (put now k v ttl s) \<and>
      inv (invalidate k s) \<and> inv (clear_expired now s) \<and> inv (clear_all s)"
begin

fun apply_op :: "'v cache_op \<Rightarrow> 's \<Rightarrow> 's" where
  "apply_op (OGet now k) s = snd (get now k s)"
| "apply_op (OSet now k v ttl) s = put now k v ttl s"
| "apply_op (OInvalidate k) s = invalidate k s"
| "apply_op (OClearExpired now) s = clear_expired now s"
| "apply_op OClearAll s = clear_all s"

lemma inv_apply: "inv s \<Longrightarrow> inv (apply_op op s)"
  using inv_kept by (cases op) auto

lemma inv_run: "inv s \<Longrightarrow> inv (fold apply_op ops s)"
  by (induction ops arbitrary: s) (simp_all add: inv_apply)

end

text \<open>
  What a history of operations leaves under a key: the last set, unless an invalidation or a
  \<open>ClearAll\<close> came after it. Reads and clean-ups leave no trace.
\<close>

fun op_effect :: "string \<Rightarrow> 'v cache_op \<Rightarrow> ('v \<times> instant) option \<Rightarrow> ('v \<times> instant) option" where
  "op_effect key (OGet now k) old = old"
| "op_effect key (OSet now k v ttl) old = (if k = key then Some (v, now + ttl) else old)"
| "op_effect key (OInvalidate k) old = (if k = key then None else old)"
| "op_effect key (OClearExpired now) old = old"
| "op_effect key OClearAll old = None"

fun op_before :: "instant \<Rightarrow> 'v cache_op \<Rightarrow> bool" where
  "op_before now (OClearExpired t) = (t \<le> now)"
| "op_before now (OGet t k) = True"
| "op_before now (OSet t k v ttl) = True"
| "op_before now (OInvalidate k) = True"
| "op_before now OClearAll = True"

text \<open>The value a read at \<open>now\<close> makes of what is stored.\<close>

definition fresh_value :: "instant \<Rightarrow> ('v \<times> instant) option \<Rightarrow> 'v option" where
  "fresh_value now x = (case x of None \<Rightarrow> None | Some (v, e) \<Rightarrow> if now > e then None else Some v)"

context ttl_cache
begin

lemma fresh_step:
  assumes "inv s" and "op_before now op" and "fresh_value now (look s k) = fresh_value now x"
  shows "fresh_value now (look (apply_op op s) k) = fresh_value now (op_effect k op x)"
proof (cases op)
  case (OClearExpired t)
  with assms show ?thesis
    by (auto simp: clear_expired_look fresh_value_def split: option.splits if_splits)
qed (use assms in \<open>auto simp: get_look put_look invalidate_look clear_all_look fresh_value_def\<close>)

lemma fresh_run:
  assumes "inv s" and "list_all (op_before now) ops" and "fresh_value now (look s k) = fresh_value now x"
  shows "fresh_value now (look (fold apply_op ops s) k) = fresh_value now (fold (op_effect k) ops x)"
  using assms
proof (induction ops arbitrary: s x)
  case Nil
  then show ?case by simp
next
  case (Cons op ops)
  then show ?case using fresh_step[of s now op k x] inv_apply[of s op] by simp
qed

text \<open>A read after any history returns the value set last, exactly until it expires.\<close>

lemma history:
  assumes "inv s" and "look s k = None" and "list_all (op_before now) ops"
  shows "fst (get now k (fold apply_op ops s)) = fresh_value now (fold (op_effect k) ops None)"
proof -
  have "fresh_value now (look s k) = fresh_value now None" by (simp add: assms(2))
  then have "fresh_value now (look (fold apply_op ops s) k) = fresh_value now (fold (op_effect k) ops None)"
    using fresh_run assms by blast
  then show ?thesis using inv_run[OF assms(1), of ops]
    by (simp add: get_val fresh_value_def)
qed

end

section \<open>The service keeps the contract\<close>

definition stored :: "'v cache_entry gomap \<Rightarrow> string \<Rightarrow> ('v \<times> instant) option" where
  "stored m k = map_option (\<lambda>e. (ce_Data e, ce_ExpiresAt e)) (gm_get m k)"

definition cache_wf :: "cache_service \<Rightarrow> bool" where
  "cache_wf c \<longleftrightarrow> gm_wf (chs_registryCache c) \<and> gm_wf (chs_mcpServerCache c) \<and>
     gm_wf (chs_registryServersCache c)"

lemma live_stored: "live now k m = fresh_value now (stored m k)"
  by (simp add: live_def stored_def fresh_value_def IsExpired_def split: option.splits)

lemma stored_put: "stored (gm_put k (entry now v ttl) m) = (stored m)(k \<mapsto> (v, now + ttl))"
  by (rule ext) (simp add: stored_def entry_def)

lemma stored_delete: "stored (gm_delete k m) = (stored m)(k := None)"
  by (rule ext) (simp add: stored_def)

lemma map_of_filter_unique:
  "distinct (map fst kvs) \<Longrightarrow>
     map_of (filter (\<lambda>(k, e). P e) kvs) k =
       (case map_of kvs k of None \<Rightarrow> None | Some e \<Rightarrow> if P e then Some e else None)"
  by (induction kvs) (auto simp: map_of_eq_None_iff split: option.splits if_splits)

lemma gm_get_drop_expired:
  "gm_wf m \<Longrightarrow> gm_get (drop_expired now m) k =
     (case gm_get m k of None \<Rightarrow> None | Some e \<Rightarrow> if IsExpired now e then None else Some e)"
  using map_of_filter_unique[where P = "\<lambda>e. \<not> IsExpired now e" and kvs = "gm_entries m" and k = k]
  by (cases m) (simp_all add: drop_expired_def gm_get_def gm_wf_def split: option.splits)

lemma stored_drop_expired:
  "gm_wf m \<Longrightarrow> stored (drop_expired now m) =
     (\<lambda>k. case stored m k of None \<Rightarrow> None | Some (v, e) \<Rightarrow> if now > e then None else Some (v, e))"
  by (rule ext) (simp add: stored_def gm_get_drop_expired IsExpired_def split: option.splits)

lemma gm_wf_delete [simp]: "gm_wf m \<Longrightarrow> gm_wf (gm_delete k m)"
  by (cases m) (simp_all add: gm_wf_def gm_delete_def distinct_delete)

lemma gm_wf_drop_expired [simp]: "gm_wf m \<Longrightarrow> gm_wf (drop_expired now m)"
  by (cases m) (simp_all add: gm_wf_def drop_expired_def distinct_map_filter)

lemmas cache_defs = GetRegistry_def SetRegistry_def InvalidateRegistry_def GetMCPServer_def
  SetMCPServer_def InvalidateMCPServer_def GetRegistryServers_def SetRegistryServers_def
  InvalidateRegistryServers_def ClearExpired_def ClearAll_def

interpretation registry_cache: ttl_cache GetRegistry SetRegistry InvalidateRegistry ClearExpired ClearAll
  "\<lambda>c. stored (chs_registryCache c)" cache_wf
  by unfold_locales
     (auto simp: cache_defs cache_wf_def live_stored fresh_value_def stored_put stored_delete
       stored_drop_expired stored_def[of "Some []"] split: option.splits)

interpretation server_cache: ttl_cache GetMCPServer SetMCPServer InvalidateMCPServer ClearExpired ClearAll
  "\<lambda>c. stored (chs_mcpServerCache c)" cache_wf
  by unfold_locales
     (auto simp: cache_defs cache_wf_def live_stored fresh_value_def stored_put stored_delete
       stored_drop_expired stored_def[of "Some []"] split: option.splits)

interpretation server_list_cache: ttl_cache GetRegistryServers SetRegistryServers
  InvalidateRegistryServers ClearExpired ClearAll "\<lambda>c. stored (chs_registryServersCache c)" cache_wf
  by unfold_locales
     (auto simp: cache_defs cache_wf_def live_stored fresh_value_def stored_put stored_delete
       stored_drop_expired stored_def[of "Some []"] split: option.splits)

section \<open>Correctness\<close>

lemma new_cache [simp]:
  "cache_wf NewDefaultCacheService"
  "stored (chs_registryCache NewDefaultCacheService) k = None"
  "stored (chs_mcpServerCache NewDefaultCacheService) k = None"
  "stored (chs_registryServersCache NewDefaultCacheService) k = None"
  by (simp_all add: cache_wf_def NewDefaultCacheService_def stored_def)

text \<open>C33 After any history of operations on a new service, a read of a registry returns the one set
  last under its key if neither an invalidation nor a ClearAll came later and its time to live
  has not passed, and nothing otherwise; the periodic clean-up and other reads make no difference.\<close>

theorem registry_cache_history:
  assumes "list_all (op_before now) ops"
  shows "fst (GetRegistry now k (fold registry_cache.apply_op ops NewDefaultCacheService)) =
           fresh_value now (fold (op_effect k) ops None)"
  by (rule registry_cache.history[OF _ _ assms]) simp_all

lemma registry_cache_history_witness:
  "\<forall>v. fst (GetRegistry 70 ''r'' (fold registry_cache.apply_op
      [OSet 10 ''r'' v 60, OGet 20 ''r'', OClearExpired 65] NewDefaultCacheService)) = Some v"
proof
  fix v
  show "fst (GetRegistry 70 ''r'' (fold registry_cache.apply_op
      [OSet 10 ''r'' v 60, OGet 20 ''r'', OClearExpired 65] NewDefaultCacheService)) = Some v"
    using registry_cache_history[of 70 "[OSet 10 ''r'' v 60, OGet 20 ''r'', OClearExpired 65]" "''r''"]
    by (simp add: fresh_value_def)
qed

lemma server_cache_history:
  assumes "list_all (op_before now) ops"
  shows "fst (GetMCPServer now k (fold server_cache.apply_op ops NewDefaultCacheService)) =
           fresh_value now (fold (op_effect k) ops None)"
  by (rule server_cache.history[OF _ _ assms]) simp_all

lemma server_list_cache_history:
  assumes "list_all (op_before now) ops"
  shows "fst (GetRegistryServers now k (fold server_list_cache.apply_op ops NewDefaultCacheService)) =
           fresh_value now (fold (op_effect k) ops None)"
  by (rule server_list_cache.history[OF _ _ assms]) simp_all

text \<open>After a clean-up the statistics count no expired entry, and as many entries as were live.\<close>

lemma expired_after_clean_up: "expired_count now (drop_expired now m) = 0"
  by (cases m) (auto simp: expired_count_def drop_expired_def filter_empty_conv)

lemma entries_after_clean_up:
  "int (gm_len (drop_expired now m)) = int (gm_len m) - expired_count now m"
proof (cases m)
  case None
  then show ?thesis by (simp add: expired_count_def drop_expired_def gm_len_def)
next
  case (Some kvs)
  have "length (filter P kvs) + length (filter (\<lambda>x. \<not> P x) kvs) = length kvs" for P
    by (rule sum_length_filter_compl)
  from this[of "\<lambda>(k, e). IsExpired now e"] Some show ?thesis
    by (simp add: expired_count_def drop_expired_def gm_len_def case_prod_unfold)
qed

lemma stats_after_clean_up:
  "cst_ExpiredEntries (GetStats now (ClearExpired now c)) = 0"
  "cst_TotalEntries (GetStats now (ClearExpired now c)) =
     cst_TotalEntries (GetStats now c) - cst_ExpiredEntries (GetStats now c)"
  by (simp_all add: GetStats_def ClearExpired_def expired_after_clean_up entries_after_clean_up)

end
