(* ===== verification/FloatTime.thy ===== *)
theory FloatTime
  imports Complex_Main Prelude
begin

section \<open>Floating-point delays\<close>

text \<open>
  The retry components compute their delays in \<open>float64\<close>. A float is written as the rational
  number it stands for, and every operation is the exact one followed by rounding, as IEEE 754
  prescribes: to 53 bits, ties to even (\<open>fl64\<close>). Delays lie far from the ends of the exponent
  range, so overflow and subnormal numbers are not modelled.

  What the bounds on delays need of rounding is the locale \<open>rounding\<close>: it is monotone, odd, and
  exact on the integers of 53 bits. Its interpretation shows it of \<open>fl64\<close>.
\<close>

locale rounding =
  fixes fl :: "rat \<Rightarrow> rat"
  assumes mono: "x \<le> y \<Longrightarrow> fl x \<le> fl y"
    and exact: "\<bar>n\<bar> < 2 ^ 53 \<Longrightarrow> fl (of_int n) = of_int n"
    and odd: "fl (- x) = - fl x"
begin

lemma zero [simp]: "fl 0 = 0"
  using exact[of 0] by simp

lemma one [simp]: "fl 1 = 1"
  using exact[of 1] by simp

lemma nonneg: "0 \<le> x \<Longrightarrow> 0 \<le> fl x"
  using mono[of 0 x] by simp

text \<open>An integer bound survives rounding.\<close>

lemma below_int: "x \<le> of_int n \<Longrightarrow> \<bar>n\<bar> < 2 ^ 53 \<Longrightarrow> fl x \<le> of_int n"
  using mono[of x "of_int n"] exact[of n] by simp

lemma above_int: "of_int n \<le> x \<Longrightarrow> \<bar>n\<bar> < 2 ^ 53 \<Longrightarrow> of_int n \<le> fl x"
  using mono[of "of_int n" x] exact[of n] by simp

lemma abs_below: "\<bar>x\<bar> \<le> of_int n \<Longrightarrow> \<bar>n\<bar> < 2 ^ 53 \<Longrightarrow> \<bar>fl x\<bar> \<le> of_int n"
  using below_int[of x n] above_int[of "- n" x] by (simp add: abs_le_iff)

end

subsection \<open>Rounding to 53 bits\<close>

fun flog2 :: "nat \<Rightarrow> nat" where
  "flog2 n = (if n < 2 then 0 else Suc (flog2 (n div 2)))"

declare flog2.simps [simp del]

lemma flog2_bounds: "0 < n \<Longrightarrow> 2 ^ flog2 n \<le> n \<and> n < 2 ^ Suc (flog2 n)"
proof (induction n rule: flog2.induct)
  case (1 n)
  show ?case
  proof (cases "n < 2")
    case True
    with 1 show ?thesis by (subst flog2.simps, subst (2) flog2.simps) simp
  next
    case False
    then have "2 ^ flog2 (n div 2) \<le> n div 2" "n div 2 < 2 * 2 ^ flog2 (n div 2)"
      using 1 by simp_all
    then have "2 * 2 ^ flog2 (n div 2) \<le> n" "n < 2 * (2 * 2 ^ flog2 (n div 2))"
      by linarith+
    with False show ?thesis by (subst flog2.simps, subst (2) flog2.simps) simp
  qed
qed

definition rexp :: "rat \<Rightarrow> int" where
  "rexp x =
     (let (p, q) = quotient_of x; e = int (flog2 (nat p)) - int (flog2 (nat q))
      in if 2 powi e \<le> x then e else e - 1)"

lemma rat_le_int: "i \<le> j \<longleftrightarrow> (of_int i :: rat) \<le> of_int j"
  by (simp only: of_int_le_iff)

lemma rat_less_int: "i < j \<longleftrightarrow> (of_int i :: rat) < of_int j"
  by (simp only: of_int_less_iff)

lemma rexp_bounds:
  assumes "0 < x"
  shows "2 powi (rexp x) \<le> x" and "x < 2 powi (rexp x + 1)"
proof -
  obtain p q where pq: "quotient_of x = (p, q)" by (cases "quotient_of x")
  have q0: "0 < q" using quotient_of_denom_pos[OF pq] .
  have x: "x = of_int p / of_int q" using quotient_of_div[OF pq] .
  have p0: "0 < p" using assms x q0 by (simp add: zero_less_divide_iff)
  let ?a = "flog2 (nat p)" and ?b = "flog2 (nat q)"
  have "2 ^ ?a \<le> nat p" "nat p < 2 ^ Suc ?a" "2 ^ ?b \<le> nat q" "nat q < 2 ^ Suc ?b"
    using flog2_bounds[of "nat p"] flog2_bounds[of "nat q"] p0 q0 by auto
  then have ib: "2 ^ ?a \<le> p" "p < 2 ^ Suc ?a" "2 ^ ?b \<le> q" "q < 2 ^ Suc ?b"
    using p0 q0 by (simp_all add: nat_le_iff le_nat_iff nat_less_iff)
  have pb: "(2 :: rat) ^ ?a \<le> of_int p" "of_int p < (2 :: rat) ^ Suc ?a"
    "(2 :: rat) ^ ?b \<le> of_int q" "of_int q < (2 :: rat) ^ Suc ?b"
    using ib[unfolded rat_le_int rat_less_int] by simp_all
  let ?e = "int ?a - int ?b"
  have pw: "(2 :: rat) powi ?e = 2 ^ ?a / 2 ^ ?b"
    by (simp add: power_int_diff)
  have up: "x < 2 powi (?e + 1)"
  proof -
    have "x * 2 ^ ?b \<le> of_int p"
      using pb(3) q0 p0 by (simp add: x field_simps)
    also have "\<dots> < 2 * 2 ^ ?a" using pb(2) by simp
    finally have "x < 2 * (2 ^ ?a / 2 ^ ?b)" by (simp add: field_simps)
    then show ?thesis by (simp add: power_int_add pw mult.commute)
  qed
  have low: "2 powi (?e - 1) \<le> x"
  proof -
    have "2 ^ ?a \<le> x * of_int q" using pb(1) q0 by (simp add: x)
    also have "\<dots> \<le> x * (2 * 2 ^ ?b)" using pb(4) assms by (intro mult_left_mono) simp_all
    finally have "2 ^ ?a / 2 ^ ?b / 2 \<le> x" by (simp add: field_simps)
    then show ?thesis by (simp add: power_int_diff pw)
  qed
  show "2 powi (rexp x) \<le> x" and "x < 2 powi (rexp x + 1)"
    using up low by (auto simp: rexp_def pq Let_def not_le)
qed

lemma rexp_mono:
  assumes "0 < x" and "x \<le> y" shows "rexp x \<le> rexp y"
proof (rule ccontr)
  assume "\<not> rexp x \<le> rexp y"
  then have "(2 :: rat) powi (rexp y + 1) \<le> 2 powi (rexp x)"
    by (intro power_int_increasing) simp_all
  also have "\<dots> \<le> x" using rexp_bounds(1)[OF assms(1)] .
  finally show False using assms rexp_bounds(2)[of y] by simp
qed

definition round_even :: "rat \<Rightarrow> int" where
  "round_even r =
     (let f = \<lfloor>r\<rfloor>; d = r - of_int f
      in if d < 1 / 2 then f else if d > 1 / 2 then f + 1 else if even f then f else f + 1)"

lemma round_even_int [simp]: "round_even (of_int n) = n"
  by (simp add: round_even_def Let_def)

lemma round_even_range: "\<lfloor>r\<rfloor> \<le> round_even r \<and> round_even r \<le> \<lfloor>r\<rfloor> + 1"
  by (simp add: round_even_def Let_def)

lemma round_even_mono:
  assumes "r \<le> s" shows "round_even r \<le> round_even s"
proof (cases "\<lfloor>r\<rfloor> = \<lfloor>s\<rfloor>")
  case True
  with assms show ?thesis by (auto simp: round_even_def Let_def)
next
  case False
  with floor_mono[OF assms] have "\<lfloor>r\<rfloor> + 1 \<le> \<lfloor>s\<rfloor>" by linarith
  with round_even_range[of r] round_even_range[of s] show ?thesis by linarith
qed

definition fl_pos :: "rat \<Rightarrow> rat" where
  "fl_pos x = of_int (round_even (x * 2 powi (52 - rexp x))) * 2 powi (rexp x - 52)"

definition fl64 :: "rat \<Rightarrow> rat" where
  "fl64 x = (if x = 0 then 0 else if 0 < x then fl_pos x else - fl_pos (- x))"

lemma scaled_bounds:
  assumes "0 < x"
  shows "2 ^ 52 \<le> x * 2 powi (52 - rexp x)" and "x * 2 powi (52 - rexp x) \<le> 2 ^ 53"
proof -
  have p: "(2 :: rat) powi e * 2 powi (52 - e) = 2 ^ 52" for e
    by (simp flip: power_int_add)
  have p': "(2 :: rat) powi (e + 1) * 2 powi (52 - e) = 2 ^ 53" for e
    by (simp flip: power_int_add)
  have "2 powi (rexp x) * 2 powi (52 - rexp x) \<le> x * 2 powi (52 - rexp x)"
    using rexp_bounds(1)[OF assms] by (intro mult_right_mono) simp_all
  then show "2 ^ 52 \<le> x * 2 powi (52 - rexp x)" by (simp only: p)
  have "x * 2 powi (52 - rexp x) \<le> 2 powi (rexp x + 1) * 2 powi (52 - rexp x)"
    using rexp_bounds(2)[OF assms] by (intro mult_right_mono) simp_all
  then show "x * 2 powi (52 - rexp x) \<le> 2 ^ 53" by (simp only: p')
qed

lemma fl_pos_bounds:
  assumes "0 < x"
  shows "2 powi (rexp x) \<le> fl_pos x" and "fl_pos x \<le> 2 powi (rexp x + 1)"
proof -
  let ?m = "round_even (x * 2 powi (52 - rexp x))"
  have "round_even (of_int (2 ^ 52)) \<le> ?m" "?m \<le> round_even (of_int (2 ^ 53))"
    using scaled_bounds[OF assms] by (auto intro!: round_even_mono)
  then have "2 ^ 52 \<le> ?m" "?m \<le> 2 ^ 53" by (simp_all only: round_even_int)
  then have m: "(2 :: rat) ^ 52 \<le> of_int ?m" "of_int ?m \<le> (2 :: rat) ^ 53"
    unfolding rat_le_int by simp_all
  have p: "(2 :: rat) ^ 52 * 2 powi (e - 52) = 2 powi e" for e
    by (simp add: power_int_diff)
  have p': "(2 :: rat) ^ 53 * 2 powi (e - 52) = 2 powi (e + 1)" for e
    by (simp add: power_int_diff power_int_add)
  have "2 ^ 52 * 2 powi (rexp x - 52) \<le> fl_pos x"
    unfolding fl_pos_def using m(1) by (intro mult_right_mono) simp_all
  then show "2 powi (rexp x) \<le> fl_pos x" by (simp only: p)
  have "fl_pos x \<le> 2 ^ 53 * 2 powi (rexp x - 52)"
    unfolding fl_pos_def using m(2) by (intro mult_right_mono) simp_all
  then show "fl_pos x \<le> 2 powi (rexp x + 1)" by (simp only: p')
qed

lemma fl_pos_pos: "0 < x \<Longrightarrow> 0 < fl_pos x"
  using fl_pos_bounds(1)[of x] by (rule less_le_trans[rotated]) simp_all

lemma fl_pos_mono:
  assumes "0 < x" and "x \<le> y" shows "fl_pos x \<le> fl_pos y"
proof (cases "rexp x = rexp y")
  case True
  have "x * 2 powi (52 - rexp x) \<le> y * 2 powi (52 - rexp x)"
    using assms by (intro mult_right_mono) simp_all
  then have "round_even (x * 2 powi (52 - rexp x)) \<le> round_even (y * 2 powi (52 - rexp x))"
    by (rule round_even_mono)
  then show ?thesis unfolding fl_pos_def True
    by (intro mult_right_mono) simp_all
next
  case False
  with rexp_mono[OF assms] have e: "rexp x + 1 \<le> rexp y" by simp
  have "fl_pos x \<le> 2 powi (rexp x + 1)" using fl_pos_bounds(2)[OF assms(1)] .
  also have "\<dots> \<le> 2 powi (rexp y)" using e by (intro power_int_increasing) simp_all
  also have "\<dots> \<le> fl_pos y" using fl_pos_bounds(1)[of y] assms by simp
  finally show ?thesis .
qed

lemma fl_pos_exact:
  assumes "0 < n" and "n < 2 ^ 53" shows "fl_pos (of_int n) = of_int n"
proof -
  have "rexp (of_int n) < 53"
  proof (rule ccontr)
    assume "\<not> rexp (of_int n) < 53"
    then have "(2 :: rat) powi 53 \<le> 2 powi (rexp (of_int n))"
      by (intro power_int_increasing) simp_all
    also have "\<dots> \<le> of_int n" using rexp_bounds(1)[of "of_int n"] assms(1) by simp
    finally have "2 ^ 53 \<le> n" unfolding rat_le_int by simp
    with assms(2) show False by simp
  qed
  then have "0 \<le> 52 - rexp (of_int n)" by simp
  then obtain k where k: "52 - rexp (of_int n) = int k" by (rule nonneg_int_cases)
  have e: "rexp (of_int n) - 52 = - int k" using k by simp
  have "of_int n * (2 :: rat) powi (52 - rexp (of_int n)) = of_int (n * 2 ^ k)"
    unfolding k by simp
  then have "fl_pos (of_int n) = of_int (n * 2 ^ k) * 2 powi (- int k)"
    unfolding fl_pos_def e by (simp only: round_even_int)
  also have "\<dots> = of_int n" by (simp add: power_int_minus)
  finally show ?thesis .
qed

interpretation fl64: rounding fl64
proof
  fix x y :: rat
  assume xy: "x \<le> y"
  consider "0 < x" | "x \<le> 0" "0 \<le> y" | "y < 0" by linarith
  then show "fl64 x \<le> fl64 y"
  proof cases
    case 1
    with xy show ?thesis by (simp add: fl64_def fl_pos_mono)
  next
    case 2
    then show ?thesis
      using fl_pos_pos[of "- x"] fl_pos_pos[of y] by (auto simp: fl64_def less_imp_le)
  next
    case 3
    with xy fl_pos_mono[of "- y" "- x"] show ?thesis by (simp add: fl64_def)
  qed
next
  fix n :: int
  assume "\<bar>n\<bar> < 2 ^ 53"
  then show "fl64 (of_int n) = of_int n"
    using fl_pos_exact[of n] fl_pos_exact[of "- n"] by (auto simp: fl64_def)
next
  fix x :: rat
  show "fl64 (- x) = - fl64 x" by (simp add: fl64_def)
qed

subsection \<open>Powers of two are free\<close>

lemma rexp_unique:
  assumes "2 powi e \<le> x" and "x < 2 powi (e + 1)" shows "rexp x = e"
proof -
  have "(0 :: rat) < 2 powi e" by simp
  with assms(1) have x: "0 < x" by linarith
  have "(2 :: rat) powi e < 2 powi (rexp x + 1)" "(2 :: rat) powi (rexp x) < 2 powi (e + 1)"
    using rexp_bounds[OF x] assms by linarith+
  moreover have lt: "a < b" if "(2 :: rat) powi a < 2 powi b" for a b
    using that power_int_increasing[of b a "2 :: rat"] by (force simp: not_less)
  ultimately have "e < rexp x + 1" "rexp x < e + 1" by (simp_all only: lt)
  then show ?thesis by simp
qed

lemma fl_pos_scale: "0 < x \<Longrightarrow> fl_pos (x * 2 ^ k) = fl_pos x * 2 ^ k"
proof -
  assume x: "0 < x"
  have m: "(2 :: rat) powi e * 2 ^ k = 2 powi (e + int k)" for e
    by (simp add: power_int_add)
  have "2 powi (rexp x) * 2 ^ k \<le> x * 2 ^ k" "x * 2 ^ k < 2 powi (rexp x + 1) * 2 ^ k"
    using rexp_bounds[OF x] by simp_all
  then have e: "rexp (x * 2 ^ k) = rexp x + int k"
    by (intro rexp_unique) (simp_all only: m add.assoc add.commute[of 1 "int k"])
  have "x * 2 ^ k * 2 powi (52 - (rexp x + int k)) = x * 2 powi (52 - rexp x)"
    by (simp add: power_int_diff power_int_add)
  then show ?thesis
    unfolding fl_pos_def e by (simp add: power_int_diff power_int_add)
qed

lemma fl64_scale: "fl64 (x * 2 ^ k) = fl64 x * 2 ^ k"
proof (cases x "0 :: rat" rule: linorder_cases)
  case less
  then have "x * 2 ^ k < 0" by (simp add: mult_less_0_iff)
  with less fl_pos_scale[of "- x" k] show ?thesis by (simp add: fl64_def)
next
  case equal
  then show ?thesis by (simp add: fl64_def)
next
  case greater
  then show ?thesis using fl_pos_scale[of x k] by (simp add: fl64_def)
qed

lemma fl64_int_scale: "\<bar>n\<bar> < 2 ^ 53 \<Longrightarrow> fl64 (of_int n * 2 ^ k) = of_int n * 2 ^ k"
  by (simp add: fl64_scale fl64.exact)

lemma fl64_pow2 [simp]: "fl64 (2 ^ k) = 2 ^ k"
  using fl64_int_scale[of 1 k] by simp

text \<open>A float is its own rounding.\<close>

lemma fl_pos_idem: "0 < x \<Longrightarrow> fl_pos (fl_pos x) = fl_pos x"
proof -
  assume x: "0 < x"
  let ?m = "round_even (x * 2 powi (52 - rexp x))"
  have v: "fl_pos x = of_int ?m * 2 powi (rexp x - 52)" by (simp add: fl_pos_def)
  have i: "(2 :: rat) powi (rexp x - 52) * 2 powi (52 - rexp x) = 1"
    by (simp flip: power_int_add)
  show ?thesis
  proof (cases "fl_pos x < 2 powi (rexp x + 1)")
    case True
    then have "rexp (fl_pos x) = rexp x" using fl_pos_bounds(1)[OF x] by (intro rexp_unique)
    moreover have "fl_pos x * 2 powi (52 - rexp x) = of_int ?m"
      unfolding v by (simp only: mult.assoc i mult_1_right)
    ultimately have "fl_pos (fl_pos x) = of_int ?m * 2 powi (rexp x - 52)"
      unfolding fl_pos_def[of "fl_pos x"] by (simp only: round_even_int)
    then show ?thesis by (simp only: v)
  next
    case False
    then have e: "fl_pos x = 2 powi (rexp x + 1)" using fl_pos_bounds(2)[OF x] by simp
    let ?k = "rexp x + 1"
    have r: "rexp (2 powi ?k) = ?k" by (intro rexp_unique) (simp_all add: power_int_strict_increasing)
    have "(2 :: rat) powi ?k * 2 powi (52 - ?k) = of_int (2 ^ 52)" by (simp flip: power_int_add)
    then have "fl_pos (2 powi ?k) = of_int (2 ^ 52) * 2 powi (?k - 52)"
      unfolding fl_pos_def r by (simp only: round_even_int)
    also have "\<dots> = 2 powi ?k" by (simp add: power_int_diff power_int_add)
    finally show ?thesis by (simp only: e)
  qed
qed

lemma fl64_idem: "fl64 (fl64 x) = fl64 x"
  using fl_pos_idem[of x] fl_pos_idem[of "- x"] fl_pos_pos[of x] fl_pos_pos[of "- x"]
  by (auto simp: fl64_def)

subsection \<open>Conversions and jitter\<close>

text \<open>
  \<open>time.Duration(f)\<close> drops the fraction; outside of \<open>int64\<close> the result is the one of the amd64
  instruction, the smallest \<open>int64\<close>.
\<close>

definition trunc_rat :: "rat \<Rightarrow> int" where
  "trunc_rat x = (if 0 \<le> x then \<lfloor>x\<rfloor> else - \<lfloor>- x\<rfloor>)"

definition float_to_i64 :: "rat \<Rightarrow> int" where
  "float_to_i64 x = (let n = trunc_rat x in if - (2 ^ 63) \<le> n \<and> n < 2 ^ 63 then n else - (2 ^ 63))"

lemma float_to_i64_int:
  "0 \<le> z \<Longrightarrow> float_to_i64 (of_int z) = (if z < 2 ^ 63 then z else - (2 ^ 63))"
  by (simp add: float_to_i64_def trunc_rat_def Let_def)

lemma float_to_i64_bounds:
  assumes "0 \<le> x" and "x \<le> of_int N" and "N < 2 ^ 63"
  shows "0 \<le> float_to_i64 x \<and> float_to_i64 x \<le> N"
proof -
  define n where "n = \<lfloor>x\<rfloor>"
  have "0 \<le> n" "n \<le> N" using assms(1) floor_mono[OF assms(2)] by (simp_all add: n_def)
  moreover have "trunc_rat x = n" using assms(1) by (simp add: trunc_rat_def n_def)
  ultimately show ?thesis using assms(3) by (simp add: float_to_i64_def Let_def)
qed

text \<open>\<open>float64(n)\<close> of an \<open>int64\<close>, and \<open>math.Pow\<close> with a whole exponent: the power, rounded.\<close>

definition i64_to_float :: "int \<Rightarrow> rat" where "i64_to_float n = fl64 (of_int n)"

definition math_Pow :: "rat \<Rightarrow> nat \<Rightarrow> rat" where "math_Pow b n = fl64 (b ^ n)"

text \<open>The literal \<open>0.1\<close> as a float, and the jitter \<open>(rand - 0.5) * 2 * (delay * 0.1)\<close>.\<close>

definition tenth :: rat where "tenth = 3602879701896397 / 36028797018963968"

definition jitter_of :: "rat \<Rightarrow> rat \<Rightarrow> rat" where
  "jitter_of u delay = fl64 (fl64 (fl64 (u - 1 / 2) * 2) * fl64 (delay * tenth))"

lemma jitter_bound:
  assumes "0 \<le> u" and "u < 1" and "0 \<le> delay"
  shows "\<bar>jitter_of u delay\<bar> \<le> fl64 (delay * tenth)"
proof -
  let ?h = "fl64 (u - 1 / 2)" and ?r = "fl64 (delay * tenth)"
  have half: "fl64 (1 / 2) = 1 / 2" using fl64_scale[of "1 / 2" 1] by simp
  have "?h \<le> 1 / 2" using fl64.mono[of "u - 1 / 2" "1 / 2"] assms half by simp
  moreover have "- (1 / 2) \<le> ?h"
    using fl64.mono[of "- (1 / 2)" "u - 1 / 2"] assms half by (simp add: fl64.odd)
  ultimately have f: "\<bar>fl64 (?h * 2)\<bar> \<le> 1"
    using fl64.abs_below[of "?h * 2" 1] by simp
  have r: "0 \<le> ?r" using assms by (intro fl64.nonneg) (simp add: tenth_def)
  have idem: "fl64 (fl64 x) = fl64 x" for x by (rule fl64_idem)
  have "fl64 (?h * 2) * ?r \<le> ?r" "- ?r \<le> fl64 (?h * 2) * ?r"
    using f r mult_right_mono[of "fl64 (?h * 2)" 1 ?r] mult_right_mono[of "- 1" "fl64 (?h * 2)" ?r]
    by auto
  then have "fl64 (fl64 (?h * 2) * ?r) \<le> fl64 ?r" "fl64 (- ?r) \<le> fl64 (fl64 (?h * 2) * ?r)"
    by (auto intro: fl64.mono)
  then show ?thesis by (simp add: jitter_of_def idem fl64.odd abs_le_iff)
qed

lemma below_tenth: "0 \<le> m \<Longrightarrow> m < 2 ^ 52 \<Longrightarrow> (of_int m :: rat) * tenth \<le> of_int (m div 10 + 1)"
proof -
  assume m: "0 \<le> m" "m < 2 ^ 52"
  have "(of_int m :: rat) < 4503599627370496" using m(2) unfolding rat_less_int by simp
  moreover have "(of_int m :: rat) = 10 * of_int (m div 10) + of_int (m mod 10)"
  proof -
    have "(of_int m :: rat) = of_int (10 * (m div 10) + m mod 10)" by simp
    then show ?thesis by (simp only: of_int_add of_int_mult of_int_numeral)
  qed
  moreover have "(of_int (m mod 10) :: rat) \<le> of_int 9"
    unfolding of_int_le_iff by presburger
  ultimately show ?thesis unfolding tenth_def of_int_add of_int_1 of_int_numeral
    by linarith
qed

text \<open>Spreading a delay by the jitter keeps it at or above zero and adds a tenth at most.\<close>

lemma jitter_sum_bounds:
  assumes "0 \<le> u" and "u < 1" and "0 \<le> d" and "d \<le> of_int M" and "fl64 d = d"
    and "0 \<le> M" and "M < 2 ^ 52"
  shows "0 \<le> fl64 (d + jitter_of u d)" and "fl64 (d + jitter_of u d) \<le> of_int (M + M div 10 + 1)"
proof -
  have lim: "M < 4503599627370496" using assms(7) by simp
  have dv: "0 \<le> M div 10" "M div 10 \<le> M" using assms(6) by presburger+
  have j: "\<bar>jitter_of u d\<bar> \<le> fl64 (d * tenth)" using jitter_bound[OF assms(1-3)] .
  have t: "0 < tenth" "tenth \<le> 1" by (simp_all add: tenth_def)
  have "fl64 (d * tenth) \<le> fl64 d"
    using assms(3) t mult_left_mono[of tenth 1 d] by (intro fl64.mono) simp
  with j assms(5) have low: "0 \<le> d + jitter_of u d" by linarith
  show "0 \<le> fl64 (d + jitter_of u d)" using low by (rule fl64.nonneg)
  have "fl64 (d * tenth) \<le> of_int (M div 10 + 1)"
  proof (rule fl64.below_int)
    have "d * tenth \<le> of_int M * tenth" using assms(4) t by (intro mult_right_mono) simp_all
    also have "\<dots> \<le> of_int (M div 10 + 1)" using below_tenth assms(6,7) by simp
    finally show "d * tenth \<le> of_int (M div 10 + 1)" .
    show "\<bar>M div 10 + 1\<bar> < 2 ^ 53" using assms(6) lim dv by simp
  qed
  with j assms(4) have "d + jitter_of u d \<le> of_int (M + M div 10 + 1)" by simp
  then show "fl64 (d + jitter_of u d) \<le> of_int (M + M div 10 + 1)"
    by (rule fl64.below_int) (use assms(6) lim dv in simp)
qed

lemma spread_to_i64':
  assumes "0 \<le> x" and "x \<le> of_int (M + M div 10 + 1)" and "0 \<le> M" and "M < 2 ^ 52"
  shows "0 \<le> float_to_i64 x \<and> float_to_i64 x \<le> M + M div 10 + 1"
proof -
  have "M + M div 10 + 1 < 2 ^ 63" using assms(3,4) by simp
  then show ?thesis using float_to_i64_bounds assms(1,2) by blast
qed

lemma spread_to_i64:
  assumes "0 \<le> x" and "x \<le> of_int M" and "0 \<le> M" and "M < 2 ^ 52"
  shows "0 \<le> float_to_i64 x \<and> float_to_i64 x \<le> M + M div 10 + 1"
proof -
  have "M \<le> M + M div 10 + 1" using assms(3) by simp
  then have "(of_int M :: rat) \<le> of_int (M + M div 10 + 1)" by (simp only: of_int_le_iff)
  with assms(2) have "x \<le> of_int (M + M div 10 + 1)" by (rule order_trans)
  then show ?thesis by (intro spread_to_i64' assms)
qed

end
