(* ===== verification/RetryLoop.thy ===== *)
theory RetryLoop
  imports FloatTime
begin

section \<open>Retry loops\<close>

text \<open>
  \<open>pkg/retry/retry.go\<close> and \<open>pkg/services/retry_service.go\<close>. What a loop runs and waits on is its
  environment: the function and its error, the random source, the select between the timer and
  the context, the callback. The environment's state \<open>'w\<close> goes through every one of them.
  The counters and histograms of Prometheus are left out.

  The contract of the three loops and of the GitHub loop (theory \<open>GitHubRetry\<close>) is the locale
  \<open>bounded_retry\<close>: a loop with \<open>left\<close> retries in hand makes an attempt, and after a failure
  either gives up or goes on with one retry less.
\<close>

text \<open>The state in which attempt \<open>k\<close> (counted from 0) starts, if the loop gets that far.\<close>

primrec attempt_start ::
  "('w \<Rightarrow> 'e option \<times> 'w) \<Rightarrow> (nat \<Rightarrow> nat \<Rightarrow> 'e \<Rightarrow> 'w \<Rightarrow> ('r \<times> 'w) + 'w) \<Rightarrow> nat \<Rightarrow> nat \<Rightarrow> nat \<Rightarrow> 'w \<Rightarrow> 'w option"
where
  "attempt_start attempt decide 0 left n w = Some w"
| "attempt_start attempt decide (Suc k) left n w =
     (case attempt w of
        (None, _) \<Rightarrow> None
      | (Some e, w1) \<Rightarrow>
          (case decide left n e w1 of
             Inl _ \<Rightarrow> None
           | Inr w2 \<Rightarrow> attempt_start attempt decide k (left - 1) (Suc n) w2))"

locale bounded_retry =
  fixes loop :: "nat \<Rightarrow> nat \<Rightarrow> 'w \<Rightarrow> 'r \<times> 'w"
    and attempt :: "'w \<Rightarrow> 'e option \<times> 'w"
    and decide :: "nat \<Rightarrow> nat \<Rightarrow> 'e \<Rightarrow> 'w \<Rightarrow> ('r \<times> 'w) + 'w"
    and won :: 'r
  assumes loop_step: "loop left n w =
      (case attempt w of
         (None, w1) \<Rightarrow> (won, w1)
       | (Some e, w1) \<Rightarrow>
           (case decide left n e w1 of Inl r \<Rightarrow> r | Inr w2 \<Rightarrow> loop (left - 1) (Suc n) w2))"
    and last_gives_up: "decide 0 n e w \<noteq> Inr w2"
    and giving_up: "decide left n e w = Inl r \<Longrightarrow> fst r \<noteq> won"
begin

abbreviation "start \<equiv> attempt_start attempt decide"

text \<open>At most \<open>left + 1\<close> attempts are made.\<close>

lemma attempts_bounded: "start k left n w = Some s \<Longrightarrow> k \<le> left"
proof (induction k arbitrary: left n w)
  case 0
  then show ?case by simp
next
  case (Suc k)
  then obtain e w1 w2 where d: "decide left n e w1 = Inr w2"
    and s: "start k (left - 1) (Suc n) w2 = Some s"
    by (auto split: prod.splits option.splits sum.splits)
  from d last_gives_up have "left \<noteq> 0" by metis
  with Suc.IH[OF s] show ?case by simp
qed

text \<open>The loop succeeds exactly when one of the attempts it gets to does.\<close>

lemma succeeds_iff:
  "fst (loop left n w) = won \<longleftrightarrow> (\<exists>k s. start k left n w = Some s \<and> fst (attempt s) = None)"
proof (induction left arbitrary: n w)
  case 0
  obtain r w1 where a: "attempt w = (r, w1)" by (cases "attempt w")
  have none: "start (Suc k) 0 n w = None" for k
    using last_gives_up by (auto simp: a split: option.splits sum.splits)
  have "start k 0 n w = Some s \<longleftrightarrow> k = 0 \<and> s = w" for k s
    using none by (cases k) auto
  then show ?case
    using last_gives_up giving_up
    by (subst loop_step) (auto simp: a split: option.splits sum.splits)
next
  case (Suc left)
  obtain r w1 where a: "attempt w = (r, w1)" by (cases "attempt w")
  show ?case
  proof (cases r)
    case None
    then have "start 0 (Suc left) n w = Some w \<and> fst (attempt w) = None" by (simp add: a)
    moreover have "fst (loop (Suc left) n w) = won"
      using None by (subst loop_step) (simp add: a)
    ultimately show ?thesis by blast
  next
    case (Some e)
    show ?thesis
    proof (cases "decide (Suc left) n e w1")
      case (Inl x)
      have "start k (Suc left) n w = Some s \<Longrightarrow> k = 0 \<and> s = w" for k s
        using Some Inl by (cases k) (simp_all add: a)
      moreover have "fst (loop (Suc left) n w) \<noteq> won"
        using Some Inl giving_up by (subst loop_step) (simp add: a)
      ultimately show ?thesis using Some a by (metis fst_conv option.distinct(1))
    next
      case (Inr w2)
      have step: "start (Suc k) (Suc left) n w = start k left (Suc n) w2" for k
        using Some Inr by (simp add: a)
      have "(\<exists>k s. start k (Suc left) n w = Some s \<and> fst (attempt s) = None) \<longleftrightarrow>
              (\<exists>k s. start k left (Suc n) w2 = Some s \<and> fst (attempt s) = None)" (is "?l = ?r")
      proof
        assume ?l
        then obtain k s where ks: "start k (Suc left) n w = Some s" "fst (attempt s) = None" by blast
        with Some a have "k \<noteq> 0"
          by (metis fst_conv option.distinct(1) option.inject attempt_start.simps(1))
        then obtain j where "k = Suc j" by (cases k) auto
        with ks step show ?r by auto
      next
        assume ?r
        then show ?l using step by metis
      qed
      moreover have "loop (Suc left) n w = loop left (Suc n) w2"
        using Some Inr by (subst loop_step) (simp add: a)
      ultimately show ?thesis using Suc.IH by simp
    qed
  qed
qed

text \<open>If every attempt the loop could make succeeds at once, none is wasted.\<close>

lemma immediate_success: "fst (attempt w) = None \<Longrightarrow> loop left n w = (won, snd (attempt w))"
  by (subst loop_step) (simp add: split_beta)

end

subsection \<open>The environment\<close>

record ('w, 'e) retry_env =
  re_fn :: "'w \<Rightarrow> 'e option \<times> 'w"
  re_on_retry :: "int \<Rightarrow> 'e \<Rightarrow> 'w \<Rightarrow> 'w"
  re_rand :: "'w \<Rightarrow> rat \<times> 'w"
  re_wait :: "duration \<Rightarrow> 'w \<Rightarrow> go_error \<times> 'w"
  re_ctx_err :: "'w \<Rightarrow> go_error"

datatype 'e retry_result =
    RetryOk
  | NonRetryable nat 'e
  | MaxRetriesExceeded int 'e
  | CtxCancelled string
  | UnexpectedEnd

text \<open>The text of the returned error; \<open>%w\<close> of a nil error prints \<open>%!w(<nil>)\<close>.\<close>

fun retry_error :: "('e \<Rightarrow> string) \<Rightarrow> 'e retry_result \<Rightarrow> go_error" where
  "retry_error msg RetryOk = None"
| "retry_error msg (NonRetryable n e) =
     Some (''non-retryable error after '' @ show_nat n @ '' attempts: '' @ msg e)"
| "retry_error msg (MaxRetriesExceeded m e) =
     Some (''max retries ('' @ show_int m @ '') exceeded: '' @ msg e)"
| "retry_error msg (CtxCancelled e) = Some (''context cancelled during retry: '' @ e)"
| "retry_error msg UnexpectedEnd = Some ''unexpected end of retry loop: %!w(<nil>)''"

text \<open>What follows a failed attempt, in both retriers of the package.\<close>

definition after_failure ::
  "int \<Rightarrow> ('e \<Rightarrow> bool) \<Rightarrow> ('w, 'e) retry_env \<Rightarrow> (nat \<Rightarrow> 'w \<Rightarrow> duration \<times> 'w) \<Rightarrow> nat \<Rightarrow> nat \<Rightarrow> 'e \<Rightarrow> 'w
     \<Rightarrow> ('e retry_result \<times> 'w) + 'w" where
  "after_failure maxRetries retryable env delay left n e w =
     (if \<not> retryable e then Inl (NonRetryable (n + 1) e, w)
      else if left = 0 then Inl (MaxRetriesExceeded maxRetries e, w)
      else (let w1 = re_on_retry env (int (n + 1)) e w; (d, w2) = delay n w1 in
            case re_wait env d w2 of
              (Some ctx, w3) \<Rightarrow> Inl (CtxCancelled ctx, w3)
            | (None, w3) \<Rightarrow> Inr w3))"

function retry_loop ::
  "int \<Rightarrow> ('e \<Rightarrow> bool) \<Rightarrow> ('w, 'e) retry_env \<Rightarrow> (nat \<Rightarrow> 'w \<Rightarrow> duration \<times> 'w) \<Rightarrow> nat \<Rightarrow> nat \<Rightarrow> 'w
     \<Rightarrow> 'e retry_result \<times> 'w" where
  "retry_loop m retryable env delay left n w =
     (case re_fn env w of
        (None, w1) \<Rightarrow> (RetryOk, w1)
      | (Some e, w1) \<Rightarrow>
          (case after_failure m retryable env delay left n e w1 of
             Inl r \<Rightarrow> r
           | Inr w2 \<Rightarrow> retry_loop m retryable env delay (left - 1) (Suc n) w2))"
  by pat_completeness auto
termination
  by (relation "measure (\<lambda>(m, retryable, env, delay, left, n, w). left)")
     (auto simp: after_failure_def split: if_splits)

declare retry_loop.simps [simp del]

interpretation retry_loop: bounded_retry "retry_loop m retryable env delay" "re_fn env"
  "after_failure m retryable env delay" RetryOk
  by unfold_locales
     (simp_all add: retry_loop.simps[of m retryable env delay] after_failure_def Let_def
        split: if_splits prod.splits option.splits, auto)

subsection \<open>Retrier and LinearRetrier\<close>

record retry_config =
  rtc_MaxRetries :: int
  rtc_InitialDelay :: duration
  rtc_MaxDelay :: duration
  rtc_Multiplier :: rat
  rtc_Jitter :: bool

definition DefaultConfig :: retry_config where
  "DefaultConfig = \<lparr>rtc_MaxRetries = 5, rtc_InitialDelay = time_Second,
     rtc_MaxDelay = time_Minute * 5, rtc_Multiplier = 2, rtc_Jitter = True\<rparr>"

definition NewRetrier :: "retry_config \<Rightarrow> retry_config" where
  "NewRetrier c =
     (let c1 = (if rtc_MaxRetries c = 0 then c\<lparr>rtc_MaxRetries := 5\<rparr> else c);
          c2 = (if rtc_InitialDelay c1 = 0 then c1\<lparr>rtc_InitialDelay := time_Second\<rparr> else c1);
          c3 = (if rtc_MaxDelay c2 = 0 then c2\<lparr>rtc_MaxDelay := time_Minute * 5\<rparr> else c2)
      in if rtc_Multiplier c3 = 0 then c3\<lparr>rtc_Multiplier := 2\<rparr> else c3)"

text \<open>
  \<open>calculateDelay\<close>: the exponential delay, capped, then spread by up to a tenth. \<open>u\<close> is the
  value of \<open>rand.Float64\<close>.
\<close>

definition backoff_delay :: "retry_config \<Rightarrow> nat \<Rightarrow> rat" where
  "backoff_delay c n =
     (let d = fl64 (i64_to_float (rtc_InitialDelay c) * math_Pow (rtc_Multiplier c) n)
      in if d > i64_to_float (rtc_MaxDelay c) then i64_to_float (rtc_MaxDelay c) else d)"

definition jittered :: "retry_config \<Rightarrow> rat \<Rightarrow> rat \<Rightarrow> rat" where
  "jittered c u d =
     (let d1 = fl64 (d + jitter_of u d)
      in if d1 < 0 then i64_to_float (rtc_InitialDelay c) else d1)"

definition calculateDelay ::
  "retry_config \<Rightarrow> ('w \<Rightarrow> rat \<times> 'w) \<Rightarrow> nat \<Rightarrow> 'w \<Rightarrow> duration \<times> 'w" where
  "calculateDelay c rand n w =
     (let d = backoff_delay c n in
      if rtc_Jitter c then (let (u, w1) = rand w in (float_to_i64 (jittered c u d), w1))
      else (float_to_i64 d, w))"

definition Retrier_DoWithRetryable ::
  "retry_config \<Rightarrow> ('w, 'e) retry_env \<Rightarrow> ('e \<Rightarrow> bool) \<Rightarrow> 'w \<Rightarrow> 'e retry_result \<times> 'w" where
  "Retrier_DoWithRetryable c env retryable w =
     (if rtc_MaxRetries c < 0 then (UnexpectedEnd, w)
      else retry_loop (rtc_MaxRetries c) retryable env (calculateDelay c (re_rand env))
             (nat (rtc_MaxRetries c)) 0 w)"

text \<open>Errors that are not retried by default: the two values of the context package, compared by identity.\<close>

datatype go_err_value = Canceled | DeadlineExceeded | ErrorValue string

fun DefaultIsRetryable :: "go_err_value \<Rightarrow> bool" where
  "DefaultIsRetryable Canceled = False"
| "DefaultIsRetryable DeadlineExceeded = False"
| "DefaultIsRetryable (ErrorValue m) = True"

definition Retrier_Do ::
  "retry_config \<Rightarrow> ('w, go_err_value) retry_env \<Rightarrow> 'w \<Rightarrow> go_err_value retry_result \<times> 'w" where
  "Retrier_Do c env w = Retrier_DoWithRetryable c env DefaultIsRetryable w"

record linear_config =
  lrc_MaxRetries :: int
  lrc_Delay :: duration

definition NewLinearRetrier :: "linear_config \<Rightarrow> linear_config" where
  "NewLinearRetrier c =
     (let c1 = (if lrc_MaxRetries c = 0 then c\<lparr>lrc_MaxRetries := 3\<rparr> else c)
      in if lrc_Delay c1 = 0 then c1\<lparr>lrc_Delay := time_Second\<rparr> else c1)"

definition Linear_DoWithRetryable ::
  "linear_config \<Rightarrow> ('w, 'e) retry_env \<Rightarrow> ('e \<Rightarrow> bool) \<Rightarrow> 'w \<Rightarrow> 'e retry_result \<times> 'w" where
  "Linear_DoWithRetryable c env retryable w =
     (if lrc_MaxRetries c < 0 then (UnexpectedEnd, w)
      else retry_loop (lrc_MaxRetries c) retryable env (\<lambda>_ w. (lrc_Delay c, w))
             (nat (lrc_MaxRetries c)) 0 w)"

definition Linear_Do ::
  "linear_config \<Rightarrow> ('w, go_err_value) retry_env \<Rightarrow> 'w \<Rightarrow> go_err_value retry_result \<times> 'w" where
  "Linear_Do c env w = Linear_DoWithRetryable c env DefaultIsRetryable w"

definition http_config :: retry_config where
  "http_config = NewRetrier \<lparr>rtc_MaxRetries = 3, rtc_InitialDelay = time_Second,
     rtc_MaxDelay = time_Second * 30, rtc_Multiplier = 2, rtc_Jitter = True\<rparr>"

definition kubernetes_config :: retry_config where
  "kubernetes_config = NewRetrier \<lparr>rtc_MaxRetries = 5, rtc_InitialDelay = time_Millisecond * 500,
     rtc_MaxDelay = time_Second * 10, rtc_Multiplier = 3 / 2, rtc_Jitter = True\<rparr>"

definition database_config :: retry_config where
  "database_config = NewRetrier \<lparr>rtc_MaxRetries = 3, rtc_InitialDelay = time_Millisecond * 100,
     rtc_MaxDelay = time_Second * 5, rtc_Multiplier = 2, rtc_Jitter = False\<rparr>"

subsection \<open>The retry service\<close>

record retry_service =
  rsv_maxRetries :: int
  rsv_baseDelay :: duration
  rsv_maxDelay :: duration
  rsv_registryMaxRetries :: int
  rsv_deploymentMaxRetries :: int

definition NewDefaultRetryService :: retry_service where
  "NewDefaultRetryService = \<lparr>rsv_maxRetries = 5, rsv_baseDelay = time_Second * 2,
     rsv_maxDelay = time_Minute * 5, rsv_registryMaxRetries = 3, rsv_deploymentMaxRetries = 5\<rparr>"

text \<open>Here the conversion to a duration comes before the cap.\<close>

definition service_calculateDelay :: "retry_service \<Rightarrow> nat \<Rightarrow> duration" where
  "service_calculateDelay s n =
     (let d = float_to_i64 (fl64 (i64_to_float (rsv_baseDelay s) * math_Pow 2 n))
      in if d > rsv_maxDelay s then rsv_maxDelay s else d)"

text \<open>
  One round: \<open>ctx.Done\<close> is looked at before the operation. The error of a round is that of the
  context (\<open>Inl\<close>) or of the operation (\<open>Inr\<close>).
\<close>

datatype 'e backoff_result = BackoffOk | BackoffCtx string | BackoffFailed int "'e option"

fun backoff_error :: "('e \<Rightarrow> string) \<Rightarrow> 'e backoff_result \<Rightarrow> go_error" where
  "backoff_error msg BackoffOk = None"
| "backoff_error msg (BackoffCtx e) = Some e"
| "backoff_error msg (BackoffFailed n e) =
     Some (''operation failed after '' @ show_int n @ '' attempts: '' @
       (case e of None \<Rightarrow> ''%!w(<nil>)'' | Some x \<Rightarrow> msg x))"

definition backoff_attempt :: "('w, 'e) retry_env \<Rightarrow> 'w \<Rightarrow> (string + 'e) option \<times> 'w" where
  "backoff_attempt env w =
     (case re_ctx_err env w of
        Some m \<Rightarrow> (Some (Inl m), w)
      | None \<Rightarrow>
          (case re_fn env w of
             (None, w1) \<Rightarrow> (None, w1)
           | (Some e, w1) \<Rightarrow> (Some (Inr e), w1)))"

definition backoff_decide ::
  "retry_service \<Rightarrow> int \<Rightarrow> ('w, 'e) retry_env \<Rightarrow> nat \<Rightarrow> nat \<Rightarrow> string + 'e \<Rightarrow> 'w
     \<Rightarrow> ('e backoff_result \<times> 'w) + 'w" where
  "backoff_decide s maxRetries env left n e w =
     (case e of
        Inl ctx \<Rightarrow> Inl (BackoffCtx ctx, w)
      | Inr err \<Rightarrow>
          if left = 0 then Inl (BackoffFailed maxRetries (Some err), w)
          else (case re_wait env (service_calculateDelay s n) w of
                  (Some ctx, w1) \<Rightarrow> Inl (BackoffCtx ctx, w1)
                | (None, w1) \<Rightarrow> Inr w1))"

function backoff_loop ::
  "retry_service \<Rightarrow> int \<Rightarrow> ('w, 'e) retry_env \<Rightarrow> nat \<Rightarrow> nat \<Rightarrow> 'w \<Rightarrow> 'e backoff_result \<times> 'w" where
  "backoff_loop s m env left n w =
     (case backoff_attempt env w of
        (None, w1) \<Rightarrow> (BackoffOk, w1)
      | (Some e, w1) \<Rightarrow>
          (case backoff_decide s m env left n e w1 of
             Inl r \<Rightarrow> r
           | Inr w2 \<Rightarrow> backoff_loop s m env (left - 1) (Suc n) w2))"
  by pat_completeness auto
termination
  by (relation "measure (\<lambda>(s, m, env, left, n, w). left)")
     (auto simp: backoff_decide_def split: if_splits sum.splits)

declare backoff_loop.simps [simp del]

definition RetryWithBackoff ::
  "retry_service \<Rightarrow> ('w, 'e) retry_env \<Rightarrow> int \<Rightarrow> 'w \<Rightarrow> 'e backoff_result \<times> 'w" where
  "RetryWithBackoff s env maxRetries w =
     (if maxRetries \<le> 0 then (BackoffFailed maxRetries None, w)
      else backoff_loop s maxRetries env (nat maxRetries - 1) 0 w)"

definition RetryRegistryOperation where
  "RetryRegistryOperation s env w = RetryWithBackoff s env (rsv_registryMaxRetries s) w"

definition RetryDeploymentOperation where
  "RetryDeploymentOperation s env w = RetryWithBackoff s env (rsv_deploymentMaxRetries s) w"

interpretation backoff_loop: bounded_retry "backoff_loop s m env" "backoff_attempt env"
  "backoff_decide s m env" BackoffOk
  by unfold_locales
     (simp_all add: backoff_loop.simps[of s m env] backoff_decide_def
        split: if_splits prod.splits option.splits sum.splits, auto)

section \<open>Correctness\<close>

subsection \<open>Runs against a script\<close>

text \<open>
  Any run can be replayed against a script: what the function returns at its first, second, ...
  call. The state counts the calls and records the waits; the context is never cancelled.
\<close>

record scripted =
  sc_calls :: nat
  sc_slept :: "duration list"

definition fresh_run :: scripted where "fresh_run = \<lparr>sc_calls = 0, sc_slept = []\<rparr>"

definition scripted_env :: "(nat \<Rightarrow> 'e option) \<Rightarrow> (nat \<Rightarrow> rat) \<Rightarrow> (scripted, 'e) retry_env" where
  "scripted_env script us = \<lparr>
     re_fn = (\<lambda>w. (script (sc_calls w), w\<lparr>sc_calls := sc_calls w + 1\<rparr>)),
     re_on_retry = (\<lambda>_ _ w. w),
     re_rand = (\<lambda>w. (us (sc_calls w), w)),
     re_wait = (\<lambda>d w. (None, w\<lparr>sc_slept := sc_slept w @ [d]\<rparr>)),
     re_ctx_err = (\<lambda>_. None)\<rparr>"

lemma scripted_env_simps [simp]:
  "re_fn (scripted_env script us) w = (script (sc_calls w), w\<lparr>sc_calls := sc_calls w + 1\<rparr>)"
  "re_on_retry (scripted_env script us) n e w = w"
  "re_rand (scripted_env script us) w = (us (sc_calls w), w)"
  "re_wait (scripted_env script us) d w = (None, w\<lparr>sc_slept := sc_slept w @ [d]\<rparr>)"
  "re_ctx_err (scripted_env script us) w = None"
  by (simp_all add: scripted_env_def)

text \<open>The wait before retry \<open>k\<close> of a retrier: its delay for attempt \<open>k\<close>, with the draw \<open>us (k + 1)\<close>.\<close>

definition wait_of :: "retry_config \<Rightarrow> (nat \<Rightarrow> rat) \<Rightarrow> nat \<Rightarrow> duration" where
  "wait_of c us k =
     float_to_i64 (if rtc_Jitter c then jittered c (us (k + 1)) (backoff_delay c k) else backoff_delay c k)"

lemma calculateDelay_scripted:
  "sc_calls w = Suc n \<Longrightarrow> calculateDelay c (re_rand (scripted_env script us)) n w = (wait_of c us n, w)"
  by (simp add: calculateDelay_def wait_of_def Let_def)

lemma retry_loop_scripted:
  assumes "sc_calls w = n" and "\<And>k e. script k = Some e \<Longrightarrow> retryable e"
  shows "retry_loop m retryable (scripted_env script us)
           (calculateDelay c (re_rand (scripted_env script us))) left n w =
         (case find (\<lambda>k. script k = None) [n..<Suc (n + left)] of
            Some k \<Rightarrow> (RetryOk, \<lparr>sc_calls = Suc k, sc_slept = sc_slept w @ map (wait_of c us) [n..<k]\<rparr>)
          | None \<Rightarrow> (MaxRetriesExceeded m (the (script (n + left))),
                     \<lparr>sc_calls = Suc (n + left),
                      sc_slept = sc_slept w @ map (wait_of c us) [n..<n + left]\<rparr>))"
  using assms(1)
proof (induction left arbitrary: n w)
  case 0
  then show ?case
    using assms(2)
    by (subst retry_loop.simps) (auto simp: after_failure_def split: option.splits)
next
  case (Suc left)
  have up: "[n..<Suc (Suc (n + left))] = n # [Suc n..<Suc (Suc (n + left))]" by (simp add: upt_rec)
  show ?case
  proof (cases "script n")
    case None
    with Suc.prems show ?thesis
      by (subst retry_loop.simps, cases w) (simp add: up del: upt_Suc)
  next
    case (Some e)
    have ge: "n < k" if "find (\<lambda>k. script k = None) [Suc n..<Suc (Suc (n + left))] = Some k" for k
      using that by (auto simp: find_Some_iff simp del: upt_Suc)
    let ?w = "w\<lparr>sc_calls := Suc n, sc_slept := sc_slept w @ [wait_of c us n]\<rparr>"
    have d: "calculateDelay c (re_rand (scripted_env script us)) n (w\<lparr>sc_calls := Suc n\<rparr>) =
              (wait_of c us n, w\<lparr>sc_calls := Suc n\<rparr>)"
      by (rule calculateDelay_scripted) simp
    have "retry_loop m retryable (scripted_env script us)
            (calculateDelay c (re_rand (scripted_env script us))) (Suc left) n w =
          retry_loop m retryable (scripted_env script us)
            (calculateDelay c (re_rand (scripted_env script us))) left (Suc n) ?w"
      using Some Suc.prems assms(2)[OF Some] d
      by (subst retry_loop.simps) (simp add: after_failure_def)
    also have "\<dots> = (case find (\<lambda>k. script k = None) [Suc n..<Suc (Suc n + left)] of
            Some k \<Rightarrow> (RetryOk, \<lparr>sc_calls = Suc k, sc_slept = sc_slept ?w @ map (wait_of c us) [Suc n..<k]\<rparr>)
          | None \<Rightarrow> (MaxRetriesExceeded m (the (script (Suc n + left))),
                     \<lparr>sc_calls = Suc (Suc n + left),
                      sc_slept = sc_slept ?w @ map (wait_of c us) [Suc n..<Suc n + left]\<rparr>))"
      by (rule Suc.IH) simp
    also have "\<dots> = (case find (\<lambda>k. script k = None) [n..<Suc (n + Suc left)] of
            Some k \<Rightarrow> (RetryOk, \<lparr>sc_calls = Suc k, sc_slept = sc_slept w @ map (wait_of c us) [n..<k]\<rparr>)
          | None \<Rightarrow> (MaxRetriesExceeded m (the (script (n + Suc left))),
                     \<lparr>sc_calls = Suc (n + Suc left),
                      sc_slept = sc_slept w @ map (wait_of c us) [n..<n + Suc left]\<rparr>))"
      using Some ge
      by (cases "find (\<lambda>k. script k = None) [Suc n..<Suc (Suc (n + left))]")
         (simp_all add: up upt_rec[of n] del: upt_Suc)
    finally show ?thesis .
  qed
qed

text \<open>C35 Against any script of retryable errors, a retrier stops at the first success among the
  first \<open>MaxRetries + 1\<close> calls and reports it, or makes exactly \<open>MaxRetries + 1\<close> calls and reports
  the error of the last; between the calls it waits the delays of attempts 0, 1, 2 and so on.\<close>

theorem retrier_against_script:
  assumes "0 \<le> rtc_MaxRetries c" and "\<And>k e. script k = Some e \<Longrightarrow> retryable e"
  shows "Retrier_DoWithRetryable c (scripted_env script us) retryable fresh_run =
     (case find (\<lambda>k. script k = None) [0..<Suc (nat (rtc_MaxRetries c))] of
        Some k \<Rightarrow> (RetryOk, \<lparr>sc_calls = Suc k, sc_slept = map (wait_of c us) [0..<k]\<rparr>)
      | None \<Rightarrow> (MaxRetriesExceeded (rtc_MaxRetries c) (the (script (nat (rtc_MaxRetries c)))),
                 \<lparr>sc_calls = Suc (nat (rtc_MaxRetries c)),
                  sc_slept = map (wait_of c us) [0..<nat (rtc_MaxRetries c)]\<rparr>))"
  using assms(1)
    retry_loop_scripted[where n = 0 and w = fresh_run and retryable = retryable and script = script
      and m = "rtc_MaxRetries c" and us = us and c = c and left = "nat (rtc_MaxRetries c)"] assms(2)
  by (simp add: Retrier_DoWithRetryable_def fresh_run_def cong: option.case_cong)

text \<open>In any environment, cancellation and non-retryable errors included, a retrier reports success
  exactly when one of its attempts succeeded, and it never starts more than \<open>MaxRetries + 1\<close>.\<close>

theorem retrier_succeeds_iff:
  assumes "0 \<le> rtc_MaxRetries c"
  shows "retry_error msg (fst (Retrier_DoWithRetryable c env retryable w)) = None \<longleftrightarrow>
     (\<exists>k \<le> nat (rtc_MaxRetries c). \<exists>s.
        attempt_start (re_fn env)
          (after_failure (rtc_MaxRetries c) retryable env (calculateDelay c (re_rand env))) k
          (nat (rtc_MaxRetries c)) 0 w = Some s \<and> fst (re_fn env s) = None)"
proof -
  have "retry_error msg r = None \<longleftrightarrow> r = RetryOk" for r by (cases r) simp_all
  then show ?thesis
    using assms retry_loop.succeeds_iff[of "rtc_MaxRetries c" retryable env
        "calculateDelay c (re_rand env)" "nat (rtc_MaxRetries c)" 0 w]
      retry_loop.attempts_bounded
    by (fastforce simp: Retrier_DoWithRetryable_def)
qed

subsection \<open>Bounds on the delays\<close>

lemma backoff_delay_range:
  assumes "0 \<le> rtc_InitialDelay c" and "0 \<le> rtc_Multiplier c" and "0 \<le> rtc_MaxDelay c"
  shows "0 \<le> backoff_delay c n" and "backoff_delay c n \<le> i64_to_float (rtc_MaxDelay c)"
proof -
  have "0 \<le> i64_to_float (rtc_InitialDelay c) * math_Pow (rtc_Multiplier c) n"
    using assms by (intro mult_nonneg_nonneg) (simp_all add: i64_to_float_def math_Pow_def fl64.nonneg)
  then show "0 \<le> backoff_delay c n"
    using assms by (auto simp: backoff_delay_def Let_def i64_to_float_def intro: fl64.nonneg)
  show "backoff_delay c n \<le> i64_to_float (rtc_MaxDelay c)"
    by (simp add: backoff_delay_def Let_def)
qed

text \<open>The delay of a retrier is never negative and exceeds the configured maximum by the jitter
  at most, a tenth and the rounding; the code's guard against a negative delay never fires.\<close>

theorem retry_delay_bounded:
  assumes "0 \<le> rtc_InitialDelay c" and "0 \<le> rtc_Multiplier c"
    and "0 \<le> rtc_MaxDelay c" and "rtc_MaxDelay c < 2 ^ 52"
    and "0 \<le> fst (rand w)" and "fst (rand w) < 1"
  shows "0 \<le> fst (calculateDelay c rand n w) \<and>
         fst (calculateDelay c rand n w) \<le> rtc_MaxDelay c + rtc_MaxDelay c div 10 + 1 \<and>
         0 \<le> fl64 (backoff_delay c n + jitter_of (fst (rand w)) (backoff_delay c n))"
proof -
  let ?d = "backoff_delay c n" and ?M = "rtc_MaxDelay c" and ?u = "fst (rand w)"
  have M: "i64_to_float ?M = of_int ?M"
    unfolding i64_to_float_def using assms(3,4) by (intro fl64.exact) simp
  have d: "0 \<le> ?d" "?d \<le> of_int ?M" using backoff_delay_range[OF assms(1-3), of n] M by simp_all
  have self: "fl64 ?d = ?d" by (auto simp: backoff_delay_def Let_def i64_to_float_def fl64_idem)
  note j = jitter_sum_bounds[OF assms(5,6) d self assms(3,4)]
  show ?thesis
    using spread_to_i64[OF d assms(3,4)] spread_to_i64'[OF j assms(3,4)] j(1)
    by (simp add: calculateDelay_def Let_def jittered_def split_beta)
qed

lemma retry_delay_bounded_witness:
  "0 \<le> fst (calculateDelay DefaultConfig (\<lambda>w. (1 / 2, w)) 3 ()) \<and>
   fst (calculateDelay DefaultConfig (\<lambda>w. (1 / 2, w)) 3 ()) \<le>
     rtc_MaxDelay DefaultConfig + rtc_MaxDelay DefaultConfig div 10 + 1 \<and>
   0 \<le> fl64 (backoff_delay DefaultConfig 3 +
          jitter_of (fst ((\<lambda>w. (1 / 2, w)) ())) (backoff_delay DefaultConfig 3))"
  by (rule retry_delay_bounded) (simp_all add: DefaultConfig_def time_units)

lemma retrier_against_script_witness:
  "Retrier_DoWithRetryable DefaultConfig
     (scripted_env (\<lambda>k. if k < 2 then Some ''down'' else None) (\<lambda>_. 1 / 2)) (\<lambda>_. True) fresh_run =
   (RetryOk, \<lparr>sc_calls = 3, sc_slept = map (wait_of DefaultConfig (\<lambda>_. 1 / 2)) [0..<2]\<rparr>)"
  using retrier_against_script[where c = DefaultConfig and us = "\<lambda>_. 1 / 2"
      and retryable = "\<lambda>_. True" and script = "\<lambda>k. if k < 2 then Some ''down'' else None"]
  by (simp add: DefaultConfig_def upt_rec)

definition down_once :: "(scripted, string) retry_env" where
  "down_once = scripted_env (\<lambda>k. if k < 1 then Some ''down'' else None) (\<lambda>_. 1 / 2)"

lemma retrier_succeeds_iff_witness:
  "retry_error id (fst (Retrier_DoWithRetryable DefaultConfig down_once (\<lambda>_. False) fresh_run)) \<noteq> None"
proof -
  have "fst (re_fn down_once s) \<noteq> None"
    if "attempt_start (re_fn down_once) (after_failure m (\<lambda>_. False) down_once d) k l 0 fresh_run = Some s"
    for k s l d m
    using that by (cases k) (auto simp: fresh_run_def after_failure_def down_once_def)
  moreover have "0 \<le> rtc_MaxRetries DefaultConfig" by (simp add: DefaultConfig_def)
  note retrier_succeeds_iff[OF this, where retryable = "\<lambda>_. False" and msg = id
        and env = down_once and w = fresh_run]
  ultimately show ?thesis by blast
qed

text \<open>The retry service waits \<open>2 s, 4 s, 8 s\<close> and so on up to five minutes; but from the 34th
  attempt on the product leaves \<open>int64\<close> before the cap is applied, the delay becomes the
  smallest \<open>int64\<close>, and the operation is repeated without any wait.\<close>

theorem service_delay:
  "service_calculateDelay NewDefaultRetryService n =
     (if n \<le> 32 then min (2000000000 * 2 ^ n) 300000000000 else - (2 ^ 63))"
proof -
  have "fl64 (i64_to_float 2000000000 * math_Pow 2 n) = of_int (2000000000 * 2 ^ n)"
    using fl64_int_scale[of 2000000000 n] fl64.exact[of 2000000000]
    by (simp add: i64_to_float_def math_Pow_def)
  then have f: "float_to_i64 (fl64 (i64_to_float 2000000000 * math_Pow 2 n)) =
      (if 2000000000 * 2 ^ n < (2 :: int) ^ 63 then 2000000000 * 2 ^ n else - (2 ^ 63))"
    using float_to_i64_int[of "2000000000 * 2 ^ n"] by (simp only:) simp
  show ?thesis
  proof (cases "n \<le> 32")
    case True
    then have "(2 :: int) ^ n \<le> 2 ^ 32" by (rule power_increasing) simp
    with True f show ?thesis
      by (simp add: service_calculateDelay_def NewDefaultRetryService_def time_units min_def)
  next
    case False
    then have "(2 :: int) ^ 33 \<le> 2 ^ n" by (intro power_increasing) simp_all
    with False f show ?thesis
      by (simp add: service_calculateDelay_def NewDefaultRetryService_def time_units)
  qed
qed

text \<open>With its own retry counts the service stays far below that.\<close>

lemma registry_backoff_bounded:
  assumes "fst (RetryRegistryOperation NewDefaultRetryService env w) = BackoffOk"
  shows "\<exists>k \<le> 2. \<exists>s. attempt_start (backoff_attempt env) (backoff_decide NewDefaultRetryService 3 env) k 2 0 w
           = Some s \<and> fst (backoff_attempt env s) = None"
  using assms backoff_loop.succeeds_iff[of NewDefaultRetryService 3 env 2 0 w] backoff_loop.attempts_bounded
  by (fastforce simp: RetryRegistryOperation_def RetryWithBackoff_def NewDefaultRetryService_def)

end
