(* ===== verification/Istio.thy ===== *)
theory Istio
  imports ApiTypes
begin

section \<open>Istio annotations\<close>

text \<open>
  \<open>controllers/istio/annotations.go\<close>: the sidecar annotation of the pod template of a deployment,
  of which only the annotations matter here.
\<close>

definition IstioSidecarInjectAnnotation :: string where
  "IstioSidecarInjectAnnotation = ''sidecar.istio.io/inject''"

definition gateway_istio :: "mcp_server \<Rightarrow> gateway_istio_spec option" where
  "gateway_istio s = (case sp_Gateway (srv_Spec s) of None \<Rightarrow> None | Some g \<Rightarrow> gw_Istio g)"

definition isIstioAnnotationsEnabled :: "mcp_server \<Rightarrow> bool" where
  "isIstioAnnotationsEnabled s =
     (case gateway_istio s of
        Some gi \<Rightarrow> gi_Enabled gi
      | None \<Rightarrow> (case sp_Istio (srv_Spec s) of Some i \<Rightarrow> is_Enabled i | None \<Rightarrow> False))"

definition spec_sidecar_value :: "istio_spec option \<Rightarrow> string" where
  "spec_sidecar_value spec =
     (case spec of
        None \<Rightarrow> []
      | Some i \<Rightarrow>
          if is_Enabled i then
            (case is_SidecarInject i of
               None \<Rightarrow> ''true''
             | Some b \<Rightarrow> if b then ''true'' else ''false'')
          else [])"

definition getSidecarInjectValue :: "mcp_server \<Rightarrow> string" where
  "getSidecarInjectValue s =
     (if (case gateway_istio s of None \<Rightarrow> False | Some gi \<Rightarrow> gi_Enabled gi) then ''true''
      else spec_sidecar_value (sp_Istio (srv_Spec s)))"

definition AddIstioAnnotations :: "mcp_server \<Rightarrow> string gomap \<Rightarrow> string gomap" where
  "AddIstioAnnotations s ann =
     (if \<not> isIstioAnnotationsEnabled s then ann
      else (let ann1 = gm_make ann; v = getSidecarInjectValue s in
            if v \<noteq> [] then gm_put IstioSidecarInjectAnnotation v ann1 else ann1))"

definition RemoveIstioAnnotations :: "string gomap \<Rightarrow> string gomap" where
  "RemoveIstioAnnotations ann =
     (if ann = None then None else gm_delete IstioSidecarInjectAnnotation ann)"

subsection \<open>Correctness\<close>

text \<open>When the annotations are on, there is always a value to write, and it is the gateway's.\<close>

lemma sidecar_value:
  "isIstioAnnotationsEnabled s \<Longrightarrow> getSidecarInjectValue s =
     (if gateway_istio s \<noteq> None then ''true'' else spec_sidecar_value (sp_Istio (srv_Spec s)))"
  by (auto simp: isIstioAnnotationsEnabled_def getSidecarInjectValue_def split: option.splits)

lemma spec_sidecar_not_empty:
  "isIstioAnnotationsEnabled s \<Longrightarrow> gateway_istio s = None \<Longrightarrow> spec_sidecar_value (sp_Istio (srv_Spec s)) \<noteq> []"
  by (auto simp: isIstioAnnotationsEnabled_def spec_sidecar_value_def split: option.splits)

text \<open>The pod template is annotated exactly when Istio is switched on for the server, the
  gateway's switch deciding where there is one; the value written is then the opt-out of
  \<open>spec.istio\<close> only for servers without a gateway configuration, no other annotation is touched,
  and removing undoes the addition.\<close>

theorem sidecar_annotation:
  "gm_get (AddIstioAnnotations s ann) k =
     (if k = IstioSidecarInjectAnnotation \<and> isIstioAnnotationsEnabled s
      then Some (if gateway_istio s = None \<and> (\<exists>i. sp_Istio (srv_Spec s) = Some i \<and> is_SidecarInject i = Some False)
                 then ''false'' else ''true'')
      else gm_get ann k) \<and>
   (gm_get ann IstioSidecarInjectAnnotation = None \<longrightarrow>
      gm_get (RemoveIstioAnnotations (AddIstioAnnotations s ann)) k = gm_get ann k)"
proof -
  have v: "isIstioAnnotationsEnabled s \<Longrightarrow> getSidecarInjectValue s =
      (if gateway_istio s = None \<and> (\<exists>i. sp_Istio (srv_Spec s) = Some i \<and> is_SidecarInject i = Some False)
       then ''false'' else ''true'')"
    by (auto simp: sidecar_value isIstioAnnotationsEnabled_def spec_sidecar_value_def split: option.splits)
  have rm: "gm_get (RemoveIstioAnnotations m) k = (if k = IstioSidecarInjectAnnotation then None else gm_get m k)"
    for m by (cases m) (simp_all add: RemoveIstioAnnotations_def)
  show ?thesis
    by (auto simp: AddIstioAnnotations_def Let_def rm v)
qed

end
