(* ===== verification/Reconciler.thy ===== *)
theory Reconciler
  imports AutoUpdate Validation TtlCache RetryLoop Istio
begin

section \<open>The MCPServer reconciler\<close>

text \<open>
  \<open>controllers/mcpserver_controller.go\<close>. One call of \<open>Reconcile\<close> is composed from the services as
  the code composes them: the status service, the validation service, the enrichment from the
  cache, the retry service and the TTL cache are those of the other theories; the renderer, the
  deployment service and the Istio controller, behind interfaces in the code, and the machinery of
  controller-runtime are fields of the environment. Logging and metrics are left out, except that
  their arguments are evaluated: the logger reads the runtime through its pointer.
\<close>

definition MCPServerFinalizer :: string where
  "MCPServerFinalizer = ''mcp.allbeone.io/finalizer''"

definition DeploymentTimeout :: duration where
  "DeploymentTimeout = 10 * time_Minute"

text \<open>
  A rendered resource as the reconciler handles it. \<open>rd_PodLabels\<close> and \<open>rd_PodAnnotations\<close> are
  the labels and annotations of the pod template, which only a Deployment has.
\<close>

record rendered =
  rd_Kind :: string
  rd_Name :: string
  rd_Labels :: "string gomap"
  rd_Annotations :: "string gomap"
  rd_PodLabels :: "string gomap option"
  rd_PodAnnotations :: "string gomap option"
  rd_Rest :: opaque

record deployment =
  dep_Replicas :: "int option"
  dep_Generation :: int
  dep_Status :: deployment_status

record 'w istio_ops =
  io_Reconcile :: "mcp_server \<Rightarrow> string \<Rightarrow> int \<Rightarrow> 'w \<Rightarrow> go_error \<times> 'w"
  io_Cleanup :: "mcp_server \<Rightarrow> 'w \<Rightarrow> go_error \<times> 'w"

record ('w, 'sv) reconcile_env =
  rn_api :: "('w, mcp_server) kube_api"
  rn_configmaps :: "('w, config_map) kube_api"
  rn_pods :: "('w, pod) kube_client"
  rn_services :: "('w, 'sv) kube_client"
  rn_quantity :: quantity_ops
  rn_yaml :: "string \<Rightarrow> string + server_template"
  rn_event :: "mcp_server \<Rightarrow> event \<Rightarrow> 'w \<Rightarrow> 'w"
  rn_now :: "'w \<Rightarrow> instant"
  rn_cache :: "(cache_service \<Rightarrow> cache_service) \<Rightarrow> 'w \<Rightarrow> 'w"
  rn_retry :: retry_service
  rn_wait :: "duration \<Rightarrow> 'w \<Rightarrow> go_error \<times> 'w"
  rn_ctx_err :: "'w \<Rightarrow> go_error"
  rn_render :: "mcp_server \<Rightarrow> (string + (rendered list \<times> string)) outcome"
  rn_hash :: "string \<Rightarrow> string"
  rn_own_configmap :: "mcp_server \<Rightarrow> config_map \<Rightarrow> string + config_map"
  rn_put_configmap :: "config_map \<Rightarrow> (config_map \<Rightarrow> config_map) \<Rightarrow> 'w \<Rightarrow> (go_error \<times> config_map) \<times> 'w"
  rn_own :: "mcp_server \<Rightarrow> rendered \<Rightarrow> string + rendered"
  rn_apply :: "rendered \<Rightarrow> 'w \<Rightarrow> (string + rendered) \<times> 'w"
  rn_deployment :: "mcp_server \<Rightarrow> 'w \<Rightarrow> (string + deployment) \<times> 'w"
  rn_delete :: "mcp_server \<Rightarrow> 'w \<Rightarrow> go_error \<times> 'w"
  rn_istio :: "'w istio_ops option"

text \<open>What a call returns: the error, whether a requeue is asked for, and the world.\<close>

type_synonym 'w reconciled = "((go_error \<times> bool) \<times> 'w) outcome"

definition finished :: "'w \<Rightarrow> 'w reconciled" where
  "finished w = Returns ((None, False), w)"

definition failed_with :: "string \<Rightarrow> 'w \<Rightarrow> 'w reconciled" where
  "failed_with e w = Returns ((Some e, False), w)"

definition warn :: "('w, 'sv) reconcile_env \<Rightarrow> string \<Rightarrow> string \<Rightarrow> mcp_server \<Rightarrow> 'w \<Rightarrow> 'w" where
  "warn env reason m s w =
     rn_event env s \<lparr>ev_Type = EventWarning, ev_Reason = reason, ev_Message = m\<rparr> w"

definition note_event :: "('w, 'sv) reconcile_env \<Rightarrow> string \<Rightarrow> string \<Rightarrow> mcp_server \<Rightarrow> 'w \<Rightarrow> 'w" where
  "note_event env reason m s w =
     rn_event env s \<lparr>ev_Type = EventNormal, ev_Reason = reason, ev_Message = m\<rparr> w"

definition set_cond ::
  "('w, 'sv) reconcile_env \<Rightarrow> mcp_server_condition_type \<Rightarrow> condition_status \<Rightarrow> string \<Rightarrow> string
     \<Rightarrow> 'w \<Rightarrow> mcp_server \<Rightarrow> mcp_server" where
  "set_cond env ty st reason m w s = SetCondition (rn_now env w) ty st reason m s"

definition with_phase :: "mcp_server_phase \<Rightarrow> mcp_server \<Rightarrow> mcp_server" where
  "with_phase p s = s\<lparr>srv_Status := (srv_Status s)\<lparr>st_Phase := p\<rparr>\<rparr>"

text \<open>A status write whose error is only logged.\<close>

definition report :: "('w, 'sv) reconcile_env \<Rightarrow> mcp_server \<Rightarrow> 'w \<Rightarrow> 'w" where
  "report env s w =
     snd (snd (UpdateMCPServerStatus (Some (rn_api env)) (rn_now env w) s w))"

text \<open>
  The pattern of every early return: a condition becomes False, a warning with the same reason
  and text is recorded, the status is written, and the call ends without error or requeue.
\<close>

definition give_up ::
  "('w, 'sv) reconcile_env \<Rightarrow> mcp_server_condition_type \<Rightarrow> string \<Rightarrow> string \<Rightarrow> mcp_server \<Rightarrow> 'w
     \<Rightarrow> 'w reconciled" where
  "give_up env ty reason m s w =
     (let s1 = set_cond env ty CFalse reason m w s in finished (report env s1 (warn env reason m s1 w)))"

subsection \<open>Following the rollout\<close>

definition desired_replicas :: "deployment \<Rightarrow> int" where
  "desired_replicas d = (case dep_Replicas d of None \<Rightarrow> 1 | Some n \<Rightarrow> n)"

definition rollout_condition :: "deployment_condition \<Rightarrow> bool" where
  "rollout_condition c \<longleftrightarrow> dc_Type c = ''Progressing'' \<and> dc_Status c = CTrue \<and>
     (dc_Reason c = ''ReplicaSetUpdated'' \<or> dc_Reason c = ''NewReplicaSetCreated'')"

definition isDeploymentRollingUpdate :: "deployment option \<Rightarrow> bool" where
  "isDeploymentRollingUpdate deployment =
     (case deployment of
        None \<Rightarrow> False
      | Some d \<Rightarrow>
          (let st = dep_Status d; desired = desired_replicas d in
           if list_ex rollout_condition (dps_Conditions st) then True
           else if dps_Replicas st > desired then True
           else if dps_UpdatedReplicas st < desired \<and> dps_UpdatedReplicas st > 0 then True
           else if dps_Replicas st > dps_ReadyReplicas st \<and> dps_UpdatedReplicas st > 0 then True
           else if dep_Generation d > dps_ObservedGeneration st then True
           else False))"

definition ready_of :: "int \<Rightarrow> int \<Rightarrow> string" where
  "ready_of a b = show_int a @ ''/'' @ show_int b"

definition follow_rollout ::
  "('w, 'sv) reconcile_env \<Rightarrow> deployment \<Rightarrow> mcp_server \<Rightarrow> 'w \<Rightarrow> mcp_server \<times> 'w" where
  "follow_rollout env d s w =
     (let st = dep_Status d; desired = desired_replicas d; ready = dps_ReadyReplicas st;
          s0 = copy_replicas st s in
      if isDeploymentRollingUpdate (Some d) then
        (let s1 = set_cond env CondReady CFalse ''RollingUpdate'' ''MCPServer deployment is updating'' w
                   (set_cond env CondProgressing CTrue ''RollingUpdate''
                     ''MCPServer deployment is performing rolling update'' w (with_phase PhaseRunning s0))
         in (s1, note_event env ''RollingUpdate'' ''MCPServer deployment is performing rolling update'' s1 w))
      else if ready = desired \<and> ready > 0 then
        (let s1 = set_cond env CondProgressing CFalse ''DeploymentComplete''
                     ''MCPServer deployment completed successfully'' w
                   (set_cond env CondReady CTrue ''DeploymentReady'' (''ReadyReplicas='' @ ready_of ready desired) w
                     (with_phase PhaseRunning s0))
         in (s1, note_event env ''DeploymentReady'' ''MCPServer deployment is ready and running'' s1 w))
      else if dps_Replicas st = 0 then
        (set_cond env CondReady CFalse ''DeploymentScaling'' ''Deployment is scaling up'' w
          (set_cond env CondProgressing CTrue ''DeploymentScaling'' ''Waiting for deployment to scale up'' w
            (with_phase PhasePending s0)), w)
      else if ready > 0 \<and> ready < desired then
        (set_cond env CondReady CFalse ''DeploymentPartiallyReady''
           (''Only '' @ ready_of ready desired @ '' replicas are ready'') w
          (set_cond env CondProgressing CTrue ''DeploymentPartiallyReady''
             (''Deployment has '' @ ready_of ready desired @ '' ready replicas'') w
            (with_phase PhaseRunning s0)), w)
      else
        (set_cond env CondReady CFalse ''DeploymentPending'' ''Deployment is not ready yet'' w
          (set_cond env CondProgressing CTrue ''DeploymentPending'' ''Deployment status is pending'' w
            (with_phase PhasePending s0)), w))"

definition observe_deployment ::
  "('w, 'sv) reconcile_env \<Rightarrow> mcp_server \<Rightarrow> 'w \<Rightarrow> mcp_server \<times> 'w" where
  "observe_deployment env s w =
     (case rn_deployment env s w of
        (Inl e, w1) \<Rightarrow>
          (set_cond env CondReady CFalse ''DeploymentStatusCheckFailed''
             (''Failed to get deployment status: '' @ e) w1 s, w1)
      | (Inr d, w1) \<Rightarrow> follow_rollout env d s w1)"

definition watchdog :: "('w, 'sv) reconcile_env \<Rightarrow> mcp_server \<Rightarrow> 'w \<Rightarrow> mcp_server \<times> 'w" where
  "watchdog env s w =
     (if CheckDeploymentTimeout (rn_now env w) DeploymentTimeout s then
        (let s1 = MarkDeploymentAsTimedOut (rn_now env w) DeploymentTimeout s in
         (s1, warn env ''DeploymentTimeout'' (''Deployment has been stuck for '' @
            show_duration DeploymentTimeout @ '', exceeding timeout'') s1 w))
      else (s, w))"

definition gateway_condition :: "('w, 'sv) reconcile_env \<Rightarrow> 'w \<Rightarrow> mcp_server \<Rightarrow> mcp_server" where
  "gateway_condition env w s =
     (if (case sp_Gateway (srv_Spec s) of None \<Rightarrow> True | Some g \<Rightarrow> \<not> gw_Enabled g) then
        set_cond env CondGatewayReady CTrue ''GatewayDisabled'' ''Gateway is disabled'' w s
      else if st_ReadyReplicas (srv_Status s) > 0 then
        set_cond env CondGatewayReady CTrue ''GatewayReady'' ''Gateway container and port are ready'' w s
      else
        set_cond env CondGatewayReady CFalse ''GatewayNotReady'' ''Gateway container/port is not ready'' w s)"

definition final_status :: "('w, 'sv) reconcile_env \<Rightarrow> mcp_server \<Rightarrow> 'w \<Rightarrow> 'w reconciled" where
  "final_status env s w =
     (case UpdateMCPServerStatus (Some (rn_api env)) (rn_now env w) s w of
        (Some e, _, w1) \<Rightarrow> failed_with (api_msg e) w1
      | (None, _, w1) \<Rightarrow> finished w1)"

definition after_apply :: "('w, 'sv) reconcile_env \<Rightarrow> mcp_server \<Rightarrow> 'w \<Rightarrow> 'w reconciled" where
  "after_apply env s w =
     (let (s1, w1) = observe_deployment env s w; (s2, w2) = watchdog env s1 w1
      in final_status env (gateway_condition env w2 s2) w2)"

subsection \<open>Istio\<close>

definition istio_port :: "mcp_server \<Rightarrow> int" where
  "istio_port s =
     (case sp_Gateway (srv_Spec s) of
        Some g \<Rightarrow> if gw_Port g > 0 then gw_Port g
                  else (case sp_Runtime (srv_Spec s) of
                          Some rt \<Rightarrow> if rt_Port rt > 0 then rt_Port rt else 8080
                        | None \<Rightarrow> 8080)
      | None \<Rightarrow> (case sp_Runtime (srv_Spec s) of
                   Some rt \<Rightarrow> if rt_Port rt > 0 then rt_Port rt else 8080
                 | None \<Rightarrow> 8080))"

definition handleIstioIntegration ::
  "('w, 'sv) reconcile_env \<Rightarrow> 'w istio_ops \<Rightarrow> mcp_server \<Rightarrow> 'w \<Rightarrow> (go_error \<times> mcp_server) \<times> 'w" where
  "handleIstioIntegration env io s w =
     (if (case gateway_istio s of None \<Rightarrow> True | Some gi \<Rightarrow> \<not> gi_Enabled gi) then
        ((None, set_cond env CondIstioConfigured CTrue ''IstioDisabled'' ''Istio integration is disabled'' w s), w)
      else
        (case io_Reconcile io s (srv_Name s) (istio_port s) w of
           (Some e, w1) \<Rightarrow>
             ((Some (''failed to reconcile Istio resources: '' @ e),
               set_cond env CondIstioConfigured CFalse ''IstioConfigurationFailed''
                 (''Failed to configure Istio resources: '' @ e) w1 s), w1)
         | (None, w1) \<Rightarrow>
             ((None, set_cond env CondIstioConfigured CTrue ''IstioConfigured''
                ''Istio VirtualService and DestinationRule successfully configured'' w1 s), w1)))"

definition istio_step :: "('w, 'sv) reconcile_env \<Rightarrow> mcp_server \<Rightarrow> 'w \<Rightarrow> mcp_server \<times> 'w" where
  "istio_step env s w =
     (case rn_istio env of
        None \<Rightarrow> (s, w)
      | Some io \<Rightarrow>
          (case handleIstioIntegration env io s w of
             ((Some e, s1), w1) \<Rightarrow>
               (s1, warn env ''IstioIntegrationFailed'' (''Failed to configure Istio integration: '' @ e) s1 w1)
           | ((None, s1), w1) \<Rightarrow> (s1, w1)))"

subsection \<open>Applying the rendered resources\<close>

definition resource_labels :: "mcp_server \<Rightarrow> string \<Rightarrow> string gomap \<Rightarrow> string gomap" where
  "resource_labels s hash labels =
     (let l1 = gm_put ''mcp.allbeone.io/name'' (srv_Name s) (gm_make labels);
          l2 = (case sp_Registry (srv_Spec s) of
                  None \<Rightarrow> l1
                | Some r \<Rightarrow>
                    (let registryName = ref_registry r; serverName = ref_server (srv_Name s) r;
                         m = (if registryName \<noteq> [] then gm_put ''mcp.allbeone.io/registry'' registryName l1 else l1)
                     in if serverName \<noteq> [] then gm_put ''mcp.allbeone.io/server'' serverName m else m))
      in gm_put ''mcp.allbeone.io/hash'' hash l2)"

text \<open>
  The template of a deployment holds the very label map of its metadata (the builder puts one map
  in both places), so what is written to the one is written to the other. Two maps that are equal
  without being the same only come from the server's answer to an earlier attempt, where the
  entries written here are there already.
\<close>

definition dress :: "mcp_server \<Rightarrow> string \<Rightarrow> string \<Rightarrow> rendered \<Rightarrow> rendered" where
  "dress s cm hash r = r\<lparr>
     rd_Labels := resource_labels s hash (rd_Labels r),
     rd_PodLabels := (if rd_PodLabels r = Some (rd_Labels r) \<and> rd_Labels r \<noteq> None
                      then Some (resource_labels s hash (rd_Labels r)) else rd_PodLabels r),
     rd_Annotations := gm_put ''mcp.allbeone.io/rendered-cm'' cm (gm_make (rd_Annotations r)),
     rd_PodAnnotations := map_option (AddIstioAnnotations s) (rd_PodAnnotations r)\<rparr>"

text \<open>
  The loop changes the objects in place, so it returns them: those it got through as the server
  answered them, the failing one as it was when it failed, the rest untouched.
\<close>

fun applyRenderedResources ::
  "('w, 'sv) reconcile_env \<Rightarrow> mcp_server \<Rightarrow> string \<Rightarrow> string \<Rightarrow> rendered list \<Rightarrow> 'w
     \<Rightarrow> go_error \<times> rendered list \<times> 'w" where
  "applyRenderedResources env s cm hash [] w = (None, [], w)"
| "applyRenderedResources env s cm hash (r # rs) w =
     (let r1 = dress s cm hash r in
      case rn_own env s r1 of
        Inl e \<Rightarrow> (Some (''failed to set controller reference for '' @ rd_Kind r1 @ ''/'' @ rd_Name r1 @ '': '' @ e),
                  r1 # rs, w)
      | Inr r2 \<Rightarrow>
          (case rn_apply env r2 w of
             (Inl e, w1) \<Rightarrow>
               (Some (''failed to apply '' @ rd_Kind r2 @ ''/'' @ rd_Name r2 @ '': '' @ e), r2 # rs, w1)
           | (Inr r3, w1) \<Rightarrow>
               (case applyRenderedResources env s cm hash rs w1 of (e, rs', w2) \<Rightarrow> (e, r3 # rs', w2))))"

text \<open>An operation under the retry service; its state is what the operation changes.\<close>

definition retrying ::
  "('w, 'sv) reconcile_env \<Rightarrow> ('x \<Rightarrow> 'w \<Rightarrow> go_error \<times> 'x \<times> 'w) \<Rightarrow> 'x \<Rightarrow> 'w \<Rightarrow> go_error \<times> 'x \<times> 'w" where
  "retrying env operation x w =
     (case RetryDeploymentOperation (rn_retry env)
             \<lparr>re_fn = (\<lambda>(x, w). operation x w), re_on_retry = (\<lambda>_ _ xw. xw), re_rand = (\<lambda>xw. (0, xw)),
              re_wait = (\<lambda>d (x, w). case rn_wait env d w of (e, w1) \<Rightarrow> (e, (x, w1))),
              re_ctx_err = (\<lambda>(x, w). rn_ctx_err env w)\<rparr> (x, w) of
        (r, x1, w1) \<Rightarrow> (backoff_error (\<lambda>m. m) r, x1, w1))"

definition apply_resources ::
  "('w, 'sv) reconcile_env \<Rightarrow> rendered list \<Rightarrow> string \<Rightarrow> string \<Rightarrow> mcp_server \<Rightarrow> 'w \<Rightarrow> 'w reconciled" where
  "apply_resources env resources cm hash s w =
     (let s1 = set_cond env CondProgressing CTrue ''DeploymentInProgress'' ''MCPServer deployment in progress'' w
                 (with_phase PhasePending s);
          n = show_nat (length resources) in
      case retrying env (applyRenderedResources env s1 cm hash) resources w of
        (Some e, _, w1) \<Rightarrow>
          give_up env CondApplied ''ApplyFailed'' (''Failed to apply resources: '' @ e)
            (with_phase PhaseFailed s1) w1
      | (None, _, w1) \<Rightarrow>
          (let s2 = set_cond env CondApplied CTrue ''Applied'' (''Successfully applied '' @ n @ '' resources'') w1 s1;
               w2 = note_event env ''Applied'' (''Successfully applied '' @ n @ '' resources using Server-Side Apply'')
                      s2 w1;
               (s3, w3) = istio_step env s2 w2
           in after_apply env s3 w3))"

subsection \<open>Rendering\<close>

definition rendered_name :: "mcp_server \<Rightarrow> string" where
  "rendered_name s = take 63 (''mcpserver-'' @ srv_Name s @ ''-rendered'')"

definition rendered_configmap :: "mcp_server \<Rightarrow> string \<Rightarrow> config_map" where
  "rendered_configmap s yaml = \<lparr>cm_Name = rendered_name s, cm_Namespace = srv_Namespace s,
     cm_Labels = Some [(''mcp.allbeone.io/name'', srv_Name s), (''mcp.allbeone.io/namespace'', srv_Namespace s),
       (''mcp.allbeone.io/component'', ''rendered-manifests'')],
     cm_Annotations = None, cm_Data = Some [(''manifests.yaml'', yaml)]\<rparr>"

definition store_rendered ::
  "('w, 'sv) reconcile_env \<Rightarrow> rendered list \<Rightarrow> string \<Rightarrow> mcp_server \<Rightarrow> 'w \<Rightarrow> 'w reconciled" where
  "store_rendered env resources yaml s w =
     (let hash = rn_hash env yaml; name = rendered_name s in
      case rn_own_configmap env s (rendered_configmap s yaml) of
        Inl e \<Rightarrow> give_up env CondRendered ''ConfigMapOwnerRefFailed'' (''Failed to set owner reference: '' @ e) s w
      | Inr cm \<Rightarrow>
          (case retrying env (\<lambda>c w. case rn_put_configmap env c
                    (\<lambda>c. c\<lparr>cm_Data := Some [(''manifests.yaml'', yaml)]\<rparr>) w of ((e, c1), w1) \<Rightarrow> (e, c1, w1)) cm w of
             (Some e, _, w1) \<Rightarrow>
               give_up env CondRendered ''ConfigMapCreateFailed'' (''Failed to create ConfigMap: '' @ e) s w1
           | (None, _, w1) \<Rightarrow>
               (let n = show_nat (length resources);
                    s1 = s\<lparr>srv_Status := (srv_Status s)\<lparr>st_ResolvedHash := hash, st_ResolvedConfigMap := Some name\<rparr>\<rparr>;
                    s2 = set_cond env CondRendered CTrue ''Assembled'' (''resources='' @ n) w1 s1;
                    w2 = note_event env ''Rendered'' (''Successfully rendered '' @ n @ '' resources to ConfigMap '' @ name)
                           s2 w1
                in apply_resources env resources name hash s2 w2)))"

definition render_and_apply :: "('w, 'sv) reconcile_env \<Rightarrow> mcp_server \<Rightarrow> 'w \<Rightarrow> 'w reconciled" where
  "render_and_apply env s w =
     and_then (rn_render env s) (\<lambda>r.
       case r of
         Inl e \<Rightarrow> give_up env CondRendered ''RenderingFailed'' (''Failed to render resources: '' @ e) s w
       | Inr (resources, yaml) \<Rightarrow> store_rendered env resources yaml s w)"

subsection \<open>Validation\<close>

definition validate_and_render :: "('w, 'sv) reconcile_env \<Rightarrow> mcp_server \<Rightarrow> 'w \<Rightarrow> 'w reconciled" where
  "validate_and_render env s w =
     (case ValidateMCPServer (rn_quantity env) s of
        Some e \<Rightarrow> give_up env CondReady ''ValidationFailed'' (''MCPServer validation failed: '' @ e) s w
      | None \<Rightarrow>
          if sp_Tenancy (srv_Spec s) \<noteq> None then
            (case ValidateTenantResourceQuotas (rn_quantity env) (rn_pods env) (rn_services env) s w of
               (Some e, w1) \<Rightarrow>
                 give_up env CondReady ''TenantValidationFailed'' (''Tenant validation failed: '' @ e) s w1
             | (None, w1) \<Rightarrow> render_and_apply env s w1)
          else render_and_apply env s w)"

subsection \<open>Enrichment\<close>

definition server_cache_key :: "mcp_server \<Rightarrow> string" where
  "server_cache_key s = ''mcpserver:'' @ srv_Namespace s @ '':'' @ srv_Name s"

definition invalidate_caches ::
  "('w, 'sv) reconcile_env \<Rightarrow> string \<Rightarrow> mcp_server \<Rightarrow> 'w \<Rightarrow> 'w" where
  "invalidate_caches env registryName s w =
     (let w1 = rn_cache env (InvalidateMCPServer (server_cache_key s)) w in
      if registryName \<noteq> [] then rn_cache env (InvalidateRegistryServers registryName) w1 else w1)"

definition enrich_and_requeue ::
  "('w, 'sv) reconcile_env \<Rightarrow> string \<Rightarrow> string \<Rightarrow> mcp_server \<Rightarrow> 'w \<Rightarrow> 'w reconciled" where
  "enrich_and_requeue env namespace registryName s w =
     and_then (EnrichMCPServerFromCache (rn_configmaps env) (rn_yaml env) s namespace w) (\<lambda>((e, s1), w1).
       case e of
         Some m \<Rightarrow> give_up env CondRegistryFetched ''CacheMissing'' (''Registry cache missing: '' @ m) s1 w1
       | None \<Rightarrow>
           (let s2 = set_cond env CondRegistryFetched CTrue ''RegistryFetched''
                       ''Successfully enriched from registry cache'' w1 s1;
                w2 = note_event env ''RegistryFetched'' ''Successfully enriched from registry cache'' s2 w1
            in case ka_patch (rn_api env) s s2 w2 of
                 (Inl err, w3) \<Rightarrow> failed_with (api_msg err) w3
               | (Inr s3, w3) \<Rightarrow>
                   (let w4 = invalidate_caches env registryName s3 w3;
                        s4 = set_cond env CondRegistryFetched CTrue ''RegistryEnrichmentSuccessful''
                               ''Successfully enriched MCPServer with registry data'' w4 s3;
                        w5 = note_event env ''RegistryEnrichmentSuccessful''
                               ''Successfully enriched MCPServer with registry data'' s4 w4
                    in Returns ((None, True), w5))))"

subsection \<open>Deletion\<close>

definition istio_cleanup :: "('w, 'sv) reconcile_env \<Rightarrow> mcp_server \<Rightarrow> 'w \<Rightarrow> 'w" where
  "istio_cleanup env s w =
     (case rn_istio env of
        None \<Rightarrow> w
      | Some io \<Rightarrow>
          (case io_Cleanup io s w of
             (Some e, w1) \<Rightarrow> warn env ''IstioCleanupFailed'' (''Failed to clean up Istio resources: '' @ e) s w1
           | (None, w1) \<Rightarrow> w1))"

definition with_finalizers :: "string list \<Rightarrow> mcp_server \<Rightarrow> mcp_server" where
  "with_finalizers fs s = s\<lparr>srv_Meta := (srv_Meta s)\<lparr>om_Finalizers := fs\<rparr>\<rparr>"

definition handleDeletion :: "('w, 'sv) reconcile_env \<Rightarrow> mcp_server \<Rightarrow> 'w \<Rightarrow> 'w reconciled" where
  "handleDeletion env s w =
     (let w1 = invalidate_caches env
                 (case sp_Registry (srv_Spec s) of None \<Rightarrow> [] | Some r \<Rightarrow> ref_registry r) s w;
          s1 = set_cond env CondProgressing CTrue ''DeletionInProgress'' ''MCPServer deletion in progress'' w1
                 (with_phase PhaseTerminating s);
          w2 = istio_cleanup env s1 w1
      in case rn_delete env s1 w2 of
           (Some e, w3) \<Rightarrow>
             failed_with e (warn env ''DeletionFailed'' (''Failed to delete resources: '' @ e) s1 w3)
         | (None, w3) \<Rightarrow>
             (let s2 = with_finalizers (filter (\<lambda>f. f \<noteq> MCPServerFinalizer) (om_Finalizers (srv_Meta s1))) s1 in
              case ka_update (rn_api env) s2 w3 of
                (Inl err, w4) \<Rightarrow> failed_with (api_msg err) w4
              | (Inr s3, w4) \<Rightarrow>
                  finished (note_event env ''Deleted'' ''MCPServer and all associated resources deleted successfully''
                    s3 w4)))"

subsection \<open>One reconciliation\<close>

text \<open>\<open>registry.name\<close> is filled from the older field; what comes back is the server and its registry's name.\<close>

definition needs_name :: "mcp_server \<Rightarrow> bool" where
  "needs_name s = (case sp_Registry (srv_Spec s) of
     None \<Rightarrow> False | Some r \<Rightarrow> rr_Name r = [] \<and> rr_Registry r \<noteq> [])"

definition named_registry :: "mcp_server \<Rightarrow> mcp_server" where
  "named_registry s = s\<lparr>srv_Spec := (srv_Spec s)\<lparr>sp_Registry :=
     map_option (\<lambda>r. r\<lparr>rr_Name := rr_Registry r\<rparr>) (sp_Registry (srv_Spec s))\<rparr>\<rparr>"

definition normalize ::
  "('w, 'sv) reconcile_env \<Rightarrow> mcp_server \<Rightarrow> 'w \<Rightarrow> ((string + mcp_server \<times> string) \<times> 'w) outcome" where
  "normalize env s w =
     (if needs_name s then
        (case ka_patch (rn_api env) s (named_registry s) w of
           (Inl e, w1) \<Rightarrow> Returns (Inl (api_msg e), w1)
         | (Inr s1, w1) \<Rightarrow>
             and_then (deref (sp_Registry (srv_Spec s1))) (\<lambda>r. Returns (Inr (s1, rr_Name r), w1)))
      else Returns (Inr (s, case sp_Registry (srv_Spec s) of None \<Rightarrow> [] | Some r \<Rightarrow> ref_registry r), w))"

definition ensure_finalizer ::
  "('w, 'sv) reconcile_env \<Rightarrow> mcp_server \<Rightarrow> 'w \<Rightarrow> (api_error + mcp_server) \<times> 'w" where
  "ensure_finalizer env s w =
     (if MCPServerFinalizer \<in> set (om_Finalizers (srv_Meta s)) then (Inr s, w)
      else ka_update (rn_api env) (with_finalizers (om_Finalizers (srv_Meta s) @ [MCPServerFinalizer]) s) w)"

definition reconcile_live ::
  "('w, 'sv) reconcile_env \<Rightarrow> string \<Rightarrow> string \<Rightarrow> string \<Rightarrow> mcp_server \<Rightarrow> 'w \<Rightarrow> 'w reconciled" where
  "reconcile_live env namespace registryName serverName s w =
     (case ensure_finalizer env s w of
        (Inl e, w1) \<Rightarrow> failed_with (api_msg e) w1
      | (Inr s1, w1) \<Rightarrow>
          if om_DeletionTimestamp (srv_Meta s1) \<noteq> None then handleDeletion env s1 w1
          else if registryName \<noteq> [] \<and> serverName \<noteq> [] then
            enrich_and_requeue env namespace registryName s1 w1
          else validate_and_render env s1 w1)"

definition Reconcile :: "('w, 'sv) reconcile_env \<Rightarrow> string \<Rightarrow> string \<Rightarrow> 'w \<Rightarrow> 'w reconciled" where
  "Reconcile env namespace name w =
     (case ka_get (rn_api env) namespace name w of
        (Inl e, w1) \<Rightarrow> if is_not_found e then finished w1 else failed_with (api_msg e) w1
      | (Inr s, w1) \<Rightarrow>
          (let serverName = (case sp_Registry (srv_Spec s) of
                 None \<Rightarrow> [] | Some r \<Rightarrow> ref_server (srv_Name s) r) in
           and_then (normalize env s w1) (\<lambda>(r, w2).
             case r of
               Inl e \<Rightarrow> failed_with e w2
             | Inr (s1, registryName) \<Rightarrow>
                 and_then (deref (sp_Runtime (srv_Spec s1))) (\<lambda>_.
                   reconcile_live env namespace registryName serverName s1 w2))))"

subsection \<open>The ConfigMap watch\<close>

definition uses_cache_entry :: "string \<Rightarrow> string \<Rightarrow> mcp_server \<Rightarrow> bool" where
  "uses_cache_entry registryName serverName s =
     (case sp_Registry (srv_Spec s) of
        None \<Rightarrow> False
      | Some r \<Rightarrow> ref_registry r = registryName \<and> ref_server (srv_Name s) r = serverName)"

definition findMCPServersForConfigMap ::
  "('w, 'sv) reconcile_env \<Rightarrow> config_map \<Rightarrow> 'w \<Rightarrow> (string \<times> string) list \<times> 'w" where
  "findMCPServersForConfigMap env cm w =
     (case (gm_get (cm_Labels cm) ''mcp.allbeone.io/registry'', gm_get (cm_Labels cm) ''mcp.allbeone.io/server'') of
        (Some registryName, Some serverName) \<Rightarrow>
          if cm_Name cm \<noteq> ''mcpregistry-'' @ registryName @ ''-'' @ serverName then ([], w)
          else
            (case ka_list (rn_api env) (cm_Namespace cm, []) w of
               (Inl e, w1) \<Rightarrow> ([], w1)
             | (Inr items, w1) \<Rightarrow>
                 (map (\<lambda>s. (srv_Name s, srv_Namespace s)) (filter (uses_cache_entry registryName serverName) items),
                  w1))
      | _ \<Rightarrow> ([], w))"

section \<open>Correctness\<close>

lemmas report_defs = give_up_def report_def warn_def note_event_def set_cond_def

subsection \<open>Rendering is never reached\<close>

text \<open>Everything past validation, replaced by something else.\<close>

definition with_backend ::
  "(mcp_server \<Rightarrow> (string + (rendered list \<times> string)) outcome)
     \<Rightarrow> (rendered \<Rightarrow> 'w \<Rightarrow> (string + rendered) \<times> 'w)
     \<Rightarrow> (mcp_server \<Rightarrow> 'w \<Rightarrow> (string + deployment) \<times> 'w)
     \<Rightarrow> ('w, 'sv) reconcile_env \<Rightarrow> ('w, 'sv) reconcile_env" where
  "with_backend renderer applier observer env =
     env\<lparr>rn_render := renderer, rn_apply := applier, rn_deployment := observer\<rparr>"

text \<open>
  What is relied on of the API server: an object is read under the name it was asked for, and a
  write answers with the specification it was sent.
\<close>

definition keeps_spec :: "('w, mcp_server) kube_api \<Rightarrow> bool" where
  "keeps_spec api \<longleftrightarrow>
     (\<forall>ns n w s w'. ka_get api ns n w = (Inr s, w') \<longrightarrow> srv_Name s = n) \<and>
     (\<forall>s w s' w'. ka_update api s w = (Inr s', w') \<longrightarrow> srv_Spec s' = srv_Spec s) \<and>
     (\<forall>s0 s w s' w'. ka_patch api s0 s w = (Inr s', w') \<longrightarrow> srv_Spec s' = srv_Spec s)"

lemma backend_fields [simp]:
  "rn_api (with_backend r a d env) = rn_api env"
  "rn_configmaps (with_backend r a d env) = rn_configmaps env"
  "rn_yaml (with_backend r a d env) = rn_yaml env"
  "rn_quantity (with_backend r a d env) = rn_quantity env"
  "rn_delete (with_backend r a d env) = rn_delete env"
  "rn_istio (with_backend r a d env) = rn_istio env"
  "rn_event (with_backend r a d env) = rn_event env"
  "rn_now (with_backend r a d env) = rn_now env"
  "rn_cache (with_backend r a d env) = rn_cache env"
  by (simp_all add: with_backend_def)

lemma backend_frame [simp]:
  "warn (with_backend r a d env) = warn env"
  "note_event (with_backend r a d env) = note_event env"
  "set_cond (with_backend r a d env) = set_cond env"
  "report (with_backend r a d env) = report env"
  "invalidate_caches (with_backend r a d env) = invalidate_caches env"
  unfolding fun_eq_iff report_defs invalidate_caches_def backend_fields by simp_all

lemma backend_steps [simp]:
  "give_up (with_backend r a d env) = give_up env"
  "istio_cleanup (with_backend r a d env) = istio_cleanup env"
  "normalize (with_backend r a d env) = normalize env"
  "ensure_finalizer (with_backend r a d env) = ensure_finalizer env"
  "enrich_and_requeue (with_backend r a d env) = enrich_and_requeue env"
  unfolding fun_eq_iff give_up_def istio_cleanup_def normalize_def ensure_finalizer_def
    enrich_and_requeue_def backend_fields backend_frame
  by simp_all

lemma backend_deletion [simp]: "handleDeletion (with_backend r a d env) = handleDeletion env"
  unfolding fun_eq_iff handleDeletion_def backend_fields backend_frame backend_steps by simp

lemma no_registry_name_invalid:
  assumes "(case sp_Registry (srv_Spec s) of None \<Rightarrow> [] | Some r \<Rightarrow> ref_registry r) = []"
  shows "\<exists>e. validate_and_render env s w =
     give_up env CondReady ''ValidationFailed'' (''MCPServer validation failed: '' @ e) s w \<and>
     ValidateMCPServer (rn_quantity env) s = Some e"
proof -
  have "validateRegistryInfo (sp_Registry (srv_Spec s)) \<noteq> None"
    using assms by (auto simp: validateRegistryInfo_def check_def split: option.splits)
  then obtain e where "validateRegistryInfo (sp_Registry (srv_Spec s)) = Some e" by blast
  then show ?thesis by (simp add: validate_and_render_def ValidateMCPServer_def Let_def)
qed

lemma keeps_spec_dest:
  assumes "keeps_spec api"
  shows "ka_get api ns n w = (Inr s, w') \<Longrightarrow> srv_Name s = n"
    and "ka_update api s w = (Inr s', w') \<Longrightarrow> srv_Spec s' = srv_Spec s"
    and "ka_patch api s0 s w = (Inr s', w') \<Longrightarrow> srv_Spec s' = srv_Spec s"
  using assms unfolding keeps_spec_def by blast+

lemma ensure_finalizer_spec:
  "keeps_spec (rn_api env) \<Longrightarrow> ensure_finalizer env s w = (Inr s1, w1) \<Longrightarrow> srv_Spec s1 = srv_Spec s"
  by (auto simp: ensure_finalizer_def with_finalizers_def split: if_splits dest: keeps_spec_dest(2))

text \<open>Where a server comes out of the normalisation, its registry's name is the one it resolves to.\<close>

lemma normalize_name:
  assumes "keeps_spec (rn_api env)" and "normalize env s w = Returns (Inr (s1, registryName), w1)"
  shows "registryName = (case sp_Registry (srv_Spec s1) of None \<Rightarrow> [] | Some r \<Rightarrow> ref_registry r) \<and>
         (registryName \<noteq> [] \<longrightarrow> sp_Registry (srv_Spec s) \<noteq> None) \<and>
         sp_Runtime (srv_Spec s1) = sp_Runtime (srv_Spec s)"
proof (cases "needs_name s")
  case False
  then show ?thesis using assms(2) by (auto simp: normalize_def split: option.splits)
next
  case True
  then obtain r where r: "sp_Registry (srv_Spec s) = Some r" "rr_Registry r \<noteq> []"
    by (auto simp: needs_name_def split: option.splits)
  obtain s2 w2 where p: "ka_patch (rn_api env) s (named_registry s) w = (Inr s2, w2)"
    using assms(2) True by (auto simp: normalize_def split: prod.splits sum.splits)
  then have "srv_Spec s2 = srv_Spec (named_registry s)" by (rule keeps_spec_dest(3)[OF assms(1)])
  then show ?thesis using assms(2) True r p
    by (auto simp: normalize_def named_registry_def ref_registry_def)
qed

lemma reconcile_live_backend:
  assumes "keeps_spec (rn_api env)" and "serverName \<noteq> [] \<or> registryName = []"
    and "registryName = (case sp_Registry (srv_Spec s) of None \<Rightarrow> [] | Some r \<Rightarrow> ref_registry r)"
  shows "reconcile_live (with_backend r a d env) ns registryName serverName s w =
         reconcile_live env ns registryName serverName s w"
proof (cases "fst (ensure_finalizer env s w)")
  case (Inl e)
  then obtain w1 where "ensure_finalizer env s w = (Inl e, w1)" by (cases "ensure_finalizer env s w") auto
  then show ?thesis by (simp add: reconcile_live_def)
next
  case (Inr s1)
  then obtain w1 where f: "ensure_finalizer env s w = (Inr s1, w1)" by (cases "ensure_finalizer env s w") auto
  show ?thesis
  proof (cases "registryName = []")
    case False
    with assms(2) f show ?thesis by (simp add: reconcile_live_def)
  next
    case True
    have spec: "srv_Spec s1 = srv_Spec s" by (rule ensure_finalizer_spec[OF assms(1) f])
    have unnamed: "(case sp_Registry (srv_Spec s1) of None \<Rightarrow> [] | Some r \<Rightarrow> ref_registry r) = []"
      using assms(3) True by (simp add: spec)
    obtain e where "validate_and_render (with_backend r a d env) s1 w1 =
        give_up (with_backend r a d env) CondReady ''ValidationFailed'' (''MCPServer validation failed: '' @ e) s1 w1"
      "ValidateMCPServer (rn_quantity (with_backend r a d env)) s1 = Some e"
      using no_registry_name_invalid[OF unnamed, where env = "with_backend r a d env" and w = w1]
      by (elim exE conjE)
    moreover obtain e' where "validate_and_render env s1 w1 =
        give_up env CondReady ''ValidationFailed'' (''MCPServer validation failed: '' @ e') s1 w1"
      "ValidateMCPServer (rn_quantity env) s1 = Some e'"
      using no_registry_name_invalid[OF unnamed, where env = env and w = w1]
      by (elim exE conjE)
    ultimately have "validate_and_render (with_backend r a d env) s1 w1 = validate_and_render env s1 w1" by simp
    with True f show ?thesis by (simp add: reconcile_live_def)
  qed
qed


text \<open>A small environment: one server, answered under any name; every write echoes its object.\<close>

definition echo_api :: "mcp_server \<Rightarrow> ('w, mcp_server) kube_api" where
  "echo_api s = (static_api [s])\<lparr>ka_get :=
     (\<lambda>_ n w. (Inr (s\<lparr>srv_Meta := (srv_Meta s)\<lparr>om_Name := n\<rparr>\<rparr>), w))\<rparr>"

definition sample_reconcile_env :: "mcp_server \<Rightarrow> ('w, unit) reconcile_env" where
  "sample_reconcile_env s = \<lparr>rn_api = echo_api s, rn_configmaps = static_api [], rn_pods = None,
     rn_services = None, rn_quantity = milli_ops, rn_yaml = (\<lambda>_. Inr sample_template),
     rn_event = (\<lambda>_ _ w. w), rn_now = (\<lambda>_. 0), rn_cache = (\<lambda>_ w. w), rn_retry = NewDefaultRetryService,
     rn_wait = (\<lambda>_ w. (None, w)), rn_ctx_err = (\<lambda>_. None), rn_render = (\<lambda>_. Returns (Inr ([], []))),
     rn_hash = (\<lambda>s. s), rn_own_configmap = (\<lambda>_. Inr), rn_put_configmap = (\<lambda>c f w. ((None, f c), w)),
     rn_own = (\<lambda>_. Inr), rn_apply = (\<lambda>r w. (Inr r, w)),
     rn_deployment = (\<lambda>_ w. (Inl ''not found'', w)), rn_delete = (\<lambda>_ w. (None, w)), rn_istio = None\<rparr>"

lemma echo_keeps_spec: "keeps_spec (rn_api (sample_reconcile_env s))"
  by (simp add: keeps_spec_def sample_reconcile_env_def echo_api_def static_api_def)


subsection \<open>When a reconciliation panics\<close>

lemma plain_returns [simp]:
  "finished w \<noteq> Panic" "failed_with e w \<noteq> Panic" "give_up env ty reason m s w \<noteq> Panic"
  by (simp_all add: finished_def failed_with_def give_up_def Let_def)

lemma final_status_returns [simp]: "final_status env s w \<noteq> Panic"
  by (simp add: final_status_def split: prod.split option.split)

lemma deletion_returns [simp]: "handleDeletion env s w \<noteq> Panic"
  by (simp add: handleDeletion_def Let_def split: prod.split option.split sum.split)

lemma cache_enrichment_returns:
  "sp_Registry (srv_Spec s) \<noteq> None \<Longrightarrow> EnrichMCPServerFromCache api yaml s ns w \<noteq> Panic"
  by (cases "sp_Registry (srv_Spec s)")
     (simp_all add: EnrichMCPServerFromCache_def Let_def split: prod.split sum.split option.split)

lemma enrich_returns:
  assumes "sp_Registry (srv_Spec s) \<noteq> None" shows "enrich_and_requeue env ns registryName s w \<noteq> Panic"
proof (cases "EnrichMCPServerFromCache (rn_configmaps env) (rn_yaml env) s ns w")
  case Panic
  then show ?thesis using cache_enrichment_returns[OF assms] by metis
next
  case (Returns r)
  then show ?thesis
    by (simp add: enrich_and_requeue_def Let_def split: prod.split option.split sum.split)
qed

lemma live_returns:
  assumes "keeps_spec (rn_api env)" and "registryName \<noteq> [] \<longrightarrow> sp_Registry (srv_Spec s) \<noteq> None"
    and "serverName \<noteq> [] \<or> registryName = []"
    and "registryName = (case sp_Registry (srv_Spec s) of None \<Rightarrow> [] | Some r \<Rightarrow> ref_registry r)"
  shows "reconcile_live env ns registryName serverName s w \<noteq> Panic"
proof (cases "ensure_finalizer env s w")
  case (Pair r w1)
  show ?thesis
  proof (cases r)
    case (Inr s1)
    with Pair have spec: "srv_Spec s1 = srv_Spec s" using ensure_finalizer_spec[OF assms(1)] by blast
    with assms(2) have "registryName \<noteq> [] \<Longrightarrow> enrich_and_requeue env ns registryName s1 w1 \<noteq> Panic"
      by (intro enrich_returns) simp
    moreover have "validate_and_render env s1 w1 \<noteq> Panic" if "registryName = []"
    proof -
      have unnamed: "(case sp_Registry (srv_Spec s1) of None \<Rightarrow> [] | Some r \<Rightarrow> ref_registry r) = []"
        using that assms(4) by (simp add: spec)
      obtain e where "validate_and_render env s1 w1 =
          give_up env CondReady ''ValidationFailed'' (''MCPServer validation failed: '' @ e) s1 w1"
        using no_registry_name_invalid[OF unnamed, where env = env and w = w1] by (elim exE conjE)
      then show ?thesis by simp
    qed
    ultimately show ?thesis using Pair Inr assms(3) by (simp add: reconcile_live_def)
  qed (simp add: reconcile_live_def Pair)
qed




subsection \<open>Deletion\<close>

text \<open>
  What the cluster stores of MCPServers, and who writes it: an accepted update stores the object
  with the finalizers it was sent with; the events, the caches, the deletion of the resources and
  the Istio clean-up do not touch it.
\<close>

definition server_store ::
  "('w, 'sv) reconcile_env \<Rightarrow> ('w \<Rightarrow> string \<times> string \<Rightarrow> mcp_server option) \<Rightarrow> bool" where
  "server_store env look \<longleftrightarrow>
     (\<forall>s w e w'. ka_update (rn_api env) s w = (Inl e, w') \<longrightarrow> look w' = look w) \<and>
     (\<forall>s w s' w'. ka_update (rn_api env) s w = (Inr s', w') \<longrightarrow>
        om_Finalizers (srv_Meta s') = om_Finalizers (srv_Meta s) \<and>
        look w' = (look w)((srv_Namespace s, srv_Name s) \<mapsto> s')) \<and>
     (\<forall>s e w. look (rn_event env s e w) = look w) \<and> (\<forall>f w. look (rn_cache env f w) = look w) \<and>
     (\<forall>s w r w'. rn_delete env s w = (r, w') \<longrightarrow> look w' = look w) \<and>
     (\<forall>io s w r w'. rn_istio env = Some io \<longrightarrow> io_Cleanup io s w = (r, w') \<longrightarrow> look w' = look w)"

lemma store_dest:
  assumes "server_store env look"
  shows "ka_update (rn_api env) s w = (Inl e, w') \<Longrightarrow> look w' = look w"
    and "ka_update (rn_api env) s w = (Inr s', w') \<Longrightarrow> om_Finalizers (srv_Meta s') = om_Finalizers (srv_Meta s)"
    and "ka_update (rn_api env) s w = (Inr s', w') \<Longrightarrow> look w' = (look w)((srv_Namespace s, srv_Name s) \<mapsto> s')"
    and "look (rn_event env s ev w) = look w" and "look (rn_cache env f w) = look w"
    and "rn_delete env s w = (r, w') \<Longrightarrow> look w' = look w"
    and "rn_istio env = Some io \<Longrightarrow> io_Cleanup io s w = (r', w') \<Longrightarrow> look w' = look w"
  using assms unfolding server_store_def by (elim conjE; simp; metis)+

lemma store_frame:
  assumes "server_store env look"
  shows "look (warn env reason m s w) = look w" and "look (note_event env reason m s w) = look w"
    and "look (invalidate_caches env r s w) = look w" and "look (istio_cleanup env s w) = look w"
proof -
  show n: "look (warn env reason m s w) = look w" "look (note_event env reason m s w) = look w"
    for reason m s w
    by (simp_all add: warn_def note_event_def store_dest(4)[OF assms])
  show "look (invalidate_caches env r s w) = look w"
    by (simp add: invalidate_caches_def Let_def store_dest(5)[OF assms])
  show "look (istio_cleanup env s w) = look w"
    by (auto simp: istio_cleanup_def n dest: store_dest(7)[OF assms] split: option.split prod.split)
qed

text \<open>How handling a deletion ends: with the error of the clean-up or of the last update, or well.\<close>

lemma handleDeletion_outcome:
  assumes "server_store env look"
  obtains r s1 w2 w3 where "rn_delete env s1 w2 = (r, w3)"
    "\<And>e. r = Some e \<Longrightarrow> \<exists>w'. handleDeletion env s w = Returns ((Some e, False), w') \<and> look w' = look w"
    "r = None \<Longrightarrow> (\<exists>err w4 w'. ka_update (rn_api env)
        (with_finalizers (filter (\<lambda>f. f \<noteq> MCPServerFinalizer) (om_Finalizers (srv_Meta s1))) s1) w3 = (Inl err, w4) \<and>
        handleDeletion env s w = Returns ((Some (api_msg err), False), w') \<and> look w' = look w) \<or>
     (\<exists>s' w'. handleDeletion env s w = Returns ((None, False), w') \<and>
        look w' = (look w)((srv_Namespace s, srv_Name s) \<mapsto> s') \<and>
        om_Finalizers (srv_Meta s') = removeAll MCPServerFinalizer (om_Finalizers (srv_Meta s)))"
proof -
  let ?reg = "case sp_Registry (srv_Spec s) of None \<Rightarrow> [] | Some r \<Rightarrow> ref_registry r"
  define w1 where "w1 = invalidate_caches env ?reg s w"
  define s1 where "s1 = set_cond env CondProgressing CTrue ''DeletionInProgress''
      ''MCPServer deletion in progress'' w1 (with_phase PhaseTerminating s)"
  define w2 where "w2 = istio_cleanup env s1 w1"
  have meta: "srv_Meta s1 = srv_Meta s" by (simp add: s1_def set_cond_def with_phase_def)
  have w2: "look w2 = look w" by (simp add: w2_def w1_def store_frame[OF assms])
  obtain r w3 where d: "rn_delete env s1 w2 = (r, w3)" by fastforce
  then have w3: "look w3 = look w" using store_dest(6)[OF assms] w2 by metis
  note unfold = handleDeletion_def Let_def w1_def[symmetric] s1_def[symmetric] w2_def[symmetric]
  let ?s2 = "with_finalizers (filter (\<lambda>f. f \<noteq> MCPServerFinalizer) (om_Finalizers (srv_Meta s1))) s1"
  obtain q w4 where u: "ka_update (rn_api env) ?s2 w3 = (q, w4)" by fastforce
  show thesis
  proof (rule that[OF d])
    show "\<exists>w'. handleDeletion env s w = Returns ((Some e, False), w') \<and> look w' = look w" if "r = Some e" for e
      using that d w3 by (simp add: unfold failed_with_def store_frame[OF assms])
    show "(\<exists>err w4 w'. ka_update (rn_api env) ?s2 w3 = (Inl err, w4) \<and>
        handleDeletion env s w = Returns ((Some (api_msg err), False), w') \<and> look w' = look w) \<or>
     (\<exists>s' w'. handleDeletion env s w = Returns ((None, False), w') \<and>
        look w' = (look w)((srv_Namespace s, srv_Name s) \<mapsto> s') \<and>
        om_Finalizers (srv_Meta s') = removeAll MCPServerFinalizer (om_Finalizers (srv_Meta s)))" if "r = None"
    proof (cases q)
      case (Inl err)
      have "look w4 = look w" using u[unfolded Inl] store_dest(1)[OF assms] w3 by metis
      then show ?thesis using that d u Inl by (simp add: unfold failed_with_def)
    next
      case (Inr s3)
      have "look w4 = (look w)((srv_Namespace s, srv_Name s) \<mapsto> s3)"
        using store_dest(3)[OF assms u[unfolded Inr]] w3 by (simp add: with_finalizers_def meta)
      moreover have "om_Finalizers (srv_Meta s3) = removeAll MCPServerFinalizer (om_Finalizers (srv_Meta s))"
        using store_dest(2)[OF assms u[unfolded Inr]]
        by (simp add: with_finalizers_def meta removeAll_filter_not_eq eq_commute)
      ultimately show ?thesis
        using that d u Inr by (auto simp: unfold finished_def store_frame[OF assms])
    qed
  qed
qed


definition storing_env :: "(string \<times> string \<Rightarrow> mcp_server option, unit) reconcile_env" where
  "storing_env = (sample_reconcile_env zero_server)\<lparr>rn_api := (echo_api zero_server)\<lparr>ka_update :=
     (\<lambda>s w. (Inr s, w((srv_Namespace s, srv_Name s) \<mapsto> s)))\<rparr>\<rparr>"

lemma storing_env_store: "server_store storing_env (\<lambda>w. w)"
  by (simp add: server_store_def storing_env_def sample_reconcile_env_def)


subsection \<open>The rollout\<close>

lemma set_cond_simps [simp]:
  "cond_status ty (set_cond env ty' st r m w s) = (if ty = ty' then Some st else cond_status ty s)"
  "st_Phase (srv_Status (set_cond env ty' st r m w s)) = st_Phase (srv_Status s)"
  "cond_status ty (with_phase p s) = cond_status ty s"
  "st_Phase (srv_Status (with_phase p s)) = p"
  by (simp_all add: set_cond_def) (simp_all add: with_phase_def cond_status_def GetMCPServerCondition_def)

text \<open>After a look at the deployment the server is Ready exactly when no rollout is under way and
  exactly the desired number of replicas, at least one, is ready; Ready and Progressing are then
  opposites, and a Ready server is Running.\<close>

theorem rollout_ready_iff:
  assumes "rn_deployment env s w = (Inr d, w1)" and "observe_deployment env s w = (s', w')"
  shows "(cond_status CondReady s' = Some CTrue \<longleftrightarrow>
           \<not> isDeploymentRollingUpdate (Some d) \<and> dps_ReadyReplicas (dep_Status d) > 0 \<and>
           dps_ReadyReplicas (dep_Status d) = desired_replicas d) \<and>
         (cond_status CondReady s' = Some CTrue \<longleftrightarrow> cond_status CondProgressing s' = Some CFalse) \<and>
         (cond_status CondReady s' = Some CTrue \<longrightarrow> st_Phase (srv_Status s') = PhaseRunning)"
proof -
  have f: "follow_rollout env d s w1 = (s', w')" using assms by (simp add: observe_deployment_def)
  show ?thesis
    by (rule f[unfolded follow_rollout_def Let_def, THEN arg_cong[where f = fst], simplified, THEN subst])
       (auto split: if_split)
qed

definition rollout_of :: "int \<Rightarrow> int \<Rightarrow> deployment" where
  "rollout_of ready updated = \<lparr>dep_Replicas = Some 1, dep_Generation = 1,
     dep_Status = \<lparr>dps_Replicas = 1, dps_ReadyReplicas = ready, dps_AvailableReplicas = ready,
       dps_UpdatedReplicas = updated, dps_UnavailableReplicas = 0, dps_ObservedGeneration = 1,
       dps_Conditions = []\<rparr>\<rparr>"

definition observing_env :: "deployment \<Rightarrow> (unit, unit) reconcile_env" where
  "observing_env d = (sample_reconcile_env zero_server)\<lparr>rn_deployment := (\<lambda>_ w. (Inr d, w))\<rparr>"

lemma observing_env [simp]: "rn_deployment (observing_env d) s w = (Inr d, w)"
  by (simp add: observing_env_def)

lemma rollout_ready_iff_witness:
  "cond_status CondReady (fst (observe_deployment (observing_env (rollout_of 1 1)) zero_server ())) = Some CTrue"
  using rollout_ready_iff[OF observing_env prod.collapse[symmetric], of "rollout_of 1 1" zero_server "()"]
  by (simp add: rollout_of_def isDeploymentRollingUpdate_def desired_replicas_def)

text \<open>A rollout none of whose new pods ever becomes ready is taken for a rolling update: the server
  is Running, and since the watchdog looks at Pending servers only, it never times out.\<close>

theorem stuck_rollout_never_times_out:
  assumes "rn_deployment env s w = (Inr d, w1)"
    and "dps_UpdatedReplicas (dep_Status d) > 0" and "dps_Replicas (dep_Status d) > 0"
    and "dps_ReadyReplicas (dep_Status d) = 0"
    and "observe_deployment env s w = (s', w')"
  shows "st_Phase (srv_Status s') = PhaseRunning \<and> (\<forall>w2. watchdog env s' w2 = (s', w2))"
proof -
  have "isDeploymentRollingUpdate (Some d)"
    using assms(2-4) by (simp add: isDeploymentRollingUpdate_def Let_def)
  then have "st_Phase (srv_Status s') = PhaseRunning"
    using assms(1,5) by (auto simp: observe_deployment_def follow_rollout_def Let_def)
  then show ?thesis by (simp add: watchdog_def CheckDeploymentTimeout_def)
qed

lemma stuck_rollout_never_times_out_witness:
  "st_Phase (srv_Status (fst (observe_deployment (observing_env (rollout_of 0 1)) zero_server ()))) = PhaseRunning"
  using stuck_rollout_never_times_out[OF observing_env _ _ _ prod.collapse[symmetric],
      of "rollout_of 0 1" zero_server "()"]
  by (simp add: rollout_of_def)

subsection \<open>The watch\<close>

text \<open>The watch wakes up the right servers: for the ConfigMap in which the registry controller
  caches a server of a registry, exactly the servers of its namespace that name this registry and
  this server are requeued, each of which reads this very ConfigMap when it is enriched.\<close>

theorem watch_wakes_readers:
  assumes "cm_Labels cm = Some [(''mcp.allbeone.io/registry'', registry), (''mcp.allbeone.io/server'', server)]"
    and "cm_Name cm = ''mcpregistry-'' @ registry @ ''-'' @ server"
    and "ka_list (rn_api env) (cm_Namespace cm, []) w = (Inr items, w1)"
  shows "findMCPServersForConfigMap env cm w =
      (map (\<lambda>s. (srv_Name s, srv_Namespace s)) (filter (uses_cache_entry registry server) items), w1) \<and>
    (\<forall>s \<in> set items. \<forall>reg. sp_Registry (srv_Spec s) = Some reg \<longrightarrow> rr_Name reg \<noteq> [] \<longrightarrow>
       uses_cache_entry registry server s \<longrightarrow> cache_name (srv_Name s) reg = cm_Name cm)"
  using assms
  by (auto simp: findMCPServersForConfigMap_def gm_get_def uses_cache_entry_def ref_registry_def cache_name_def)

text \<open>The one ConfigMap is read by servers of two registries when their names run together.\<close>

lemma cache_name_ambiguous:
  "cache_name ''x'' (zero_registry_ref\<lparr>rr_Name := ''a-b'', rr_ServerName := ''c''\<rparr>) =
   cache_name ''x'' (zero_registry_ref\<lparr>rr_Name := ''a'', rr_ServerName := ''b-c''\<rparr>)"
  by (simp add: cache_name_def ref_server_def)

definition cache_cm :: config_map where
  "cache_cm = \<lparr>cm_Name = ''mcpregistry-hub-fetch'', cm_Namespace = [],
     cm_Labels = Some [(''mcp.allbeone.io/registry'', ''hub''), (''mcp.allbeone.io/server'', ''fetch'')],
     cm_Annotations = None, cm_Data = None\<rparr>"

lemma watch_wakes_readers_witness:
  "fst (findMCPServersForConfigMap (sample_reconcile_env (hub_server None)) cache_cm ()) =
     map (\<lambda>s. (srv_Name s, srv_Namespace s)) (filter (uses_cache_entry ''hub'' ''fetch'') [hub_server None])"
proof -
  have n: "cm_Labels cache_cm = Some [(''mcp.allbeone.io/registry'', ''hub''), (''mcp.allbeone.io/server'', ''fetch'')]"
    "cm_Name cache_cm = ''mcpregistry-'' @ ''hub'' @ ''-'' @ ''fetch''"
    by (simp_all add: cache_cm_def)
  have l: "ka_list (rn_api (sample_reconcile_env (hub_server None))) (cm_Namespace cache_cm, []) () =
      (Inr [hub_server None], ())"
    by (simp add: sample_reconcile_env_def echo_api_def static_api_def)
  show ?thesis using watch_wakes_readers[OF n l] by simp
qed

end
