(* ===== verification/Renderer.thy ===== *)
theory Renderer
  imports ResourceBuilder Reconciler
begin

section \<open>The renderer\<close>

text \<open>
  \<open>pkg/render/renderer.go\<close>: the resources of a server, labelled and printed. The printer
  (\<open>yaml.Marshal\<close>), the hash (SHA-256) and the label accessors of unstructured objects are
  parameters; the builder is any that implements the interface.
\<close>

datatype kobject =
    KDeployment kube_deployment
  | KService kube_service
  | KConfigMap kube_configmap
  | KSecret kube_secret
  | KHPA kube_hpa
  | KNetworkPolicy kube_network_policy
  | KUnstructured unstructured

record renderer =
  rdr_builder :: resource_builder
  rdr_labels :: label_ops
  rdr_yaml :: "kobject \<Rightarrow> string + string"
  rdr_hash :: "string \<Rightarrow> string"

fun GetLabels :: "label_ops \<Rightarrow> kobject \<Rightarrow> string gomap" where
  "GetLabels lo (KDeployment d) = om_Labels (kd_Meta d)"
| "GetLabels lo (KService svc) = om_Labels (ks_Meta svc)"
| "GetLabels lo (KConfigMap c) = om_Labels (kc_Meta c)"
| "GetLabels lo (KSecret x) = om_Labels (kx_Meta x)"
| "GetLabels lo (KHPA h) = om_Labels (kh_Meta h)"
| "GetLabels lo (KNetworkPolicy p) = om_Labels (kn_Meta p)"
| "GetLabels lo (KUnstructured u) = lo_get lo u"

text \<open>
  Writing into the label map of an object and setting it. The metadata and the template of a
  deployment that a builder made hold one map (\<open>deployment_made\<close>), so both change; a map made
  because there was none is only the metadata's.
\<close>

fun SetLabels :: "label_ops \<Rightarrow> string gomap \<Rightarrow> kobject \<Rightarrow> kobject" where
  "SetLabels lo l (KDeployment d) =
     KDeployment (d\<lparr>kd_Meta := (kd_Meta d)\<lparr>om_Labels := l\<rparr>,
       kd_Template := (if om_Labels (kd_Meta d) = None then kd_Template d else (kd_Template d)\<lparr>pt_Labels := l\<rparr>)\<rparr>)"
| "SetLabels lo l (KService svc) = KService (svc\<lparr>ks_Meta := (ks_Meta svc)\<lparr>om_Labels := l\<rparr>\<rparr>)"
| "SetLabels lo l (KConfigMap c) = KConfigMap (c\<lparr>kc_Meta := (kc_Meta c)\<lparr>om_Labels := l\<rparr>\<rparr>)"
| "SetLabels lo l (KSecret x) = KSecret (x\<lparr>kx_Meta := (kx_Meta x)\<lparr>om_Labels := l\<rparr>\<rparr>)"
| "SetLabels lo l (KHPA h) = KHPA (h\<lparr>kh_Meta := (kh_Meta h)\<lparr>om_Labels := l\<rparr>\<rparr>)"
| "SetLabels lo l (KNetworkPolicy p) = KNetworkPolicy (p\<lparr>kn_Meta := (kn_Meta p)\<lparr>om_Labels := l\<rparr>\<rparr>)"
| "SetLabels lo l (KUnstructured u) = KUnstructured (lo_set lo l u)"

definition AddRequiredLabels :: "label_ops \<Rightarrow> mcp_server \<Rightarrow> kobject \<Rightarrow> kobject outcome" where
  "AddRequiredLabels lo s obj =
     (let l1 = gm_put ''mcp.allbeone.io/name'' (srv_Name s) (gm_make (GetLabels lo obj)) in
      and_then (deref (sp_Registry (srv_Spec s))) (\<lambda>r.
        let l2 = gm_put ''mcp.allbeone.io/registry'' (rr_Registry r) l1;
            l3 = gm_put ''mcp.allbeone.io/server'' (rr_ServerName r) l2
        in Returns (SetLabels lo l3 obj)))"

definition CalculateHash :: "renderer \<Rightarrow> string \<Rightarrow> string" where
  "CalculateHash R yaml = rdr_hash R yaml"

definition skip_service :: "mcp_server \<Rightarrow> bool" where
  "skip_service s \<longleftrightarrow> is_stdio s \<and> \<not> gateway_enabled s"

text \<open>Wrapping what a builder returns: an object that is always there, or a pointer that may be nil.\<close>

definition present :: "('a \<Rightarrow> kobject) \<Rightarrow> 'a outcome \<Rightarrow> kobject option outcome" where
  "present K x = and_then x (\<lambda>y. Returns (Some (K y)))"

definition possibly :: "('a \<Rightarrow> kobject) \<Rightarrow> 'a option outcome \<Rightarrow> kobject option outcome" where
  "possibly K x = and_then x (\<lambda>y. Returns (map_option K y))"

text \<open>The stages of \<open>RenderResources\<close> in their order, each with the name its error gives the object.\<close>

definition stages :: "resource_builder \<Rightarrow> mcp_server \<Rightarrow> (string \<times> kobject option outcome) list" where
  "stages B s =
     [(''deployment'', present KDeployment (rb_deployment B s)),
      (''service'', if \<not> skip_service s then present KService (rb_service B s) else Returns None),
      (''configMap'', present KConfigMap (Returns (rb_configmap B s))),
      (''secret'', possibly KSecret (Returns (rb_secret B s))),
      (''HPA'', if autoscaling_hpa s \<noteq> None then possibly KHPA (Returns (rb_hpa B s)) else Returns None),
      (''VPA'', if autoscaling_vpa s \<noteq> None then possibly KUnstructured (Returns (rb_vpa B s)) else Returns None),
      (''NetworkPolicy'', case sp_Tenancy (srv_Spec s) of
         None \<Rightarrow> Returns None
       | Some t \<Rightarrow> if ten_NetworkPolicy t \<noteq> None then possibly KNetworkPolicy (rb_network_policy B s) else Returns None),
      (''VirtualService'', possibly KUnstructured (rb_virtual_service B s)),
      (''DestinationRule'', possibly KUnstructured (Returns (rb_destination_rule B s)))]"

fun render_stages ::
  "renderer \<Rightarrow> mcp_server \<Rightarrow> (string \<times> kobject option outcome) list \<Rightarrow> (string + (kobject list \<times> string list)) outcome" where
  "render_stages R s [] = Returns (Inr ([], []))"
| "render_stages R s ((what, built) # rest) =
     and_then built (\<lambda>x.
       case x of
         None \<Rightarrow> render_stages R s rest
       | Some obj \<Rightarrow>
           and_then (AddRequiredLabels (rdr_labels R) s obj) (\<lambda>obj'.
             case rdr_yaml R obj' of
               Inl e \<Rightarrow> Returns (Inl (''failed to serialize '' @ what @ '' to YAML: '' @ e))
             | Inr doc \<Rightarrow>
                 and_then (render_stages R s rest) (\<lambda>r.
                   case r of
                     Inl e \<Rightarrow> Returns (Inl e)
                   | Inr (objs, docs) \<Rightarrow> Returns (Inr (obj' # objs, doc # docs)))))"

definition document_separator :: string where
  "document_separator = CHR 0x0A # ''---'' @ [CHR 0x0A]"

definition RenderResources :: "renderer \<Rightarrow> mcp_server \<Rightarrow> (string + (kobject list \<times> string)) outcome" where
  "RenderResources R s =
     and_then (render_stages R s (stages (rdr_builder R) s)) (\<lambda>r.
       case r of
         Inl e \<Rightarrow> Returns (Inl e)
       | Inr (objs, docs) \<Rightarrow> Returns (Inr (objs, join document_separator docs)))"

section \<open>What rendering yields\<close>

definition object_namespace :: "kobject \<Rightarrow> string" where
  "object_namespace obj =
     (case obj of
        KDeployment d \<Rightarrow> om_Namespace (kd_Meta d)
      | KService svc \<Rightarrow> om_Namespace (ks_Meta svc)
      | KConfigMap c \<Rightarrow> om_Namespace (kc_Meta c)
      | KSecret x \<Rightarrow> om_Namespace (kx_Meta x)
      | KHPA h \<Rightarrow> om_Namespace (kh_Meta h)
      | KNetworkPolicy p \<Rightarrow> om_Namespace (kn_Meta p)
      | KUnstructured u \<Rightarrow> un_Namespace u)"

definition required_labels :: "mcp_server \<Rightarrow> registry_ref \<Rightarrow> (string \<times> string) list" where
  "required_labels s r = [(''mcp.allbeone.io/name'', srv_Name s), (''mcp.allbeone.io/registry'', rr_Registry r),
     (''mcp.allbeone.io/server'', rr_ServerName r)]"

text \<open>The labels of an object after \<open>AddRequiredLabels\<close>: the required ones over those it had.\<close>

lemma label_laws_dest:
  assumes "label_laws lo"
  shows "lo_get lo (lo_set lo (Some l) u) = Some l" and "un_Labels u = StringMap m \<Longrightarrow> lo_get lo u = None"
    and "un_Namespace (lo_set lo m u) = un_Namespace u" and "un_Name (lo_set lo m u) = un_Name u"
  using assms unfolding label_laws_def by (elim conjE; simp)+

lemma get_set_labels:
  assumes "label_laws lo" and "l \<noteq> None"
  shows "GetLabels lo (SetLabels lo l obj) = l"
  using assms(2) by (cases obj; cases l) (simp_all add: label_laws_dest[OF assms(1)])

lemma set_labels_namespace:
  "label_laws lo \<Longrightarrow> object_namespace (SetLabels lo l obj) = object_namespace obj"
  by (cases obj) (simp_all add: object_namespace_def label_laws_dest)

lemma AddRequiredLabels_sets:
  assumes "AddRequiredLabels lo s obj = Returns obj'"
  obtains r l where "sp_Registry (srv_Spec s) = Some r" "l \<noteq> None" "obj' = SetLabels lo l obj"
    "\<And>k. gm_get l k = (case map_of (required_labels s r) k of Some v \<Rightarrow> Some v | None \<Rightarrow> gm_get (GetLabels lo obj) k)"
proof -
  obtain r where r: "sp_Registry (srv_Spec s) = Some r"
    using assms by (cases "sp_Registry (srv_Spec s)") (simp_all add: AddRequiredLabels_def Let_def)
  define l where "l = gm_put ''mcp.allbeone.io/server'' (rr_ServerName r)
      (gm_put ''mcp.allbeone.io/registry'' (rr_Registry r)
        (gm_put ''mcp.allbeone.io/name'' (srv_Name s) (gm_make (GetLabels lo obj))))"
  have "obj' = SetLabels lo l obj"
    using assms unfolding AddRequiredLabels_def Let_def r l_def by simp
  moreover have "l \<noteq> None" unfolding l_def by (rule gm_put_not_nil)
  moreover have "gm_get l k =
        (case map_of (required_labels s r) k of Some v \<Rightarrow> Some v | None \<Rightarrow> gm_get (GetLabels lo obj) k)" for k
    unfolding l_def required_labels_def by simp
  ultimately show thesis using r that by blast
qed

lemma AddRequiredLabels_panics_iff: "AddRequiredLabels lo s obj = Panic \<longleftrightarrow> sp_Registry (srv_Spec s) = None"
  by (cases "sp_Registry (srv_Spec s)") (simp_all add: AddRequiredLabels_def Let_def)

lemma added_labels:
  assumes "label_laws lo" and "AddRequiredLabels lo s obj = Returns obj'"
  shows "\<exists>r. sp_Registry (srv_Spec s) = Some r \<and> object_namespace obj' = object_namespace obj \<and>
     (\<forall>k. gm_get (GetLabels lo obj') k =
        (case map_of (required_labels s r) k of Some v \<Rightarrow> Some v | None \<Rightarrow> gm_get (GetLabels lo obj) k))"
proof (rule AddRequiredLabels_sets[OF assms(2)])
  fix r l
  assume "sp_Registry (srv_Spec s) = Some r" "l \<noteq> None" "obj' = SetLabels lo l obj"
    "\<And>k. gm_get l k = (case map_of (required_labels s r) k of Some v \<Rightarrow> Some v | None \<Rightarrow> gm_get (GetLabels lo obj) k)"
  then show ?thesis
    by (simp add: get_set_labels[OF assms(1)] set_labels_namespace[OF assms(1)] del: not_None_eq)
qed

lemma render_stages_Cons:
  assumes "render_stages R s ((what, built) # rest) = Returns (Inr (objs, docs))"
  shows "(built = Returns None \<and> render_stages R s rest = Returns (Inr (objs, docs))) \<or>
    (\<exists>obj obj' doc objs' docs'. built = Returns (Some obj) \<and>
       AddRequiredLabels (rdr_labels R) s obj = Returns obj' \<and> rdr_yaml R obj' = Inr doc \<and>
       render_stages R s rest = Returns (Inr (objs', docs')) \<and> objs = obj' # objs' \<and> docs = doc # docs')"
proof -
  obtain x where x: "built = Returns x" using assms by (cases built) simp_all
  show ?thesis
  proof (cases x)
    case None
    then show ?thesis using assms x by simp
  next
    case (Some obj)
    obtain obj' where o: "AddRequiredLabels (rdr_labels R) s obj = Returns obj'"
      using assms x Some by (cases "AddRequiredLabels (rdr_labels R) s obj") simp_all
    obtain doc where d: "rdr_yaml R obj' = Inr doc"
      using assms x Some o by (cases "rdr_yaml R obj'") simp_all
    obtain r where r: "render_stages R s rest = Returns r"
      using assms x Some o d by (cases "render_stages R s rest") simp_all
    obtain objs' docs' where "r = Inr (objs', docs')"
      using assms x Some o d r by (cases r) auto
    with assms x Some o d r show ?thesis by simp
  qed
qed

lemma render_stages_objects:
  assumes "render_stages R s xs = Returns (Inr (objs, docs))"
  shows "(\<forall>obj' \<in> set objs. \<exists>what obj. (what, Returns (Some obj)) \<in> set xs \<and>
       AddRequiredLabels (rdr_labels R) s obj = Returns obj') \<and> map (rdr_yaml R) objs = map Inr docs"
  using assms
proof (induction xs arbitrary: objs docs)
  case Nil
  then show ?case by simp
next
  case (Cons x xs)
  obtain what built where x: "x = (what, built)" by (cases x)
  from render_stages_Cons[OF Cons.prems[unfolded x]] show ?case
  proof (elim disjE conjE exE)
    assume "render_stages R s xs = Returns (Inr (objs, docs))"
    from Cons.IH[OF this] show ?case by fastforce
  next
    fix obj obj' doc objs' docs'
    assume step: "built = Returns (Some obj)" "AddRequiredLabels (rdr_labels R) s obj = Returns obj'"
      "rdr_yaml R obj' = Inr doc" "objs = obj' # objs'" "docs = doc # docs'"
    assume "render_stages R s xs = Returns (Inr (objs', docs'))"
    from Cons.IH[OF this] step show ?case by (fastforce simp: x)
  qed
qed

lemma render_stages_complete:
  assumes "render_stages R s xs = Returns (Inr (objs, docs))" and "(what, Returns (Some obj)) \<in> set xs"
  shows "\<exists>obj' \<in> set objs. AddRequiredLabels (rdr_labels R) s obj = Returns obj'"
  using assms
proof (induction xs arbitrary: objs docs)
  case (Cons x xs)
  obtain what1 built where x: "x = (what1, built)" by (cases x)
  from render_stages_Cons[OF Cons.prems(1)[unfolded x]] show ?case
  proof (elim disjE conjE exE)
    assume "built = Returns None" and rest: "render_stages R s xs = Returns (Inr (objs, docs))"
    then have "(what, Returns (Some obj)) \<in> set xs" using Cons.prems(2) by (auto simp: x)
    from Cons.IH[OF rest this] show ?case .
  next
    fix obj1 obj' doc objs' docs'
    assume step: "built = Returns (Some obj1)" "AddRequiredLabels (rdr_labels R) s obj1 = Returns obj'" "objs = obj' # objs'"
      and rest: "render_stages R s xs = Returns (Inr (objs', docs'))"
    show ?case
    proof (cases "(what, Returns (Some obj)) \<in> set xs")
      case True
      from Cons.IH[OF rest True] show ?thesis by (simp add: step(3))
    next
      case False
      then have "obj = obj1" using Cons.prems(2) step(1) by (auto simp: x)
      with step show ?thesis by simp
    qed
  qed
qed simp

lemma RenderResources_objects:
  assumes "RenderResources R s = Returns (Inr (objs, yaml))"
  obtains docs where "render_stages R s (stages (rdr_builder R) s) = Returns (Inr (objs, docs))"
    "yaml = join document_separator docs"
  using assms
  by (cases "render_stages R s (stages (rdr_builder R) s)") (auto simp: RenderResources_def split: sum.splits)

lemma present_Some: "present K x = Returns (Some obj) \<longleftrightarrow> (\<exists>y. x = Returns y \<and> obj = K y)"
  by (cases x) (auto simp: present_def)

lemma possibly_Some: "possibly K x = Returns (Some obj) \<longleftrightarrow> (\<exists>y. x = Returns (Some y) \<and> obj = K y)"
  by (cases x) (auto simp: possibly_def)

text \<open>Where an object of a stage comes from.\<close>

lemma stage_cases:
  assumes "(what, Returns (Some obj)) \<in> set (stages B s)"
  shows "(\<exists>d. rb_deployment B s = Returns d \<and> obj = KDeployment d) \<or>
    (\<exists>svc. rb_service B s = Returns svc \<and> obj = KService svc) \<or> obj = KConfigMap (rb_configmap B s) \<or>
    (\<exists>x. rb_secret B s = Some x \<and> obj = KSecret x) \<or> (\<exists>h. rb_hpa B s = Some h \<and> obj = KHPA h) \<or>
    (\<exists>p. rb_network_policy B s = Returns (Some p) \<and> obj = KNetworkPolicy p) \<or>
    (\<exists>u. (rb_vpa B s = Some u \<or> rb_virtual_service B s = Returns (Some u) \<or> rb_destination_rule B s = Some u) \<and>
       obj = KUnstructured u)"
  using assms
  by (auto simp: stages_def present_Some possibly_Some dest!: sym[of "Returns (Some obj)"] split: if_splits option.splits)

context resource_building begin

lemma stage_namespace:
  assumes "(what, Returns (Some obj)) \<in> set (stages B s)"
  shows "object_namespace obj = srv_Namespace s"
  using stage_cases[OF assms]
proof (elim disjE exE conjE)
  fix u
  assume "rb_vpa B s = Some u" "obj = KUnstructured u"
  then show ?thesis using vpa_made[of s] by (simp add: object_namespace_def named_after_def)
next
  fix u
  assume "rb_virtual_service B s = Returns (Some u)" "obj = KUnstructured u"
  then show ?thesis using virtual_service_made[of s "Some u"] by (simp add: object_namespace_def named_after_def)
next
  fix u
  assume "rb_destination_rule B s = Some u" "obj = KUnstructured u"
  then show ?thesis using destination_rule_made[of s] by (simp add: object_namespace_def named_after_def)
qed (use deployment_made service_made configmap_made secret_made hpa_made policy_made in
      \<open>auto simp: object_namespace_def made_for_def\<close>)

lemma rendered_object:
  assumes laws: "label_laws (rdr_labels R)" and builder: "rdr_builder R = B"
    and rendered: "RenderResources R s = Returns (Inr (objs, yaml))" and obj: "obj \<in> set objs"
  shows "\<exists>r. sp_Registry (srv_Spec s) = Some r \<and> object_namespace obj = srv_Namespace s \<and>
     (\<forall>(k, v) \<in> set (required_labels s r). gm_get (GetLabels (rdr_labels R) obj) k = Some v)"
proof -
  obtain what o0 where o0: "(what, Returns (Some o0)) \<in> set (stages B s)"
      "AddRequiredLabels (rdr_labels R) s o0 = Returns obj"
    using RenderResources_objects[OF rendered] render_stages_objects obj builder by metis
  from added_labels[OF laws o0(2)] obtain r where r: "sp_Registry (srv_Spec s) = Some r"
      "object_namespace obj = object_namespace o0"
      "\<And>k. gm_get (GetLabels (rdr_labels R) obj) k =
        (case map_of (required_labels s r) k of Some v \<Rightarrow> Some v | None \<Rightarrow> gm_get (GetLabels (rdr_labels R) o0) k)"
    by blast
  have "\<forall>(k, v) \<in> set (required_labels s r). map_of (required_labels s r) k = Some v"
    by (simp add: required_labels_def)
  with r stage_namespace[OF o0(1)] show ?thesis by (auto split: option.split)
qed

text \<open>The deployment comes first, and its template carries every label its metadata carries.\<close>

lemma rendered_deployment:
  assumes builder: "rdr_builder R = B" and rendered: "RenderResources R s = Returns (Inr (objs, yaml))"
  shows "\<exists>d rest. objs = KDeployment d # rest \<and> pt_Labels (kd_Template d) = om_Labels (kd_Meta d) \<and>
     om_Labels (kd_Meta d) \<noteq> None \<and> (\<exists>doc docs. rdr_yaml R (KDeployment d) = Inr doc \<and> yaml = join document_separator (doc # docs))"
proof -
  obtain docs where docs: "render_stages R s (stages B s) = Returns (Inr (objs, docs))" "yaml = join document_separator docs"
    using RenderResources_objects[OF rendered] builder by metis
  obtain d0 where d0: "rb_deployment B s = Returns d0"
    using docs(1) by (cases "rb_deployment B s") (simp_all add: stages_def present_def)
  have first: "present KDeployment (rb_deployment B s) = Returns (Some (KDeployment d0))"
    by (simp add: d0 present_def)
  obtain rest where st: "stages B s = (''deployment'', present KDeployment (rb_deployment B s)) # rest"
    by (simp add: stages_def)
  from render_stages_Cons[OF docs(1)[unfolded st]] first obtain obj' doc objs' docs' where step:
    "AddRequiredLabels (rdr_labels R) s (KDeployment d0) = Returns obj'" "rdr_yaml R obj' = Inr doc"
    "objs = obj' # objs'" "docs = doc # docs'"
    by auto
  have made: "pt_Labels (kd_Template d0) = om_Labels (kd_Meta d0)" "om_Labels (kd_Meta d0) \<noteq> None"
    using deployment_made[OF d0] by (simp_all add: made_for_def)
  obtain l where l: "obj' = SetLabels (rdr_labels R) l (KDeployment d0)" "l \<noteq> None"
    using AddRequiredLabels_sets[OF step(1)] by metis
  define d where "d = d0\<lparr>kd_Meta := (kd_Meta d0)\<lparr>om_Labels := l\<rparr>, kd_Template := (kd_Template d0)\<lparr>pt_Labels := l\<rparr>\<rparr>"
  have "obj' = KDeployment d" using l(1) made(2) by (simp add: d_def)
  with step docs(2) l(2) show ?thesis by (auto simp: d_def)
qed

end

section \<open>Properties of the renderer\<close>

definition built_by :: "quantity_ops \<Rightarrow> resource_builder \<Rightarrow> bool" where
  "built_by q B \<longleftrightarrow> B = default_builder q tree_labels \<or> B = simple_builder q tree_labels"

text \<open>C29 Whichever of the two builders is used: every rendered object lies in the namespace of its server and
  carries the labels that name the server, its registry and its entry there, with the values of the
  reference as written, so that the registry label is empty for a reference that uses \<open>name\<close>; the
  deployment comes first and the text is that of the objects.\<close>

theorem rendered_objects_labelled:
  assumes "built_by q (rdr_builder R)" and "label_laws (rdr_labels R)"
    and "RenderResources R s = Returns (Inr (objs, yaml))"
  shows "\<exists>r d rest. sp_Registry (srv_Spec s) = Some r \<and> objs = KDeployment d # rest \<and>
     (\<forall>obj \<in> set objs. object_namespace obj = srv_Namespace s \<and>
        (\<forall>(k, v) \<in> set (required_labels s r). gm_get (GetLabels (rdr_labels R) obj) k = Some v))"
proof -
  have each: "\<exists>r. sp_Registry (srv_Spec s) = Some r \<and> object_namespace obj = srv_Namespace s \<and>
     (\<forall>(k, v) \<in> set (required_labels s r). gm_get (GetLabels (rdr_labels R) obj) k = Some v)"
    if "obj \<in> set objs" for obj
    using assms default_rb.rendered_object[OF assms(2) _ assms(3) that] simple_rb.rendered_object[OF assms(2) _ assms(3) that]
    by (auto simp: built_by_def)
  obtain d rest where first: "objs = KDeployment d # rest"
    using assms default_rb.rendered_deployment[OF _ assms(3)] simple_rb.rendered_deployment[OF _ assms(3)]
    unfolding built_by_def by metis
  obtain r where r: "sp_Registry (srv_Spec s) = Some r"
    using each[of "KDeployment d"] by (auto simp: first)
  have "object_namespace obj = srv_Namespace s \<and>
        (\<forall>(k, v) \<in> set (required_labels s r). gm_get (GetLabels (rdr_labels R) obj) k = Some v)"
    if "obj \<in> set objs" for obj
    using each[OF that] unfolding r by simp
  with r first show ?thesis by blast
qed

lemma stages_return:
  assumes "\<forall>x \<in> set xs. snd x \<noteq> Panic" and "sp_Registry (srv_Spec s) \<noteq> None"
  shows "render_stages R s xs \<noteq> Panic"
  using assms(1)
proof (induction xs)
  case (Cons x xs)
  obtain what built where x: "x = (what, built)" by (cases x)
  obtain o1 where o1: "built = Returns o1" using Cons.prems by (cases built) (simp_all add: x)
  have rest: "render_stages R s xs \<noteq> Panic" using Cons by simp
  show ?case
  proof (cases o1)
    case None
    then show ?thesis using rest by (simp add: x o1)
  next
    case (Some obj)
    obtain obj' where "AddRequiredLabels (rdr_labels R) s obj = Returns obj'"
      using assms(2) AddRequiredLabels_panics_iff by (cases "AddRequiredLabels (rdr_labels R) s obj") auto
    then show ?thesis using rest
      by (cases "render_stages R s xs") (simp_all add: x o1 Some split: sum.split prod.split)
  qed
qed simp

lemma default_stages_return:
  assumes "BuildDeployment q s \<noteq> Panic"
  shows "\<forall>x \<in> set (stages (default_builder q lo) s). snd x \<noteq> Panic"
  using assms
  by (cases "BuildDeployment q s")
     (simp_all add: stages_def default_builder_def present_def possibly_def split: option.split)

lemma RenderResources_panics_iff:
  "RenderResources R s = Panic \<longleftrightarrow> render_stages R s (stages (rdr_builder R) s) = Panic"
  by (cases "render_stages R s (stages (rdr_builder R) s)") (simp_all add: RenderResources_def split: sum.split prod.split)

text \<open>Rendering with the default builder panics exactly when building the deployment does or when the
  server names no registry, which the labels are taken from without a look.\<close>

theorem rendering_panics_iff:
  assumes "rdr_builder R = default_builder q lo"
  shows "RenderResources R s = Panic \<longleftrightarrow> BuildDeployment q s = Panic \<or> sp_Registry (srv_Spec s) = None"
proof -
  obtain rest where st: "stages (rdr_builder R) s = (''deployment'', present KDeployment (BuildDeployment q s)) # rest"
    by (simp add: stages_def assms default_builder_def)
  have "render_stages R s (stages (rdr_builder R) s) = Panic" if "BuildDeployment q s = Panic"
    using that by (simp add: st present_def)
  moreover have "render_stages R s (stages (rdr_builder R) s) = Panic"
    if "BuildDeployment q s = Returns d" "sp_Registry (srv_Spec s) = None" for d
    using that AddRequiredLabels_panics_iff[of "rdr_labels R" s "KDeployment d"] by (simp add: st present_def)
  moreover have "render_stages R s (stages (rdr_builder R) s) \<noteq> Panic"
    if "BuildDeployment q s \<noteq> Panic" "sp_Registry (srv_Spec s) \<noteq> None"
    using stages_return[OF default_stages_return[OF that(1)] that(2)] assms by simp
  ultimately show ?thesis
    unfolding RenderResources_panics_iff
    by (cases "BuildDeployment q s"; cases "sp_Registry (srv_Spec s)") auto
qed

text \<open>Of the labels the builder puts on an Istio object none survives rendering: they are a
  \<open>map[string]string\<close>, which the accessor does not read, and are replaced by the required ones.\<close>

theorem istio_objects_lose_labels:
  assumes builder: "rdr_builder R = default_builder q tree_labels" and laws: "label_laws (rdr_labels R)"
    and rendered: "RenderResources R s = Returns (Inr (objs, yaml))"
    and u: "KUnstructured u \<in> set objs" "un_Kind u \<noteq> ''VerticalPodAutoscaler''"
  shows "\<exists>r. sp_Registry (srv_Spec s) = Some r \<and>
     (\<forall>k. gm_get (lo_get (rdr_labels R) u) k = map_of (required_labels s r) k)"
proof -
  obtain what o0 where o0: "(what, Returns (Some o0)) \<in> set (stages (rdr_builder R) s)"
      "AddRequiredLabels (rdr_labels R) s o0 = Returns (KUnstructured u)"
    using RenderResources_objects[OF rendered] render_stages_objects u(1) by metis
  obtain l where l: "KUnstructured u = SetLabels (rdr_labels R) l o0"
    using AddRequiredLabels_sets[OF o0(2)] by metis
  then obtain u0 where u0: "o0 = KUnstructured u0" by (cases o0) simp_all
  have kind: "un_Kind u0 = un_Kind u"
    using l laws by (simp add: u0 label_laws_def)
  from stage_cases[OF o0(1)] have "rb_vpa (rdr_builder R) s = Some u0 \<or>
      rb_virtual_service (rdr_builder R) s = Returns (Some u0) \<or> rb_destination_rule (rdr_builder R) s = Some u0"
    by (simp add: u0)
  then have "BuildVPA tree_labels s = Some u0 \<or> BuildVirtualService s = Some u0 \<or> BuildDestinationRule s = Some u0"
    by (simp add: builder default_builder_def)
  moreover have "BuildVPA tree_labels s \<noteq> Some u0"
    using u(2) kind by (auto simp: BuildVPA_def tree_labels_def split: option.splits)
  ultimately have "un_Labels u0 = StringMap (buildLabels s)"
    by (auto simp: BuildVirtualService_def BuildDestinationRule_def istio_object_def split: option.splits if_splits)
  then have "GetLabels (rdr_labels R) o0 = None"
    using label_laws_dest(2)[OF laws] by (simp add: u0)
  note nil = this
  obtain r where r: "sp_Registry (srv_Spec s) = Some r"
    "\<And>k. gm_get (GetLabels (rdr_labels R) (KUnstructured u)) k =
       (case map_of (required_labels s r) k of Some v \<Rightarrow> Some v | None \<Rightarrow> gm_get (GetLabels (rdr_labels R) o0) k)"
    using added_labels[OF laws o0(2)] by blast
  have "gm_get (lo_get (rdr_labels R) u) k = map_of (required_labels s r) k" for k
    using r(2)[of k] unfolding nil by (cases "map_of (required_labels s r) k") simp_all
  with r(1) show ?thesis by blast
qed

text \<open>The rendered objects as the reconciler takes them over; the rest of an object is its text.\<close>

definition object_name :: "kobject \<Rightarrow> string" where
  "object_name obj =
     (case obj of
        KDeployment d \<Rightarrow> om_Name (kd_Meta d)
      | KService svc \<Rightarrow> om_Name (ks_Meta svc)
      | KConfigMap c \<Rightarrow> om_Name (kc_Meta c)
      | KSecret x \<Rightarrow> om_Name (kx_Meta x)
      | KHPA h \<Rightarrow> om_Name (kh_Meta h)
      | KNetworkPolicy p \<Rightarrow> om_Name (kn_Meta p)
      | KUnstructured u \<Rightarrow> un_Name u)"

definition as_rendered :: "label_ops \<Rightarrow> (kobject \<Rightarrow> opaque) \<Rightarrow> kobject \<Rightarrow> rendered" where
  "as_rendered lo text obj =
     \<lparr>rd_Kind = (case obj of KUnstructured u \<Rightarrow> un_Kind u | _ \<Rightarrow> []), rd_Name = object_name obj,
      rd_Labels = GetLabels lo obj, rd_Annotations = None,
      rd_PodLabels = (case obj of KDeployment d \<Rightarrow> Some (pt_Labels (kd_Template d)) | _ \<Rightarrow> None),
      rd_PodAnnotations = (case obj of KDeployment d \<Rightarrow> Some (pt_Annotations (kd_Template d)) | _ \<Rightarrow> None),
      rd_Rest = text obj\<rparr>"

text \<open>The hash of everything rendered ends up among the labels of the pods, not of the deployment
  only: applying a server whose rendered text changed anywhere, in its configuration or its
  autoscaler, rolls all its pods.\<close>

theorem hash_reaches_pods:
  assumes "built_by q (rdr_builder R)" and "RenderResources R s = Returns (Inr (objs, yaml))"
  shows "\<exists>d l. KDeployment d \<in> set objs \<and>
     rd_PodLabels (dress s cm (CalculateHash R yaml) (as_rendered (rdr_labels R) text (KDeployment d))) = Some l \<and>
     gm_get l ''mcp.allbeone.io/hash'' = Some (CalculateHash R yaml)"
proof -
  obtain d where d: "KDeployment d \<in> set objs" "pt_Labels (kd_Template d) = om_Labels (kd_Meta d)" "om_Labels (kd_Meta d) \<noteq> None"
    using assms default_rb.rendered_deployment[OF _ assms(2)] simple_rb.rendered_deployment[OF _ assms(2)]
    unfolding built_by_def by (metis list.set_intros(1))
  have "rd_PodLabels (dress s cm h (as_rendered (rdr_labels R) text (KDeployment d))) =
      Some (resource_labels s h (om_Labels (kd_Meta d)))" for h
    using d(2,3) by (simp add: dress_def as_rendered_def)
  moreover have "gm_get (resource_labels s h m) ''mcp.allbeone.io/hash'' = Some h" for h m
    by (simp add: resource_labels_def Let_def)
  ultimately show ?thesis using d(1) by blast
qed

section \<open>A concrete renderer\<close>

definition sample_renderer :: renderer where
  "sample_renderer = \<lparr>rdr_builder = default_builder milli_ops tree_labels, rdr_labels = tree_labels,
     rdr_yaml = (\<lambda>_. Inr ''doc''), rdr_hash = (\<lambda>text. text)\<rparr>"

definition sample_registered_server :: mcp_server where
  "sample_registered_server = sample_tenant_server\<lparr>srv_Spec := (srv_Spec sample_tenant_server)\<lparr>
     sp_Registry := Some (zero_registry_ref\<lparr>rr_Name := ''hub'', rr_ServerName := ''fetch''\<rparr>)\<rparr>\<rparr>"

lemma sample_registered_facts:
  "sp_Registry (srv_Spec sample_registered_server) \<noteq> None" "sp_Runtime (srv_Spec sample_registered_server) \<noteq> None"
  "active_gateway_istio sample_registered_server \<noteq> None"
  by (simp_all add: sample_registered_server_def sample_tenant_server_def sample_gateway_server_def zero_defs
      active_gateway_istio_def)

lemma sample_renderer_built: "built_by milli_ops (rdr_builder sample_renderer)" "label_laws (rdr_labels sample_renderer)"
  "rdr_builder sample_renderer = default_builder milli_ops tree_labels" "rdr_labels sample_renderer = tree_labels"
  by (simp_all add: built_by_def sample_renderer_def tree_labels_laws)

lemma stages_print:
  assumes "\<And>obj. isl (rdr_yaml R obj) = False" and "render_stages R s xs = Returns r"
  shows "\<not> isl r"
  using assms(2)
proof (induction xs arbitrary: r)
  case (Cons x xs)
  obtain what built where x: "x = (what, built)" by (cases x)
  obtain o1 where o1: "built = Returns o1" using Cons.prems by (cases built) (simp_all add: x)
  show ?case
  proof (cases o1)
    case None
    then show ?thesis using Cons by (simp add: x o1)
  next
    case (Some obj)
    obtain obj' where o2: "AddRequiredLabels (rdr_labels R) s obj = Returns obj'"
      using Cons.prems by (cases "AddRequiredLabels (rdr_labels R) s obj") (simp_all add: x o1 Some)
    obtain doc where doc: "rdr_yaml R obj' = Inr doc" using assms(1)[of obj'] by (cases "rdr_yaml R obj'") auto
    obtain r' where r': "render_stages R s xs = Returns r'"
      using Cons.prems by (cases "render_stages R s xs") (simp_all add: x o1 o2 doc Some)
    have "\<not> isl r'" by (rule Cons.IH[OF r'])
    then show ?thesis using Cons.prems by (cases r') (auto simp: x o1 o2 doc r' Some)
  qed
qed auto

lemma sample_rendered: "\<exists>objs yaml. RenderResources sample_renderer sample_registered_server = Returns (Inr (objs, yaml))"
proof -
  let ?xs = "stages (rdr_builder sample_renderer) sample_registered_server"
  have "BuildDeployment milli_ops sample_registered_server \<noteq> Panic"
    using build_deployment_returns[OF sample_registered_facts(2), of milli_ops] by auto
  then have "render_stages sample_renderer sample_registered_server ?xs \<noteq> Panic"
    unfolding sample_renderer_built(3) by (rule stages_return[OF default_stages_return sample_registered_facts(1)])
  then obtain r where r: "render_stages sample_renderer sample_registered_server ?xs = Returns r"
    by (cases "render_stages sample_renderer sample_registered_server ?xs") simp_all
  have "\<not> isl r" by (rule stages_print[OF _ r]) (simp add: sample_renderer_def)
  then show ?thesis using r by (cases r) (auto simp: RenderResources_def)
qed

lemma rendered_objects_labelled_witness:
  "\<exists>objs yaml. RenderResources sample_renderer sample_registered_server = Returns (Inr (objs, yaml)) \<and> objs \<noteq> []"
proof -
  obtain objs yaml where r: "RenderResources sample_renderer sample_registered_server = Returns (Inr (objs, yaml))"
    using sample_rendered by blast
  from rendered_objects_labelled[OF sample_renderer_built(1,2) r] r show ?thesis by blast
qed

lemma rendering_panics_iff_witness:
  "RenderResources sample_renderer zero_server = Panic \<and> RenderResources sample_renderer sample_gateway_server = Panic"
  using rendering_panics_iff[OF sample_renderer_built(3), of zero_server]
    rendering_panics_iff[OF sample_renderer_built(3), of sample_gateway_server]
  by (simp add: zero_defs sample_gateway_server_def)

lemma hash_reaches_pods_witness:
  "\<exists>objs yaml d l. RenderResources sample_renderer sample_registered_server = Returns (Inr (objs, yaml)) \<and>
     rd_PodLabels (dress sample_registered_server ''cm'' yaml
        (as_rendered tree_labels (\<lambda>_. []) (KDeployment d))) = Some l \<and>
     gm_get l ''mcp.allbeone.io/hash'' = Some yaml"
proof -
  obtain objs yaml where r: "RenderResources sample_renderer sample_registered_server = Returns (Inr (objs, yaml))"
    using sample_rendered by blast
  have "CalculateHash sample_renderer yaml = yaml" by (simp add: CalculateHash_def sample_renderer_def)
  with hash_reaches_pods[OF sample_renderer_built(1) r, of "''cm''" "\<lambda>_. []"] r show ?thesis
    unfolding sample_renderer_built(4) by auto
qed

lemma istio_objects_lose_labels_witness:
  "\<exists>objs yaml u. RenderResources sample_renderer sample_registered_server = Returns (Inr (objs, yaml)) \<and>
     KUnstructured u \<in> set objs \<and> gm_get (lo_get tree_labels u) ''app.kubernetes.io/name'' = None"
proof -
  obtain objs yaml where r: "RenderResources sample_renderer sample_registered_server = Returns (Inr (objs, yaml))"
    using sample_rendered by blast
  obtain docs where docs: "render_stages sample_renderer sample_registered_server
      (stages (rdr_builder sample_renderer) sample_registered_server) = Returns (Inr (objs, docs))"
    using RenderResources_objects[OF r] by metis
  obtain v where v: "BuildDestinationRule sample_registered_server = Some v" "un_Kind v = ''DestinationRule''"
    using sample_registered_facts(3) by (auto simp: BuildDestinationRule_def istio_object_def split: option.split)
  have "(''DestinationRule'', Returns (Some (KUnstructured v))) \<in>
      set (stages (rdr_builder sample_renderer) sample_registered_server)"
    by (simp add: stages_def sample_renderer_built(3) default_builder_def possibly_def v(1))
  from render_stages_complete[OF docs this] obtain obj' where obj': "obj' \<in> set objs"
    "AddRequiredLabels (rdr_labels sample_renderer) sample_registered_server (KUnstructured v) = Returns obj'"
    by blast
  obtain l where "obj' = SetLabels tree_labels l (KUnstructured v)"
    using AddRequiredLabels_sets[OF obj'(2)] unfolding sample_renderer_built(4) by metis
  then obtain u where u: "obj' = KUnstructured u" "un_Kind u = ''DestinationRule''"
    using v(2) by (simp add: tree_labels_def)
  have "un_Kind u \<noteq> ''VerticalPodAutoscaler''" using u(2) by simp
  from istio_objects_lose_labels[OF sample_renderer_built(3,2) r _ this] obj'(1) u(1) obtain ref where
    "\<And>k. gm_get (lo_get tree_labels u) k = map_of (required_labels sample_registered_server ref) k"
    by (auto simp: sample_renderer_built(4))
  then have "gm_get (lo_get tree_labels u) ''app.kubernetes.io/name'' = None" by (simp add: required_labels_def)
  with r obj'(1) u(1) show ?thesis by blast
qed

end
