(* ===== verification/DeploymentService.thy ===== *)
theory DeploymentService
  imports Renderer
begin

section \<open>The deployment service\<close>

text \<open>
  \<open>pkg/services/deployment_service.go\<close>: it builds the objects of a server with a resource
  builder and stores them through the client service. There is one client per kind of object,
  since an unstructured object carries its kind; \<open>ds_own\<close> is what \<open>SetControllerReference\<close> says of
  an object (owner references are not among the modelled fields). Calling the service without a
  client makes every call fail, as the client service does.
\<close>

record 'w deployment_service =
  ds_builder :: resource_builder
  ds_own :: "mcp_server \<Rightarrow> kobject \<Rightarrow> go_error"
  ds_deployments :: "('w, kube_deployment) kube_client"
  ds_services :: "('w, kube_service) kube_client"
  ds_hpas :: "('w, kube_hpa) kube_client"
  ds_policies :: "('w, kube_network_policy) kube_client"
  ds_vpas :: "('w, unstructured) kube_client"
  ds_virtual_services :: "('w, unstructured) kube_client"
  ds_destination_rules :: "('w, unstructured) kube_client"
  ds_crds :: "('w, unstructured) kube_client"

type_synonym ('w, 'o) stored = "((api_error + 'o) \<times> 'w) outcome"

subsection \<open>Creating or updating one object\<close>

text \<open>
  The steps all six operations share: own it, look for it, create it or update it with the resource
  version it has. \<open>keep\<close> is what else is kept of the existing object.
\<close>

definition carried_version :: "('w, 'o) kube_client \<Rightarrow> 'o \<Rightarrow> 'o \<Rightarrow> 'o" where
  "carried_version kc existing obj =
     (case kc of None \<Rightarrow> obj | Some k \<Rightarrow> ka_set_version k (ka_version k existing) obj)"

definition store_object ::
  "string \<Rightarrow> ('w, 'o) kube_client \<Rightarrow> go_error \<Rightarrow> ('o \<Rightarrow> 'o \<Rightarrow> 'o) \<Rightarrow> string \<Rightarrow> string \<Rightarrow> 'o \<Rightarrow> 'w
     \<Rightarrow> (api_error + 'o) \<times> 'w" where
  "store_object what kc owned keep ns name obj w =
     (case owned of
        Some e \<Rightarrow> (Inl (OtherError (''failed to set controller reference: '' @ e)), w)
      | None \<Rightarrow>
          (case k_Get kc ns name obj w of
             (Some e, _, w1) \<Rightarrow>
               if is_not_found e then
                 (case k_Create kc obj w1 of
                    (Some e', _, w2) \<Rightarrow> (Inl (api_wrap (''failed to create '' @ what @ '': '') e'), w2)
                  | (None, created, w2) \<Rightarrow> (Inr created, w2))
               else (Inl (api_wrap (''failed to get existing '' @ what @ '': '') e), w1)
           | (None, existing, w1) \<Rightarrow>
               (case k_Update kc (keep existing (carried_version kc existing obj)) w1 of
                  (Some e', _, w2) \<Rightarrow> (Inl (api_wrap (''failed to update '' @ what @ '': '') e'), w2)
                | (None, updated, w2) \<Rightarrow> (Inr updated, w2))))"

definition CreateOrUpdateDeployment :: "'w deployment_service \<Rightarrow> mcp_server \<Rightarrow> 'w \<Rightarrow> ('w, kube_deployment) stored" where
  "CreateOrUpdateDeployment D s w =
     and_then (rb_deployment (ds_builder D) s) (\<lambda>d.
       Returns (store_object ''deployment'' (ds_deployments D) (ds_own D s (KDeployment d)) (\<lambda>existing obj. obj)
         (om_Namespace (kd_Meta d)) (om_Name (kd_Meta d)) d w))"

definition CreateOrUpdateService :: "'w deployment_service \<Rightarrow> mcp_server \<Rightarrow> 'w \<Rightarrow> ('w, kube_service) stored" where
  "CreateOrUpdateService D s w =
     and_then (rb_service (ds_builder D) s) (\<lambda>svc.
       Returns (store_object ''service'' (ds_services D) (ds_own D s (KService svc))
         (\<lambda>existing obj. obj\<lparr>ks_ClusterIP := ks_ClusterIP existing\<rparr>)
         (om_Namespace (ks_Meta svc)) (om_Name (ks_Meta svc)) svc w))"

definition CreateOrUpdateHPA :: "'w deployment_service \<Rightarrow> mcp_server \<Rightarrow> 'w \<Rightarrow> (api_error + kube_hpa) \<times> 'w" where
  "CreateOrUpdateHPA D s w =
     (case rb_hpa (ds_builder D) s of
        None \<Rightarrow> (Inl (OtherError ''HPA configuration is not available''), w)
      | Some h \<Rightarrow> store_object ''HPA'' (ds_hpas D) (ds_own D s (KHPA h)) (\<lambda>existing obj. obj)
          (om_Namespace (kh_Meta h)) (om_Name (kh_Meta h)) h w)"

definition CreateOrUpdateVPA :: "'w deployment_service \<Rightarrow> mcp_server \<Rightarrow> 'w \<Rightarrow> (api_error + unstructured) \<times> 'w" where
  "CreateOrUpdateVPA D s w =
     (case rb_vpa (ds_builder D) s of
        None \<Rightarrow> (Inl (OtherError ''VPA configuration is not available''), w)
      | Some u \<Rightarrow> store_object ''VPA'' (ds_vpas D) (ds_own D s (KUnstructured u)) (\<lambda>existing obj. obj)
          (un_Namespace u) (un_Name u) u w)"

definition CreateOrUpdateNetworkPolicy ::
  "'w deployment_service \<Rightarrow> mcp_server \<Rightarrow> 'w \<Rightarrow> ('w, kube_network_policy) stored" where
  "CreateOrUpdateNetworkPolicy D s w =
     and_then (rb_network_policy (ds_builder D) s) (\<lambda>r.
       Returns (case r of
          None \<Rightarrow> (Inl (OtherError ''NetworkPolicy configuration is not available''), w)
        | Some p \<Rightarrow> store_object ''network policy'' (ds_policies D) (ds_own D s (KNetworkPolicy p)) (\<lambda>existing obj. obj)
            (om_Namespace (kn_Meta p)) (om_Name (kn_Meta p)) p w))"

subsection \<open>Istio\<close>

definition crd_object :: "string \<Rightarrow> unstructured" where
  "crd_object name = \<lparr>un_APIVersion = ''apiextensions.k8s.io/v1'', un_Kind = ''CustomResourceDefinition'',
     un_Name = name, un_Namespace = [], un_Labels = Fields [], un_Spec = Fields []\<rparr>"

definition crd_present :: "'w deployment_service \<Rightarrow> string \<Rightarrow> string \<Rightarrow> 'w \<Rightarrow> (api_error + bool) \<times> 'w" where
  "crd_present D kind name w =
     (case k_Get (ds_crds D) [] name (crd_object name) w of
        (Some e, _, w1) \<Rightarrow>
          if is_not_found e then (Inr False, w1)
          else (Inl (api_wrap (''failed to check '' @ kind @ '' CRD: '') e), w1)
      | (None, _, w1) \<Rightarrow> (Inr True, w1))"

definition IsIstioAvailable :: "'w deployment_service \<Rightarrow> 'w \<Rightarrow> (api_error + bool) \<times> 'w" where
  "IsIstioAvailable D w =
     (case crd_present D ''VirtualService'' ''virtualservices.networking.istio.io'' w of
        (Inr True, w1) \<Rightarrow> crd_present D ''DestinationRule'' ''destinationrules.networking.istio.io'' w1
      | r \<Rightarrow> r)"

definition istio_stored ::
  "'w deployment_service \<Rightarrow> string \<Rightarrow> ('w, unstructured) kube_client \<Rightarrow> mcp_server \<Rightarrow> bool
     \<Rightarrow> unstructured option outcome \<Rightarrow> 'w \<Rightarrow> ('w, unstructured) stored" where
  "istio_stored D kind kc s configured built w =
     (if \<not> configured then
        Returns (Inl (OtherError (''istio '' @ kind @ '' configuration is not available or not enabled'')), w)
      else
        (case IsIstioAvailable D w of
           (Inl e, w1) \<Rightarrow> Returns (Inl (api_wrap ''failed to check Istio availability: '' e), w1)
         | (Inr False, w1) \<Rightarrow> Returns (Inl (OtherError ''istio CRDs are not available in the cluster''), w1)
         | (Inr True, w1) \<Rightarrow>
             and_then built (\<lambda>r. Returns (case r of
                None \<Rightarrow> (Inl (OtherError (kind @ '' configuration is not available'')), w1)
              | Some u \<Rightarrow> store_object kind kc (ds_own D s (KUnstructured u)) (\<lambda>existing obj. obj)
                  (un_Namespace u) (un_Name u) u w1))))"

definition CreateOrUpdateVirtualService :: "'w deployment_service \<Rightarrow> mcp_server \<Rightarrow> 'w \<Rightarrow> ('w, unstructured) stored" where
  "CreateOrUpdateVirtualService D s w =
     istio_stored D ''VirtualService'' (ds_virtual_services D) s
       (case istio_on s of None \<Rightarrow> False | Some i \<Rightarrow> is_VirtualService i \<noteq> None)
       (rb_virtual_service (ds_builder D) s) w"

definition CreateOrUpdateDestinationRule :: "'w deployment_service \<Rightarrow> mcp_server \<Rightarrow> 'w \<Rightarrow> ('w, unstructured) stored" where
  "CreateOrUpdateDestinationRule D s w =
     istio_stored D ''DestinationRule'' (ds_destination_rules D) s
       (case istio_on s of None \<Rightarrow> False | Some i \<Rightarrow> is_DestinationRule i \<noteq> None)
       (Returns (rb_destination_rule (ds_builder D) s)) w"

subsection \<open>Deleting\<close>

text \<open>The empty object of a kind with the name and namespace of the server: what is deleted by name.\<close>

definition server_key_meta :: "mcp_server \<Rightarrow> object_meta" where
  "server_key_meta s = built_meta (srv_Name s) (srv_Namespace s) None"

definition empty_deployment :: "mcp_server \<Rightarrow> kube_deployment" where
  "empty_deployment s = \<lparr>kd_Meta = server_key_meta s, kd_Selector = None,
     kd_Template = \<lparr>pt_Labels = None, pt_Annotations = None, pt_Spec = \<lparr>po_Containers = [],
       po_ServiceAccountName = [], po_SecurityContext = None, po_NodeSelector = None, po_Tolerations = [],
       po_Affinity = None, po_Volumes = []\<rparr>\<rparr>, kd_Strategy = NoStrategy, kd_Replicas = None\<rparr>"

definition empty_service :: "mcp_server \<Rightarrow> kube_service" where
  "empty_service s = \<lparr>ks_Meta = server_key_meta s, ks_Type = [], ks_Selector = None, ks_Ports = [], ks_ClusterIP = []\<rparr>"

definition empty_hpa :: "mcp_server \<Rightarrow> kube_hpa" where
  "empty_hpa s = \<lparr>kh_Meta = server_key_meta s, kh_ScaleTargetRef = \<lparr>cvo_Kind = [], cvo_Name = [], cvo_APIVersion = []\<rparr>,
     kh_MinReplicas = None, kh_MaxReplicas = 0, kh_Metrics = [], kh_Behavior = None\<rparr>"

definition empty_policy :: "mcp_server \<Rightarrow> kube_network_policy" where
  "empty_policy s = \<lparr>kn_Meta = server_key_meta s, kn_PodSelector = \<lparr>ls_MatchLabels = None, ls_MatchExpressions = []\<rparr>,
     kn_PolicyTypes = [], kn_Ingress = [], kn_Egress = []\<rparr>"

definition empty_unstructured :: "string \<Rightarrow> string \<Rightarrow> mcp_server \<Rightarrow> unstructured" where
  "empty_unstructured version kind s = \<lparr>un_APIVersion = version, un_Kind = kind, un_Name = srv_Name s,
     un_Namespace = srv_Namespace s, un_Labels = Fields [], un_Spec = Fields []\<rparr>"

text \<open>An error of a deletion is only logged.\<close>

definition delete_quietly :: "('w, 'o) kube_client \<Rightarrow> 'o \<Rightarrow> 'w \<Rightarrow> 'w" where
  "delete_quietly kc obj w = snd (k_Delete kc obj w)"

definition DeleteIstioResources :: "'w deployment_service \<Rightarrow> mcp_server \<Rightarrow> 'w \<Rightarrow> go_error \<times> 'w" where
  "DeleteIstioResources D s w =
     (case IsIstioAvailable D w of
        (Inl e, w1) \<Rightarrow> (None, w1)
      | (Inr False, w1) \<Rightarrow> (None, w1)
      | (Inr True, w1) \<Rightarrow>
          (let w2 = delete_quietly (ds_virtual_services D)
                 (empty_unstructured ''networking.istio.io/v1beta1'' ''VirtualService'' s) w1;
               w3 = delete_quietly (ds_destination_rules D)
                 (empty_unstructured ''networking.istio.io/v1beta1'' ''DestinationRule'' s) w2
           in (None, w3)))"

definition DeleteResources :: "'w deployment_service \<Rightarrow> mcp_server \<Rightarrow> 'w \<Rightarrow> go_error \<times> 'w" where
  "DeleteResources D s w =
     (let w1 = delete_quietly (ds_deployments D) (empty_deployment s) w;
          w2 = delete_quietly (ds_services D) (empty_service s) w1;
          w3 = delete_quietly (ds_hpas D) (empty_hpa s) w2;
          w4 = delete_quietly (ds_policies D) (empty_policy s) w3;
          w5 = delete_quietly (ds_vpas D) (empty_unstructured ''autoscaling.k8s.io/v1'' ''VerticalPodAutoscaler'' s) w4;
          w6 = snd (DeleteIstioResources D s w5)
      in (None, w6))"

definition GetDeploymentStatus ::
  "'w deployment_service \<Rightarrow> mcp_server \<Rightarrow> 'w \<Rightarrow> (api_error + kube_deployment) \<times> 'w" where
  "GetDeploymentStatus D s w =
     (case k_Get (ds_deployments D) (srv_Namespace s) (srv_Name s) (empty_deployment s) w of
        (Some e, _, w1) \<Rightarrow> (Inl (api_wrap ''failed to get deployment status: '' e), w1)
      | (None, d, w1) \<Rightarrow> (Inr d, w1))"

section \<open>Storing\<close>

text \<open>What is kept of the existing object is none of what the server identifies it by.\<close>

definition keeps_key :: "('w, 'o) kube_api \<Rightarrow> ('o \<Rightarrow> 'o \<Rightarrow> 'o) \<Rightarrow> bool" where
  "keeps_key k keep \<longleftrightarrow> (\<forall>old obj. ka_name k (keep old obj) = ka_name k obj \<and>
     ka_namespace k (keep old obj) = ka_namespace k obj \<and> ka_version k (keep old obj) = ka_version k obj)"

lemma store_object_stores:
  assumes laws: "api_reads k look" "api_creates k look" "api_updates k look" "version_laws k"
    and keep: "keeps_key k keep" and key: "ns = ka_namespace k obj" "name = ka_name k obj"
  shows "\<exists>stored w'. store_object what (Some k) None keep ns name obj w = (Inr stored, w') \<and>
           look w' = (look w)((ns, name) \<mapsto> stored)"
proof (cases "look w (ns, name)")
  case None
  with create_free[OF laws(2), of w obj] k_Get_reads[OF laws(1), of ns name obj w] key show ?thesis
    by (auto simp: store_object_def)
next
  case (Some cur)
  let ?obj = "keep cur (ka_set_version k (ka_version k cur) obj)"
  have obj: "ka_name k ?obj = name" "ka_namespace k ?obj = ns" "ka_version k ?obj = ka_version k cur"
    using keep laws(4) key by (simp_all add: keeps_key_def version_laws_def)
  have "\<exists>stored w'. k_Update (Some k) ?obj w = (None, stored, w') \<and> look w' = (look w)((ns, name) \<mapsto> stored)"
    using update_current[OF laws(3), of w ?obj cur] Some by (simp add: obj)
  with k_Get_reads[OF laws(1), of ns name obj w] Some show ?thesis
    by (auto simp: store_object_def carried_version_def)
qed

text \<open>On a server that keeps its documented behaviour the deployment of every server that has a runtime is
  stored, under the server's own key, whether there was one before or not and whichever builder
  made it; nothing else changes.\<close>

theorem deployment_stored:
  assumes builder: "built_by q (ds_builder D)" and client: "ds_deployments D = Some k"
    and laws: "api_reads k look" "api_creates k look" "api_updates k look" "version_laws k"
    and key: "\<And>d. ka_name k d = om_Name (kd_Meta d)" "\<And>d. ka_namespace k d = om_Namespace (kd_Meta d)"
    and own: "\<And>d. ds_own D s (KDeployment d) = None" and runtime: "sp_Runtime (srv_Spec s) \<noteq> None"
  shows "\<exists>stored w'. CreateOrUpdateDeployment D s w = Returns (Inr stored, w') \<and>
           look w' = (look w)((srv_Namespace s, srv_Name s) \<mapsto> stored)"
proof -
  obtain d where d: "rb_deployment (ds_builder D) s = Returns d"
    using builder default_rb.needs_runtime[OF runtime, of q] simple_rb.needs_runtime[OF runtime, of q]
    by (cases "rb_deployment (ds_builder D) s") (auto simp: built_by_def)
  have "made_for s (srv_Name s) (kd_Meta d)"
    using builder d default_rb.deployment_made[of q s d] simple_rb.deployment_made[of q s d]
    by (auto simp: built_by_def)
  then have at: "srv_Namespace s = ka_namespace k d" "srv_Name s = ka_name k d"
    by (simp_all add: made_for_def key)
  have "keeps_key k (\<lambda>existing obj. obj)" by (simp add: keeps_key_def)
  from store_object_stores[OF laws this at, of "''deployment''" w] show ?thesis
    by (simp add: CreateOrUpdateDeployment_def d client own key[symmetric] at)
qed

section \<open>Deleting\<close>

text \<open>What a client's reads and deletions leave alone.\<close>

definition leaves :: "('w \<Rightarrow> 'x) \<Rightarrow> ('w, 'o) kube_client \<Rightarrow> bool" where
  "leaves look kc \<longleftrightarrow> (\<forall>obj w. look (snd (k_Delete kc obj w)) = look w) \<and>
     (\<forall>ns n obj w. look (snd (snd (k_Get kc ns n obj w))) = look w)"

lemma leaves_delete: "leaves look kc \<Longrightarrow> look (delete_quietly kc obj w) = look w"
  by (simp add: leaves_def delete_quietly_def)

lemma leaves_crd:
  assumes "leaves look (ds_crds D)" and "crd_present D kind name w = (r, w')"
  shows "look w' = look w"
proof -
  obtain e x w1 where g: "k_Get (ds_crds D) [] name (crd_object name) w = (e, x, w1)" by (cases "k_Get (ds_crds D) [] name (crd_object name) w")
  have "look w1 = look w"
    using assms(1) g unfolding leaves_def by (metis snd_conv)
  then show ?thesis using assms(2) g by (auto simp: crd_present_def split: option.splits if_splits)
qed

lemma leaves_istio_check:
  assumes "leaves look (ds_crds D)" and "IsIstioAvailable D w = (r, w')"
  shows "look w' = look w"
proof -
  obtain r1 w1 where one: "crd_present D ''VirtualService'' ''virtualservices.networking.istio.io'' w = (r1, w1)"
    by fastforce
  obtain r2 w2 where two: "crd_present D ''DestinationRule'' ''destinationrules.networking.istio.io'' w1 = (r2, w2)"
    by fastforce
  have "w' = w1 \<or> w' = w2"
    using assms(2) one two by (auto simp: IsIstioAvailable_def split: sum.splits bool.splits)
  then show ?thesis
    using leaves_crd[OF assms(1) one] leaves_crd[OF assms(1) two] by auto
qed

lemma leaves_istio:
  assumes "leaves look (ds_crds D)" "leaves look (ds_virtual_services D)" "leaves look (ds_destination_rules D)"
  shows "look (snd (DeleteIstioResources D s w)) = look w"
proof -
  obtain r w1 where c: "IsIstioAvailable D w = (r, w1)" by fastforce
  have "look w1 = look w" by (rule leaves_istio_check[OF assms(1) c])
  then show ?thesis
    using c assms(2,3) by (auto simp: DeleteIstioResources_def Let_def leaves_delete split: sum.split bool.split)
qed

lemma deleted_policies:
  assumes client: "ds_policies D = Some k" and deletes: "api_deletes k look"
    and key: "\<And>p. ka_name k p = om_Name (kn_Meta p)" "\<And>p. ka_namespace k p = om_Namespace (kn_Meta p)"
    and others: "leaves look (ds_deployments D)" "leaves look (ds_services D)" "leaves look (ds_hpas D)"
      "leaves look (ds_vpas D)" "leaves look (ds_crds D)" "leaves look (ds_virtual_services D)"
      "leaves look (ds_destination_rules D)"
  shows "look (snd (DeleteResources D s w)) = (look w)((srv_Namespace s, srv_Name s) := None)"
proof -
  have "look (delete_quietly (Some k) (empty_policy s) u) = (look u)((srv_Namespace s, srv_Name s) := None)" for u
  proof -
    have at: "ka_name k (empty_policy s) = srv_Name s" "ka_namespace k (empty_policy s) = srv_Namespace s"
      by (simp_all add: key empty_policy_def server_key_meta_def)
    show ?thesis
      using deletes[unfolded api_deletes_def, rule_format, of "empty_policy s" u]
      by (auto simp: Let_def at delete_quietly_def k_Delete_def fun_upd_idem split: if_splits)
  qed
  then show ?thesis
    by (simp add: DeleteResources_def Let_def client leaves_istio[OF others(5-7)] others leaves_delete)
qed

text \<open>Deleting the resources of a server misses its network policy: it is looked for under the server's
  name, while both builders name it otherwise, and stays as it was.\<close>

theorem deletion_misses_policy:
  assumes built: "rb_network_policy (ds_builder D) s = Returns (Some p)" and other: "om_Name (kn_Meta p) \<noteq> srv_Name s"
    and stored: "look w (srv_Namespace s, om_Name (kn_Meta p)) = Some p'"
    and client: "ds_policies D = Some k" and deletes: "api_deletes k look"
    and key: "\<And>p. ka_name k p = om_Name (kn_Meta p)" "\<And>p. ka_namespace k p = om_Namespace (kn_Meta p)"
    and others: "leaves look (ds_deployments D)" "leaves look (ds_services D)" "leaves look (ds_hpas D)"
      "leaves look (ds_vpas D)" "leaves look (ds_crds D)" "leaves look (ds_virtual_services D)"
      "leaves look (ds_destination_rules D)"
  shows "look (snd (DeleteResources D s w)) (srv_Namespace s, om_Name (kn_Meta p)) = Some p'"
  using deleted_policies[OF client deletes key others, of s w] stored other by simp

text \<open>The names the builders give: never the server's own with the simple one.\<close>

lemma policy_names:
  "simple_BuildNetworkPolicy s = Returns (Some p) \<Longrightarrow> om_Name (kn_Meta p) \<noteq> srv_Name s"
  "BuildNetworkPolicy s = Some p \<Longrightarrow> \<exists>t. sp_Tenancy (srv_Spec s) = Some t \<and> om_Name (kn_Meta p) = ''mcp-tenant-'' @ ten_TenantID t"
proof -
  assume p: "simple_BuildNetworkPolicy s = Returns (Some p)"
  then have "om_Name (kn_Meta p) = srv_Name s @ ''-network-policy''"
    by (cases "sp_Runtime (srv_Spec s)") (auto simp: simple_BuildNetworkPolicy_def split: option.splits)
  then show "om_Name (kn_Meta p) \<noteq> srv_Name s" by simp
qed (auto simp: BuildNetworkPolicy_def split: option.splits if_splits)

text \<open>The finalizer does not hold a server whose resources could not be deleted: the service reports no
  error whatever happens, so that, with it behind the reconciler, a deletion is only held up by the
  update that removes the finalizer itself.\<close>

theorem failed_cleanup_releases_finalizer:
  assumes env: "server_store env look" and service: "rn_delete env = DeleteResources D"
    and updates: "\<And>s w. \<not> isl (fst (ka_update (rn_api env) s w))"
  shows "\<exists>s' w'. handleDeletion env s w = Returns ((None, False), w') \<and>
     look w' = (look w)((srv_Namespace s, srv_Name s) \<mapsto> s') \<and>
     om_Finalizers (srv_Meta s') = removeAll MCPServerFinalizer (om_Finalizers (srv_Meta s))"
proof (rule handleDeletion_outcome[OF env, of s w])
  fix r s1 w2 w3
  assume r: "rn_delete env s1 w2 = (r, w3)" and fails: "\<And>e. r = Some e \<Longrightarrow>
      \<exists>w'. handleDeletion env s w = Returns ((Some e, False), w') \<and> look w' = look w"
  assume ends: "r = None \<Longrightarrow> (\<exists>err w4 w'. ka_update (rn_api env)
        (with_finalizers (filter (\<lambda>f. f \<noteq> MCPServerFinalizer) (om_Finalizers (srv_Meta s1))) s1) w3 = (Inl err, w4) \<and>
        handleDeletion env s w = Returns ((Some (api_msg err), False), w') \<and> look w' = look w) \<or>
     (\<exists>s' w'. handleDeletion env s w = Returns ((None, False), w') \<and>
        look w' = (look w)((srv_Namespace s, srv_Name s) \<mapsto> s') \<and>
        om_Finalizers (srv_Meta s') = removeAll MCPServerFinalizer (om_Finalizers (srv_Meta s)))"
  have "r = None" using r by (simp add: service DeleteResources_def Let_def)
  from ends[OF this] show ?thesis
  proof (elim disjE exE conjE)
    fix err w4
    assume "ka_update (rn_api env)
        (with_finalizers (filter (\<lambda>f. f \<noteq> MCPServerFinalizer) (om_Finalizers (srv_Meta s1))) s1) w3 = (Inl err, w4)"
    then show ?thesis using updates by (metis fst_conv sum.disc(1))
  qed blast
qed

text \<open>With the default builder a virtual service is only stored for a server that asks for Istio twice.\<close>

lemma default_virtual_service_needs_both:
  assumes "ds_builder D = default_builder q lo" and "CreateOrUpdateVirtualService D s w = Returns (Inr v, w')"
  shows "istio_on s \<noteq> None \<and> active_gateway_istio s \<noteq> None"
  using assms
  by (auto simp: CreateOrUpdateVirtualService_def istio_stored_def default_builder_def BuildVirtualService_def
      split: option.splits prod.splits sum.splits bool.splits if_splits)

section \<open>A concrete cluster\<close>

text \<open>The clients of the other kinds are not initialised.\<close>

definition deployment_api :: "(string \<times> string \<Rightarrow> kube_deployment option, kube_deployment) kube_api" where
  "deployment_api = meta_api kd_Meta (\<lambda>v d. d\<lparr>kd_Meta := (kd_Meta d)\<lparr>om_UID := v\<rparr>\<rparr>)"

definition policy_api :: "(string \<times> string \<Rightarrow> kube_network_policy option, kube_network_policy) kube_api" where
  "policy_api = meta_api kn_Meta (\<lambda>v p. p\<lparr>kn_Meta := (kn_Meta p)\<lparr>om_UID := v\<rparr>\<rparr>)"

lemma policy_api_deletes: "api_deletes policy_api (\<lambda>w. w)"
  unfolding policy_api_def by (rule meta_api_laws(4))

lemma deployment_api_laws: "api_reads deployment_api (\<lambda>w. w)" "api_creates deployment_api (\<lambda>w. w)"
  "api_updates deployment_api (\<lambda>w. w)"
  unfolding deployment_api_def by (rule meta_api_laws(1-3))+

definition sample_deployments :: "(string \<times> string \<Rightarrow> kube_deployment option) deployment_service" where
  "sample_deployments = \<lparr>ds_builder = default_builder milli_ops tree_labels, ds_own = (\<lambda>_ _. None),
     ds_deployments = Some deployment_api, ds_services = None, ds_hpas = None, ds_policies = None, ds_vpas = None,
     ds_virtual_services = None, ds_destination_rules = None, ds_crds = None\<rparr>"

definition sample_policies :: "(string \<times> string \<Rightarrow> kube_network_policy option) deployment_service" where
  "sample_policies = \<lparr>ds_builder = default_builder milli_ops tree_labels, ds_own = (\<lambda>_ _. None),
     ds_deployments = None, ds_services = None, ds_hpas = None, ds_policies = Some policy_api, ds_vpas = None,
     ds_virtual_services = None, ds_destination_rules = None, ds_crds = None\<rparr>"

lemma uninitialised_leaves: "leaves look None"
  by (simp add: leaves_def)

lemma deployment_stored_witness:
  "\<exists>d w. CreateOrUpdateDeployment sample_deployments sample_tenant_server Map.empty = Returns (Inr d, w) \<and>
     w (srv_Namespace sample_tenant_server, srv_Name sample_tenant_server) = Some d"
proof -
  have "version_laws deployment_api" by (simp add: version_laws_def deployment_api_def meta_api_def)
  moreover have "ka_name deployment_api d = om_Name (kd_Meta d)" "ka_namespace deployment_api d = om_Namespace (kd_Meta d)" for d
    by (simp_all add: deployment_api_def meta_api_def)
  moreover have "built_by milli_ops (ds_builder sample_deployments)" "ds_deployments sample_deployments = Some deployment_api"
    "ds_own sample_deployments s x = None" for s x
    by (simp_all add: sample_deployments_def built_by_def)
  ultimately obtain d w where "CreateOrUpdateDeployment sample_deployments sample_tenant_server Map.empty = Returns (Inr d, w)"
      "w = Map.empty((srv_Namespace sample_tenant_server, srv_Name sample_tenant_server) \<mapsto> d)"
    using deployment_stored[of milli_ops sample_deployments deployment_api "\<lambda>w. w" sample_tenant_server Map.empty]
      deployment_api_laws sample_tenant_facts(1)
    by blast
  then show ?thesis by auto
qed

lemma deletion_misses_policy_witness:
  "\<exists>p. BuildNetworkPolicy sample_tenant_server = Some p \<and>
     snd (DeleteResources sample_policies sample_tenant_server
       (Map.empty((srv_Namespace sample_tenant_server, om_Name (kn_Meta p)) \<mapsto> p)))
       (srv_Namespace sample_tenant_server, om_Name (kn_Meta p)) = Some p"
proof -
  obtain p where p: "BuildNetworkPolicy sample_tenant_server = Some p" using sample_tenant_facts(3) by blast
  have rb: "rb_network_policy (ds_builder sample_policies) sample_tenant_server = Returns (Some p)"
    by (simp add: sample_policies_def default_builder_def p)
  have name: "om_Name (kn_Meta p) \<noteq> srv_Name sample_tenant_server"
    using policy_names(2)[OF p] by (auto simp: sample_tenant_server_def sample_gateway_server_def zero_defs)
  have client: "ds_policies sample_policies = Some policy_api" by (simp add: sample_policies_def)
  have key: "ka_name policy_api x = om_Name (kn_Meta x)" "ka_namespace policy_api x = om_Namespace (kn_Meta x)" for x
    by (simp_all add: policy_api_def meta_api_def)
  have none: "ds_deployments sample_policies = None" "ds_services sample_policies = None" "ds_hpas sample_policies = None"
    "ds_vpas sample_policies = None" "ds_crds sample_policies = None" "ds_virtual_services sample_policies = None"
    "ds_destination_rules sample_policies = None"
    by (simp_all add: sample_policies_def)
  have "snd (DeleteResources sample_policies sample_tenant_server
       (Map.empty((srv_Namespace sample_tenant_server, om_Name (kn_Meta p)) \<mapsto> p)))
       (srv_Namespace sample_tenant_server, om_Name (kn_Meta p)) = Some p"
    using deletion_misses_policy[where look = "\<lambda>w. w" and k = policy_api, OF rb name]
    by (simp add: client policy_api_deletes key none uninitialised_leaves)
  with p show ?thesis by blast
qed

definition releasing_env :: "(string \<times> string \<Rightarrow> mcp_server option, unit) reconcile_env" where
  "releasing_env = storing_env\<lparr>rn_delete := DeleteResources
     \<lparr>ds_builder = default_builder milli_ops tree_labels, ds_own = (\<lambda>_ _. None),
      ds_deployments = None, ds_services = None, ds_hpas = None, ds_policies = None, ds_vpas = None,
      ds_virtual_services = None, ds_destination_rules = None, ds_crds = None\<rparr>\<rparr>"

text \<open>Here every deletion fails, for want of a client.\<close>

lemma failed_cleanup_releases_finalizer_witness:
  "\<exists>s' w'. handleDeletion releasing_env (with_finalizers [MCPServerFinalizer] zero_server) Map.empty =
       Returns ((None, False), w') \<and>
     w' (srv_Namespace zero_server, srv_Name zero_server) = Some s' \<and> om_Finalizers (srv_Meta s') = []"
proof -
  let ?s = "with_finalizers [MCPServerFinalizer] zero_server"
  let ?D = "\<lparr>ds_builder = default_builder milli_ops tree_labels, ds_own = (\<lambda>_ _. None),
      ds_deployments = None, ds_services = None, ds_hpas = None, ds_policies = None, ds_vpas = None,
      ds_virtual_services = None, ds_destination_rules = None, ds_crds = None\<rparr>
      :: (string \<times> string \<Rightarrow> mcp_server option) deployment_service"
  have "snd (DeleteResources ?D s w) = w" for s w
    by (simp add: DeleteResources_def DeleteIstioResources_def IsIstioAvailable_def crd_present_def
        delete_quietly_def not_initialized_def Let_def)
  then have deletes: "DeleteResources ?D s w = (None, w)" for s w
    by (simp add: DeleteResources_def Let_def)
  have store: "server_store releasing_env (\<lambda>w. w)"
    by (simp add: server_store_def releasing_env_def storing_env_def sample_reconcile_env_def deletes)
  have updates: "\<not> isl (fst (ka_update (rn_api releasing_env) s w))" for s w
    by (simp add: releasing_env_def storing_env_def sample_reconcile_env_def)
  have service: "rn_delete releasing_env = DeleteResources ?D" by (simp add: releasing_env_def)
  from failed_cleanup_releases_finalizer[OF store service updates, of ?s Map.empty] show ?thesis
    by (auto simp: with_finalizers_def)
qed

end
