(* ===== verification/IstioController.thy ===== *)
theory IstioController
  imports DeploymentService
begin

section \<open>The Istio controller\<close>

text \<open>
  \<open>controllers/istio/controller.go\<close>: the virtual service and destination rule of a server, written
  with the Kubernetes client directly. The reconciler calls it after applying the rendered
  resources and before deleting a server. \<open>ic_own\<close> is what \<open>SetControllerReference\<close> says.
\<close>

record 'w istio_controller =
  ic_virtual_services :: "('w, unstructured) kube_api"
  ic_destination_rules :: "('w, unstructured) kube_api"
  ic_own :: "mcp_server \<Rightarrow> unstructured \<Rightarrow> go_error"

definition isIstioEnabled :: "mcp_server \<Rightarrow> bool" where
  "isIstioEnabled s =
     (case gateway_istio s of
        Some gi \<Rightarrow> gi_Enabled gi
      | None \<Rightarrow> (case sp_Istio (srv_Spec s) of Some i \<Rightarrow> is_Enabled i | None \<Rightarrow> False))"

text \<open>Any error of the probe but one that says the kind is unknown counts as the kind being known.\<close>

definition isIstioCRDsAvailable :: "'w istio_controller \<Rightarrow> 'w \<Rightarrow> (go_error \<times> bool) \<times> 'w" where
  "isIstioCRDsAvailable C w =
     (case ka_get (ic_virtual_services C) ''dummy'' ''dummy'' w of
        (Inl e, w1) \<Rightarrow> ((None, \<not> str_contains (api_msg e) ''no matches for kind''), w1)
      | (Inr _, w1) \<Rightarrow> ((None, True), w1))"

definition getIstioConfig :: "mcp_server \<Rightarrow> gateway_istio_spec" where
  "getIstioConfig s =
     (case gateway_istio s of Some gi \<Rightarrow> gi | None \<Rightarrow> \<lparr>gi_Enabled = False, gi_Host = [], gi_GatewayRef = []\<rparr>)"

definition getGatewayRef :: "gateway_istio_spec \<Rightarrow> string" where
  "getGatewayRef gi = (if gi_GatewayRef gi \<noteq> [] then gi_GatewayRef gi else ''default'')"

definition getPathPrefix :: "mcp_server \<Rightarrow> string" where
  "getPathPrefix s =
     (case sp_Transport (srv_Spec s) of
        None \<Rightarrow> ''/mcp''
      | Some t \<Rightarrow> if tr_Path t \<noteq> [] then tr_Path t else ''/mcp'')"

definition controller_object :: "string \<Rightarrow> mcp_server \<Rightarrow> tree \<Rightarrow> unstructured" where
  "controller_object kind s spec = \<lparr>un_APIVersion = ''networking.istio.io/v1beta1'', un_Kind = kind,
     un_Name = srv_Name s, un_Namespace = srv_Namespace s,
     un_Labels = Fields [(''app.kubernetes.io/name'', Text ''mcp-server''), (''app.kubernetes.io/instance'', Text (srv_Name s)),
       (''app.kubernetes.io/managed-by'', Text ''mcp-operator'')],
     un_Spec = spec\<rparr>"

text \<open>Create the object, or give the existing one its specification; a failing write is not wrapped.\<close>

definition write_object ::
  "string \<Rightarrow> ('w, unstructured) kube_api \<Rightarrow> go_error \<Rightarrow> unstructured \<Rightarrow> 'w \<Rightarrow> go_error \<times> 'w" where
  "write_object kind k owned obj w =
     (case owned of
        Some e \<Rightarrow> (Some (''failed to set controller reference: '' @ e), w)
      | None \<Rightarrow>
          (case ka_get k (un_Namespace obj) (un_Name obj) w of
             (Inl e, w1) \<Rightarrow>
               if is_not_found e then
                 (case ka_create k obj w1 of (Inl e', w2) \<Rightarrow> (Some (api_msg e'), w2) | (Inr _, w2) \<Rightarrow> (None, w2))
               else (Some (''failed to get existing '' @ kind @ '': '' @ api_msg e), w1)
           | (Inr existing, w1) \<Rightarrow>
               (case ka_update k (existing\<lparr>un_Spec := un_Spec obj\<rparr>) w1 of
                  (Inl e', w2) \<Rightarrow> (Some (api_msg e'), w2)
                | (Inr _, w2) \<Rightarrow> (None, w2))))"

definition reconcileVirtualService ::
  "'w istio_controller \<Rightarrow> mcp_server \<Rightarrow> string \<Rightarrow> int \<Rightarrow> 'w \<Rightarrow> go_error \<times> 'w" where
  "reconcileVirtualService C s serviceName servicePort w =
     (let gi = getIstioConfig s in
      if gi_Host gi = [] then (None, w)
      else (let vs = controller_object ''VirtualService'' s
                   (route_tree (gi_Host gi) (getGatewayRef gi) (getPathPrefix s) serviceName servicePort)
            in write_object ''VirtualService'' (ic_virtual_services C) (ic_own C s vs) vs w))"

definition subset_tree :: "mcp_server \<Rightarrow> string \<Rightarrow> tree" where
  "subset_tree s serviceName = Fields [
     (''host'', Text serviceName),
     (''subsets'', Items [Fields [(''name'', Text ''default''),
        (''labels'', Fields [(''app.kubernetes.io/name'', Text ''mcp-server''),
           (''app.kubernetes.io/instance'', Text (srv_Name s))])]])]"

definition reconcileDestinationRule ::
  "'w istio_controller \<Rightarrow> mcp_server \<Rightarrow> string \<Rightarrow> 'w \<Rightarrow> go_error \<times> 'w" where
  "reconcileDestinationRule C s serviceName w =
     (if (case sp_Istio (srv_Spec s) of None \<Rightarrow> True | Some i \<Rightarrow> is_DestinationRule i = None) then (None, w)
      else (let dr = controller_object ''DestinationRule'' s (subset_tree s serviceName)
            in write_object ''DestinationRule'' (ic_destination_rules C) (ic_own C s dr) dr w))"

definition ReconcileIstioResources ::
  "'w istio_controller \<Rightarrow> mcp_server \<Rightarrow> string \<Rightarrow> int \<Rightarrow> 'w \<Rightarrow> go_error \<times> 'w" where
  "ReconcileIstioResources C s serviceName servicePort w =
     (if \<not> isIstioEnabled s then (None, w)
      else
        (case isIstioCRDsAvailable C w of
           ((Some e, _), w1) \<Rightarrow> (Some (''failed to check Istio CRDs availability: '' @ e), w1)
         | ((None, False), w1) \<Rightarrow> (None, w1)
         | ((None, True), w1) \<Rightarrow>
             (case reconcileVirtualService C s serviceName servicePort w1 of
                (Some e, w2) \<Rightarrow> (Some (''failed to reconcile VirtualService: '' @ e), w2)
              | (None, w2) \<Rightarrow>
                  (case reconcileDestinationRule C s serviceName w2 of
                     (Some e, w3) \<Rightarrow> (Some (''failed to reconcile DestinationRule: '' @ e), w3)
                   | (None, w3) \<Rightarrow> (None, w3)))))"

definition CleanupIstioResources :: "'w istio_controller \<Rightarrow> mcp_server \<Rightarrow> 'w \<Rightarrow> go_error \<times> 'w" where
  "CleanupIstioResources C s w =
     (case ka_delete (ic_virtual_services C) (empty_unstructured ''networking.istio.io/v1beta1'' ''VirtualService'' s) w of
        (r, w1) \<Rightarrow>
          (case (case r of None \<Rightarrow> None | Some e \<Rightarrow> if is_not_found e then None else Some e) of
             Some e \<Rightarrow> (Some (''failed to delete VirtualService: '' @ api_msg e), w1)
           | None \<Rightarrow>
               (case ka_delete (ic_destination_rules C)
                       (empty_unstructured ''networking.istio.io/v1beta1'' ''DestinationRule'' s) w1 of
                  (r', w2) \<Rightarrow>
                    (case (case r' of None \<Rightarrow> None | Some e \<Rightarrow> if is_not_found e then None else Some e) of
                       Some e \<Rightarrow> (Some (''failed to delete DestinationRule: '' @ api_msg e), w2)
                     | None \<Rightarrow> (None, w2)))))"

text \<open>The controller as the reconciler calls it.\<close>

definition istio_ops_of :: "'w istio_controller \<Rightarrow> 'w istio_ops" where
  "istio_ops_of C = \<lparr>io_Reconcile = ReconcileIstioResources C, io_Cleanup = CleanupIstioResources C\<rparr>"

section \<open>What it writes\<close>

text \<open>The same test decides on the annotation of the pods and on the objects.\<close>

lemma enabled_iff_annotated: "isIstioEnabled s = isIstioAnnotationsEnabled s"
  by (simp add: isIstioEnabled_def isIstioAnnotationsEnabled_def)

text \<open>A server that asks for Istio in \<open>spec.istio\<close> alone gets the sidecar and no virtual service.\<close>

lemma spec_istio_writes_no_virtual_service:
  assumes "gateway_istio s = None"
  shows "reconcileVirtualService C s serviceName servicePort w = (None, w)"
  using assms by (simp add: reconcileVirtualService_def getIstioConfig_def)

text \<open>Checking for the kinds never fails: the branch that reports it is dead.\<close>

lemma crd_check_never_fails: "fst (fst (isIstioCRDsAvailable C w)) = None"
  by (simp add: isIstioCRDsAvailable_def split: sum.split prod.split)

definition spec_laws :: "('w, unstructured) kube_api \<Rightarrow> ('w \<Rightarrow> string \<times> string \<Rightarrow> unstructured option) \<Rightarrow> bool" where
  "spec_laws k look \<longleftrightarrow> api_reads k look \<and>
     (\<forall>obj. ka_name k obj = un_Name obj \<and> ka_namespace k obj = un_Namespace obj) \<and>
     (\<forall>obj w. look w (un_Namespace obj, un_Name obj) = None \<longrightarrow>
        (\<exists>x w'. ka_create k obj w = (Inr x, w') \<and> un_Spec x = un_Spec obj \<and>
           look w' = (look w)((un_Namespace obj, un_Name obj) \<mapsto> x))) \<and>
     (\<forall>obj w cur. look w (un_Namespace obj, un_Name obj) = Some cur \<longrightarrow> ka_version k obj = ka_version k cur \<longrightarrow>
        (\<exists>x w'. ka_update k obj w = (Inr x, w') \<and> un_Spec x = un_Spec obj \<and>
           look w' = (look w)((un_Namespace obj, un_Name obj) \<mapsto> x))) \<and>
     (\<forall>w key x. look w key = Some x \<longrightarrow> (un_Namespace x, un_Name x) = key) \<and>
     (\<forall>x t. ka_version k (x\<lparr>un_Spec := t\<rparr>) = ka_version k x)"

text \<open>Whatever was there before, afterwards the specification under the key is the one asked for.\<close>

lemma write_object_writes:
  assumes laws: "spec_laws k look"
  shows "\<exists>x w'. write_object kind k None obj w = (None, w') \<and> un_Spec x = un_Spec obj \<and>
     look w' = (look w)((un_Namespace obj, un_Name obj) \<mapsto> x)"
proof (cases "look w (un_Namespace obj, un_Name obj)")
  case None
  note reads = laws[unfolded spec_laws_def, THEN conjunct1, unfolded api_reads_def, rule_format,
      of "un_Namespace obj" "un_Name obj" w]
  obtain m where m: "ka_get k (un_Namespace obj) (un_Name obj) w = (Inl (NotFound m), w)"
    using reads None by auto
  obtain x w' where "ka_create k obj w = (Inr x, w')" "un_Spec x = un_Spec obj"
      "look w' = (look w)((un_Namespace obj, un_Name obj) \<mapsto> x)"
    using laws None unfolding spec_laws_def by blast
  with m show ?thesis by (auto simp: write_object_def)
next
  case (Some cur)
  note reads = laws[unfolded spec_laws_def, THEN conjunct1, unfolded api_reads_def, rule_format,
      of "un_Namespace obj" "un_Name obj" w]
  have g: "ka_get k (un_Namespace obj) (un_Name obj) w = (Inr cur, w)" using reads Some by simp
  let ?obj = "cur\<lparr>un_Spec := un_Spec obj\<rparr>"
  have key: "un_Namespace cur = un_Namespace obj" "un_Name cur = un_Name obj" "ka_version k ?obj = ka_version k cur"
    using laws Some unfolding spec_laws_def by blast+
  then have "look w (un_Namespace ?obj, un_Name ?obj) = Some cur" using Some by simp
  then obtain x w' where "ka_update k ?obj w = (Inr x, w')" "un_Spec x = un_Spec ?obj"
      "look w' = (look w)((un_Namespace ?obj, un_Name ?obj) \<mapsto> x)"
    using laws key(3) unfolding spec_laws_def by blast
  with g key(1,2) show ?thesis by (auto simp: write_object_def)
qed

lemma virtual_service_written:
  assumes "spec_laws (ic_virtual_services C) look" and "gateway_istio s = Some gi" and "gi_Host gi \<noteq> []"
    and "\<And>u. ic_own C s u = None"
  shows "\<exists>x w'. reconcileVirtualService C s serviceName servicePort w = (None, w') \<and>
     un_Spec x = route_tree (gi_Host gi) (getGatewayRef gi) (getPathPrefix s) serviceName servicePort \<and>
     look w' = (look w)((srv_Namespace s, srv_Name s) \<mapsto> x)"
  using write_object_writes[OF assms(1), of "''VirtualService''" "controller_object ''VirtualService'' s
      (route_tree (gi_Host gi) (getGatewayRef gi) (getPathPrefix s) serviceName servicePort)" w] assms(2-4)
  by (simp add: reconcileVirtualService_def getIstioConfig_def controller_object_def Let_def)

end
