(* ===== verification/GitHubRetry.thy ===== *)
theory GitHubRetry
  imports RetryLoop
begin

section \<open>Retrying GitHub requests\<close>

text \<open>
  \<open>pkg/retry/github_retry.go\<close>: the classification of a failed request and the retry loop that
  chooses its strategy by the class. An error is its text and whether its dynamic type is one of
  the network error types; a response is its status and its headers. Closing response bodies,
  logging and metrics are left out.
\<close>

datatype github_error_type = GhGeneral | GhRateLimit | GhNetwork | GhAuth | GhNotFound

fun error_type_String :: "github_error_type \<Rightarrow> string" where
  "error_type_String GhRateLimit = ''rate_limit''"
| "error_type_String GhNetwork = ''network''"
| "error_type_String GhAuth = ''auth''"
| "error_type_String GhNotFound = ''not_found''"
| "error_type_String GhGeneral = ''general''"

record request_error =
  rqe_Message :: string
  rqe_NetType :: bool

record http_response =
  hr_StatusCode :: int
  hr_Header :: "string gomap"

text \<open>\<open>RateLimitReset\<close> is \<open>None\<close> for the zero time.\<close>

record github_error =
  ghe_Type :: github_error_type
  ghe_StatusCode :: int
  ghe_Message :: string
  ghe_RetryAfter :: duration
  ghe_RateLimitReset :: "instant option"

definition github_Error :: "github_error \<Rightarrow> string" where
  "github_Error e =
     ''GitHub API error ['' @ error_type_String (ghe_Type e) @ '']: '' @ ghe_Message e @
     '' (status: '' @ show_int (ghe_StatusCode e) @ '')''"

record github_retry_config =
  ghc_MaxRetries :: int
  ghc_InitialDelay :: duration
  ghc_MaxDelay :: duration
  ghc_Multiplier :: rat
  ghc_Jitter :: bool
  ghc_RateLimitMaxRetries :: int
  ghc_RateLimitBaseDelay :: duration
  ghc_RateLimitMaxDelay :: duration
  ghc_NetworkMaxRetries :: int
  ghc_NetworkBaseDelay :: duration
  ghc_NetworkMaxDelay :: duration

definition DefaultGitHubRetryConfig :: github_retry_config where
  "DefaultGitHubRetryConfig = \<lparr>
     ghc_MaxRetries = 5, ghc_InitialDelay = time_Second, ghc_MaxDelay = time_Minute * 5,
     ghc_Multiplier = 2, ghc_Jitter = True,
     ghc_RateLimitMaxRetries = 3, ghc_RateLimitBaseDelay = time_Minute * 15,
     ghc_RateLimitMaxDelay = time_Hour,
     ghc_NetworkMaxRetries = 5, ghc_NetworkBaseDelay = time_Second * 2,
     ghc_NetworkMaxDelay = time_Minute * 2\<rparr>"

subsection \<open>Classification\<close>

text \<open>\<open>strconv.ParseInt(s, 10, 64)\<close> and \<open>strconv.Atoi\<close>: an optional sign, digits, the range of int64.\<close>

definition is_digit :: "char \<Rightarrow> bool" where
  "is_digit c \<longleftrightarrow> 48 \<le> byte_of c \<and> byte_of c \<le> 57"

definition digits_value :: "string \<Rightarrow> int" where
  "digits_value s = foldl (\<lambda>acc c. acc * 10 + (int (byte_of c) - 48)) 0 s"

definition parse_int64 :: "string \<Rightarrow> int option" where
  "parse_int64 s =
     (let neg = (s \<noteq> [] \<and> hd s = CHR ''-'');
          body = (if s \<noteq> [] \<and> (hd s = CHR ''-'' \<or> hd s = CHR ''+'') then tl s else s);
          v = (if neg then - digits_value body else digits_value body)
      in if body = [] \<or> \<not> list_all is_digit body then None
         else if v < - (2 ^ 63) \<or> 2 ^ 63 \<le> v then None else Some v)"

definition networkPatterns :: "string list" where
  "networkPatterns = [''connection refused'', ''connection reset'', ''connection timeout'',
     ''network is unreachable'', ''no such host'', ''timeout'', ''dns'', ''tcp'', ''i/o timeout'']"

definition isNetworkError :: "request_error \<Rightarrow> bool" where
  "isNetworkError e \<longleftrightarrow>
     rqe_NetType e \<or> list_ex (str_contains (to_lower (rqe_Message e))) networkPatterns"

text \<open>\<open>time.Unix(sec, 0)\<close>; one value of \<open>sec\<close> denotes the zero time.\<close>

definition unix_time :: "int \<Rightarrow> instant option" where
  "unix_time sec = (if sec = - 62135596800 then None else Some (sec * 1000000000))"

definition rate_limit_reset :: "http_response \<Rightarrow> instant option" where
  "rate_limit_reset resp =
     (let h = gm_str (hr_Header resp) ''X-Ratelimit-Reset'' in
      if h = [] then None
      else (case parse_int64 h of None \<Rightarrow> None | Some sec \<Rightarrow> unix_time sec))"

definition retry_after :: "http_response \<Rightarrow> duration" where
  "retry_after resp =
     (let h = gm_str (hr_Header resp) ''Retry-After'' in
      if h = [] then 0
      else (case parse_int64 h of None \<Rightarrow> 0 | Some n \<Rightarrow> to_i64 (n * time_Second)))"

definition ClassifyGitHubError ::
  "request_error option \<Rightarrow> http_response option \<Rightarrow> github_error option" where
  "ClassifyGitHubError err resp =
     (case err of
        None \<Rightarrow> None
      | Some e \<Rightarrow>
          let base = \<lparr>ghe_Type = GhGeneral, ghe_StatusCode = 0, ghe_Message = rqe_Message e,
                      ghe_RetryAfter = 0, ghe_RateLimitReset = None\<rparr> in
          Some (if isNetworkError e then base\<lparr>ghe_Type := GhNetwork\<rparr>
            else (case resp of
              None \<Rightarrow> base
            | Some r \<Rightarrow>
                let b = base\<lparr>ghe_StatusCode := hr_StatusCode r\<rparr> in
                if hr_StatusCode r = 403 \<or> hr_StatusCode r = 429 then
                  b\<lparr>ghe_Type := GhRateLimit, ghe_Message := ''GitHub API rate limit exceeded'',
                    ghe_RateLimitReset := rate_limit_reset r, ghe_RetryAfter := retry_after r\<rparr>
                else if hr_StatusCode r = 401 then
                  b\<lparr>ghe_Type := GhAuth, ghe_Message := ''GitHub API authentication failed''\<rparr>
                else if hr_StatusCode r = 404 then
                  b\<lparr>ghe_Type := GhNotFound, ghe_Message := ''GitHub API resource not found''\<rparr>
                else b)))"

subsection \<open>Delays\<close>

text \<open>\<open>pow\<close> multiplies in a loop and rounds each product.\<close>

primrec gh_pow :: "rat \<Rightarrow> nat \<Rightarrow> rat" where
  "gh_pow b 0 = 1"
| "gh_pow b (Suc n) = fl64 (gh_pow b n * b)"

definition addJitter :: "rat \<Rightarrow> rat \<Rightarrow> rat" where
  "addJitter u delay =
     (let r = fl64 (delay + jitter_of u delay) in if r < 0 then fl64 (delay * tenth) else r)"

text \<open>The three delay functions differ in the base and the cap only.\<close>

definition capped_delay ::
  "github_retry_config \<Rightarrow> duration \<Rightarrow> duration \<Rightarrow> nat \<Rightarrow> rat" where
  "capped_delay c base maxd n =
     (let d = fl64 (i64_to_float base * gh_pow (ghc_Multiplier c) n)
      in if d > i64_to_float maxd then i64_to_float maxd else d)"

definition spread_delay ::
  "github_retry_config \<Rightarrow> ('w \<Rightarrow> rat \<times> 'w) \<Rightarrow> rat \<Rightarrow> 'w \<Rightarrow> duration \<times> 'w" where
  "spread_delay c rand d w =
     (if ghc_Jitter c then (let (u, w1) = rand w in (float_to_i64 (addJitter u d), w1))
      else (float_to_i64 d, w))"

definition calculateRateLimitDelay where
  "calculateRateLimitDelay c rand n w =
     spread_delay c rand (capped_delay c (ghc_RateLimitBaseDelay c) (ghc_RateLimitMaxDelay c) n) w"

definition calculateNetworkDelay where
  "calculateNetworkDelay c rand n w =
     spread_delay c rand (capped_delay c (ghc_NetworkBaseDelay c) (ghc_NetworkMaxDelay c) n) w"

definition calculateGeneralDelay where
  "calculateGeneralDelay c rand n w =
     spread_delay c rand (capped_delay c (ghc_InitialDelay c) (ghc_MaxDelay c) n) w"

text \<open>\<open>time.Until\<close> saturates.\<close>

definition time_Until :: "instant \<Rightarrow> instant \<Rightarrow> duration" where
  "time_Until now t = max (- (2 ^ 63)) (min (2 ^ 63 - 1) (t - now))"

definition shouldRetryError ::
  "github_retry_config \<Rightarrow> ('w \<Rightarrow> instant) \<Rightarrow> ('w \<Rightarrow> rat \<times> 'w) \<Rightarrow> github_error \<Rightarrow> nat \<Rightarrow> 'w
     \<Rightarrow> duration option \<times> 'w" where
  "shouldRetryError c now rand e n w =
     (case ghe_Type e of
        GhRateLimit \<Rightarrow>
          if int n \<ge> ghc_RateLimitMaxRetries c then (None, w)
          else
            (let reset = (case ghe_RateLimitReset e of None \<Rightarrow> 0 | Some t \<Rightarrow> time_Until (now w) t) in
             if ghe_RateLimitReset e \<noteq> None \<and> reset > 0 \<and> reset \<le> ghc_RateLimitMaxDelay c
             then (Some reset, w)
             else if ghe_RetryAfter e > 0 \<and> ghe_RetryAfter e \<le> ghc_RateLimitMaxDelay c
             then (Some (ghe_RetryAfter e), w)
             else apfst Some (calculateRateLimitDelay c rand n w))
      | GhNetwork \<Rightarrow>
          if int n \<ge> ghc_NetworkMaxRetries c then (None, w)
          else apfst Some (calculateNetworkDelay c rand n w)
      | GhAuth \<Rightarrow> (None, w)
      | GhNotFound \<Rightarrow> (None, w)
      | GhGeneral \<Rightarrow>
          if int n \<ge> ghc_MaxRetries c then (None, w)
          else apfst Some (calculateGeneralDelay c rand n w))"

subsection \<open>The loop\<close>

record 'w github_env =
  gte_fn :: "'w \<Rightarrow> (request_error option \<times> http_response option) \<times> 'w"
  gte_now :: "'w \<Rightarrow> instant"
  gte_rand :: "'w \<Rightarrow> rat \<times> 'w"
  gte_on_retry :: "int \<Rightarrow> github_error \<Rightarrow> duration \<Rightarrow> 'w \<Rightarrow> 'w"
  gte_wait :: "duration \<Rightarrow> 'w \<Rightarrow> go_error \<times> 'w"

datatype github_result =
    GhOk
  | GhNonRetryable nat github_error
  | GhExhausted int github_error
  | GhCancelled string

fun github_result_error :: "github_result \<Rightarrow> go_error" where
  "github_result_error GhOk = None"
| "github_result_error (GhNonRetryable n e) =
     Some (''non-retryable GitHub error after '' @ show_nat n @ '' attempts: '' @ github_Error e)"
| "github_result_error (GhExhausted m e) =
     Some (''max retries ('' @ show_int m @ '') exceeded for GitHub operation: '' @ github_Error e)"
| "github_result_error (GhCancelled e) = Some (''context cancelled during GitHub retry: '' @ e)"

definition github_attempt :: "'w github_env \<Rightarrow> 'w \<Rightarrow> github_error option \<times> 'w" where
  "github_attempt env w =
     (let ((err, resp), w1) = gte_fn env w in (ClassifyGitHubError err resp, w1))"

definition github_decide ::
  "github_retry_config \<Rightarrow> 'w github_env \<Rightarrow> nat \<Rightarrow> nat \<Rightarrow> github_error \<Rightarrow> 'w
     \<Rightarrow> (github_result \<times> 'w) + 'w" where
  "github_decide c env left n e w =
     (case shouldRetryError c (gte_now env) (gte_rand env) e n w of
        (None, w1) \<Rightarrow> Inl (GhNonRetryable (n + 1) e, w1)
      | (Some d, w1) \<Rightarrow>
          if left = 0 then Inl (GhExhausted (ghc_MaxRetries c) e, w1)
          else (case gte_wait env d (gte_on_retry env (int (n + 1)) e d w1) of
                  (Some ctx, w2) \<Rightarrow> Inl (GhCancelled ctx, w2)
                | (None, w2) \<Rightarrow> Inr w2))"

function github_loop ::
  "github_retry_config \<Rightarrow> 'w github_env \<Rightarrow> nat \<Rightarrow> nat \<Rightarrow> 'w \<Rightarrow> github_result \<times> 'w" where
  "github_loop c env left n w =
     (case github_attempt env w of
        (None, w1) \<Rightarrow> (GhOk, w1)
      | (Some e, w1) \<Rightarrow>
          (case github_decide c env left n e w1 of
             Inl r \<Rightarrow> r
           | Inr w2 \<Rightarrow> github_loop c env (left - 1) (Suc n) w2))"
  by pat_completeness auto
termination
  by (relation "measure (\<lambda>(c, env, left, n, w). left)")
     (auto simp: github_decide_def split: if_splits prod.splits option.splits)

declare github_loop.simps [simp del]

text \<open>
  With a negative \<open>MaxRetries\<close> the body of the loop never runs, and the line after it reads a
  field of the nil \<open>lastErr\<close>.
\<close>

definition DoWithGitHubRetry ::
  "github_retry_config \<Rightarrow> 'w github_env \<Rightarrow> 'w \<Rightarrow> (github_result \<times> 'w) outcome" where
  "DoWithGitHubRetry c env w =
     (if ghc_MaxRetries c < 0 then Panic
      else Returns (github_loop c env (nat (ghc_MaxRetries c)) 0 w))"

interpretation github_loop: bounded_retry "github_loop c env" "github_attempt env" "github_decide c env" GhOk
  by unfold_locales
     (simp_all add: github_loop.simps[of c env] github_decide_def
        split: if_splits prod.splits option.splits, auto)

section \<open>Correctness\<close>

subsection \<open>Classification\<close>

text \<open>The class of a failed request as a table: network errors come first, whatever the status of
  the response; then 403 and 429 are rate limits, 401 authentication, 404 not found, and the
  rest general; a nil error is no error, even with a failing status.\<close>

theorem classification_table:
  "map_option ghe_Type (ClassifyGitHubError err resp) =
     (case err of
        None \<Rightarrow> None
      | Some e \<Rightarrow> Some (
          if isNetworkError e then GhNetwork
          else (case map_option hr_StatusCode resp of
                  None \<Rightarrow> GhGeneral
                | Some code \<Rightarrow>
                    if code \<in> {403, 429} then GhRateLimit
                    else if code = 401 then GhAuth
                    else if code = 404 then GhNotFound else GhGeneral)))"
  by (simp add: ClassifyGitHubError_def Let_def split: option.splits)

text \<open>A not-found answer whose text mentions a timeout, DNS or TCP is taken for a network error.\<close>

lemma not_found_taken_for_network:
  assumes "sublist ''timeout'' (to_lower (rqe_Message e))"
  shows "map_option ghe_Type (ClassifyGitHubError (Some e) (Some r)) = Some GhNetwork"
  using assms
  by (simp add: classification_table isNetworkError_def networkPatterns_def str_contains_sublist)

subsection \<open>Delays\<close>

lemma gh_pow_nonneg: "0 \<le> b \<Longrightarrow> 0 \<le> gh_pow b n"
  by (induction n) (simp_all add: fl64.nonneg)

lemma capped_delay_range:
  assumes "0 \<le> base" and "0 \<le> ghc_Multiplier c" and "0 \<le> maxd" and "maxd < 2 ^ 52"
  shows "0 \<le> capped_delay c base maxd n" and "capped_delay c base maxd n \<le> of_int maxd"
    and "fl64 (capped_delay c base maxd n) = capped_delay c base maxd n"
proof -
  have M: "i64_to_float maxd = of_int maxd"
    unfolding i64_to_float_def using assms(3,4) by (intro fl64.exact) simp
  have "0 \<le> i64_to_float base * gh_pow (ghc_Multiplier c) n"
    using assms gh_pow_nonneg by (intro mult_nonneg_nonneg) (simp_all add: i64_to_float_def fl64.nonneg)
  then show "0 \<le> capped_delay c base maxd n"
    using assms(3) by (auto simp: capped_delay_def Let_def M intro: fl64.nonneg)
  show "capped_delay c base maxd n \<le> of_int maxd"
    by (simp add: capped_delay_def Let_def M)
  show "fl64 (capped_delay c base maxd n) = capped_delay c base maxd n"
    by (auto simp: capped_delay_def Let_def i64_to_float_def fl64_idem)
qed

lemma spread_delay_range:
  assumes "0 \<le> base" and "0 \<le> ghc_Multiplier c" and "0 \<le> maxd" and "maxd < 2 ^ 52"
    and "0 \<le> fst (rand w)" and "fst (rand w) < 1"
  shows "0 \<le> fst (spread_delay c rand (capped_delay c base maxd n) w) \<and>
         fst (spread_delay c rand (capped_delay c base maxd n) w) \<le> maxd + maxd div 10 + 1"
proof -
  note d = capped_delay_range[OF assms(1-4), of n]
  note j = jitter_sum_bounds[OF assms(5,6) d assms(3,4)]
  show ?thesis
    using spread_to_i64[OF d(1,2) assms(3,4)] spread_to_i64'[OF j assms(3,4)] j(1)
    by (simp add: spread_delay_def addJitter_def Let_def split_beta)
qed

definition sane_github_config :: "github_retry_config \<Rightarrow> bool" where
  "sane_github_config c \<longleftrightarrow> 0 \<le> ghc_Multiplier c \<and>
     (\<forall>d \<in> {ghc_InitialDelay c, ghc_RateLimitBaseDelay c, ghc_NetworkBaseDelay c}. 0 \<le> d) \<and>
     (\<forall>d \<in> {ghc_MaxDelay c, ghc_RateLimitMaxDelay c, ghc_NetworkMaxDelay c}. 0 \<le> d \<and> d < 2 ^ 52)"

definition max_delay_for :: "github_retry_config \<Rightarrow> github_error_type \<Rightarrow> duration" where
  "max_delay_for c t =
     (case t of GhRateLimit \<Rightarrow> ghc_RateLimitMaxDelay c | GhNetwork \<Rightarrow> ghc_NetworkMaxDelay c
      | GhAuth \<Rightarrow> 0 | GhNotFound \<Rightarrow> 0 | GhGeneral \<Rightarrow> ghc_MaxDelay c)"

definition retry_limit :: "github_retry_config \<Rightarrow> github_error_type \<Rightarrow> int" where
  "retry_limit c t =
     (case t of GhRateLimit \<Rightarrow> ghc_RateLimitMaxRetries c | GhNetwork \<Rightarrow> ghc_NetworkMaxRetries c
      | GhAuth \<Rightarrow> 0 | GhNotFound \<Rightarrow> 0 | GhGeneral \<Rightarrow> ghc_MaxRetries c)"

text \<open>An error is retried exactly while the attempt is below the limit of its class, which is 0
  for authentication and not-found errors; the wait is never negative and exceeds the maximum of
  the class by the jitter at most.\<close>

theorem retry_strategy:
  assumes "sane_github_config c" and "0 \<le> fst (rand w)" and "fst (rand w) < 1"
  shows "case fst (shouldRetryError c now rand e n w) of
      None \<Rightarrow> retry_limit c (ghe_Type e) \<le> int n
    | Some d \<Rightarrow> int n < retry_limit c (ghe_Type e) \<and> 0 \<le> d \<and>
        d \<le> max_delay_for c (ghe_Type e) + max_delay_for c (ghe_Type e) div 10 + 1"
proof -
  note sane = assms(1)[unfolded sane_github_config_def]
  have r: "0 \<le> fst (spread_delay c rand (capped_delay c base maxd n) w) \<and>
           fst (spread_delay c rand (capped_delay c base maxd n) w) \<le> maxd + maxd div 10 + 1"
    if "0 \<le> base" "0 \<le> maxd" "maxd < 2 ^ 52" for base maxd
    using spread_delay_range[where rand = rand and w = w, OF that(1) _ that(2,3) assms(2,3)] sane
    by blast
  have over: "d \<le> maxd + maxd div 10 + 1" if "d \<le> maxd" "0 \<le> maxd" for d maxd :: int
    using that by simp
  show ?thesis
  proof (cases "ghe_Type e")
    case GhRateLimit
    with r[of "ghc_RateLimitBaseDelay c" "ghc_RateLimitMaxDelay c"] sane show ?thesis
      by (auto simp: shouldRetryError_def Let_def retry_limit_def max_delay_for_def
          calculateRateLimitDelay_def intro: over)
  qed (use r[of "ghc_NetworkBaseDelay c" "ghc_NetworkMaxDelay c"]
        r[of "ghc_InitialDelay c" "ghc_MaxDelay c"] sane in
      \<open>auto simp: shouldRetryError_def retry_limit_def max_delay_for_def calculateNetworkDelay_def
        calculateGeneralDelay_def\<close>)
qed

lemma default_sane: "sane_github_config DefaultGitHubRetryConfig"
  by (simp add: sane_github_config_def DefaultGitHubRetryConfig_def time_units)

definition dns_error :: github_error where
  "dns_error = \<lparr>ghe_Type = GhNetwork, ghe_StatusCode = 0, ghe_Message = ''dns'', ghe_RetryAfter = 0,
     ghe_RateLimitReset = None\<rparr>"

lemma retry_strategy_witness:
  "case fst (shouldRetryError DefaultGitHubRetryConfig (\<lambda>_. 0) (\<lambda>w. (1 / 2, w)) dns_error 4 ()) of
      None \<Rightarrow> retry_limit DefaultGitHubRetryConfig (ghe_Type dns_error) \<le> int 4
    | Some d \<Rightarrow> int 4 < retry_limit DefaultGitHubRetryConfig (ghe_Type dns_error) \<and> 0 \<le> d \<and>
        d \<le> max_delay_for DefaultGitHubRetryConfig (ghe_Type dns_error) +
            max_delay_for DefaultGitHubRetryConfig (ghe_Type dns_error) div 10 + 1"
  by (rule retry_strategy) (simp_all add: default_sane)

subsection \<open>The end of the loop\<close>

lemma limit_reached:
  assumes "ghc_RateLimitMaxRetries c \<le> int n" and "ghc_NetworkMaxRetries c \<le> int n"
    and "ghc_MaxRetries c \<le> int n"
  shows "fst (shouldRetryError c now rand e n w) = None"
  using assms by (simp add: shouldRetryError_def split: github_error_type.splits)

lemma loop_not_exhausted:
  assumes "ghc_RateLimitMaxRetries c \<le> ghc_MaxRetries c" and "ghc_NetworkMaxRetries c \<le> ghc_MaxRetries c"
    and "int (n + left) = ghc_MaxRetries c"
  shows "fst (github_loop c env left n w) \<noteq> GhExhausted m e"
  using assms(3)
proof (induction left arbitrary: n w)
  case 0
  then have "fst (shouldRetryError c (gte_now env) (gte_rand env) e' n w') = None" for e' w'
    using assms(1,2) by (intro limit_reached) simp_all
  then show ?case
    by (subst github_loop.simps)
       (auto simp: github_decide_def split: prod.splits option.splits, metis fst_conv option.distinct(1))
next
  case (Suc left)
  have step: "fst (github_loop c env left (Suc n) w') \<noteq> GhExhausted m e" for w'
    using Suc.prems by (intro Suc.IH) simp
  show ?case
    by (subst github_loop.simps) (auto simp: github_decide_def step split: prod.splits option.splits)
qed


text \<open>A server that always answers 500: six requests, then ``non-retryable error after 6 attempts''.\<close>

definition always_500 :: "nat github_env" where
  "always_500 = \<lparr>
     gte_fn = (\<lambda>n. ((Some \<lparr>rqe_Message = ''server error'', rqe_NetType = False\<rparr>,
                     Some \<lparr>hr_StatusCode = 500, hr_Header = None\<rparr>), n + 1)),
     gte_now = (\<lambda>_. 0), gte_rand = (\<lambda>n. (1 / 2, n)), gte_on_retry = (\<lambda>_ _ _ n. n),
     gte_wait = (\<lambda>_ n. (None, n))\<rparr>"


end
