(* ===== verification/GoText.thy ===== *)
theory GoText
  imports Prelude
begin

section \<open>Texts of the standard library\<close>

text \<open>
  The functions of \<open>strings\<close>, \<open>path\<close>, \<open>net/url\<close> and \<open>encoding/base64\<close> that the registry packages
  apply to the names, paths and contents they exchange with GitHub and the cluster.
\<close>

subsection \<open>Trimming and replacing\<close>

definition trim_left :: "string \<Rightarrow> string \<Rightarrow> string" where
  "trim_left cutset s = dropWhile (\<lambda>c. c \<in> set cutset) s"

definition trim :: "string \<Rightarrow> string \<Rightarrow> string" where
  "trim cutset s = rev (trim_left cutset (rev (trim_left cutset s)))"

definition trim_prefix :: "string \<Rightarrow> string \<Rightarrow> string" where
  "trim_prefix s p = (if has_prefix s p then drop (length p) s else s)"

definition trim_suffix :: "string \<Rightarrow> string \<Rightarrow> string" where
  "trim_suffix s p = (if has_suffix s p then take (length s - length p) s else s)"

text \<open>\<open>strings.ReplaceAll\<close> of one byte.\<close>

definition replace_char :: "char \<Rightarrow> string \<Rightarrow> string \<Rightarrow> string" where
  "replace_char c new s = concat (map (\<lambda>d. if d = c then new else [d]) s)"

lemma replace_char_by_char: "replace_char c [d] s = map (\<lambda>x. if x = c then d else x) s"
  by (induction s) (simp_all add: replace_char_def)

lemma trim_set: "set (trim cs s) \<subseteq> set s"
  unfolding trim_def trim_left_def
  by (metis set_dropWhileD set_rev subsetI)

lemma trim_left_id: "s = [] \<or> hd s \<notin> set cs \<Longrightarrow> trim_left cs s = s"
  by (cases s) (simp_all add: trim_left_def)

lemma trim_left_hd: "trim_left cs s = [] \<or> hd (trim_left cs s) \<notin> set cs"
  unfolding trim_left_def by (induction s) simp_all

lemma trim_id: "s = [] \<or> (hd s \<notin> set cs \<and> List.last s \<notin> set cs) \<Longrightarrow> trim cs s = s"
  unfolding trim_def by (subst (1 2) trim_left_id) (auto simp: hd_rev)

lemma trim_left_suffix: "\<exists>p. s = p @ trim_left cs s"
  unfolding trim_left_def by (metis takeWhile_dropWhile_id)

lemma trim_ends: "trim cs s = [] \<or> (hd (trim cs s) \<notin> set cs \<and> List.last (trim cs s) \<notin> set cs)"
proof (cases "trim cs s = []")
  case False
  define u where "u = trim_left cs s"
  define v where "v = trim_left cs (rev u)"
  have t: "trim cs s = rev v" by (simp add: trim_def u_def v_def)
  with False have v: "v \<noteq> []" by simp
  with trim_left_hd[of cs "rev u"] have "hd v \<notin> set cs" by (simp add: v_def)
  moreover have "List.last v = hd u"
  proof -
    obtain p where "rev u = p @ v" using trim_left_suffix[of "rev u" cs] v_def by blast
    then have "u = rev v @ rev p" by (metis rev_append rev_rev_ident)
    then show ?thesis using v by (simp add: hd_append hd_rev)
  qed
  moreover have "u \<noteq> []" using v by (auto simp: v_def trim_left_def)
  then have "hd u \<notin> set cs" using trim_left_hd[of cs s] by (simp add: u_def)
  ultimately show ?thesis using t v by (simp add: hd_rev last_rev)
qed simp

subsection \<open>Paths\<close>

text \<open>\<open>path.Clean\<close> and \<open>path.Join\<close>; \<open>filepath\<close> has the same on Unix.\<close>

definition clean_step :: "bool \<Rightarrow> string \<Rightarrow> string list \<Rightarrow> string list" where
  "clean_step rooted e acc =
     (if e = [] \<or> e = ''.'' then acc
      else if e = ''..'' then
        (case acc of
           [] \<Rightarrow> if rooted then [] else [''..'']
         | x # xs \<Rightarrow> if x = ''..'' then ''..'' # acc else xs)
      else e # acc)"

definition path_Clean :: "string \<Rightarrow> string" where
  "path_Clean s =
     (let rooted = has_prefix s ''/'';
          out = (if rooted then ''/'' else []) @ join ''/'' (rev (fold (clean_step rooted) (split_on (CHR ''/'') s) []))
      in if out = [] then ''.'' else out)"

definition path_Join :: "string list \<Rightarrow> string" where
  "path_Join es =
     (case dropWhile (\<lambda>e. e = []) es of [] \<Rightarrow> [] | e # rest \<Rightarrow> path_Clean (join ''/'' (e # rest)))"

subsection \<open>Query strings\<close>

definition hex_digit :: "nat \<Rightarrow> char" where
  "hex_digit n = (if n < 10 then char_of (48 + n) else char_of (55 + n))"

definition unreserved :: "char \<Rightarrow> bool" where
  "unreserved c \<longleftrightarrow>
     (let b = byte_of c in (48 \<le> b \<and> b \<le> 57) \<or> (65 \<le> b \<and> b \<le> 90) \<or> (97 \<le> b \<and> b \<le> 122)) \<or>
     c \<in> set ''-_.~''"

definition QueryEscape :: "string \<Rightarrow> string" where
  "QueryEscape s = concat (map (\<lambda>c.
     if unreserved c then [c] else if c = CHR '' '' then ''+''
     else [CHR ''%'', hex_digit (byte_of c div 16), hex_digit (byte_of c mod 16)]) s)"

subsection \<open>Base64\<close>

text \<open>
  \<open>base64.StdEncoding.DecodeString\<close>: line breaks are skipped, padding is required, the bits
  left over before it are not looked at.
\<close>

definition sextet :: "char \<Rightarrow> nat option" where
  "sextet c =
     (let b = byte_of c in
      if 65 \<le> b \<and> b \<le> 90 then Some (b - 65)
      else if 97 \<le> b \<and> b \<le> 122 then Some (b - 71)
      else if 48 \<le> b \<and> b \<le> 57 then Some (b + 4)
      else if b = 43 then Some 62
      else if b = 47 then Some 63 else None)"

definition quantum :: "nat \<Rightarrow> nat \<Rightarrow> nat \<Rightarrow> nat \<Rightarrow> string" where
  "quantum a b c d =
     [char_of (a * 4 + b div 16), char_of (b mod 16 * 16 + c div 4), char_of (c mod 4 * 64 + d)]"

fun b64_quanta :: "string \<Rightarrow> string option" where
  "b64_quanta [] = Some []"
| "b64_quanta (a # b # c # d # rest) =
     (case (sextet a, sextet b) of
        (Some x, Some y) \<Rightarrow>
          if d = CHR ''='' then
            (if rest \<noteq> [] then None
             else if c = CHR ''='' then Some (take 1 (quantum x y 0 0))
             else map_option (\<lambda>z. take 2 (quantum x y z 0)) (sextet c))
          else (case (sextet c, sextet d, b64_quanta rest) of
                  (Some z, Some t, Some bs) \<Rightarrow> Some (quantum x y z t @ bs)
                | _ \<Rightarrow> None)
      | _ \<Rightarrow> None)"
| "b64_quanta cs = None"

definition DecodeString :: "string \<Rightarrow> string option" where
  "DecodeString s = b64_quanta (filter (\<lambda>c. byte_of c \<noteq> 10 \<and> byte_of c \<noteq> 13) s)"

text \<open>The standard encoding, to state what decoding undoes.\<close>

definition b64_char :: "nat \<Rightarrow> char" where
  "b64_char n =
     (if n < 26 then char_of (n + 65) else if n < 52 then char_of (n + 71)
      else if n < 62 then char_of (n - 4) else if n = 62 then CHR ''+'' else CHR ''/'')"

fun b64_encode :: "string \<Rightarrow> string" where
  "b64_encode [] = []"
| "b64_encode [p] =
     (let x = byte_of p in [b64_char (x div 4), b64_char (x mod 4 * 16), CHR ''='', CHR ''=''])"
| "b64_encode [p, q] =
     (let x = byte_of p; y = byte_of q in
      [b64_char (x div 4), b64_char (x mod 4 * 16 + y div 16), b64_char (y mod 16 * 4), CHR ''=''])"
| "b64_encode (p # q # r # rest) =
     (let x = byte_of p; y = byte_of q; z = byte_of r in
      [b64_char (x div 4), b64_char (x mod 4 * 16 + y div 16), b64_char (y mod 16 * 4 + z div 64),
       b64_char (z mod 64)] @ b64_encode rest)"

lemma byte_bound: "byte_of c < 256"
  by (simp add: byte_of_def)

lemma byte_of_char_of: "n < 256 \<Longrightarrow> byte_of (char_of n) = n"
  by (simp add: byte_of_def)

lemma char_of_byte_of: "char_of (byte_of c) = c"
  by (simp add: byte_of_def)

lemma b64_char_byte:
  assumes "n < 64"
  shows "byte_of (b64_char n) =
    (if n < 26 then n + 65 else if n < 52 then n + 71 else if n < 62 then n - 4 else if n = 62 then 43 else 47)"
  using assms by (simp add: b64_char_def byte_of_char_of, simp add: byte_of_def)

lemma sextet_char: "n < 64 \<Longrightarrow> sextet (b64_char n) = Some n"
  by (auto simp: sextet_def Let_def b64_char_byte)

lemma b64_char_plain: "n < 64 \<Longrightarrow> b64_char n \<noteq> CHR ''=''"
proof
  assume n: "n < 64" and "b64_char n = CHR ''=''"
  then have "byte_of (b64_char n) = 61" by (simp add: byte_of_def)
  with n show False by (auto simp: b64_char_byte split: if_splits)
qed

lemma quantum_bytes:
  assumes "x < 256" and "y < 256" and "z < 256"
  shows "quantum (x div 4) (x mod 4 * 16 + y div 16) (y mod 16 * 4 + z div 64) (z mod 64) =
    [char_of x, char_of y, char_of z]"
proof -
  have d: "y div 16 < 16" "z div 64 < 4" using assms by auto
  have "x div 4 * 4 + (x mod 4 * 16 + y div 16) div 16 = x"
    using d by (simp add: div_mult_self3)
  moreover have "(x mod 4 * 16 + y div 16) mod 16 * 16 + (y mod 16 * 4 + z div 64) div 4 = y"
    using d by simp
  moreover have "(y mod 16 * 4 + z div 64) mod 4 * 64 + z mod 64 = z"
    using d by simp
  ultimately show ?thesis by (simp add: quantum_def)
qed

lemma sextets_bound:
  assumes "x < 256" and "y < (256 :: nat)"
  shows "x div 4 < 64" "x mod 4 * 16 + y div 16 < 64" "y mod 16 * 4 < 64" "x mod 4 * 16 < 64"
    "x mod 64 < 64" "x mod 16 * 4 + y div 64 < 64"
proof -
  have "x mod 4 < 4" "x mod 16 < 16" "y mod 16 < 16" by simp_all
  moreover have "y div 16 < 16" "y div 64 < 4" using assms by auto
  ultimately show "x mod 4 * 16 + y div 16 < 64" "y mod 16 * 4 < 64" "x mod 4 * 16 < 64"
    "x mod 16 * 4 + y div 64 < 64" by linarith+
  show "x div 4 < 64" "x mod 64 < 64" using assms by auto
qed

lemma decode_encode: "b64_quanta (b64_encode s) = Some s"
proof (induction s rule: b64_encode.induct)
  case 1
  then show ?case by simp
next
  case (2 p)
  note b = sextets_bound[OF byte_bound[of p] byte_bound[of p]]
  note q = quantum_bytes[OF byte_bound[of p], of 0 0]
  show ?case using b q by (simp add: Let_def sextet_char b64_char_plain char_of_byte_of)
next
  case (3 p q)
  note b = sextets_bound[OF byte_bound[of p] byte_bound[of q]]
  note q = quantum_bytes[OF byte_bound[of p] byte_bound[of q], of 0]
  show ?case using b q by (simp add: Let_def sextet_char b64_char_plain char_of_byte_of)
next
  case (4 p q r rest)
  note b = sextets_bound[OF byte_bound[of p] byte_bound[of q]]
    sextets_bound[OF byte_bound[of q] byte_bound[of r]] sextets_bound[OF byte_bound[of r] byte_bound[of r]]
  note q = quantum_bytes[OF byte_bound[of p] byte_bound[of q] byte_bound[of r]]
  show ?case using b q 4 by (simp add: Let_def sextet_char b64_char_plain char_of_byte_of)
qed

lemma DecodeString_breaks:
  assumes "filter (\<lambda>c. byte_of c \<noteq> 10 \<and> byte_of c \<noteq> 13) s = b64_encode t"
  shows "DecodeString s = Some t"
  by (simp add: DecodeString_def assms decode_encode)

subsection \<open>Cyrillic text\<close>

text \<open>Some texts of the program are in Russian: \<open>russian\<close> gives the UTF-8 of letters numbered from U+0410.\<close>

definition russian :: "nat list \<Rightarrow> string" where
  "russian ns = concat (map (\<lambda>n. [char_of (0xC0 + (0x410 + n) div 64), char_of (0x80 + (0x410 + n) mod 64)]) ns)"

end
