(* ===== verification/RegistryClient.thy ===== *)
theory RegistryClient
  imports GitHubRetry RegistryService GoText
begin

section \<open>The client of a registry\<close>

text \<open>
  \<open>pkg/registry/client.go\<close> and \<open>pkg/registry/github/github_client.go\<close>: listing the servers of a
  repository, fetching their templates and synchronising a whole repository, each request through
  the retry loop of theory GitHubRetry. The HTTP transport is the record \<open>http_env\<close> with the clock
  and the waits of the loop; the typed decoders of JSON and YAML, SHA-256 and the text of a base64
  error are the record \<open>codecs\<close>. Printing and closing of bodies are left out.
\<close>

record github_repository =
  ghr_Owner :: string
  ghr_Name :: string
  ghr_Branch :: string
  ghr_Path :: string
  ghr_AuthToken :: string

record rate_limit_info =
  rli_Limit :: int
  rli_Remaining :: int
  rli_Reset :: instant

record sync_result =
  syn_Servers :: "server_info list"
  syn_ServerSpecs :: "server_template gomap"
  syn_ObservedSHA :: string
  syn_ServersCount :: int
  syn_RateLimitInfo :: "rate_limit_info option"
  syn_Errors :: "string list"

record registry_response =
  rgp_Name :: string
  rgp_Path :: string
  rgp_SHA :: string
  rgp_Size :: int
  rgp_URL :: string
  rgp_HTMLURL :: string
  rgp_GitURL :: string
  rgp_DownloadURL :: string
  rgp_Type :: string
  rgp_Content :: string
  rgp_Encoding :: string

text \<open>\<open>time.Time{}\<close>.\<close>

definition zero_time :: instant where
  "zero_time = - 62135596800000000000"

subsection \<open>Requests\<close>

record http_request =
  hrq_URL :: string
  hrq_Header :: "(string \<times> string) list"

text \<open>The body of a reply is the error of reading it or its bytes.\<close>

record http_reply =
  hrp_Response :: http_response
  hrp_Body :: "string + string"

record 'w http_env =
  hte_new_request :: "string \<Rightarrow> go_error"
  hte_do :: "http_request \<Rightarrow> 'w \<Rightarrow> (string + http_reply) \<times> 'w"
  hte_now :: "'w \<Rightarrow> instant"
  hte_rand :: "'w \<Rightarrow> rat \<times> 'w"
  hte_wait :: "duration \<Rightarrow> 'w \<Rightarrow> go_error \<times> 'w"

record codecs =
  cod_listing :: "string + string \<Rightarrow> string + registry_response list"
  cod_file :: "string + string \<Rightarrow> string + registry_response"
  cod_contents :: "string \<Rightarrow> string + (string \<times> string)"
  cod_json :: "string \<Rightarrow> string + server_template"
  cod_yaml :: "string \<Rightarrow> string + server_template"
  cod_base64_error :: "string \<Rightarrow> string"
  cod_sha256_hex :: "string \<Rightarrow> string"

record registry_http =
  rht_baseURL :: string
  rht_userAgent :: string
  rht_githubToken :: string
  rht_retry :: github_retry_config
  rht_repoOwner :: string
  rht_repoName :: string
  rht_repoBranch :: string
  rht_repoPath :: string

definition DefaultRegistryURL :: string where
  "DefaultRegistryURL = ''https://api.github.com/repos/docker/mcp-registry/contents/servers''"

text \<open>\<open>env_token\<close> is the value of \<open>GITHUB_TOKEN\<close>; the callback of the retry configuration prints.\<close>

definition NewClient :: "string \<Rightarrow> registry_http" where
  "NewClient env_token = \<lparr>rht_baseURL = DefaultRegistryURL, rht_userAgent = ''mcp-operator/1.0'',
     rht_githubToken = env_token, rht_retry = DefaultGitHubRetryConfig, rht_repoOwner = [],
     rht_repoName = [], rht_repoBranch = [], rht_repoPath = []\<rparr>"

definition NewClientWithURL :: "string \<Rightarrow> string \<Rightarrow> registry_http" where
  "NewClientWithURL env_token baseURL = (NewClient env_token)\<lparr>rht_baseURL := baseURL\<rparr>"

definition NewClientWithToken :: "string \<Rightarrow> registry_http" where
  "NewClientWithToken token = (NewClient [])\<lparr>rht_githubToken := token\<rparr>"

definition NewClientWithRetryConfig :: "string \<Rightarrow> github_retry_config \<Rightarrow> registry_http" where
  "NewClientWithRetryConfig env_token cfg = (NewClient env_token)\<lparr>rht_retry := cfg\<rparr>"

text \<open>
  Every error the closures return is made by \<open>fmt.Errorf\<close>: wrapping hides the dynamic type of a
  network error, so that only its text is left to classify it by.
\<close>

definition request_failed :: "string \<Rightarrow> request_error option" where
  "request_failed m = Some \<lparr>rqe_Message = m, rqe_NetType = False\<rparr>"

definition request_headers :: "registry_http \<Rightarrow> string \<Rightarrow> (string \<times> string) list" where
  "request_headers c accept =
     [(''User-Agent'', rht_userAgent c), (''Accept'', accept)] @
     (if rht_githubToken c \<noteq> [] then [(''Authorization'', ''token '' @ rht_githubToken c)] else [])"

type_synonym answer = "request_error option \<times> http_response option"

definition exchange ::
  "'w http_env \<Rightarrow> registry_http \<Rightarrow> string \<Rightarrow> string \<Rightarrow> 'w \<Rightarrow> (answer + http_reply) \<times> 'w" where
  "exchange env c url accept w =
     (case hte_new_request env url of
        Some e \<Rightarrow> (Inl (request_failed (''failed to create request: '' @ e), None), w)
      | None \<Rightarrow>
          (case hte_do env \<lparr>hrq_URL = url, hrq_Header = request_headers c accept\<rparr> w of
             (Inl e, w1) \<Rightarrow> (Inl (request_failed (''failed to execute request: '' @ e), None), w1)
           | (Inr rep, w1) \<Rightarrow> (Inr rep, w1)))"

definition bad_status :: "http_response \<Rightarrow> answer" where
  "bad_status resp =
     (request_failed (''GitHub API returned status '' @ show_int (hr_StatusCode resp)), Some resp)"

text \<open>
  The closures assign to variables of the function around them: the loop runs over the world
  together with these variables.
\<close>

definition retried ::
  "'w http_env \<Rightarrow> registry_http \<Rightarrow> ('c \<times> 'w \<Rightarrow> answer \<times> 'c \<times> 'w) \<Rightarrow> 'c \<Rightarrow> 'w
     \<Rightarrow> (go_error \<times> 'c \<times> 'w) outcome" where
  "retried env c fn x w =
     and_then (DoWithGitHubRetry (rht_retry c)
       \<lparr>gte_fn = fn, gte_now = (\<lambda>(_, v). hte_now env v),
        gte_rand = (\<lambda>(y, v). let (u, v1) = hte_rand env v in (u, (y, v1))),
        gte_on_retry = (\<lambda>_ _ _ yv. yv),
        gte_wait = (\<lambda>d (y, v). let (e, v1) = hte_wait env d v in (e, (y, v1)))\<rparr> (x, w))
     (\<lambda>(r, y, v). Returns (github_result_error r, y, v))"

subsection \<open>Listing\<close>

definition listed_server :: "registry_response \<Rightarrow> server_info" where
  "listed_server item = \<lparr>sin_Name = rgp_Name item, sin_Path = rgp_Path item, sin_UpdatedAt = zero_time,
     sin_Size = rgp_Size item, sin_DownloadURL = rgp_DownloadURL item, sin_HTMLURL = rgp_HTMLURL item\<rparr>"

definition listed_servers :: "registry_response list \<Rightarrow> server_info list" where
  "listed_servers items = map listed_server (filter (\<lambda>i. rgp_Type i = ''dir'') items)"

definition read_listing ::
  "codecs \<Rightarrow> http_reply \<Rightarrow> server_info list \<Rightarrow> answer \<times> server_info list" where
  "read_listing cod rep servers =
     (if hr_StatusCode (hrp_Response rep) \<noteq> 200 then (bad_status (hrp_Response rep), servers)
      else (case cod_listing cod (hrp_Body rep) of
         Inl e \<Rightarrow> ((request_failed (''failed to decode response: '' @ e), Some (hrp_Response rep)), servers)
       | Inr items \<Rightarrow> ((None, Some (hrp_Response rep)), servers @ listed_servers items)))"

definition list_attempt ::
  "'w http_env \<Rightarrow> codecs \<Rightarrow> registry_http \<Rightarrow> server_info list \<times> 'w \<Rightarrow> answer \<times> server_info list \<times> 'w"
where
  "list_attempt env cod c = (\<lambda>(servers, w).
     case exchange env c (rht_baseURL c) ''application/vnd.github+json'' w of
       (Inl a, w1) \<Rightarrow> (a, (servers, w1))
     | (Inr rep, w1) \<Rightarrow> (let (a, ss) = read_listing cod rep servers in (a, (ss, w1))))"

definition ListServers ::
  "'w http_env \<Rightarrow> codecs \<Rightarrow> registry_http \<Rightarrow> 'w \<Rightarrow> ((string + server_info list) \<times> 'w) outcome" where
  "ListServers env cod c w =
     and_then (retried env c (list_attempt env cod c) [] w) (\<lambda>(e, servers, w1).
       Returns (case e of Some m \<Rightarrow> Inl m | None \<Rightarrow> Inr servers, w1))"

text \<open>The header names are in the canonical form under which \<open>Get\<close> looks them up.\<close>

definition parse_int32 :: "string \<Rightarrow> int option" where
  "parse_int32 s =
     (case parse_int64 s of
        None \<Rightarrow> None
      | Some v \<Rightarrow> if v < - (2 ^ 31) \<or> 2 ^ 31 \<le> v then None else Some v)"

definition extractRateLimitInfo :: "http_response option \<Rightarrow> rate_limit_info option" where
  "extractRateLimitInfo resp =
     (case resp of
        None \<Rightarrow> None
      | Some r \<Rightarrow>
          let l = gm_str (hr_Header r) ''X-Ratelimit-Limit'';
              m = gm_str (hr_Header r) ''X-Ratelimit-Remaining'';
              t = gm_str (hr_Header r) ''X-Ratelimit-Reset'' in
          if l = [] \<or> m = [] \<or> t = [] then None
          else (case parse_int32 l of
                  None \<Rightarrow> None
                | Some limit \<Rightarrow>
                    (case parse_int32 m of
                       None \<Rightarrow> None
                     | Some remaining \<Rightarrow>
                         (case parse_int64 t of
                            None \<Rightarrow> None
                          | Some reset \<Rightarrow> Some \<lparr>rli_Limit = limit, rli_Remaining = remaining,
                              rli_Reset = reset * time_Second\<rparr>))))"

definition ref_query :: "registry_http \<Rightarrow> string" where
  "ref_query c = (if rht_repoBranch c \<noteq> [] then ''?ref='' @ QueryEscape (rht_repoBranch c) else [])"

type_synonym listing_state = "server_info list \<times> rate_limit_info option"

definition list_attempt_limited ::
  "'w http_env \<Rightarrow> codecs \<Rightarrow> registry_http \<Rightarrow> listing_state \<times> 'w \<Rightarrow> answer \<times> listing_state \<times> 'w" where
  "list_attempt_limited env cod c = (\<lambda>((servers, rl), w).
     case exchange env c (rht_baseURL c @ ref_query c) ''application/vnd.github+json'' w of
       (Inl a, w1) \<Rightarrow> (a, ((servers, rl), w1))
     | (Inr rep, w1) \<Rightarrow>
         (let resp = hrp_Response rep;
              rl1 = (case rl of None \<Rightarrow> extractRateLimitInfo (Some resp) | Some l \<Rightarrow> Some l) in
          if hr_StatusCode resp = 404
          then ((request_failed (''PathNotFound: '' @ rht_baseURL c), Some resp), ((servers, rl1), w1))
          else (let (a, ss) = read_listing cod rep servers in (a, ((ss, rl1), w1)))))"

definition listServersWithRateLimit ::
  "'w http_env \<Rightarrow> codecs \<Rightarrow> registry_http \<Rightarrow> rate_limit_info option \<Rightarrow> 'w
     \<Rightarrow> ((string + server_info list) \<times> rate_limit_info option \<times> 'w) outcome" where
  "listServersWithRateLimit env cod c rl w =
     and_then (retried env c (list_attempt_limited env cod c) ([], rl) w) (\<lambda>(e, (servers, rl1), w1).
       Returns (case e of Some m \<Rightarrow> Inl m | None \<Rightarrow> Inr servers, rl1, w1))"

subsection \<open>Templates\<close>

definition parseYAMLContent :: "codecs \<Rightarrow> string \<Rightarrow> string + server_template" where
  "parseYAMLContent cod content =
     (case cod_yaml cod content of
        Inl e \<Rightarrow> Inl (''failed to unmarshal YAML content: '' @ e)
      | Inr t \<Rightarrow> Inr t)"

definition decode_base64 :: "codecs \<Rightarrow> string \<Rightarrow> string \<Rightarrow> string + string" where
  "decode_base64 cod p s =
     (case DecodeString s of None \<Rightarrow> Inl (p @ cod_base64_error cod s) | Some bs \<Rightarrow> Inr bs)"

text \<open>\<open>GetServerSpec\<close> tries JSON first and YAML only for a text that mentions a name.\<close>

definition json_then_yaml :: "codecs \<Rightarrow> string \<Rightarrow> string + server_template" where
  "json_then_yaml cod content =
     (case cod_json cod content of
        Inr t \<Rightarrow> Inr t
      | Inl e \<Rightarrow>
          if str_contains content ''name:'' then parseYAMLContent cod content
          else Inl (''failed to parse server spec: '' @ e))"

definition yaml_then_json :: "codecs \<Rightarrow> string \<Rightarrow> string + server_template" where
  "yaml_then_json cod content =
     (case parseYAMLContent cod content of
        Inr t \<Rightarrow> Inr t
      | Inl e \<Rightarrow>
          (case cod_json cod content of
             Inr t \<Rightarrow> Inr t
           | Inl e2 \<Rightarrow> Inl (''failed to parse server spec as YAML ('' @ e @ '') or JSON ('' @ e2 @ '')'')))"

definition with_digest :: "codecs \<Rightarrow> string \<Rightarrow> server_template \<Rightarrow> server_template" where
  "with_digest cod content t = t\<lparr>tpl_TemplateDigest := cod_sha256_hex cod content\<rparr>"

definition read_file :: "codecs \<Rightarrow> http_reply \<Rightarrow> string + server_template" where
  "read_file cod rep =
     (case cod_file cod (hrp_Body rep) of
        Inl e \<Rightarrow> Inl (''failed to decode response: '' @ e)
      | Inr file \<Rightarrow>
          (case decode_base64 cod ''failed to decode file content: '' (rgp_Content file) of
             Inl e \<Rightarrow> Inl e
           | Inr content \<Rightarrow> map_sum id (with_digest cod content) (json_then_yaml cod content)))"

text \<open>
  The variable \<open>spec\<close> is nil whenever an attempt fails, since an attempt that sets it to a template
  ends the loop.
\<close>

definition spec_attempt ::
  "'w http_env \<Rightarrow> codecs \<Rightarrow> registry_http \<Rightarrow> string
     \<Rightarrow> server_template option \<times> 'w \<Rightarrow> answer \<times> server_template option \<times> 'w" where
  "spec_attempt env cod c server = (\<lambda>(spec, w).
     case exchange env c (rht_baseURL c @ ''/'' @ server @ ''/server.yaml'')
            ''application/vnd.github.v3+json'' w of
       (Inl a, w1) \<Rightarrow> (a, (spec, w1))
     | (Inr rep, w1) \<Rightarrow>
         (let resp = hrp_Response rep in
          if hr_StatusCode resp = 404
          then ((request_failed (''server '' @ server @ '' not found in registry''), Some resp), (spec, w1))
          else if hr_StatusCode resp \<noteq> 200 then (bad_status resp, (spec, w1))
          else (case read_file cod rep of
                  Inl e \<Rightarrow> ((request_failed e, Some resp), (None, w1))
                | Inr t \<Rightarrow> ((None, Some resp), (Some t, w1)))))"

definition GetServerSpec ::
  "'w http_env \<Rightarrow> codecs \<Rightarrow> registry_http \<Rightarrow> string \<Rightarrow> 'w
     \<Rightarrow> ((string + server_template option) \<times> 'w) outcome" where
  "GetServerSpec env cod c server w =
     and_then (retried env c (spec_attempt env cod c server) None w) (\<lambda>(e, spec, w1).
       Returns (case e of Some m \<Rightarrow> Inl m | None \<Rightarrow> Inr spec, w1))"

text \<open>With the raw media type the body is the file itself, unless the reply says it is JSON.\<close>

definition template_content :: "codecs \<Rightarrow> http_response \<Rightarrow> string \<Rightarrow> string + string" where
  "template_content cod resp body =
     (if str_contains (to_lower (gm_str (hr_Header resp) ''Content-Type'')) ''application/json'' then
        (case cod_contents cod body of
           Inl e \<Rightarrow> Inl ((if hr_StatusCode resp = 200
             then ''json decode failed (non-retryable parse error for status=200): ''
             else ''json decode failed (expected raw or json): '') @ e)
         | Inr (content, encoding) \<Rightarrow>
             if to_lower encoding = ''base64''
             then decode_base64 cod ''base64 decode failed: '' (replace_char (char_of (10 :: nat)) [] content)
             else Inr content)
      else Inr body)"

definition read_template :: "codecs \<Rightarrow> http_reply \<Rightarrow> string + server_template" where
  "read_template cod rep =
     (case hrp_Body rep of
        Inl e \<Rightarrow> Inl (''read body failed: '' @ e)
      | Inr body \<Rightarrow>
          (case template_content cod (hrp_Response rep) body of
             Inl e \<Rightarrow> Inl e
           | Inr content \<Rightarrow> map_sum id (with_digest cod content) (yaml_then_json cod content)))"

definition template_base :: "string \<Rightarrow> string" where
  "template_base p = (let b = trim ''/'' p in if b = [] then ''servers'' else b)"

definition template_url :: "registry_http \<Rightarrow> string \<Rightarrow> string" where
  "template_url c server =
     ''https://api.github.com/repos/'' @ rht_repoOwner c @ ''/'' @ rht_repoName c @ ''/contents/'' @
     path_Join [template_base (rht_repoPath c), server, ''server.yaml''] @ ref_query c"

type_synonym template_state = "server_template option \<times> rate_limit_info option"

definition template_attempt ::
  "'w http_env \<Rightarrow> codecs \<Rightarrow> registry_http \<Rightarrow> string
     \<Rightarrow> template_state \<times> 'w \<Rightarrow> answer \<times> template_state \<times> 'w" where
  "template_attempt env cod c server = (\<lambda>((spec, rl), w).
     case exchange env c (template_url c server) ''application/vnd.github.raw'' w of
       (Inl a, w1) \<Rightarrow> (a, ((spec, rl), w1))
     | (Inr rep, w1) \<Rightarrow>
         (let resp = hrp_Response rep; rl1 = extractRateLimitInfo (Some resp) in
          if hr_StatusCode resp = 404 then ((None, Some resp), ((spec, rl1), w1))
          else if hr_StatusCode resp \<noteq> 200 then (bad_status resp, ((spec, rl1), w1))
          else (case read_template cod rep of
                  Inl e \<Rightarrow> ((request_failed e, Some resp), ((None, rl1), w1))
                | Inr t \<Rightarrow> ((None, Some resp), ((Some t, rl1), w1)))))"

definition getServerSpecWithRateLimit ::
  "'w http_env \<Rightarrow> codecs \<Rightarrow> registry_http \<Rightarrow> string \<Rightarrow> rate_limit_info option \<Rightarrow> 'w
     \<Rightarrow> ((string + server_template option) \<times> rate_limit_info option \<times> 'w) outcome" where
  "getServerSpecWithRateLimit env cod c server rl w =
     and_then (retried env c (template_attempt env cod c server) (None, rl) w) (\<lambda>(e, (spec, rl1), w1).
       Returns (case e of Some m \<Rightarrow> Inl m | None \<Rightarrow> Inr spec, rl1, w1))"

subsection \<open>Searching\<close>

definition matching_servers :: "string \<Rightarrow> server_info list \<Rightarrow> server_info list" where
  "matching_servers query servers =
     filter (\<lambda>s. str_contains (to_lower (sin_Name s)) (to_lower query)) servers"

definition SearchServers ::
  "'w http_env \<Rightarrow> codecs \<Rightarrow> registry_http \<Rightarrow> string \<Rightarrow> 'w
     \<Rightarrow> ((string + server_info list) \<times> 'w) outcome" where
  "SearchServers env cod c query w =
     and_then (ListServers env cod c w) (\<lambda>(r, w1).
       Returns (map_sum id (matching_servers query) r, w1))"

subsection \<open>A registry in a directory\<close>

text \<open>The file system and the decoder of \<open>server.yaml\<close> files are parameters.\<close>

record server_yaml =
  sym_Name :: string
  sym_Image :: string
  sym_Type :: string
  sym_Category :: string
  sym_Tags :: "string list"
  sym_Title :: string
  sym_Description :: string
  sym_Icon :: string
  sym_Project :: string
  sym_Directory :: string

record dir_entry =
  dre_Name :: string
  dre_IsDir :: bool
  dre_Info :: "string + (instant \<times> int)"

record file_system =
  fsy_stat :: "string \<Rightarrow> go_error"
  fsy_ReadDir :: "string \<Rightarrow> string + dir_entry list"
  fsy_ReadFile :: "string \<Rightarrow> string + string"
  fsy_yaml :: "string \<Rightarrow> string + server_yaml"

definition HasLocalRegistry :: "file_system \<Rightarrow> string \<Rightarrow> bool" where
  "HasLocalRegistry fs registryPath \<longleftrightarrow> fsy_stat fs (path_Join [registryPath, ''servers'']) = None"

definition local_server :: "file_system \<Rightarrow> string \<Rightarrow> dir_entry \<Rightarrow> server_info list" where
  "local_server fs dir entry =
     (let serverPath = path_Join [dir, dre_Name entry] in
      if dre_IsDir entry \<and> fsy_stat fs (path_Join [serverPath, ''server.yaml'']) = None then
        (case dre_Info entry of
           Inl _ \<Rightarrow> []
         | Inr (modified, bytes) \<Rightarrow>
             [\<lparr>sin_Name = dre_Name entry, sin_Path = serverPath, sin_UpdatedAt = modified,
               sin_Size = bytes, sin_DownloadURL = [], sin_HTMLURL = []\<rparr>])
      else [])"

definition ListServersLocal :: "file_system \<Rightarrow> string \<Rightarrow> string + server_info list" where
  "ListServersLocal fs registryPath =
     (let dir = path_Join [registryPath, ''servers''] in
      case fsy_stat fs dir of
        Some e \<Rightarrow> Inl (''local registry not found at '' @ dir @ '': '' @ e)
      | None \<Rightarrow>
          (case fsy_ReadDir fs dir of
             Inl e \<Rightarrow> Inl (''failed to read servers directory: '' @ e)
           | Inr entries \<Rightarrow> Inr (concat (map (local_server fs dir) entries))))"

definition GetServerSpecLocal :: "file_system \<Rightarrow> string \<Rightarrow> string \<Rightarrow> string + server_yaml" where
  "GetServerSpecLocal fs registryPath server =
     (let file = path_Join [registryPath, ''servers'', server, ''server.yaml''] in
      case fsy_stat fs file of
        Some e \<Rightarrow> Inl (''server '' @ server @ '' not found in local registry: '' @ e)
      | None \<Rightarrow>
          (case fsy_ReadFile fs file of
             Inl e \<Rightarrow> Inl (''failed to read server file: '' @ e)
           | Inr content \<Rightarrow>
               (case fsy_yaml fs content of
                  Inl e \<Rightarrow> Inl (''failed to parse server spec: '' @ e)
                | Inr y \<Rightarrow> Inr y)))"

definition SearchServersLocal :: "file_system \<Rightarrow> string \<Rightarrow> string \<Rightarrow> string + server_info list" where
  "SearchServersLocal fs registryPath query =
     map_sum id (matching_servers query) (ListServersLocal fs registryPath)"

subsection \<open>Requests return\<close>

lemma default_retries: "0 \<le> ghc_MaxRetries DefaultGitHubRetryConfig"
  by (simp add: DefaultGitHubRetryConfig_def)

lemma retried_returns:
  assumes "rht_retry c = DefaultGitHubRetryConfig"
  obtains e y w1 where "retried env c fn x w = Returns (e, y, w1)"
proof -
  have "\<exists>z. retried env c fn x w = Returns z"
    using default_retries by (simp add: retried_def DoWithGitHubRetry_def assms split_beta)
  then show ?thesis using that by (metis prod.exhaust)
qed

end
