(* ===== verification/RegistrySync.thy ===== *)
theory RegistrySync
  imports RegistryClient
begin

section \<open>Synchronising a repository\<close>

text \<open>
  \<open>SyncRepository\<close> of \<open>pkg/registry/client.go\<close> and the GitHub client around it. A repository is
  listed once; the template of every listed server is then fetched in turn, and what goes wrong with
  one server is collected without stopping the others.
\<close>

definition repository_client :: "registry_http \<Rightarrow> github_repository \<Rightarrow> registry_http" where
  "repository_client c repo =
     (let base = template_base (ghr_Path repo) in
      c\<lparr>rht_githubToken := ghr_AuthToken repo, rht_repoOwner := ghr_Owner repo,
        rht_repoName := ghr_Name repo, rht_repoPath := base,
        rht_repoBranch := (if ghr_Branch repo = [] then ''main'' else ghr_Branch repo),
        rht_baseURL := ''https://api.github.com/repos/'' @ ghr_Owner repo @ ''/'' @ ghr_Name repo @
          ''/contents/'' @ base\<rparr>)"

record sync_progress =
  spg_Specs :: "server_template gomap"
  spg_Errors :: "string list"
  spg_SHA :: string

definition sync_one :: "string \<Rightarrow> string + server_template option \<Rightarrow> sync_progress \<Rightarrow> sync_progress" where
  "sync_one server r p =
     (case r of
        Inl e \<Rightarrow> p\<lparr>spg_Errors := spg_Errors p @ [''failed to get spec for '' @ server @ '': '' @ e]\<rparr>
      | Inr None \<Rightarrow> p
      | Inr (Some t) \<Rightarrow> p\<lparr>spg_Specs := gm_put server t (spg_Specs p),
          spg_SHA := (if spg_SHA p = [] \<and> tpl_TemplateDigest t \<noteq> [] then tpl_TemplateDigest t
                      else spg_SHA p)\<rparr>)"

primrec sync_servers ::
  "'w http_env \<Rightarrow> codecs \<Rightarrow> registry_http \<Rightarrow> server_info list \<Rightarrow> sync_progress \<Rightarrow> rate_limit_info option
     \<Rightarrow> 'w \<Rightarrow> (sync_progress \<times> rate_limit_info option \<times> 'w) outcome" where
  "sync_servers env cod c [] p rl w = Returns (p, rl, w)"
| "sync_servers env cod c (s # ss) p rl w =
     and_then (getServerSpecWithRateLimit env cod c (sin_Name s) rl w) (\<lambda>(r, rl1, w1).
       sync_servers env cod c ss (sync_one (sin_Name s) r p) rl1 w1)"

definition no_progress :: sync_progress where
  "no_progress = \<lparr>spg_Specs = Some [], spg_Errors = [], spg_SHA = []\<rparr>"

definition SyncRepository ::
  "'w http_env \<Rightarrow> codecs \<Rightarrow> registry_http \<Rightarrow> github_repository \<Rightarrow> 'w
     \<Rightarrow> ((go_error \<times> sync_result) \<times> 'w) outcome" where
  "SyncRepository env cod c repo w =
     (let rc = repository_client c repo in
      and_then (listServersWithRateLimit env cod rc None w) (\<lambda>(r, rl, w1).
        case r of
          Inl e \<Rightarrow> Returns ((Some e, \<lparr>syn_Servers = [], syn_ServerSpecs = None, syn_ObservedSHA = [],
            syn_ServersCount = 0, syn_RateLimitInfo = rl,
            syn_Errors = [''failed to list servers: '' @ e]\<rparr>), w1)
        | Inr servers \<Rightarrow>
            and_then (sync_servers env cod rc servers no_progress rl w1) (\<lambda>(p, rl2, w2).
              Returns ((None, \<lparr>syn_Servers = servers, syn_ServerSpecs = spg_Specs p,
                syn_ObservedSHA = spg_SHA p, syn_ServersCount = to_i32 (int (gm_len (spg_Specs p))),
                syn_RateLimitInfo = rl2, syn_Errors = spg_Errors p\<rparr>), w2))))"

subsection \<open>The GitHub client\<close>

definition parseRepositoryURL :: "string \<Rightarrow> string + github_repository" where
  "parseRepositoryURL repoURL =
     (let u = trim_suffix (trim_prefix (trim_prefix repoURL ''https://github.com/'') ''git@github.com:'') ''.git'' in
      case split_on (CHR ''/'') u of
        owner # name # _ \<Rightarrow>
          Inr \<lparr>ghr_Owner = owner, ghr_Name = name, ghr_Branch = ''main'', ghr_Path = [], ghr_AuthToken = []\<rparr>
      | _ \<Rightarrow> Inl ''invalid repository URL format'')"

text \<open>\<open>url.Parse\<close> and \<open>Query\<close> give the host, the path and the parameter \<open>ref\<close> of a URL.\<close>

record parsed_url =
  pur_Host :: string
  pur_Path :: string
  pur_Ref :: string

definition parseGitHubAPIURL :: "(string \<Rightarrow> string + parsed_url) \<Rightarrow> string \<Rightarrow> string + github_repository" where
  "parseGitHubAPIURL url_Parse apiURL =
     (case url_Parse apiURL of
        Inl e \<Rightarrow> Inl (''invalid URL format: '' @ e)
      | Inr u \<Rightarrow>
          if pur_Host u \<noteq> ''api.github.com'' then Inl ''only GitHub API URLs are supported''
          else (case split_on (CHR ''/'') (trim ''/'' (pur_Path u)) of
            p0 # owner # name # p3 # rest \<Rightarrow>
              if p0 \<noteq> ''repos'' \<or> p3 \<noteq> ''contents''
              then Inl ''invalid GitHub API URL format, expected /repos/{owner}/{repo}/contents/{path}''
              else Inr \<lparr>ghr_Owner = owner, ghr_Name = name,
                     ghr_Branch = (if pur_Ref u = [] then ''main'' else pur_Ref u),
                     ghr_Path = join ''/'' rest, ghr_AuthToken = []\<rparr>
          | _ \<Rightarrow> Inl ''invalid GitHub API URL format, expected /repos/{owner}/{repo}/contents/{path}''))"

definition source_repository :: "registry_source \<Rightarrow> github_source \<Rightarrow> string + github_repository" where
  "source_repository src gh =
     (case parseRepositoryURL (gs_Repo gh) of
        Inl e \<Rightarrow> Inl (''failed to parse repository URL: '' @ e)
      | Inr repo \<Rightarrow> Inr (repo\<lparr>
          ghr_Branch := (if gs_Branch gh \<noteq> [] then gs_Branch gh else ghr_Branch repo),
          ghr_Path := (if rs_Path src \<noteq> [] then rs_Path src else ghr_Path repo)\<rparr>))"

definition registry_repository ::
  "(string \<Rightarrow> string + parsed_url) \<Rightarrow> mcp_registry_spec \<Rightarrow> string + github_repository" where
  "registry_repository url_Parse sp =
     (if rg_URL sp \<noteq> [] then
        (case parseGitHubAPIURL url_Parse (rg_URL sp) of
           Inl e \<Rightarrow> Inl (''failed to parse GitHub API URL: '' @ e)
         | Inr repo \<Rightarrow> Inr repo)
      else (case rg_Source sp of
        None \<Rightarrow> Inl ''neither spec.url nor spec.source.github configuration provided''
      | Some src \<Rightarrow>
          (case rs_Github src of
             None \<Rightarrow> Inl ''neither spec.url nor spec.source.github configuration provided''
           | Some gh \<Rightarrow> source_repository src gh)))"

text \<open>\<open>token\<close> is the token in the context, empty when there is none.\<close>

definition authenticated :: "mcp_registry_spec \<Rightarrow> string \<Rightarrow> github_repository \<Rightarrow> github_repository" where
  "authenticated sp token repo =
     (if (case rg_Auth sp of None \<Rightarrow> False | Some a \<Rightarrow> ra_SecretRef a \<noteq> None) \<and> token \<noteq> []
      then repo\<lparr>ghr_AuthToken := token\<rparr> else repo)"

type_synonym synced = "go_error \<times> sync_result option"

definition github_SyncRegistry ::
  "'w http_env \<Rightarrow> codecs \<Rightarrow> (string \<Rightarrow> string + parsed_url) \<Rightarrow> registry_http \<Rightarrow> string \<Rightarrow> mcp_registry
     \<Rightarrow> 'w \<Rightarrow> (synced \<times> 'w) outcome" where
  "github_SyncRegistry env cod url_Parse c token r w =
     (case registry_repository url_Parse (reg_Spec r) of
        Inl e \<Rightarrow> Returns ((Some e, None), w)
      | Inr repo \<Rightarrow>
          and_then (SyncRepository env cod c (authenticated (reg_Spec r) token repo) w)
            (\<lambda>((e, res), w1). Returns ((e, Some res), w1)))"

section \<open>Correctness\<close>

subsection \<open>Requests that always fail alike\<close>

lemma persistent_failure:
  assumes "\<And>v. fst (github_attempt env v) = Some e"
    and "\<And>k v. fst (shouldRetryError c (gte_now env) (gte_rand env) e k v) = None \<longleftrightarrow> l \<le> k"
    and "\<And>d v. fst (gte_wait env d v) = None"
    and "n \<le> l" and "l \<le> n + left"
  shows "fst (github_loop c env left n w) = GhNonRetryable (l + 1) e"
  using assms(4,5)
proof (induction left arbitrary: n w)
  case 0
  then show ?case using assms(1)[of w] assms(2)[of n "snd (github_attempt env w)"]
    by (subst github_loop.simps)
       (auto simp: github_decide_def split: prod.splits option.splits)
next
  case (Suc left)
  obtain w1 where a: "github_attempt env w = (Some e, w1)"
    using assms(1)[of w] by (metis prod.collapse)
  show ?case
  proof (cases "l \<le> n")
    case True
    with Suc.prems have "n = l" by simp
    moreover from True have "fst (shouldRetryError c (gte_now env) (gte_rand env) e n w1) = None"
      using assms(2) by simp
    ultimately show ?thesis using a
      by (subst github_loop.simps) (auto simp: github_decide_def split: prod.splits option.splits)
  next
    case False
    then obtain d w2 where r: "shouldRetryError c (gte_now env) (gte_rand env) e n w1 = (Some d, w2)"
      using assms(2)[of n w1] by (cases "shouldRetryError c (gte_now env) (gte_rand env) e n w1") auto
    obtain w3 where w3: "gte_wait env d (gte_on_retry env (int (n + 1)) e d w2) = (None, w3)"
      using assms(3) by (metis prod.collapse)
    have "fst (github_loop c env left (Suc n) w3) = GhNonRetryable (l + 1) e"
      using False Suc.prems by (intro Suc.IH) simp_all
    then show ?thesis using a r w3
      by (subst github_loop.simps) (simp add: github_decide_def)
  qed
qed

text \<open>A request that is answered in the first attempt, for good or for ill.\<close>

lemma retried_ok:
  assumes "0 \<le> ghc_MaxRetries (rht_retry c)" and "fn (x, w) = ((None, resp), (y, w1))"
  shows "retried env c fn x w = Returns (None, y, w1)"
  using assms
  by (simp add: retried_def DoWithGitHubRetry_def github_loop.simps github_attempt_def ClassifyGitHubError_def)

lemma retried_persistent:
  assumes "0 \<le> ghc_MaxRetries (rht_retry c)" and "l \<le> nat (ghc_MaxRetries (rht_retry c))"
    and "\<And>v. ClassifyGitHubError (fst (fst (fn v))) (snd (fst (fn v))) = Some e"
    and "\<And>k v now rand. fst (shouldRetryError (rht_retry c) now rand e k (v :: 'c \<times> 'w)) = None \<longleftrightarrow> l \<le> k"
    and "\<And>d v. fst (hte_wait env d v) = None"
  shows "\<exists>y w1. retried env c fn (x :: 'c) (w :: 'w) =
    Returns (github_result_error (GhNonRetryable (l + 1) e), y, w1)"
proof -
  define ge where "ge = \<lparr>gte_fn = fn, gte_now = (\<lambda>(_, v). hte_now env v),
        gte_rand = (\<lambda>(y, v). let (u, v1) = hte_rand env v in (u, (y, v1))),
        gte_on_retry = (\<lambda>_ _ _ yv. yv),
        gte_wait = (\<lambda>d (y, v). let (e, v1) = hte_wait env d v in (e, (y, v1)))\<rparr>"
  have "fst (github_loop (rht_retry c) ge (nat (ghc_MaxRetries (rht_retry c))) 0 (x, w)) =
      GhNonRetryable (l + 1) e"
  proof (rule persistent_failure)
    show "fst (github_attempt ge v) = Some e" for v
      using assms(3)[of v] by (simp add: github_attempt_def ge_def split_beta)
    show "fst (gte_wait ge d v) = None" for d v
      using assms(5) by (simp add: ge_def split_beta)
  qed (use assms(1,2,4) in simp_all)
  then show ?thesis
    using assms(1) unfolding retried_def DoWithGitHubRetry_def ge_def[symmetric]
    by (simp add: split_beta)
qed

subsection \<open>A path that does not exist\<close>

text \<open>The error of a listing that is answered 404, as the closure returns it.\<close>

definition path_not_found :: "registry_http \<Rightarrow> request_error" where
  "path_not_found c = \<lparr>rqe_Message = ''PathNotFound: '' @ rht_baseURL c, rqe_NetType = False\<rparr>"

definition answers_404 :: "'w http_env \<Rightarrow> bool" where
  "answers_404 env \<longleftrightarrow>
     (\<forall>url. hte_new_request env url = None) \<and> (\<forall>d w. fst (hte_wait env d w) = None) \<and>
     (\<forall>req w. \<exists>rep w1. hte_do env req w = (Inr rep, w1) \<and> hr_StatusCode (hrp_Response rep) = 404)"

lemma list_attempt_404:
  assumes "answers_404 env"
  shows "\<exists>resp. fst (list_attempt_limited env cod c x) = (Some (path_not_found c), Some resp) \<and>
    hr_StatusCode resp = 404"
proof -
  obtain ss rl w where x: "x = ((ss, rl), w)" by (cases x) auto
  from assms obtain rep w1 where
    "hte_do env \<lparr>hrq_URL = rht_baseURL c @ ref_query c,
       hrq_Header = request_headers c ''application/vnd.github+json''\<rparr> w = (Inr rep, w1)"
    and "hr_StatusCode (hrp_Response rep) = 404"
    unfolding answers_404_def by blast
  with assms show ?thesis
    by (simp add: x list_attempt_limited_def exchange_def answers_404_def Let_def request_failed_def
        path_not_found_def)
qed

lemma classify_404:
  assumes "hr_StatusCode resp = 404"
  shows "ClassifyGitHubError (Some e) (Some resp) = Some (
    if isNetworkError e
    then \<lparr>ghe_Type = GhNetwork, ghe_StatusCode = 0, ghe_Message = rqe_Message e, ghe_RetryAfter = 0,
           ghe_RateLimitReset = None\<rparr>
    else \<lparr>ghe_Type = GhNotFound, ghe_StatusCode = 404, ghe_Message = ''GitHub API resource not found'',
           ghe_RetryAfter = 0, ghe_RateLimitReset = None\<rparr>)"
  using assms by (simp add: ClassifyGitHubError_def Let_def)

definition listing_404_error :: "registry_http \<Rightarrow> string" where
  "listing_404_error c =
     (if isNetworkError (path_not_found c)
      then ''non-retryable GitHub error after 6 attempts: GitHub API error [network]: PathNotFound: '' @
        rht_baseURL c @ '' (status: 0)''
      else ''non-retryable GitHub error after 1 attempts: GitHub API error [not_found]: GitHub API resource not found (status: 404)'')"

lemma show_numbers: "show_nat 6 = ''6''" "show_nat (Suc 0) = ''1''" "show_int 404 = ''404''" "show_int 0 = ''0''"
  by code_simp+

lemma listing_404:
  assumes "answers_404 env" and "rht_retry c = DefaultGitHubRetryConfig"
  shows "\<exists>rl1 w1. listServersWithRateLimit env cod c rl w = Returns (Inl (listing_404_error c), rl1, w1)"
proof -
  let ?e = "if isNetworkError (path_not_found c)
    then \<lparr>ghe_Type = GhNetwork, ghe_StatusCode = 0, ghe_Message = rqe_Message (path_not_found c),
           ghe_RetryAfter = 0, ghe_RateLimitReset = None\<rparr>
    else \<lparr>ghe_Type = GhNotFound, ghe_StatusCode = 404, ghe_Message = ''GitHub API resource not found'',
           ghe_RetryAfter = 0, ghe_RateLimitReset = None\<rparr>"
  let ?l = "if isNetworkError (path_not_found c) then 5 else 0"
  have "\<exists>y w1. retried env c (list_attempt_limited env cod c) ([], rl) w =
      Returns (github_result_error (GhNonRetryable (?l + 1) ?e), y, w1)"
  proof (rule retried_persistent)
    fix v
    obtain resp where "fst (list_attempt_limited env cod c v) = (Some (path_not_found c), Some resp)"
      and "hr_StatusCode resp = 404"
      using list_attempt_404[OF assms(1)] by blast
    then show "ClassifyGitHubError (fst (fst (list_attempt_limited env cod c v)))
        (snd (fst (list_attempt_limited env cod c v))) = Some ?e"
      by (simp only: fst_conv snd_conv classify_404)
  next
    fix k v now rand
    show "(fst (shouldRetryError (rht_retry c) now rand ?e k v) = None) = (?l \<le> k)"
      by (auto simp: shouldRetryError_def assms(2) DefaultGitHubRetryConfig_def apfst_def map_prod_def
          split: prod.splits)
  qed (use assms in \<open>simp_all add: answers_404_def DefaultGitHubRetryConfig_def\<close>)
  then show ?thesis
    by (auto simp: listServersWithRateLimit_def listing_404_error_def github_Error_def path_not_found_def
        show_numbers)
qed

text \<open>When GitHub answers every request for the list of servers with 404, the error of the
  synchronisation names the missing path only if the URL of the repository happens to contain the text
  of a network problem: then the answer is taken for one and asked for five more times.\<close>

lemma sync_404:
  assumes "answers_404 env" and "rht_retry c = DefaultGitHubRetryConfig"
  shows "\<exists>m res w1. SyncRepository env cod c repo w = Returns ((Some m, res), w1) \<and>
    (str_contains m ''PathNotFound:'' \<longleftrightarrow> isNetworkError (path_not_found (repository_client c repo)))"
proof -
  let ?rc = "repository_client c repo"
  have "rht_retry ?rc = DefaultGitHubRetryConfig"
    using assms(2) by (simp add: repository_client_def Let_def)
  from listing_404[OF assms(1) this] obtain rl1 w1 where
    l: "listServersWithRateLimit env cod ?rc None w = Returns (Inl (listing_404_error ?rc), rl1, w1)"
    by blast
  have "str_contains (listing_404_error ?rc) ''PathNotFound:'' \<longleftrightarrow> isNetworkError (path_not_found ?rc)"
  proof (cases "isNetworkError (path_not_found ?rc)")
    case True
    have "listing_404_error ?rc =
      ''non-retryable GitHub error after 6 attempts: GitHub API error [network]: '' @ ''PathNotFound:'' @
        ('' '' @ rht_baseURL ?rc @ '' (status: 0)'')"
      using True by (simp add: listing_404_error_def)
    with True show ?thesis unfolding str_contains_iff by blast
  next
    case False
    have "\<not> str_contains ''non-retryable GitHub error after 1 attempts: GitHub API error [not_found]: GitHub API resource not found (status: 404)'' ''PathNotFound:''"
      by code_simp
    with False show ?thesis by (simp add: listing_404_error_def)
  qed
  with l show ?thesis by (simp add: SyncRepository_def Let_def)
qed

text \<open>A server that answers everything with 404.\<close>

definition empty_github :: "unit http_env" where
  "empty_github = \<lparr>hte_new_request = (\<lambda>_. None),
     hte_do = (\<lambda>_ w. (Inr \<lparr>hrp_Response = \<lparr>hr_StatusCode = 404, hr_Header = None\<rparr>, hrp_Body = Inr []\<rparr>, w)),
     hte_now = (\<lambda>_. 0), hte_rand = (\<lambda>w. (0, w)), hte_wait = (\<lambda>_ w. (None, w))\<rparr>"

definition no_codecs :: codecs where
  "no_codecs = \<lparr>cod_listing = (\<lambda>_. Inl []), cod_file = (\<lambda>_. Inl []), cod_contents = (\<lambda>_. Inl []),
     cod_json = (\<lambda>_. Inl []), cod_yaml = (\<lambda>_. Inl []), cod_base64_error = (\<lambda>_. []),
     cod_sha256_hex = (\<lambda>_. [])\<rparr>"

definition sample_repository :: github_repository where
  "sample_repository = \<lparr>ghr_Owner = ''docker'', ghr_Name = ''mcp-registry'', ghr_Branch = [],
     ghr_Path = ''/servers/'', ghr_AuthToken = []\<rparr>"

lemma empty_github_404: "answers_404 empty_github"
  by (simp add: answers_404_def empty_github_def)

lemma sample_path_not_reported:
  "\<not> isNetworkError (path_not_found (repository_client (NewClient []) sample_repository))"
  by code_simp

subsection \<open>What a synchronisation collects\<close>

text \<open>The results of fetching all templates, one per server, in order.\<close>

primrec fetch_all ::
  "'w http_env \<Rightarrow> codecs \<Rightarrow> registry_http \<Rightarrow> server_info list \<Rightarrow> rate_limit_info option \<Rightarrow> 'w
     \<Rightarrow> ((string \<times> (string + server_template option)) list \<times> rate_limit_info option \<times> 'w) outcome" where
  "fetch_all env cod c [] rl w = Returns ([], rl, w)"
| "fetch_all env cod c (s # ss) rl w =
     and_then (getServerSpecWithRateLimit env cod c (sin_Name s) rl w) (\<lambda>(r, rl1, w1).
     and_then (fetch_all env cod c ss rl1 w1) (\<lambda>(rs, rl2, w2).
       Returns ((sin_Name s, r) # rs, rl2, w2)))"

definition fetched :: "(string \<times> (string + server_template option)) list \<Rightarrow> (string \<times> server_template) list" where
  "fetched rs = concat (map (\<lambda>(n, r). case r of Inr (Some t) \<Rightarrow> [(n, t)] | _ \<Rightarrow> []) rs)"

definition fetch_errors :: "(string \<times> (string + server_template option)) list \<Rightarrow> string list" where
  "fetch_errors rs =
     concat (map (\<lambda>(n, r). case r of Inl e \<Rightarrow> [''failed to get spec for '' @ n @ '': '' @ e] | _ \<Rightarrow> []) rs)"

definition without_template :: "(string \<times> (string + server_template option)) list \<Rightarrow> string list" where
  "without_template rs = concat (map (\<lambda>(n, r). case r of Inr None \<Rightarrow> [n] | _ \<Rightarrow> []) rs)"

definition first_digest :: "server_template list \<Rightarrow> string" where
  "first_digest ts = (case filter (\<lambda>d. d \<noteq> []) (map tpl_TemplateDigest ts) of [] \<Rightarrow> [] | d # _ \<Rightarrow> d)"

lemma sync_servers_fetch_all:
  "sync_servers env cod c ss p rl w =
     and_then (fetch_all env cod c ss rl w) (\<lambda>(rs, rl1, w1).
       Returns (fold (\<lambda>(n, r). sync_one n r) rs p, rl1, w1))"
proof (induction ss arbitrary: p rl w)
  case (Cons s ss)
  show ?case
  proof (cases "getServerSpecWithRateLimit env cod c (sin_Name s) rl w")
    case (Returns x)
    obtain r rl1 w1 where x: "x = (r, rl1, w1)" by (cases x)
    show ?thesis
      by (cases "fetch_all env cod c ss rl1 w1") (auto simp: Returns x Cons.IH)
  qed simp
qed simp

lemma fetch_all_names:
  "fetch_all env cod c ss rl w = Returns (rs, rl1, w1) \<Longrightarrow> map fst rs = map sin_Name ss"
proof (induction ss arbitrary: rs rl w)
  case (Cons s ss)
  show ?case
  proof (cases "getServerSpecWithRateLimit env cod c (sin_Name s) rl w")
    case (Returns x)
    obtain r rl' w' where x: "x = (r, rl', w')" by (cases x)
    from Cons.prems Returns x show ?thesis
      using Cons.IH[of rl' w'] by (cases "fetch_all env cod c ss rl' w'") auto
  qed (use Cons.prems in simp)
qed simp

lemma result_simps [simp]:
  "fetched [] = []" "fetched ((n, Inl e) # rs) = fetched rs"
  "fetched ((n, Inr None) # rs) = fetched rs" "fetched ((n, Inr (Some t)) # rs) = (n, t) # fetched rs"
  "fetch_errors [] = []"
  "fetch_errors ((n, Inl e) # rs) = (''failed to get spec for '' @ n @ '': '' @ e) # fetch_errors rs"
  "fetch_errors ((n, Inr ot) # rs) = fetch_errors rs"
  "without_template [] = []" "without_template ((n, Inl e) # rs) = without_template rs"
  "without_template ((n, Inr None) # rs) = n # without_template rs"
  "without_template ((n, Inr (Some t)) # rs) = without_template rs"
  "first_digest [] = []"
  "first_digest (t # ts) = (if tpl_TemplateDigest t = [] then first_digest ts else tpl_TemplateDigest t)"
  by (simp_all add: fetched_def fetch_errors_def without_template_def first_digest_def)

lemma result_cases:
  obtains (Failed) n e where "nr = (n, Inl e)" | (Missing) n where "nr = (n, Inr None)"
    | (Fetched) n t where "nr = (n, Inr (Some t))"
  by (cases nr; cases "snd nr"; cases "projr (snd nr)") auto

lemma sync_one_simps:
  "sync_one n (Inl e) p =
     p\<lparr>spg_Errors := spg_Errors p @ [''failed to get spec for '' @ n @ '': '' @ e]\<rparr>"
  "sync_one n (Inr None) p = p"
  "sync_one n (Inr (Some t)) p = p\<lparr>spg_Specs := gm_put n t (spg_Specs p),
     spg_SHA := (if spg_SHA p = [] \<and> tpl_TemplateDigest t \<noteq> [] then tpl_TemplateDigest t else spg_SHA p)\<rparr>"
  by (simp_all add: sync_one_def)

lemma fold_sync_one:
  "fold (\<lambda>(n, r). sync_one n r) rs p = \<lparr>
     spg_Specs = gm_put_all (fetched rs) (spg_Specs p),
     spg_Errors = spg_Errors p @ fetch_errors rs,
     spg_SHA = (if spg_SHA p = [] then first_digest (map snd (fetched rs)) else spg_SHA p)\<rparr>"
proof (induction rs arbitrary: p)
  case Nil
  then show ?case by simp
next
  case (Cons nr rs)
  show ?case by (cases nr rule: result_cases) (simp_all add: Cons sync_one_simps)
qed

lemma results_accounted: "length (fetched rs) + length (fetch_errors rs) + length (without_template rs) = length rs"
proof (induction rs)
  case (Cons nr rs)
  then show ?case by (cases nr rule: result_cases) simp_all
qed simp

lemma fetched_names: "fst ` set (fetched rs) \<subseteq> fst ` set rs"
proof (induction rs)
  case (Cons nr rs)
  then show ?case by (cases nr rule: result_cases) auto
qed simp

lemma fetched_distinct: "distinct (map fst rs) \<Longrightarrow> distinct (map fst (fetched rs))"
proof (induction rs)
  case (Cons nr rs)
  then show ?case using fetched_names[of rs] by (cases nr rule: result_cases) auto
qed simp

lemma update_fresh: "k \<notin> fst ` set es \<Longrightarrow> AList.update k v es = es @ [(k, v)]"
  by (induction es) auto

lemma put_all_fresh:
  "distinct (map fst kvs) \<Longrightarrow> fst ` set kvs \<inter> fst ` set es = {} \<Longrightarrow>
     gm_put_all kvs (Some es) = Some (es @ kvs)"
proof (induction kvs arbitrary: es)
  case (Cons kv kvs)
  obtain k v where kv: "kv = (k, v)" by (cases kv)
  have "AList.update k v es = es @ [(k, v)]"
    using Cons.prems kv by (intro update_fresh) auto
  with Cons kv show ?case by (auto simp: gm_put_def)
qed simp

lemma sync_repository_results:
  assumes "SyncRepository env cod c repo w = Returns ((None, res), w')"
    and "distinct (map sin_Name (syn_Servers res))" and "int (length (syn_Servers res)) < 2 ^ 31"
  obtains results where "map fst results = map sin_Name (syn_Servers res)"
    and "syn_ServerSpecs res = Some (fetched results)" and "syn_Errors res = fetch_errors results"
    and "syn_ObservedSHA res = first_digest (map snd (fetched results))"
    and "syn_ServersCount res = int (length (fetched results))"
proof -
  let ?rc = "repository_client c repo"
  from assms(1) obtain servers rl w1 rs rl2 where
    f: "fetch_all env cod ?rc servers rl w1 = Returns (rs, rl2, w')" and
    res: "res = \<lparr>syn_Servers = servers,
      syn_ServerSpecs = spg_Specs (fold (\<lambda>(n, r). sync_one n r) rs no_progress),
      syn_ObservedSHA = spg_SHA (fold (\<lambda>(n, r). sync_one n r) rs no_progress),
      syn_ServersCount = to_i32 (int (gm_len (spg_Specs (fold (\<lambda>(n, r). sync_one n r) rs no_progress)))),
      syn_RateLimitInfo = rl2, syn_Errors = spg_Errors (fold (\<lambda>(n, r). sync_one n r) rs no_progress)\<rparr>"
    by (cases "listServersWithRateLimit env cod ?rc None w")
       (auto simp: SyncRepository_def Let_def sync_servers_fetch_all split: sum.splits elim!: and_then.elims)
  have names: "map fst rs = map sin_Name servers" by (rule fetch_all_names[OF f])
  with assms(2) res have "distinct (map fst (fetched rs))"
    by (intro fetched_distinct) simp
  then have specs: "gm_put_all (fetched rs) (Some []) = Some (fetched rs)"
    by (simp add: put_all_fresh)
  have len: "length rs = length servers" using names map_eq_imp_length_eq by blast
  note acc = results_accounted[of rs]
  have "int (length (fetched rs)) < 2 ^ 31" using acc len assms(3) res by simp
  then have "to_i32 (int (length (fetched rs))) = int (length (fetched rs))"
    by (intro to_i32_id) simp_all
  with names len specs show ?thesis
    by (intro that[of rs]) (simp_all add: res fold_sync_one no_progress_def gm_len_def)
qed


text \<open>A repository with two directories of which one has a template.\<close>

definition listed_dir :: "string \<Rightarrow> registry_response" where
  "listed_dir n = \<lparr>rgp_Name = n, rgp_Path = ''servers/'' @ n, rgp_SHA = [], rgp_Size = 0, rgp_URL = [],
     rgp_HTMLURL = [], rgp_GitURL = [], rgp_DownloadURL = [], rgp_Type = ''dir'', rgp_Content = [],
     rgp_Encoding = []\<rparr>"

definition small_github :: "unit http_env" where
  "small_github = empty_github\<lparr>hte_do := (\<lambda>req w.
     (Inr \<lparr>hrp_Response = \<lparr>hr_StatusCode = (if str_contains (hrq_URL req) ''/b/'' then 404 else 200),
        hr_Header = None\<rparr>, hrp_Body = Inr ''body''\<rparr>, w))\<rparr>"

definition small_codecs :: codecs where
  "small_codecs = no_codecs\<lparr>cod_listing := (\<lambda>_. Inr [listed_dir ''a'', listed_dir ''b'']),
     cod_yaml := (\<lambda>_. Inr zero_template), cod_sha256_hex := (\<lambda>_. ''d1'')\<rparr>"

definition small_result :: sync_result where
  "small_result = snd (fst (result_of
     (SyncRepository small_github small_codecs (NewClient []) sample_repository ())))"

lemma small_sync: "SyncRepository small_github small_codecs (NewClient []) sample_repository () =
    Returns ((None, small_result), ())"
  by code_simp

lemma small_names: "map sin_Name (syn_Servers small_result) = [''a'', ''b'']"
  by code_simp


subsection \<open>URLs\<close>

text \<open>A repository whose parts can be written into a URL and read back.\<close>

definition plain_part :: "string \<Rightarrow> bool" where
  "plain_part s \<longleftrightarrow> s \<noteq> [] \<and> CHR ''/'' \<notin> set s"

definition api_path :: "github_repository \<Rightarrow> string" where
  "api_path repo = join ''/'' ([''repos'', ghr_Owner repo, ghr_Name repo, ''contents''] @
     split_on (CHR ''/'') (template_base (ghr_Path repo)))"


lemma join_Cons: "ps \<noteq> [] \<Longrightarrow> join sep (p # ps) = p @ sep @ join sep ps"
  by (cases ps) simp_all

lemma template_base_ends: "template_base p \<noteq> [] \<and> List.last (template_base p) \<noteq> CHR ''/''"
  using trim_ends[of "''/''" p] by (auto simp: template_base_def Let_def)

lemma template_base_idem: "template_base (template_base p) = template_base p"
proof -
  have "trim ''/'' (trim ''/'' p) = trim ''/'' p" using trim_ends[of "''/''" p] by (intro trim_id) auto
  moreover have "trim ''/'' ''servers'' = ''servers''" by (intro trim_id) simp
  ultimately show ?thesis by (simp add: template_base_def Let_def)
qed

lemma api_path_text:
  "api_path repo = ''repos/'' @ ghr_Owner repo @ ''/'' @ ghr_Name repo @ ''/contents/'' @ template_base (ghr_Path repo)"
proof -
  have "join ''/'' (split_on (CHR ''/'') (template_base (ghr_Path repo))) = template_base (ghr_Path repo)"
    by (rule join_split)
  then show ?thesis by (simp add: api_path_def join_Cons)
qed

lemma api_path_parts:
  assumes "plain_part (ghr_Owner repo)" and "plain_part (ghr_Name repo)"
  shows "split_on (CHR ''/'') (trim ''/'' (''/'' @ api_path repo)) =
    [''repos'', ghr_Owner repo, ghr_Name repo, ''contents''] @ split_on (CHR ''/'') (template_base (ghr_Path repo))"
proof -
  have "List.last (api_path repo) \<noteq> CHR ''/''" "hd (api_path repo) \<noteq> CHR ''/''"
    using template_base_ends[of "ghr_Path repo"] by (simp_all add: api_path_text)
  then have "trim ''/'' (api_path repo) = api_path repo" by (intro trim_id) simp
  moreover have "trim ''/'' (''/'' @ api_path repo) = trim ''/'' (api_path repo)"
    by (simp add: trim_def trim_left_def)
  ultimately have "trim ''/'' (''/'' @ api_path repo) = api_path repo" by simp
  moreover have "split_on (CHR ''/'') (api_path repo) =
    [''repos'', ghr_Owner repo, ghr_Name repo, ''contents''] @ split_on (CHR ''/'') (template_base (ghr_Path repo))"
    unfolding api_path_def using assms split_parts
    by (intro split_join) (auto simp: plain_part_def)
  ultimately show ?thesis by simp
qed

lemma parse_api_url:
  assumes "url_Parse u = Inr \<lparr>pur_Host = host, pur_Path = path, pur_Ref = branch\<rparr>"
    and "host = ''api.github.com''"
    and "split_on (CHR ''/'') (trim ''/'' path) = [''repos'', own, name, ''contents''] @ rest"
  shows "parseGitHubAPIURL url_Parse u = Inr \<lparr>ghr_Owner = own, ghr_Name = name,
     ghr_Branch = (if branch = [] then ''main'' else branch), ghr_Path = join ''/'' rest,
     ghr_AuthToken = []\<rparr>"
  by (simp add: parseGitHubAPIURL_def assms)



end
