(* ===== verification/RegistryCache.thy ===== *)
theory RegistryCache
  imports RegistryClient
begin

section \<open>The cache of templates\<close>

text \<open>
  \<open>pkg/registry/cache/cache_manager.go\<close>: the ConfigMaps in which the registry controller leaves
  the templates of its servers for the enrichment of theory RegistryService to find. Server-side
  apply, owner references and the encoders are parameters; the other calls are those of the API
  server.
\<close>

subsection \<open>Names\<close>

text \<open>
  The lower-case form of a code point as far as it is one of the characters that are kept: besides
  the capital letters only the Kelvin sign and the dotted capital I become ASCII letters. What is
  not kept, underscores and blanks among it, is replaced by a hyphen.
\<close>

definition lower_rune :: "nat \<Rightarrow> nat" where
  "lower_rune r =
     (if 65 \<le> r \<and> r \<le> 90 then r + 32 else if r = 0x212A then 107 else if r = 0x130 then 105 else r)"

definition kept_rune :: "nat \<Rightarrow> bool" where
  "kept_rune r \<longleftrightarrow> (97 \<le> r \<and> r \<le> 122) \<or> (48 \<le> r \<and> r \<le> 57) \<or> r = 45 \<or> r = 46"

definition dns_char :: "nat \<Rightarrow> char" where
  "dns_char r = (if kept_rune (lower_rune r) then char_of (lower_rune r) else CHR ''-'')"

definition dns1123Name :: "string \<Rightarrow> string" where
  "dns1123Name s =
     (let t = trim ''-.'' (map dns_char (runes s));
          u = (if t = [] then ''server'' else t)
      in if length u > 253 then take 253 u else u)"

subsection \<open>Writing\<close>

record registry_index =
  rix_Name :: string
  rix_Description :: string
  rix_LastUpdated :: instant
  rix_ServersCount :: int
  rix_Servers :: "server_info list"
  rix_Metadata :: "string gomap"

record 'w cache_manager =
  cac_api :: "('w, config_map) kube_api"
  cac_apply :: "config_map \<Rightarrow> 'w \<Rightarrow> api_error option \<times> 'w"
  cac_own :: "mcp_registry \<Rightarrow> config_map \<Rightarrow> go_error"
  cac_yaml :: "server_template \<Rightarrow> string + string"
  cac_json :: "registry_index \<Rightarrow> string + string"

definition lab_registry :: string where "lab_registry = ''mcp.allbeone.io/registry''"
definition lab_server :: string where "lab_server = ''mcp.allbeone.io/server''"

definition server_config_map :: "string \<Rightarrow> string \<Rightarrow> string \<Rightarrow> mcp_registry \<Rightarrow> config_map" where
  "server_config_map registryName orig yaml r =
     (let safe = dns1123Name orig in
      \<lparr>cm_Name = ''mcpregistry-'' @ registryName @ ''-'' @ safe,
       cm_Namespace = om_Namespace (reg_Meta r),
       cm_Labels = Some [(lab_registry, registryName), (lab_server, safe),
         (''app.kubernetes.io/name'', ''mcp-operator''), (''app.kubernetes.io/part-of'', ''mcp-registry'')],
       cm_Annotations = Some [(''mcp.allbeone.io/server-original'', orig)],
       cm_Data = Some [(''server.yaml'', yaml)]\<rparr>)"

definition CacheServer ::
  "'w cache_manager \<Rightarrow> string \<Rightarrow> server_info \<Rightarrow> server_template \<Rightarrow> mcp_registry \<Rightarrow> 'w
     \<Rightarrow> go_error \<times> 'w" where
  "CacheServer cc registryName info spec r w =
     (case cac_yaml cc spec of
        Inl e \<Rightarrow> (Some (''failed to marshal server spec: '' @ e), w)
      | Inr yaml \<Rightarrow>
          (let cm = server_config_map registryName (sin_Name info) yaml r in
           case cac_own cc r cm of
             Some e \<Rightarrow> (Some (''failed to set controller reference: '' @ e), w)
           | None \<Rightarrow>
               (case cac_apply cc cm w of
                  (Some e, w1) \<Rightarrow> (Some (''failed to apply ConfigMap: '' @ api_msg e), w1)
                | (None, w1) \<Rightarrow> (None, w1))))"

definition index_config_map :: "string \<Rightarrow> string \<Rightarrow> mcp_registry \<Rightarrow> config_map" where
  "index_config_map registryName json r =
     \<lparr>cm_Name = ''mcpregistry-'' @ registryName @ ''-index'',
      cm_Namespace = om_Namespace (reg_Meta r),
      cm_Labels = Some [(lab_registry, registryName), (''mcp.allbeone.io/type'', ''index''),
        (''app.kubernetes.io/name'', ''mcp-operator''), (''app.kubernetes.io/part-of'', ''mcp-registry'')],
      cm_Annotations = None, cm_Data = Some [(''index.json'', json)]\<rparr>"

definition CacheIndex ::
  "'w cache_manager \<Rightarrow> string \<Rightarrow> registry_index \<Rightarrow> mcp_registry \<Rightarrow> 'w \<Rightarrow> go_error \<times> 'w" where
  "CacheIndex cc registryName index r w =
     (case cac_json cc index of
        Inl e \<Rightarrow> (Some (''failed to marshal registry index: '' @ e), w)
      | Inr json \<Rightarrow>
          (let cm = index_config_map registryName json r in
           case cac_own cc r cm of
             Some e \<Rightarrow> (Some (''failed to set controller reference: '' @ e), w)
           | None \<Rightarrow>
               (case cac_apply cc cm w of
                  (Some e, w1) \<Rightarrow> (Some (''failed to apply index ConfigMap: '' @ api_msg e), w1)
                | (None, w1) \<Rightarrow> (None, w1))))"

subsection \<open>Listing and deleting\<close>

definition registry_maps ::
  "'w cache_manager \<Rightarrow> string \<Rightarrow> string \<Rightarrow> 'w \<Rightarrow> (api_error + config_map list) \<times> 'w" where
  "registry_maps cc namespace registryName w =
     ka_list (cac_api cc) (namespace, [(lab_registry, registryName)]) w"

text \<open>A map that cannot be deleted is logged and left.\<close>

primrec delete_each :: "'w cache_manager \<Rightarrow> config_map list \<Rightarrow> 'w \<Rightarrow> 'w" where
  "delete_each cc [] w = w"
| "delete_each cc (cm # cms) w = delete_each cc cms (snd (ka_delete (cac_api cc) cm w))"

definition orphaned :: "string list \<Rightarrow> config_map \<Rightarrow> bool" where
  "orphaned activeServers cm =
     (case gm_get (cm_Labels cm) lab_server of
        None \<Rightarrow> False
      | Some serverName \<Rightarrow> serverName \<notin> set activeServers)"

definition CleanupOrphanedConfigMaps ::
  "'w cache_manager \<Rightarrow> string \<Rightarrow> string list \<Rightarrow> mcp_registry \<Rightarrow> 'w \<Rightarrow> go_error \<times> 'w" where
  "CleanupOrphanedConfigMaps cc registryName activeServers r w =
     (case registry_maps cc (om_Namespace (reg_Meta r)) registryName w of
        (Inl e, w1) \<Rightarrow> (Some (''failed to list ConfigMaps: '' @ api_msg e), w1)
      | (Inr cms, w1) \<Rightarrow> (None, delete_each cc (filter (orphaned activeServers) cms) w1))"

definition server_label :: "config_map \<Rightarrow> string list" where
  "server_label cm = (case gm_get (cm_Labels cm) lab_server of None \<Rightarrow> [] | Some n \<Rightarrow> [n])"

definition ListCachedServers ::
  "'w cache_manager \<Rightarrow> string \<Rightarrow> string \<Rightarrow> 'w \<Rightarrow> (string + string list) \<times> 'w" where
  "ListCachedServers cc registryName namespace w =
     (case registry_maps cc namespace registryName w of
        (Inl e, w1) \<Rightarrow> (Inl (''failed to list ConfigMaps: '' @ api_msg e), w1)
      | (Inr cms, w1) \<Rightarrow> (Inr (concat (map server_label cms)), w1))"

definition CleanupRegistry :: "'w cache_manager \<Rightarrow> string \<Rightarrow> string \<Rightarrow> 'w \<Rightarrow> go_error \<times> 'w" where
  "CleanupRegistry cc registryName namespace w =
     (case registry_maps cc namespace registryName w of
        (Inl e, w1) \<Rightarrow>
          (Some (''failed to list ConfigMaps for registry '' @ registryName @ '': '' @ api_msg e), w1)
      | (Inr cms, w1) \<Rightarrow> (None, delete_each cc cms w1))"

section \<open>Correctness\<close>

subsection \<open>Safe names\<close>

definition kept_char :: "char \<Rightarrow> bool" where
  "kept_char c \<longleftrightarrow> kept_rune (byte_of c)"

definition safe_name :: "string \<Rightarrow> bool" where
  "safe_name s \<longleftrightarrow> s \<noteq> [] \<and> length s \<le> 253 \<and> list_all kept_char s \<and>
     hd s \<notin> {CHR ''-'', CHR ''.''} \<and> List.last s \<notin> {CHR ''-'', CHR ''.''}"

lemma dns_char_kept: "kept_char (dns_char r)"
proof (cases "kept_rune (lower_rune r)")
  case True
  then have "lower_rune r < 256" by (auto simp: kept_rune_def)
  with True show ?thesis by (simp add: dns_char_def kept_char_def byte_of_char_of)
next
  case False
  then show ?thesis by (simp add: dns_char_def kept_char_def kept_rune_def byte_of_def)
qed

lemma dns_char_fixed: "kept_char c \<Longrightarrow> dns_char (byte_of c) = c"
proof -
  assume k: "kept_char c"
  then have "lower_rune (byte_of c) = byte_of c"
    by (auto simp: kept_char_def kept_rune_def lower_rune_def)
  with k show "dns_char (byte_of c) = c" by (simp add: dns_char_def kept_char_def char_of_byte_of)
qed

lemma kept_ascii: "kept_char c \<Longrightarrow> byte_of c < 0x80"
  by (auto simp: kept_char_def kept_rune_def)

lemma dns_chars_fixed:
  assumes "list_all kept_char s" shows "map dns_char (runes s) = s"
proof -
  have "runes s = map byte_of s" using assms kept_ascii by (intro runes_ascii) (auto simp: list_all_iff)
  then show ?thesis using assms dns_char_fixed by (simp add: list_all_iff map_idI)
qed

lemma rune_list_length: "length (rune_list bs) \<le> length bs"
proof (induction bs rule: rune_list.induct)
  case (2 b bs)
  have "length (drop (snd (next_rune (b # bs))) (b # bs)) \<le> length bs"
    using next_rune_progress[of b bs] by simp
  with 2 show ?case by simp
qed simp

lemma dns_trimmed:
  obtains t where "t = trim ''-.'' (map dns_char (runes s))" and "list_all kept_char t"
    and "t = [] \<or> (hd t \<notin> {CHR ''-'', CHR ''.''} \<and> List.last t \<notin> {CHR ''-'', CHR ''.''})"
    and "length t \<le> length s"
proof
  let ?t = "trim ''-.'' (map dns_char (runes s))"
  show "list_all kept_char ?t"
    using trim_set[of "''-.''" "map dns_char (runes s)"] dns_char_kept by (auto simp: list_all_iff)
  show "?t = [] \<or> (hd ?t \<notin> {CHR ''-'', CHR ''.''} \<and> List.last ?t \<notin> {CHR ''-'', CHR ''.''})"
    using trim_ends[of "''-.''" "map dns_char (runes s)"] by simp
  have "length (trim cs u) \<le> length u" for cs u
    unfolding trim_def trim_left_def by (metis length_dropWhile_le length_rev order_trans)
  from this[of "''-.''" "map dns_char (runes s)"] rune_list_length[of "map byte_of s"]
  show "length ?t \<le> length s" by (simp add: runes_def)
qed (rule refl)

lemma kept_server: "list_all kept_char ''server''"
  by code_simp

lemma dns_shape:
  obtains u where "dns1123Name s = take 253 u" and "u \<noteq> []" and "list_all kept_char u"
    and "hd u \<notin> {CHR ''-'', CHR ''.''}" and "List.last u \<notin> {CHR ''-'', CHR ''.''}"
    and "length s \<le> 253 \<Longrightarrow> length u \<le> 253" and "safe_name s \<Longrightarrow> u = s"
proof -
  obtain t where t: "t = trim ''-.'' (map dns_char (runes s))" "list_all kept_char t"
    "t = [] \<or> (hd t \<notin> {CHR ''-'', CHR ''.''} \<and> List.last t \<notin> {CHR ''-'', CHR ''.''})" "length t \<le> length s"
    by (rule dns_trimmed)
  define u where "u = (if t = [] then ''server'' else t)"
  show ?thesis
  proof (rule that)
    show "dns1123Name s = take 253 u" by (simp add: dns1123Name_def Let_def u_def t(1))
    show "u \<noteq> []" "list_all kept_char u" "hd u \<notin> {CHR ''-'', CHR ''.''}" "List.last u \<notin> {CHR ''-'', CHR ''.''}"
      using t(2,3) kept_server by (auto simp: u_def)
    show "length s \<le> 253 \<Longrightarrow> length u \<le> 253" using t(4) by (simp add: u_def)
    assume safe: "safe_name s"
    then have "t = s" using t(1)
      by (simp add: dns_chars_fixed safe_name_def) (intro trim_id, simp)
    with safe show "u = s" by (simp add: u_def safe_name_def)
  qed
qed

lemma dns_fixed_iff: "dns1123Name s = s \<longleftrightarrow> safe_name s"
proof (rule dns_shape[of s])
  fix u assume u: "dns1123Name s = take 253 u" "u \<noteq> []" "list_all kept_char u"
    "hd u \<notin> {CHR ''-'', CHR ''.''}" "List.last u \<notin> {CHR ''-'', CHR ''.''}"
    "length s \<le> 253 \<Longrightarrow> length u \<le> 253" "safe_name s \<Longrightarrow> u = s"
  show ?thesis
  proof
    assume s: "dns1123Name s = s"
    have "length (take 253 u) \<le> 253" by simp
    with s u(1) have "length s \<le> 253" by metis
    with u(6) have "length u \<le> 253" .
    with s u(1) have "s = u" by simp
    then show "safe_name s" using u(2-5) \<open>length u \<le> 253\<close> unfolding safe_name_def by blast
  next
    assume "safe_name s"
    with u(1,7) show "dns1123Name s = s" by (simp add: safe_name_def)
  qed
qed

text \<open>Whatever the name of a directory, the name made of it is one Kubernetes accepts, except that
  cutting it to 253 bytes may leave a hyphen or a dot at its end; and a name is left as it is exactly
  if it is such a name already.\<close>

theorem dns_name_safe:
  "dns1123Name s \<noteq> [] \<and> length (dns1123Name s) \<le> 253 \<and> list_all kept_char (dns1123Name s) \<and>
   hd (dns1123Name s) \<notin> {CHR ''-'', CHR ''.''} \<and>
   (safe_name (dns1123Name s) \<or> length (dns1123Name s) = 253) \<and>
   (dns1123Name s = s \<longleftrightarrow> safe_name s)"
proof (rule dns_shape[of s])
  fix u assume u: "dns1123Name s = take 253 u" "u \<noteq> []" "list_all kept_char u"
    "hd u \<notin> {CHR ''-'', CHR ''.''}" "List.last u \<notin> {CHR ''-'', CHR ''.''}"
  then have "safe_name (dns1123Name s) \<or> length (dns1123Name s) = 253"
    by (cases "length u \<le> 253") (simp_all add: safe_name_def)
  moreover have "list_all kept_char (take 253 u)"
    using u(3) by (auto simp: list_all_iff dest: in_set_takeD)
  ultimately show ?thesis using u(1,2,4) dns_fixed_iff[of s] by simp
qed

subsection \<open>From the cache to the enrichment\<close>

text \<open>
  Server-side apply with force leaves every applied entry in the object it stores, and keeps the
  cluster elsewhere; listing by labels reports the matching objects of the namespace.
\<close>

definition cm_key :: "config_map \<Rightarrow> string \<times> string" where
  "cm_key cm = (cm_Namespace cm, cm_Name cm)"

definition apply_stores ::
  "'w cache_manager \<Rightarrow> ('w \<Rightarrow> string \<times> string \<Rightarrow> config_map option) \<Rightarrow> bool" where
  "apply_stores cc look \<longleftrightarrow>
     (\<forall>cm w w1. cac_apply cc cm w = (None, w1) \<longrightarrow>
        (\<exists>stored. look w1 = (look w)(cm_key cm \<mapsto> stored) \<and>
           (\<forall>k v. gm_get (cm_Data cm) k = Some v \<longrightarrow> gm_get (cm_Data stored) k = Some v)))"

definition has_labels :: "(string \<times> string) list \<Rightarrow> config_map \<Rightarrow> bool" where
  "has_labels sel cm \<longleftrightarrow> list_all (\<lambda>(k, v). gm_get (cm_Labels cm) k = Some v) sel"

definition lists_labelled ::
  "('w, config_map) kube_api \<Rightarrow> ('w \<Rightarrow> string \<times> string \<Rightarrow> config_map option) \<Rightarrow> bool" where
  "lists_labelled k look \<longleftrightarrow>
     (\<forall>ns sel w. \<exists>xs. ka_list k (ns, sel) w = (Inr xs, w) \<and>
        set xs = {cm. look w (cm_key cm) = Some cm \<and> cm_Namespace cm = ns \<and> has_labels sel cm})"

definition keys_agree ::
  "('w, config_map) kube_api \<Rightarrow> ('w \<Rightarrow> string \<times> string \<Rightarrow> config_map option) \<Rightarrow> bool" where
  "keys_agree k look \<longleftrightarrow>
     (\<forall>cm. (ka_namespace k cm, ka_name k cm) = cm_key cm) \<and>
     (\<forall>w key cm. look w key = Some cm \<longrightarrow> key = cm_key cm)"

lemma cached_server_stored:
  assumes "apply_stores cc look" and "CacheServer cc registryName info t r w = (None, w1)"
  obtains yaml stored where "cac_yaml cc t = Inr yaml"
    and "look w1 = (look w)(cm_key (server_config_map registryName (sin_Name info) yaml r) \<mapsto> stored)"
    and "gm_get (cm_Data stored) ''server.yaml'' = Some yaml"
proof -
  from assms(2) obtain yaml where y: "cac_yaml cc t = Inr yaml"
    and a: "cac_apply cc (server_config_map registryName (sin_Name info) yaml r) w = (None, w1)"
    by (auto simp: CacheServer_def Let_def split: sum.splits option.splits prod.splits)
  have d: "gm_get (cm_Data (server_config_map registryName (sin_Name info) yaml r)) ''server.yaml'' = Some yaml"
    by (simp add: server_config_map_def Let_def gm_get_def)
  from assms(1) a obtain stored where
    "look w1 = (look w)(cm_key (server_config_map registryName (sin_Name info) yaml r) \<mapsto> stored)"
    "\<forall>k v. gm_get (cm_Data (server_config_map registryName (sin_Name info) yaml r)) k = Some v \<longrightarrow>
       gm_get (cm_Data stored) k = Some v"
    unfolding apply_stores_def by blast
  with d y show ?thesis by (intro that) blast+
qed

lemma cached_name_iff:
  "cm_Name (server_config_map (rr_Name ref) (ref_server own ref) yaml r) = cache_name own ref \<longleftrightarrow>
     safe_name (ref_server own ref)"
  by (simp add: server_config_map_def Let_def cache_name_def dns_fixed_iff)

text \<open>C17 The template that the registry controller caches for a server is found again by the enrichment of
  an \<open>MCPServer\<close> that names it if and only if the name of the server is one the cache manager leaves
  alone: the one looks for the name as written, the other stores under the sanitised name. Without
  such a name the enrichment reports that the registry is not cached.\<close>

theorem cached_template_found_iff:
  assumes "apply_stores cc look" and "api_reads (cac_api cc) look"
    and "CacheServer cc (rr_Name ref) info t r w = (None, w1)"
    and "sp_Registry (srv_Spec s) = Some ref" and "rr_Name ref \<noteq> []"
    and "sin_Name info = ref_server (srv_Name s) ref" and "srv_Namespace s = om_Namespace (reg_Meta r)"
    and "look w (srv_Namespace s, cache_name (srv_Name s) ref) = None"
    and "\<And>y. cac_yaml cc t = Inr y \<Longrightarrow> parse_yaml y = Inr t"
  shows "EnrichMCPServerFromCache (cac_api cc) parse_yaml s [] w1 =
    Returns (if safe_name (ref_server (srv_Name s) ref) then (None, enrich_from_template t s)
      else (Some (''registry cache not found: ConfigMap '' @ cache_name (srv_Name s) ref @
        '' not found in namespace '' @ srv_Namespace s), s), w1)"
proof -
  let ?key = "(srv_Namespace s, cache_name (srv_Name s) ref)"
  obtain yaml stored where y: "cac_yaml cc t = Inr yaml"
    and l: "look w1 = (look w)(cm_key (server_config_map (rr_Name ref) (sin_Name info) yaml r) \<mapsto> stored)"
    and d: "gm_get (cm_Data stored) ''server.yaml'' = Some yaml"
    by (rule cached_server_stored[OF assms(1,3)])
  have key: "cm_key (server_config_map (rr_Name ref) (sin_Name info) yaml r) = ?key \<longleftrightarrow>
      safe_name (ref_server (srv_Name s) ref)"
    using cached_name_iff[of ref "srv_Name s" yaml r] assms(6,7)
    by (simp add: cm_key_def server_config_map_def Let_def)
  show ?thesis
  proof (cases "safe_name (ref_server (srv_Name s) ref)")
    case True
    with l key have "look w1 ?key = Some stored" by simp
    from assms(2) this have "ka_get (cac_api cc) (srv_Namespace s) (cache_name (srv_Name s) ref) w1 = (Inr stored, w1)"
      by (rule reads_stored)
    with True assms(4,5) assms(9)[OF y] d show ?thesis
      by (simp add: EnrichMCPServerFromCache_def Let_def)
  next
    case False
    with l key assms(8) have "look w1 ?key = None" by auto
    from assms(2) this obtain m where
      "ka_get (cac_api cc) (srv_Namespace s) (cache_name (srv_Name s) ref) w1 = (Inl (NotFound m), w1)"
      by (rule reads_free)
    with False assms(4,5) show ?thesis
      by (simp add: EnrichMCPServerFromCache_def Let_def)
  qed
qed

subsection \<open>Cleaning up\<close>

lemma delete_each_look:
  assumes "api_deletes (cac_api cc) look" and "keys_agree (cac_api cc) look"
  shows "look (delete_each cc cms w) key = (if key \<in> cm_key ` set cms then None else look w key)"
proof (induction cms arbitrary: w)
  case (Cons cm cms)
  have "look (snd (ka_delete (cac_api cc) cm w)) = (look w)(cm_key cm := None)"
    using assms(1)[unfolded api_deletes_def Let_def, rule_format, of w cm]
      assms(2)[unfolded keys_agree_def, THEN conjunct1, rule_format, of cm]
    by (auto split: if_splits)
  with Cons show ?case by auto
qed simp

definition of_registry :: "string \<Rightarrow> string \<Rightarrow> config_map \<Rightarrow> bool" where
  "of_registry namespace registryName cm \<longleftrightarrow>
     cm_Namespace cm = namespace \<and> gm_get (cm_Labels cm) lab_registry = Some registryName"

text \<open>Cleaning up a registry removes exactly the ConfigMaps of its namespace that carry its label, on
  an API server that keeps its documented behaviour, and touches nothing else.\<close>

theorem registry_cleanup_exact:
  assumes "api_deletes (cac_api cc) look" and "keys_agree (cac_api cc) look"
    and "lists_labelled (cac_api cc) look"
  shows "\<exists>w1. CleanupRegistry cc registryName namespace w = (None, w1) \<and>
    look w1 = (\<lambda>key. case look w key of
       None \<Rightarrow> None
     | Some cm \<Rightarrow> if of_registry namespace registryName cm then None else Some cm)"
proof -
  obtain xs where l: "ka_list (cac_api cc) (namespace, [(lab_registry, registryName)]) w = (Inr xs, w)"
    and xs: "set xs = {cm. look w (cm_key cm) = Some cm \<and> cm_Namespace cm = namespace \<and>
      has_labels [(lab_registry, registryName)] cm}"
    using assms(3) unfolding lists_labelled_def by metis
  have own: "look w key = Some cm \<Longrightarrow> key = cm_key cm" for key cm
    using assms(2) unfolding keys_agree_def by blast
  have mem: "key \<in> cm_key ` set xs \<longleftrightarrow>
      (\<exists>cm. look w key = Some cm \<and> of_registry namespace registryName cm)" for key
  proof
    assume "key \<in> cm_key ` set xs"
    with xs show "\<exists>cm. look w key = Some cm \<and> of_registry namespace registryName cm"
      by (auto simp: has_labels_def of_registry_def)
  next
    assume "\<exists>cm. look w key = Some cm \<and> of_registry namespace registryName cm"
    then obtain cm where "look w key = Some cm" "of_registry namespace registryName cm" by blast
    moreover from this(1) have "key = cm_key cm" by (rule own)
    ultimately show "key \<in> cm_key ` set xs"
      using xs by (auto simp: has_labels_def of_registry_def)
  qed
  have "look (delete_each cc xs w) key = (case look w key of None \<Rightarrow> None
     | Some cm \<Rightarrow> if of_registry namespace registryName cm then None else Some cm)" for key
    using mem[of key] by (cases "look w key") (auto simp: delete_each_look[OF assms(1,2)])
  then show ?thesis by (auto simp: CleanupRegistry_def registry_maps_def l)
qed

text \<open>
  Two directories whose names differ in what is replaced share one ConfigMap, a server called index
  shares that of the index, and the orphan clean-up compares labels, which are sanitised, with the
  names of active servers, which are not.
\<close>

lemma sanitised_names_collide:
  "server_config_map r ''a_b'' y reg = (server_config_map r ''a-b'' y reg)
     \<lparr>cm_Annotations := Some [(''mcp.allbeone.io/server-original'', ''a_b'')]\<rparr>"
proof -
  have "dns1123Name ''a_b'' = ''a-b''" "dns1123Name ''a-b'' = ''a-b''" by code_simp+
  then show ?thesis by (simp add: server_config_map_def Let_def)
qed

lemma index_name_collides:
  "cm_key (server_config_map r ''index'' y reg) = cm_key (index_config_map r j reg)"
proof -
  have "dns1123Name ''index'' = ''index''" by code_simp
  then show ?thesis by (simp add: server_config_map_def index_config_map_def cm_key_def Let_def)
qed

lemma active_server_orphaned:
  "orphaned [n] (server_config_map r n y reg) \<longleftrightarrow> \<not> safe_name n"
  by (auto simp: orphaned_def server_config_map_def Let_def gm_get_def lab_registry_def lab_server_def
      dns_fixed_iff)

subsection \<open>A concrete cluster of ConfigMaps\<close>

definition maps_look :: "config_map list \<Rightarrow> string \<times> string \<Rightarrow> config_map option" where
  "maps_look w key = find (\<lambda>cm. cm_key cm = key) w"

definition maps_without :: "string \<times> string \<Rightarrow> config_map list \<Rightarrow> config_map list" where
  "maps_without key w = filter (\<lambda>cm. cm_key cm \<noteq> key) w"

definition maps_manager :: "config_map list cache_manager" where
  "maps_manager = \<lparr>
     cac_api = (static_api [])\<lparr>ka_name := cm_Name, ka_namespace := cm_Namespace,
       ka_get := (\<lambda>ns n w. (case maps_look w (ns, n) of None \<Rightarrow> Inl (NotFound []) | Some cm \<Rightarrow> Inr cm, w)),
       ka_delete := (\<lambda>cm w. if maps_look w (cm_key cm) = None then (Some (NotFound []), w)
          else (None, maps_without (cm_key cm) w)),
       ka_list := (\<lambda>(ns, sel) w. (Inr (filter (\<lambda>cm. maps_look w (cm_key cm) = Some cm \<and>
          cm_Namespace cm = ns \<and> has_labels sel cm) w), w))\<rparr>,
     cac_apply = (\<lambda>cm w. (None, cm # maps_without (cm_key cm) w)),
     cac_own = (\<lambda>_ _. None), cac_yaml = (\<lambda>t. Inr (tpl_Name t)), cac_json = (\<lambda>_. Inr [])\<rparr>"

lemma maps_look_without:
  "maps_look (maps_without key w) = (maps_look w)(key := None)"
  by (rule ext, induction w) (auto simp: maps_look_def maps_without_def)

lemma maps_look_key: "maps_look w key = Some cm \<Longrightarrow> cm \<in> set w \<and> cm_key cm = key"
  by (auto simp: maps_look_def find_Some_iff)

lemma maps_manager_laws:
  "apply_stores maps_manager maps_look" "api_reads (cac_api maps_manager) maps_look"
  "api_deletes (cac_api maps_manager) maps_look" "keys_agree (cac_api maps_manager) maps_look"
  "lists_labelled (cac_api maps_manager) maps_look"
proof -
  have "maps_look (cm # maps_without (cm_key cm) w) = (maps_look w)(cm_key cm \<mapsto> cm)" for cm w
    using maps_look_without[of "cm_key cm" w] by (auto simp: maps_look_def fun_eq_iff)
  then show "apply_stores maps_manager maps_look"
    by (auto simp: apply_stores_def maps_manager_def)
  show "api_reads (cac_api maps_manager) maps_look"
    by (auto simp: api_reads_def maps_manager_def split: option.splits)
  show "api_deletes (cac_api maps_manager) maps_look"
    by (auto simp: api_deletes_def maps_manager_def cm_key_def maps_look_without Let_def)
  show "keys_agree (cac_api maps_manager) maps_look"
    using maps_look_key by (auto simp: keys_agree_def maps_manager_def cm_key_def)
  show "lists_labelled (cac_api maps_manager) maps_look"
  proof -
    have "{cm \<in> set w. maps_look w (cm_key cm) = Some cm \<and> cm_Namespace cm = ns \<and> has_labels sel cm} =
      {cm. maps_look w (cm_key cm) = Some cm \<and> cm_Namespace cm = ns \<and> has_labels sel cm}" for ns sel w
      using maps_look_key by blast
    then show ?thesis by (simp add: lists_labelled_def maps_manager_def)
  qed
qed

definition zero_registry :: mcp_registry where
  "zero_registry = \<lparr>reg_Meta = zero_meta,
     reg_Spec = \<lparr>rg_URL = [], rg_Type = [], rg_Source = None, rg_Auth = None, rg_SyncInterval = None,
       rg_RefreshInterval = None, rg_Servers = [], rg_Filters = None\<rparr>,
     reg_Status = \<lparr>rgs_Phase = RegNoPhase, rgs_Message = [], rgs_Reason = [], rgs_ObservedRevision = [],
       rgs_LastSyncTime = None, rgs_ObservedGeneration = 0, rgs_ServersDiscovered = 0, rgs_Errors = [],
       rgs_RateLimitRemaining = None, rgs_Conditions = [], rgs_Servers = []\<rparr>\<rparr>"

definition underscored_ref :: registry_ref where
  "underscored_ref = \<lparr>rr_Name = ''r'', rr_ServerName = ''a_b'', rr_Registry = []\<rparr>"

definition underscored_server :: mcp_server where
  "underscored_server = zero_server\<lparr>srv_Spec := zero_spec\<lparr>sp_Registry := Some underscored_ref\<rparr>\<rparr>"

definition underscored_info :: server_info where
  "underscored_info = \<lparr>sin_Name = ''a_b'', sin_Path = [], sin_UpdatedAt = 0, sin_Size = 0,
     sin_DownloadURL = [], sin_HTMLURL = []\<rparr>"

definition underscored_world :: "config_map list" where
  "underscored_world = [server_config_map ''r'' ''a_b'' [] zero_registry]"

lemma underscored_cached:
  "CacheServer maps_manager (rr_Name underscored_ref) underscored_info zero_template zero_registry [] =
     (None, underscored_world)"
  by (simp add: CacheServer_def maps_manager_def zero_template_def underscored_ref_def underscored_info_def
      underscored_world_def maps_without_def)

lemma cached_template_found_iff_witness:
  "EnrichMCPServerFromCache (cac_api maps_manager) (\<lambda>_. Inr zero_template) underscored_server [] underscored_world =
    Returns (if safe_name (ref_server (srv_Name underscored_server) underscored_ref)
      then (None, enrich_from_template zero_template underscored_server)
      else (Some (''registry cache not found: ConfigMap '' @
        cache_name (srv_Name underscored_server) underscored_ref @
        '' not found in namespace '' @ srv_Namespace underscored_server), underscored_server), underscored_world)"
  by (rule cached_template_found_iff[OF maps_manager_laws(1,2) underscored_cached])
     (simp_all add: underscored_server_def underscored_ref_def underscored_info_def ref_server_def
       zero_registry_def zero_server_def zero_spec_def maps_look_def)

lemma registry_cleanup_exact_witness:
  "\<exists>w1. CleanupRegistry maps_manager ''r'' [] underscored_world = (None, w1) \<and>
    maps_look w1 = (\<lambda>key. case maps_look underscored_world key of
       None \<Rightarrow> None
     | Some cm \<Rightarrow> if of_registry [] ''r'' cm then None else Some cm)"
  by (rule registry_cleanup_exact[OF maps_manager_laws(3,4,5)])

end
