(* ===== verification/RegistryController.thy ===== *)
theory RegistryController
  imports RegistrySync RegistryCache Conditions
begin

section \<open>The registry controller\<close>

text \<open>
  \<open>controllers/mcpregistry_controller.go\<close>: one pass over an \<open>MCPRegistry\<close>. It validates the source,
  marks the registry as syncing, fetches the token, synchronises the repository (theory RegistrySync),
  caches what it found (theory RegistryCache) and writes the status. \<open>ExponentialBackoff\<close>, the
  recorder, the format of times and the API server are parameters.
\<close>

record backoff =
  bko_Duration :: duration
  bko_Factor :: rat
  bko_Jitter :: rat
  bko_Steps :: int

type_synonym ('w) registry_state = "mcp_registry \<times> 'w"
type_synonym ('w) poll_answer = "(api_error option \<times> bool) \<times> 'w registry_state"

record 'w registry_env =
  rre_api :: "('w, mcp_registry) kube_api"
  rre_secrets :: "('w, secret_object) kube_api"
  rre_cache :: "'w cache_manager"
  rre_http :: "'w http_env"
  rre_codecs :: codecs
  rre_url_Parse :: "string \<Rightarrow> string + parsed_url"
  rre_env_token :: string
  rre_now :: "'w \<Rightarrow> instant"
  rre_event :: "mcp_registry \<Rightarrow> string \<Rightarrow> string \<Rightarrow> string \<Rightarrow> 'w \<Rightarrow> 'w"
  rre_backoff :: "backoff \<Rightarrow> ('w registry_state \<Rightarrow> 'w poll_answer) \<Rightarrow> 'w registry_state
     \<Rightarrow> api_error option \<times> 'w registry_state"
  rre_format_time :: "instant \<Rightarrow> string"

text \<open>The result of a pass: after which time to come back (0 for not at all) and the error.\<close>

type_synonym 'w registry_pass = "((duration \<times> string option) \<times> 'w) outcome"

subsection \<open>Conditions\<close>

text \<open>The third way of setting a condition: the reason and the message are replaced with the entry.\<close>

fun put_registry_condition ::
  "mcp_registry_condition \<Rightarrow> mcp_registry_condition list \<Rightarrow> mcp_registry_condition list" where
  "put_registry_condition c [] = [c]"
| "put_registry_condition c (d # ds) =
     (if rc_Type d = rc_Type c then
        (if rc_Status d \<noteq> rc_Status c then c
         else c\<lparr>rc_LastTransitionTime := rc_LastTransitionTime d\<rparr>) # ds
      else d # put_registry_condition c ds)"

definition setCondition ::
  "instant \<Rightarrow> mcp_registry_condition_type \<Rightarrow> condition_status \<Rightarrow> string \<Rightarrow> string
     \<Rightarrow> mcp_registry \<Rightarrow> mcp_registry" where
  "setCondition now ty st reason msg r =
     r\<lparr>reg_Status := (reg_Status r)\<lparr>rgs_Conditions :=
        put_registry_condition \<lparr>rc_Type = ty, rc_Status = st, rc_LastTransitionTime = now,
          rc_Reason = reason, rc_Message = msg\<rparr> (rgs_Conditions (reg_Status r))\<rparr>\<rparr>"

definition with_registry_phase :: "mcp_registry_phase \<Rightarrow> mcp_registry \<Rightarrow> mcp_registry" where
  "with_registry_phase ph r = r\<lparr>reg_Status := (reg_Status r)\<lparr>rgs_Phase := ph\<rparr>\<rparr>"

lemma put_registry_types:
  "map rc_Type (put_registry_condition c cs) =
     (if rc_Type c \<in> rc_Type ` set cs then map rc_Type cs else map rc_Type cs @ [rc_Type c])"
  by (induction c cs rule: put_registry_condition.induct) auto

lemma put_registry_lookup:
  "cond_lookup rc_Type k (put_registry_condition c cs) =
     (if k = rc_Type c then
        (case cond_lookup rc_Type k cs of
           None \<Rightarrow> Some c
         | Some d \<Rightarrow> Some (if rc_Status d \<noteq> rc_Status c then c
                           else c\<lparr>rc_LastTransitionTime := rc_LastTransitionTime d\<rparr>))
      else cond_lookup rc_Type k cs)"
  by (induction c cs rule: put_registry_condition.induct) auto

interpretation controller_conditions:
  transition_keeper rc_Type rc_Status put_registry_condition rc_LastTransitionTime
  by unfold_locales (auto simp: put_registry_types put_registry_lookup split: option.splits)

subsection \<open>Writing the status\<close>

text \<open>One attempt; after a conflict the status is carried over to the latest version.\<close>

definition status_attempt :: "'w registry_env \<Rightarrow> 'w registry_state \<Rightarrow> 'w poll_answer" where
  "status_attempt env = (\<lambda>(r, w).
     case ka_update_status (rre_api env) r w of
       (Inr stored, w1) \<Rightarrow> ((None, True), (stored, w1))
     | (Inl e, w1) \<Rightarrow>
         if is_conflict e then
           (case ka_get (rre_api env) (om_Namespace (reg_Meta r)) (reg_Name r) w1 of
              (Inr latest, w2) \<Rightarrow> ((None, False), (latest\<lparr>reg_Status := reg_Status r\<rparr>, w2))
            | (Inl _, w2) \<Rightarrow> ((None, False), (r, w2)))
         else ((Some e, False), (r, w1)))"

definition status_backoff :: backoff where
  "status_backoff = \<lparr>bko_Duration = 100 * time_Millisecond, bko_Factor = 2, bko_Jitter = 1 / 10, bko_Steps = 5\<rparr>"

definition updateStatusWithRetry ::
  "'w registry_env \<Rightarrow> mcp_registry \<Rightarrow> 'w \<Rightarrow> api_error option \<times> mcp_registry \<times> 'w" where
  "updateStatusWithRetry env r w = rre_backoff env status_backoff (status_attempt env) (r, w)"

subsection \<open>The token\<close>

definition getAuthToken :: "'w registry_env \<Rightarrow> mcp_registry \<Rightarrow> 'w \<Rightarrow> (string + string) \<times> 'w" where
  "getAuthToken env r w =
     (case rg_Auth (reg_Spec r) of
        None \<Rightarrow> (Inr [], w)
      | Some a \<Rightarrow>
          (case ra_SecretRef a of
             None \<Rightarrow> (Inr [], w)
           | Some ref \<Rightarrow>
               (case ka_get (rre_secrets env) (om_Namespace (reg_Meta r)) (sr_Name ref) w of
                  (Inl e, w1) \<Rightarrow>
                    (if is_not_found e \<and> sr_Optional ref then (Inr [], w1)
                     else (Inl (''failed to get secret '' @ sr_Name ref @ '': '' @ api_msg e), w1))
                | (Inr secret, w1) \<Rightarrow>
                    (case gm_get (sec_Data secret) (sr_Key ref) of
                       None \<Rightarrow> (Inl (''key '' @ sr_Key ref @ '' not found in secret '' @ sr_Name ref), w1)
                     | Some token \<Rightarrow> (Inr token, w1)))))"

subsection \<open>The failures of a pass\<close>

definition report_failure ::
  "'w registry_env \<Rightarrow> duration \<Rightarrow> string \<Rightarrow> string \<Rightarrow> mcp_registry \<Rightarrow> 'w \<Rightarrow> 'w registry_pass" where
  "report_failure env again reason msg r w =
     (let (e, r1, w1) = updateStatusWithRetry env r (rre_event env r ''Warning'' reason msg w)
      in Returns ((again, None), w1))"

definition configuration_error :: string where
  "configuration_error = ''either spec.url must be provided or spec.source.type=github with valid github configuration must be set''"

definition valid_source :: "mcp_registry_spec \<Rightarrow> bool" where
  "valid_source sp =
     (case rg_Source sp of None \<Rightarrow> False | Some s \<Rightarrow> rs_Type s = ''github'' \<and> rs_Github s \<noteq> None)"

definition invalid_status :: "instant \<Rightarrow> mcp_registry \<Rightarrow> mcp_registry" where
  "invalid_status now r =
     setCondition now RCondSynced CFalse ''InvalidConfiguration'' configuration_error
       (setCondition now RCondReachable CFalse ''InvalidConfiguration'' configuration_error r)"

definition syncing_status :: "instant \<Rightarrow> mcp_registry \<Rightarrow> mcp_registry" where
  "syncing_status now r = with_registry_phase RegSyncing
     (setCondition now RCondSyncing CTrue ''SyncInProgress'' ''Registry synchronization in progress'' r)"

definition auth_failed_status :: "instant \<Rightarrow> string \<Rightarrow> mcp_registry \<Rightarrow> mcp_registry" where
  "auth_failed_status now e r =
     setCondition now RCondSynced CFalse ''AuthTokenFailed'' e
       (setCondition now RCondReachable CFalse ''AuthTokenFailed'' e
         (setCondition now RCondAuthFailed CTrue ''AuthTokenFailed'' e r))"

definition sync_failed_status :: "instant \<Rightarrow> string \<Rightarrow> mcp_registry \<Rightarrow> mcp_registry" where
  "sync_failed_status now e r = with_registry_phase RegFailed
     (setCondition now RCondSynced CFalse ''SyncFailed'' e
       (setCondition now RCondReachable CFalse
         (if str_contains e ''PathNotFound:'' then ''PathNotFound'' else ''SyncFailed'') e
         (setCondition now RCondSyncing CFalse ''SyncFailed'' e r)))"

subsection \<open>Caching what was found\<close>

primrec cache_servers ::
  "'w registry_env \<Rightarrow> mcp_registry \<Rightarrow> server_template gomap \<Rightarrow> server_info list \<Rightarrow> 'w
     \<Rightarrow> string list \<times> 'w" where
  "cache_servers env r specs [] w = ([], w)"
| "cache_servers env r specs (s # ss) w =
     (let (errs, w1) =
        (case gm_get specs (sin_Name s) of
           None \<Rightarrow> ([], w)
         | Some t \<Rightarrow>
             (case CacheServer (rre_cache env) (reg_Name r) s t r w of
                (Some e, w1) \<Rightarrow> ([''failed to cache server '' @ sin_Name s @ '': '' @ e], w1)
              | (None, w1) \<Rightarrow> ([], w1)));
          (errs2, w2) = cache_servers env r specs ss w1
      in (errs @ errs2, w2))"

definition index_metadata :: "mcp_registry_spec \<Rightarrow> string gomap" where
  "index_metadata sp =
     (if rg_URL sp \<noteq> [] then Some [(''url'', rg_URL sp)]
      else (case rg_Source sp of
        None \<Rightarrow> Some []
      | Some src \<Rightarrow>
          (case rs_Github src of
             None \<Rightarrow> Some []
           | Some gh \<Rightarrow>
               Some ([(''source'', gs_Repo gh), (''branch'', gs_Branch gh)] @
                 (if rs_Path src \<noteq> [] then [(''path'', rs_Path src)] else [])))))"

definition index_of :: "instant \<Rightarrow> mcp_registry \<Rightarrow> sync_result \<Rightarrow> registry_index" where
  "index_of now r res = \<lparr>rix_Name = reg_Name r,
     rix_Description = ''MCP Registry index for '' @ reg_Name r, rix_LastUpdated = now,
     rix_ServersCount = syn_ServersCount res, rix_Servers = syn_Servers res,
     rix_Metadata = index_metadata (reg_Spec r)\<rparr>"

definition cache_everything ::
  "'w registry_env \<Rightarrow> mcp_registry \<Rightarrow> sync_result \<Rightarrow> 'w \<Rightarrow> string list \<times> 'w" where
  "cache_everything env r res w =
     (let (errs, w1) = cache_servers env r (syn_ServerSpecs res) (syn_Servers res) w in
      case CacheIndex (rre_cache env) (reg_Name r) (index_of (rre_now env w1) r res) r w1 of
        (Some e, w2) \<Rightarrow> (errs @ [''failed to cache registry index: '' @ e], w2)
      | (None, w2) \<Rightarrow> (errs, w2))"

subsection \<open>The status after a synchronisation\<close>

definition registry_server_of :: "server_info \<Rightarrow> server_template \<Rightarrow> registry_server" where
  "registry_server_of s t = \<lparr>rse_Name = sin_Name s, rse_Title = tpl_Name t,
     rse_Description = tpl_Description t, rse_Version = tpl_Version t,
     rse_Tags = (if length (tpl_Keywords t) > 0 then tpl_Keywords t else []), rse_Path = sin_Path s\<rparr>"

definition registry_servers :: "sync_result \<Rightarrow> registry_server list" where
  "registry_servers res =
     concat (map (\<lambda>s. case gm_get (syn_ServerSpecs res) (sin_Name s) of
       None \<Rightarrow> [] | Some t \<Rightarrow> [registry_server_of s t]) (syn_Servers res))"

definition kept_errors :: "string list \<Rightarrow> string list" where
  "kept_errors errs = (if length errs > 10 then take 10 errs else errs)"

definition synced_status :: "instant \<Rightarrow> sync_result \<Rightarrow> string list \<Rightarrow> mcp_registry \<Rightarrow> mcp_registry" where
  "synced_status now res cacheErrors r =
     r\<lparr>reg_Status := (reg_Status r)\<lparr>rgs_LastSyncTime := Some now,
        rgs_ServersDiscovered := syn_ServersCount res, rgs_ObservedRevision := syn_ObservedSHA res,
        rgs_ObservedGeneration := om_Generation (reg_Meta r), rgs_Servers := registry_servers res,
        rgs_Phase := RegReady, rgs_Errors := kept_errors (syn_Errors res @ cacheErrors)\<rparr>\<rparr>"

definition rate_limited ::
  "'w registry_env \<Rightarrow> rate_limit_info option \<Rightarrow> mcp_registry \<Rightarrow> 'w
     \<Rightarrow> duration option \<times> mcp_registry \<times> 'w" where
  "rate_limited env rl r w =
     (case rl of
        None \<Rightarrow> (None, r, w)
      | Some l \<Rightarrow>
          let r1 = r\<lparr>reg_Status := (reg_Status r)\<lparr>rgs_RateLimitRemaining := Some (rli_Remaining l)\<rparr>\<rparr> in
          if rli_Remaining l < 100 then
            (let low = ''GitHub API rate limit low: '' @ show_int (rli_Remaining l) @ '' remaining'';
                 r2 = setCondition (rre_now env w) RCondRateLimited CTrue ''RateLimited''
                   (low @ '', resets at '' @ rre_format_time env (rli_Reset l)) r1;
                 w1 = rre_event env r2 ''Normal'' ''RateLimited'' low w;
                 resetDelay = time_Until (rre_now env w1) (rli_Reset l)
             in (if resetDelay > 0 then Some (to_i64 (resetDelay + time_Minute * 2)) else None, r2, w1))
          else (None, setCondition (rre_now env w) RCondRateLimited CFalse ''RateLimitOK''
                  ''GitHub API rate limit is sufficient'' r1, w))"

definition discovered_message :: "sync_result \<Rightarrow> string" where
  "discovered_message res =
     ''Registry synchronized successfully, '' @ show_int (syn_ServersCount res) @ '' servers discovered''"

definition success_conditions :: "instant \<Rightarrow> sync_result \<Rightarrow> mcp_registry \<Rightarrow> mcp_registry" where
  "success_conditions now res r =
     setCondition now RCondAuthFailed CFalse ''AuthSuccessful'' ''Authentication successful''
       (setCondition now RCondSynced CTrue ''OK'' (discovered_message res)
         (setCondition now RCondReachable CTrue ''OK'' ''Registry is reachable''
           (setCondition now RCondSyncing CFalse ''SyncCompleted'' ''Registry synchronization completed'' r)))"

definition next_sync :: "duration option \<Rightarrow> mcp_registry \<Rightarrow> duration" where
  "next_sync limited r =
     (case limited of
        Some d \<Rightarrow> d
      | None \<Rightarrow> (case rg_RefreshInterval (reg_Spec r) of None \<Rightarrow> time_Minute * 15 | Some d \<Rightarrow> d))"

definition finish_sync ::
  "'w registry_env \<Rightarrow> sync_result \<Rightarrow> mcp_registry \<Rightarrow> 'w \<Rightarrow> 'w registry_pass" where
  "finish_sync env res r w =
     (let (cacheErrors, w1) = cache_everything env r res w;
          (limited, r1, w2) = rate_limited env (syn_RateLimitInfo res)
             (synced_status (rre_now env w1) res cacheErrors r) w1;
          r2 = success_conditions (rre_now env w2) res r1;
          w3 = rre_event env r2 ''Normal'' ''Synced'' (discovered_message res) w2
      in case updateStatusWithRetry env r2 w3 of
           (Some e, r3, w4) \<Rightarrow> Returns ((0, Some (api_msg e)), w4)
         | (None, r3, w4) \<Rightarrow> Returns ((next_sync limited r3, None), w4))"

subsection \<open>The pass\<close>

definition registry_client_for :: "'w registry_env \<Rightarrow> string \<Rightarrow> registry_http" where
  "registry_client_for env token =
     (if token \<noteq> [] then NewClientWithToken token else NewClient (rre_env_token env))"

definition synchronize ::
  "'w registry_env \<Rightarrow> string \<Rightarrow> mcp_registry \<Rightarrow> 'w \<Rightarrow> 'w registry_pass" where
  "synchronize env token r w =
     and_then (github_SyncRegistry (rre_http env) (rre_codecs env) (rre_url_Parse env)
       (registry_client_for env token) token r w) (\<lambda>((e, res), w1).
       case e of
         Some m \<Rightarrow> report_failure env (time_Minute * 15) ''SyncFailed'' m
                     (sync_failed_status (rre_now env w1) m r) w1
       | None \<Rightarrow> and_then (deref res) (\<lambda>x. finish_sync env x r w1))"

definition registry_handleDeletion :: "'w registry_env \<Rightarrow> mcp_registry \<Rightarrow> 'w \<Rightarrow> 'w registry_pass" where
  "registry_handleDeletion env r w =
     (let (e, w1) = CleanupRegistry (rre_cache env) (reg_Name r) (om_Namespace (reg_Meta r)) w
      in Returns ((0, None), w1))"

definition registry_Reconcile :: "'w registry_env \<Rightarrow> string \<Rightarrow> string \<Rightarrow> 'w \<Rightarrow> 'w registry_pass" where
  "registry_Reconcile env namespace name w =
     (case ka_get (rre_api env) namespace name w of
        (Inl e, w1) \<Rightarrow>
          (if is_not_found e then Returns ((0, None), w1) else Returns ((0, Some (api_msg e)), w1))
      | (Inr r, w1) \<Rightarrow>
          if om_DeletionTimestamp (reg_Meta r) \<noteq> None then registry_handleDeletion env r w1
          else if \<not> valid_source (reg_Spec r) \<and> rg_URL (reg_Spec r) = [] then
            report_failure env (time_Minute * 5) ''ValidationFailed'' configuration_error
              (invalid_status (rre_now env w1) r) w1
          else (case updateStatusWithRetry env (syncing_status (rre_now env w1) r) w1 of
             (Some e, r1, w2) \<Rightarrow> Returns ((0, Some (api_msg e)), w2)
           | (None, r1, w2) \<Rightarrow>
               (case getAuthToken env r1 w2 of
                  (Inl e, w3) \<Rightarrow>
                    report_failure env (time_Minute * 5) ''AuthFailed'' e
                      (auth_failed_status (rre_now env w3) e r1) w3
                | (Inr token, w3) \<Rightarrow> synchronize env token r1 w3)))"

section \<open>Correctness\<close>

subsection \<open>Conditions of a registry\<close>

definition registry_cond :: "mcp_registry_condition_type \<Rightarrow> mcp_registry \<Rightarrow> condition_status option" where
  "registry_cond ty r = map_option rc_Status (cond_lookup rc_Type ty (rgs_Conditions (reg_Status r)))"

definition registry_reason :: "mcp_registry_condition_type \<Rightarrow> mcp_registry \<Rightarrow> string option" where
  "registry_reason ty r = map_option rc_Reason (cond_lookup rc_Type ty (rgs_Conditions (reg_Status r)))"

lemma registry_cond_set [simp]:
  "registry_cond ty (setCondition now ty' st reason msg r) = (if ty = ty' then Some st else registry_cond ty r)"
  by (simp add: registry_cond_def setCondition_def controller_conditions.status_after)

lemma registry_reason_set [simp]:
  "registry_reason ty (setCondition now ty' st reason msg r) =
     (if ty = ty' then Some reason else registry_reason ty r)"
  by (auto simp: registry_reason_def setCondition_def put_registry_lookup split: option.splits)

lemma setCondition_frame [simp]:
  "reg_Meta (setCondition now ty st reason msg r) = reg_Meta r"
  "reg_Spec (setCondition now ty st reason msg r) = reg_Spec r"
  "rgs_Phase (reg_Status (setCondition now ty st reason msg r)) = rgs_Phase (reg_Status r)"
  "rgs_Errors (reg_Status (setCondition now ty st reason msg r)) = rgs_Errors (reg_Status r)"
  "rgs_Servers (reg_Status (setCondition now ty st reason msg r)) = rgs_Servers (reg_Status r)"
  "rgs_ServersDiscovered (reg_Status (setCondition now ty st reason msg r)) = rgs_ServersDiscovered (reg_Status r)"
  "rgs_ObservedGeneration (reg_Status (setCondition now ty st reason msg r)) = rgs_ObservedGeneration (reg_Status r)"
  by (simp_all add: setCondition_def)

lemma registry_phase_frame [simp]:
  "reg_Meta (with_registry_phase ph r) = reg_Meta r" "reg_Spec (with_registry_phase ph r) = reg_Spec r"
  "rgs_Phase (reg_Status (with_registry_phase ph r)) = ph"
  "registry_cond ty (with_registry_phase ph r) = registry_cond ty r"
  "registry_reason ty (with_registry_phase ph r) = registry_reason ty r"
  by (simp_all add: with_registry_phase_def registry_cond_def registry_reason_def)

lemma synced_status_frame [simp]:
  "reg_Meta (synced_status now res errs r) = reg_Meta r" "reg_Spec (synced_status now res errs r) = reg_Spec r"
  "registry_cond ty (synced_status now res errs r) = registry_cond ty r"
  "rgs_Phase (reg_Status (synced_status now res errs r)) = RegReady"
  by (simp_all add: synced_status_def registry_cond_def)

lemma rate_limited_frame:
  assumes "rate_limited env rl r w = (limited, r1, w1)"
  shows "reg_Meta r1 = reg_Meta r" "reg_Spec r1 = reg_Spec r"
    "rgs_Phase (reg_Status r1) = rgs_Phase (reg_Status r)"
    "rgs_Errors (reg_Status r1) = rgs_Errors (reg_Status r)"
    "rgs_ObservedGeneration (reg_Status r1) = rgs_ObservedGeneration (reg_Status r)"
    "rgs_Servers (reg_Status r1) = rgs_Servers (reg_Status r)"
    "rgs_ServersDiscovered (reg_Status r1) = rgs_ServersDiscovered (reg_Status r)"
  using assms by (auto simp: rate_limited_def Let_def split: option.splits if_splits)

subsection \<open>Writing the status\<close>

text \<open>
  What the documentation of \<open>ExponentialBackoff\<close> promises: the condition is tried until it is done
  or fails, with a pause after each try but the last, and at most \<open>Steps\<close> times.
\<close>

primrec poll ::
  "('s \<Rightarrow> 's) \<Rightarrow> nat \<Rightarrow> ('s \<Rightarrow> (api_error option \<times> bool) \<times> 's) \<Rightarrow> 's \<Rightarrow> api_error option \<times> 's" where
  "poll pause 0 f s = (Some (OtherError ''timed out waiting for the condition''), s)"
| "poll pause (Suc n) f s =
     (case f s of
        ((Some e, _), s1) \<Rightarrow> (Some e, s1)
      | ((None, True), s1) \<Rightarrow> (None, s1)
      | ((None, False), s1) \<Rightarrow> poll pause n f (if n = 0 then s1 else pause s1))"

definition backs_off :: "'w registry_env \<Rightarrow> bool" where
  "backs_off env \<longleftrightarrow>
     (\<exists>pause. \<forall>b f s. rre_backoff env b f s = poll (apsnd pause) (nat (bko_Steps b)) f s)"

text \<open>No one else writes to the registry: every update of the status succeeds and is what is stored.\<close>

definition uncontended ::
  "'w registry_env \<Rightarrow> ('w \<Rightarrow> string \<times> string \<Rightarrow> mcp_registry option) \<Rightarrow> bool" where
  "uncontended env look \<longleftrightarrow>
     (\<forall>r w. \<exists>w1. ka_update_status (rre_api env) r w = (Inr r, w1) \<and>
        look w1 (om_Namespace (reg_Meta r), reg_Name r) = Some r)"

lemma poll_done: "f s = ((None, True), s1) \<Longrightarrow> poll pause (Suc n) f s = (None, s1)"
  by simp

lemma status_written:
  assumes "backs_off env" and "uncontended env look"
  obtains w1 where "updateStatusWithRetry env r w = (None, r, w1)"
    and "look w1 (om_Namespace (reg_Meta r), reg_Name r) = Some r"
proof -
  obtain w1 where u: "ka_update_status (rre_api env) r w = (Inr r, w1)"
    and l: "look w1 (om_Namespace (reg_Meta r), reg_Name r) = Some r"
    using assms(2) unfolding uncontended_def by blast
  obtain pause where "\<forall>b f s. rre_backoff env b f s = poll (apsnd pause) (nat (bko_Steps b)) f s"
    using assms(1) unfolding backs_off_def by blast
  then have p: "updateStatusWithRetry env r w = poll (apsnd pause) (Suc 4) (status_attempt env) (r, w)"
    by (simp add: updateStatusWithRetry_def status_backoff_def eval_nat_numeral del: poll.simps)
  have "status_attempt env (r, w) = ((None, True), (r, w1))" using u by (simp add: status_attempt_def)
  then have "updateStatusWithRetry env r w = (None, r, w1)" unfolding p by (rule poll_done)
  from this l show ?thesis by (rule that)
qed

text \<open>Five attempts at most: the update succeeds when one of them is not met by a conflict.\<close>

lemma poll_conflicts:
  assumes "\<And>s. fst (f s) = (None, False)"
  shows "fst (poll pause n f s) = Some (OtherError ''timed out waiting for the condition'')"
proof (induction n arbitrary: s)
  case (Suc n)
  obtain s1 where "f s = ((None, False), s1)" using assms[of s] by (metis prod.collapse)
  with Suc show ?case by simp
qed simp

subsection \<open>The pass never panics\<close>

lemma sync_servers_returns:
  assumes "rht_retry c = DefaultGitHubRetryConfig"
  obtains q rl1 w1 where "sync_servers env cod c ss p rl w = Returns (q, rl1, w1)"
proof -
  have "\<exists>x. sync_servers env cod c ss p rl w = Returns x"
  proof (induction ss arbitrary: p rl w)
    case (Cons s ss)
    obtain e y w1 where "retried env c (template_attempt env cod c (sin_Name s)) (None, rl) w = Returns (e, y, w1)"
      by (rule retried_returns[OF assms])
    with Cons show ?case by (simp add: getServerSpecWithRateLimit_def split_beta)
  qed simp
  then show ?thesis using that by auto
qed

lemma sync_repository_returns:
  assumes "rht_retry c = DefaultGitHubRetryConfig"
  obtains e res w1 where "SyncRepository env cod c repo w = Returns ((e, res), w1)"
proof -
  let ?rc = "repository_client c repo"
  have c: "rht_retry ?rc = DefaultGitHubRetryConfig"
    using assms by (simp add: repository_client_def Let_def)
  obtain e y w1 where "retried env ?rc (list_attempt_limited env cod ?rc) ([], None) w = Returns (e, y, w1)"
    by (rule retried_returns[OF c])
  then obtain r rl where l: "listServersWithRateLimit env cod ?rc None w = Returns (r, rl, w1)"
    by (simp add: listServersWithRateLimit_def split_beta)
  show ?thesis
  proof (cases r)
    case (Inl m)
    with l show ?thesis by (intro that) (simp add: SyncRepository_def Let_def)
  next
    case (Inr servers)
    obtain q rl1 w2 where "sync_servers env cod ?rc servers no_progress rl w1 = Returns (q, rl1, w2)"
      by (rule sync_servers_returns[OF c])
    with l Inr show ?thesis by (intro that) (simp add: SyncRepository_def Let_def)
  qed
qed

lemma client_retries: "rht_retry (registry_client_for env token) = DefaultGitHubRetryConfig"
  by (simp add: registry_client_for_def NewClient_def NewClientWithToken_def)

lemma github_sync_cases:
  assumes "rht_retry c = DefaultGitHubRetryConfig"
  obtains (Failed) m res w1 where
      "github_SyncRegistry env cod url_Parse c token r w = Returns ((Some m, res), w1)"
    | (Synced) res w1 where "github_SyncRegistry env cod url_Parse c token r w = Returns ((None, Some res), w1)"
proof (cases "registry_repository url_Parse (reg_Spec r)")
  case (Inl e)
  then show ?thesis by (intro Failed) (simp add: github_SyncRegistry_def)
next
  case (Inr repo)
  obtain e res w1 where
    "SyncRepository env cod c (authenticated (reg_Spec r) token repo) w = Returns ((e, res), w1)"
    by (rule sync_repository_returns[OF assms])
  with Inr have g: "github_SyncRegistry env cod url_Parse c token r w = Returns ((e, Some res), w1)"
    by (simp add: github_SyncRegistry_def)
  then show ?thesis
  proof (cases e)
    case None
    with g show ?thesis by (intro Synced) simp
  next
    case (Some m)
    with g show ?thesis by (intro Failed) simp
  qed
qed

subsection \<open>How a pass ends\<close>

definition registry_key :: "mcp_registry \<Rightarrow> string \<times> string" where
  "registry_key r = (om_Namespace (reg_Meta r), reg_Name r)"

definition valid_registry :: "mcp_registry \<Rightarrow> bool" where
  "valid_registry r \<longleftrightarrow> om_DeletionTimestamp (reg_Meta r) = None \<and>
     (valid_source (reg_Spec r) \<or> rg_URL (reg_Spec r) \<noteq> [])"

text \<open>What a pass leaves behind when it has no token, cannot synchronise, or succeeds.\<close>

definition stuck_without_token :: "mcp_registry \<Rightarrow> bool" where
  "stuck_without_token r \<longleftrightarrow> rgs_Phase (reg_Status r) = RegSyncing \<and>
     registry_cond RCondSyncing r = Some CTrue \<and> registry_cond RCondAuthFailed r = Some CTrue \<and>
     registry_cond RCondReachable r = Some CFalse \<and> registry_cond RCondSynced r = Some CFalse"

definition failed_to_sync :: "mcp_registry \<Rightarrow> bool" where
  "failed_to_sync r \<longleftrightarrow> rgs_Phase (reg_Status r) = RegFailed \<and>
     registry_cond RCondSyncing r = Some CFalse \<and>
     registry_cond RCondReachable r = Some CFalse \<and> registry_cond RCondSynced r = Some CFalse"

definition in_sync :: "mcp_registry \<Rightarrow> bool" where
  "in_sync r \<longleftrightarrow> rgs_Phase (reg_Status r) = RegReady \<and>
     rgs_ObservedGeneration (reg_Status r) = om_Generation (reg_Meta r) \<and>
     length (rgs_Errors (reg_Status r)) \<le> 10 \<and>
     registry_cond RCondSyncing r = Some CFalse \<and> registry_cond RCondAuthFailed r = Some CFalse \<and>
     registry_cond RCondReachable r = Some CTrue \<and> registry_cond RCondSynced r = Some CTrue"

lemma report_failure_ends:
  assumes "backs_off env" and "uncontended env look"
  obtains w1 where "report_failure env again reason msg r w = Returns ((again, None), w1)"
    and "look w1 (registry_key r) = Some r"
proof -
  obtain w1 where "updateStatusWithRetry env r (rre_event env r ''Warning'' reason msg w) = (None, r, w1)"
    and "look w1 (om_Namespace (reg_Meta r), reg_Name r) = Some r"
    by (rule status_written[OF assms])
  then show ?thesis by (intro that) (simp_all add: report_failure_def registry_key_def)
qed

lemma kept_errors_length: "length (kept_errors es) \<le> 10"
  unfolding kept_errors_def by (cases "length es > 10") simp_all

lemma finish_sync_ends:
  assumes "backs_off env" and "uncontended env look"
  obtains again r1 w1 where "finish_sync env res r w = Returns ((again, None), w1)"
    and "look w1 (registry_key r) = Some r1" and "in_sync r1"
    and "reg_Meta r1 = reg_Meta r" and "rgs_Servers (reg_Status r1) = registry_servers res"
    and "rgs_ServersDiscovered (reg_Status r1) = syn_ServersCount res"
proof -
  obtain errs v1 where c: "cache_everything env r res w = (errs, v1)" by fastforce
  define r0 where "r0 = synced_status (rre_now env v1) res errs r"
  obtain limited r1 v2 where l: "rate_limited env (syn_RateLimitInfo res) r0 v1 = (limited, r1, v2)"
    by (metis prod.exhaust)
  define r2 where "r2 = success_conditions (rre_now env v2) res r1"
  obtain w1 where u: "updateStatusWithRetry env r2 (rre_event env r2 ''Normal'' ''Synced'' (discovered_message res) v2)
      = (None, r2, w1)" and k: "look w1 (om_Namespace (reg_Meta r2), reg_Name r2) = Some r2"
    by (rule status_written[OF assms])
  note f = rate_limited_frame[OF l]
  have r2: "in_sync r2" "reg_Meta r2 = reg_Meta r" "rgs_Servers (reg_Status r2) = registry_servers res"
    "rgs_ServersDiscovered (reg_Status r2) = syn_ServersCount res"
    by (simp_all add: r2_def success_conditions_def in_sync_def f r0_def)
       (simp_all add: synced_status_def kept_errors_length)
  have "finish_sync env res r w = Returns ((next_sync limited r2, None), w1)"
    using c l u by (simp add: finish_sync_def r0_def[symmetric] r2_def[symmetric])
  with k r2 show ?thesis by (intro that) (simp_all add: registry_key_def)
qed

lemma synchronize_ends:
  assumes "backs_off env" and "uncontended env look"
  obtains (Failed) m w0 w1 r1 where "synchronize env token r w = Returns ((time_Minute * 15, None), w1)"
      and "look w1 (registry_key r) = Some r1" and "r1 = sync_failed_status (rre_now env w0) m r"
      and "\<exists>res. github_SyncRegistry (rre_http env) (rre_codecs env) (rre_url_Parse env)
        (registry_client_for env token) token r w = Returns ((Some m, res), w0)"
    | (Synced) again w1 r1 where "synchronize env token r w = Returns ((again, None), w1)"
      and "look w1 (registry_key r) = Some r1" and "in_sync r1"
      and "\<exists>res w0. github_SyncRegistry (rre_http env) (rre_codecs env) (rre_url_Parse env)
        (registry_client_for env token) token r w = Returns ((None, Some res), w0)"
proof (rule github_sync_cases[where env = "rre_http env" and cod = "rre_codecs env" and
      url_Parse = "rre_url_Parse env" and c = "registry_client_for env token" and token = token and
      r = r and w = w, OF client_retries])
  fix m res w0
  assume g: "github_SyncRegistry (rre_http env) (rre_codecs env) (rre_url_Parse env)
    (registry_client_for env token) token r w = Returns ((Some m, res), w0)"
  obtain w1 where "report_failure env (time_Minute * 15) ''SyncFailed'' m
      (sync_failed_status (rre_now env w0) m r) w0 = Returns ((time_Minute * 15, None), w1)"
    and "look w1 (registry_key (sync_failed_status (rre_now env w0) m r)) =
      Some (sync_failed_status (rre_now env w0) m r)"
    by (rule report_failure_ends[OF assms])
  moreover have "registry_key (sync_failed_status (rre_now env w0) m r) = registry_key r"
    by (simp add: registry_key_def sync_failed_status_def)
  ultimately show thesis using g by (intro Failed) (simp_all add: synchronize_def)
next
  fix res w0
  assume g: "github_SyncRegistry (rre_http env) (rre_codecs env) (rre_url_Parse env)
    (registry_client_for env token) token r w = Returns ((None, Some res), w0)"
  show thesis
  proof (rule finish_sync_ends[OF assms, of res r w0])
    fix again r1 w1
    assume "finish_sync env res r w0 = Returns ((again, None), w1)" "look w1 (registry_key r) = Some r1" "in_sync r1"
    with g show thesis by (intro Synced) (auto simp: synchronize_def)
  qed
qed


subsection \<open>A path that does not exist\<close>

text \<open>If GitHub answers every request with 404, the registry is reported as unreachable because of
  PathNotFound only when the URL of its repository happens to contain the text of a network problem;
  for every other repository the branch made for this case is not taken.\<close>

theorem path_not_found_reason_iff:
  assumes "backs_off env" and "uncontended env look"
    and "answers_404 (rre_http env)" and "registry_repository (rre_url_Parse env) (reg_Spec r) = Inr repo"
  shows "\<exists>w1 r1. synchronize env token r w = Returns ((time_Minute * 15, None), w1) \<and>
    look w1 (registry_key r) = Some r1 \<and>
    (registry_reason RCondReachable r1 = Some ''PathNotFound'' \<longleftrightarrow>
       isNetworkError (path_not_found (repository_client (registry_client_for env token)
         (authenticated (reg_Spec r) token repo))))"
proof -
  let ?c = "registry_client_for env token"
  let ?repo = "authenticated (reg_Spec r) token repo"
  obtain m res w0 where
    s: "SyncRepository (rre_http env) (rre_codecs env) ?c ?repo w = Returns ((Some m, res), w0)" and
    m: "str_contains m ''PathNotFound:'' \<longleftrightarrow> isNetworkError (path_not_found (repository_client ?c ?repo))"
    using sync_404[OF assms(3) client_retries, of "rre_codecs env" env token ?repo w] by blast
  obtain w1 where "report_failure env (time_Minute * 15) ''SyncFailed'' m
      (sync_failed_status (rre_now env w0) m r) w0 = Returns ((time_Minute * 15, None), w1)"
    and "look w1 (registry_key (sync_failed_status (rre_now env w0) m r)) =
      Some (sync_failed_status (rre_now env w0) m r)"
    by (rule report_failure_ends[OF assms(1,2)])
  moreover have "registry_key (sync_failed_status (rre_now env w0) m r) = registry_key r"
    by (simp add: registry_key_def sync_failed_status_def)
  moreover have "registry_reason RCondReachable (sync_failed_status (rre_now env w0) m r) =
      Some ''PathNotFound'' \<longleftrightarrow> str_contains m ''PathNotFound:''"
    by (simp add: sync_failed_status_def)
  ultimately show ?thesis
    using s m assms(4) by (simp add: synchronize_def github_SyncRegistry_def)
qed

subsection \<open>What the status says of a synchronisation\<close>

lemma listed_names:
  "map rse_Name (concat (map (\<lambda>s. case gm_get m (sin_Name s) of
       None \<Rightarrow> [] | Some t \<Rightarrow> [registry_server_of s t]) ss)) =
     filter (\<lambda>n. gm_get m n \<noteq> None) (map sin_Name ss)"
  by (induction ss) (auto simp: registry_server_of_def split: option.splits)

lemma registry_servers_count:
  assumes "distinct (map sin_Name (syn_Servers res))"
    and "map fst results = map sin_Name (syn_Servers res)" and "syn_ServerSpecs res = Some (fetched results)"
  shows "map rse_Name (registry_servers res) = map fst (fetched results)"
proof -
  have "map rse_Name (concat (map (\<lambda>s. case gm_get m (sin_Name s) of
       None \<Rightarrow> [] | Some t \<Rightarrow> [registry_server_of s t]) ss)) =
     map fst (fetched rs)"
    if "map fst rs = map sin_Name ss" "distinct (map fst rs)"
      "\<forall>n \<in> fst ` set rs. gm_get m n = map_of (fetched rs) n" for m rs ss
    using that
  proof (induction ss arbitrary: rs)
    case (Cons s ss)
    then obtain n r0 rs0 where rs: "rs = (n, r0) # rs0" "n = sin_Name s" "map fst rs0 = map sin_Name ss"
      by (cases rs) auto
    have out: "n \<notin> fst ` set rs0" using Cons.prems(2) rs(1) by simp
    then have new: "n \<notin> fst ` set (fetched rs0)" using fetched_names[of rs0] by blast
    have "\<forall>k \<in> fst ` set rs0. gm_get m k = map_of (fetched rs0) k"
    proof
      fix k assume k: "k \<in> fst ` set rs0"
      with out have "k \<noteq> n" by blast
      moreover have "gm_get m k = map_of (fetched rs) k" using Cons.prems(3) rs(1) k by auto
      ultimately show "gm_get m k = map_of (fetched rs0) k"
        using rs(1) by (cases "(n, r0)" rule: result_cases) auto
    qed
    with Cons.IH[OF rs(3)] Cons.prems(2) rs(1) have
      ih: "map rse_Name (concat (map (\<lambda>s. case gm_get m (sin_Name s) of
         None \<Rightarrow> [] | Some t \<Rightarrow> [registry_server_of s t]) ss)) = map fst (fetched rs0)" by simp
    have "gm_get m n = map_of (fetched rs) n" using Cons.prems(3) rs(1) by simp
    moreover have "map_of (fetched rs0) n = None" using new by (simp add: map_of_eq_None_iff)
    ultimately show ?case using ih rs(1,2)
      by (cases "(n, r0)" rule: result_cases) (auto simp: registry_server_of_def)
  qed simp
  from this[of results "syn_Servers res" "syn_ServerSpecs res"] assms show ?thesis
    by (simp add: registry_servers_def gm_get_def)
qed

text \<open>After a successful synchronisation the status lists exactly the servers that have a template,
  each once and in the order of the repository, and the number of servers it reports is the length of
  that list.\<close>

theorem discovered_servers_listed:
  assumes "backs_off env" and "uncontended env look"
    and "SyncRepository henv cod c repo w = Returns ((None, res), w')"
    and "distinct (map sin_Name (syn_Servers res))" and "int (length (syn_Servers res)) < 2 ^ 31"
  shows "\<exists>again w1 r1. finish_sync env res r w2 = Returns ((again, None), w1) \<and>
    look w1 (registry_key r) = Some r1 \<and>
    map rse_Name (rgs_Servers (reg_Status r1)) =
      filter (\<lambda>n. gm_get (syn_ServerSpecs res) n \<noteq> None) (map sin_Name (syn_Servers res)) \<and>
    rgs_ServersDiscovered (reg_Status r1) = int (length (rgs_Servers (reg_Status r1)))"
proof -
  obtain results where rs: "map fst results = map sin_Name (syn_Servers res)"
    "syn_ServerSpecs res = Some (fetched results)" "syn_ServersCount res = int (length (fetched results))"
    by (rule sync_repository_results[OF assms(3-5)])
  have names: "map rse_Name (registry_servers res) = map fst (fetched results)"
    by (rule registry_servers_count[OF assms(4) rs(1,2)])
  have "map rse_Name (registry_servers res) =
      filter (\<lambda>n. gm_get (syn_ServerSpecs res) n \<noteq> None) (map sin_Name (syn_Servers res))"
    unfolding registry_servers_def by (rule listed_names)
  moreover have "length (registry_servers res) = length (fetched results)"
    using names by (metis length_map)
  moreover obtain again r1 w1 where "finish_sync env res r w2 = Returns ((again, None), w1)"
    "look w1 (registry_key r) = Some r1" "rgs_Servers (reg_Status r1) = registry_servers res"
    "rgs_ServersDiscovered (reg_Status r1) = syn_ServersCount res"
    by (rule finish_sync_ends[OF assms(1,2)])
  ultimately show ?thesis using rs(3) by auto
qed

subsection \<open>When the next pass comes\<close>

text \<open>The field \<open>syncInterval\<close>, which validation checks and the command line sets, is never read.\<close>

lemma sync_interval_ignored:
  "next_sync limited (r\<lparr>reg_Spec := (reg_Spec r)\<lparr>rg_SyncInterval := d\<rparr>\<rparr>) = next_sync limited r"
  by (simp add: next_sync_def split: option.splits)

text \<open>The first ten errors are kept, not the last ten.\<close>

lemma first_errors_kept: "kept_errors (es @ late) = es" if "length es = 10"
  using that by (simp add: kept_errors_def)

text \<open>
  A rate limit that resets too far in the future overflows: the delay becomes negative, which asks for
  no further pass at all.
\<close>

lemma far_reset_stops_passes:
  assumes "rli_Remaining l < 100" and "rli_Reset l - rre_now env (rre_event env r2 ty reason msg w) \<ge> 2 ^ 63"
  shows "to_i64 (time_Until (rre_now env (rre_event env r2 ty reason msg w)) (rli_Reset l) + time_Minute * 2) < 0"
  using assms(2) by (simp add: time_Until_def to_i64_def time_Minute_def)

text \<open>The key of an optional secret is not optional.\<close>

lemma optional_key_required:
  assumes "rg_Auth (reg_Spec r) = Some a" and "ra_SecretRef a = Some ref"
    and "ka_get (rre_secrets env) (om_Namespace (reg_Meta r)) (sr_Name ref) w = (Inr secret, w1)"
    and "gm_get (sec_Data secret) (sr_Key ref) = None"
  shows "isl (fst (getAuthToken env r w))"
  using assms by (simp add: getAuthToken_def)

subsection \<open>A concrete environment\<close>

text \<open>
  A cluster that stores registries and nothing else, in front of a GitHub that answers every request
  with 404 and without any secret.
\<close>

type_synonym registry_store = "string \<times> string \<Rightarrow> mcp_registry option"

definition store_env :: "registry_store registry_env" where
  "store_env = \<lparr>
     rre_api = (static_api [])\<lparr>
       ka_get := (\<lambda>ns n w. (case w (ns, n) of None \<Rightarrow> Inl (NotFound []) | Some r \<Rightarrow> Inr r, w)),
       ka_update_status := (\<lambda>r w. (Inr r, w(registry_key r \<mapsto> r)))\<rparr>,
     rre_secrets = static_api [],
     rre_cache = \<lparr>cac_api = static_api [], cac_apply = (\<lambda>_ w. (None, w)), cac_own = (\<lambda>_ _. None),
       cac_yaml = (\<lambda>_. Inr []), cac_json = (\<lambda>_. Inr [])\<rparr>,
     rre_http = \<lparr>hte_new_request = (\<lambda>_. None),
       hte_do = (\<lambda>_ w. (Inr \<lparr>hrp_Response = \<lparr>hr_StatusCode = 404, hr_Header = None\<rparr>, hrp_Body = Inr []\<rparr>, w)),
       hte_now = (\<lambda>_. 0), hte_rand = (\<lambda>w. (0, w)), hte_wait = (\<lambda>_ w. (None, w))\<rparr>,
     rre_codecs = no_codecs, rre_url_Parse = (\<lambda>_. Inl []), rre_env_token = [],
     rre_now = (\<lambda>_. 0), rre_event = (\<lambda>_ _ _ _ w. w),
     rre_backoff = (\<lambda>b f s. poll (apsnd (\<lambda>w. w)) (nat (bko_Steps b)) f s),
     rre_format_time = (\<lambda>_. [])\<rparr>"

definition github_registry :: mcp_registry where
  "github_registry = zero_registry\<lparr>reg_Spec := (reg_Spec zero_registry)\<lparr>rg_Source := Some
     \<lparr>rs_Type = ''github'', rs_Github = Some \<lparr>gs_Repo = ''docker/mcp-registry'', gs_Branch = []\<rparr>, rs_Path = []\<rparr>\<rparr>\<rparr>"

lemma store_env_laws:
  "backs_off store_env" "uncontended store_env (\<lambda>w. w)" "answers_404 (rre_http store_env)"
  by (auto simp: backs_off_def uncontended_def answers_404_def store_env_def registry_key_def)

lemma store_env_get:
  "ka_get (rre_api store_env) [] [] (Map.empty(([], []) \<mapsto> github_registry)) =
     (Inr github_registry, Map.empty(([], []) \<mapsto> github_registry))"
  by (simp add: store_env_def)


definition docker_repository :: github_repository where
  "docker_repository = \<lparr>ghr_Owner = ''docker'', ghr_Name = ''mcp-registry'', ghr_Branch = ''main'', ghr_Path = [],
     ghr_AuthToken = []\<rparr>"

lemma docker_repository_of: "registry_repository url_Parse (reg_Spec github_registry) = Inr docker_repository"
proof -
  have "parseRepositoryURL ''docker/mcp-registry'' = Inr docker_repository" by code_simp
  then show ?thesis
    by (simp add: registry_repository_def source_repository_def github_registry_def zero_registry_def
        docker_repository_def)
qed

lemma path_not_found_reason_iff_witness:
  "\<exists>w1 r1. synchronize store_env [] github_registry Map.empty = Returns ((time_Minute * 15, None), w1) \<and>
    w1 (registry_key github_registry) = Some r1 \<and>
    (registry_reason RCondReachable r1 = Some ''PathNotFound'' \<longleftrightarrow>
       isNetworkError (path_not_found (repository_client (registry_client_for store_env [])
         (authenticated (reg_Spec github_registry) [] docker_repository))))"
  by (rule path_not_found_reason_iff[OF store_env_laws docker_repository_of])

lemma discovered_servers_listed_witness:
  "\<exists>again w1 r1. finish_sync store_env small_result github_registry Map.empty = Returns ((again, None), w1) \<and>
    w1 (registry_key github_registry) = Some r1 \<and>
    map rse_Name (rgs_Servers (reg_Status r1)) =
      filter (\<lambda>n. gm_get (syn_ServerSpecs small_result) n \<noteq> None) (map sin_Name (syn_Servers small_result)) \<and>
    rgs_ServersDiscovered (reg_Status r1) = int (length (rgs_Servers (reg_Status r1)))"
proof (rule discovered_servers_listed[OF store_env_laws(1,2) small_sync])
  show "distinct (map sin_Name (syn_Servers small_result))" by (simp add: small_names)
  have "length (map sin_Name (syn_Servers small_result)) = 2" by (simp add: small_names)
  then show "int (length (syn_Servers small_result)) < 2 ^ 31" by simp
qed

end
