(* ===== verification/BackupTypes.thy ===== *)
theory BackupTypes
  imports KubeClient Conditions GoText
begin

section \<open>Backups\<close>

text \<open>
  \<open>api/v1/mcpserverbackup_types.go\<close> as records, and the conditions of a backup, which are set by the
  fourth of the four condition setters. Enumerations that users write freely are strings; the phase
  and the condition type are written by the controller only.
\<close>

record retention_policy =
  rtp_KeepLast :: "int option"
  rtp_KeepDaily :: "int option"
  rtp_KeepWeekly :: "int option"
  rtp_KeepMonthly :: "int option"
  rtp_MaxAge :: "duration option"

record backup_volume_source =
  bvs_PersistentVolumeClaim :: "pvc_source option"
  bvs_HostPath :: "host_path_source option"
  bvs_EmptyDir :: "empty_dir_source option"

record local_storage =
  lst_Path :: string
  lst_VolumeSource :: "backup_volume_source option"

record s3_storage =
  s3s_Bucket :: string
  s3s_Region :: string
  s3s_Prefix :: string
  s3s_Endpoint :: string
  s3s_CredentialsSecret :: string

record gcs_storage =
  gcs_Bucket :: string
  gcs_Prefix :: string
  gcs_CredentialsSecret :: string

record azure_storage =
  azs_Container :: string
  azs_StorageAccount :: string
  azs_Prefix :: string
  azs_CredentialsSecret :: string

record storage_location =
  slo_Type :: string
  slo_Local :: "local_storage option"
  slo_S3 :: "s3_storage option"
  slo_GCS :: "gcs_storage option"
  slo_Azure :: "azure_storage option"

record backup_spec =
  bsp_MCPServerRef :: string
  bsp_Schedule :: string
  bsp_RetentionPolicy :: retention_policy
  bsp_BackupType :: string
  bsp_StorageLocation :: storage_location
  bsp_Suspend :: "bool option"

record backup_metadata =
  bmd_BackupVersion :: string
  bmd_OperatorVersion :: string
  bmd_KubernetesVersion :: string
  bmd_CreatedBy :: string
  bmd_Labels :: "string gomap"
  bmd_Annotations :: "string gomap"

record resource_reference =
  rfr_APIVersion :: string
  rfr_Kind :: string
  rfr_Name :: string
  rfr_Namespace :: string
  rfr_UID :: string

record backup_data =
  bdt_MCPServerSpec :: mcp_server_spec
  bdt_Metadata :: backup_metadata
  bdt_Dependencies :: "resource_reference list"

datatype backup_phase =
  BackupNoPhase | BackupPending | BackupRunning | BackupCompleted | BackupFailed | BackupDeleting

datatype backup_condition_type = BackupCondReady | BackupCondProgressing | BackupCondFailed

record backup_condition =
  bcd_Type :: backup_condition_type
  bcd_Status :: condition_status
  bcd_LastTransitionTime :: instant
  bcd_Reason :: string
  bcd_Message :: string

record backup_status =
  bst_Phase :: backup_phase
  bst_Message :: string
  bst_Reason :: string
  bst_StartTime :: "instant option"
  bst_CompletionTime :: "instant option"
  bst_BackupSize :: int
  bst_BackupLocation :: string
  bst_LastScheduleTime :: "instant option"
  bst_NextScheduleTime :: "instant option"
  bst_BackupData :: "backup_data option"
  bst_Conditions :: "backup_condition list"

record mcp_backup =
  bkp_Meta :: object_meta
  bkp_Spec :: backup_spec
  bkp_Status :: backup_status

abbreviation bkp_Name :: "mcp_backup \<Rightarrow> string" where "bkp_Name b \<equiv> om_Name (bkp_Meta b)"
abbreviation bkp_Namespace :: "mcp_backup \<Rightarrow> string" where "bkp_Namespace b \<equiv> om_Namespace (bkp_Meta b)"
abbreviation bkp_UID :: "mcp_backup \<Rightarrow> string" where "bkp_UID b \<equiv> om_UID (bkp_Meta b)"

definition zero_storage :: storage_location where
  "zero_storage = \<lparr>slo_Type = [], slo_Local = None, slo_S3 = None, slo_GCS = None, slo_Azure = None\<rparr>"

definition zero_backup :: mcp_backup where
  "zero_backup = \<lparr>bkp_Meta = zero_meta,
     bkp_Spec = \<lparr>bsp_MCPServerRef = [], bsp_Schedule = [],
       bsp_RetentionPolicy = \<lparr>rtp_KeepLast = None, rtp_KeepDaily = None, rtp_KeepWeekly = None,
         rtp_KeepMonthly = None, rtp_MaxAge = None\<rparr>,
       bsp_BackupType = [], bsp_StorageLocation = zero_storage, bsp_Suspend = None\<rparr>,
     bkp_Status = \<lparr>bst_Phase = BackupNoPhase, bst_Message = [], bst_Reason = [], bst_StartTime = None,
       bst_CompletionTime = None, bst_BackupSize = 0, bst_BackupLocation = [],
       bst_LastScheduleTime = None, bst_NextScheduleTime = None, bst_BackupData = None,
       bst_Conditions = []\<rparr>\<rparr>"

subsection \<open>Conditions\<close>

definition getConditionType :: "backup_phase \<Rightarrow> backup_condition_type" where
  "getConditionType ph =
     (if ph = BackupRunning then BackupCondProgressing
      else if ph = BackupCompleted then BackupCondReady
      else if ph = BackupFailed then BackupCondFailed else BackupCondProgressing)"

definition getConditionStatus :: "backup_phase \<Rightarrow> condition_status" where
  "getConditionStatus ph =
     (if ph = BackupCompleted then CTrue else if ph = BackupFailed then CFalse else CUnknown)"

fun updateConditions :: "backup_condition \<Rightarrow> backup_condition list \<Rightarrow> backup_condition list" where
  "updateConditions c [] = [c]"
| "updateConditions c (d # ds) = (if bcd_Type d = bcd_Type c then c # ds else d # updateConditions c ds)"

lemma update_types:
  "map bcd_Type (updateConditions c cs) =
     (if bcd_Type c \<in> bcd_Type ` set cs then map bcd_Type cs else map bcd_Type cs @ [bcd_Type c])"
  by (induction c cs rule: updateConditions.induct) auto

lemma update_lookup:
  "cond_lookup bcd_Type k (updateConditions c cs) =
     (if k = bcd_Type c then Some c else cond_lookup bcd_Type k cs)"
  by (induction c cs rule: updateConditions.induct) auto

interpretation backup_conditions: condition_setter bcd_Type bcd_Status updateConditions
  by unfold_locales (auto simp: update_types update_lookup)

text \<open>
  \<open>updateBackupStatus\<close> without the call: the time of the last transition is new every time, even when
  the status of the condition is not, so the contract of theory Conditions on times is not kept.
\<close>

definition backup_status_set ::
  "instant \<Rightarrow> backup_phase \<Rightarrow> string \<Rightarrow> string \<Rightarrow> mcp_backup \<Rightarrow> mcp_backup" where
  "backup_status_set now ph msg reason b =
     (let st = bkp_Status b in
      b\<lparr>bkp_Status := st\<lparr>bst_Phase := ph, bst_Message := msg, bst_Reason := reason,
         bst_StartTime := (if ph = BackupRunning \<and> bst_StartTime st = None then Some now else bst_StartTime st),
         bst_CompletionTime := (if ph = BackupCompleted \<or> ph = BackupFailed then Some now
            else bst_CompletionTime st),
         bst_Conditions := updateConditions
           \<lparr>bcd_Type = getConditionType ph, bcd_Status = getConditionStatus ph,
            bcd_LastTransitionTime = now, bcd_Reason = reason, bcd_Message = msg\<rparr>
           (bst_Conditions st)\<rparr>\<rparr>)"

definition backup_cond :: "backup_condition_type \<Rightarrow> mcp_backup \<Rightarrow> condition_status option" where
  "backup_cond ty b = map_option bcd_Status (cond_lookup bcd_Type ty (bst_Conditions (bkp_Status b)))"

lemma backup_cond_set:
  "backup_cond ty (backup_status_set now ph msg reason b) =
     (if ty = getConditionType ph then Some (getConditionStatus ph) else backup_cond ty b)"
  by (simp add: backup_cond_def backup_status_set_def Let_def backup_conditions.status_after)

lemma backup_status_set_frame [simp]:
  "bkp_Meta (backup_status_set now ph msg reason b) = bkp_Meta b"
  "bkp_Spec (backup_status_set now ph msg reason b) = bkp_Spec b"
  "bst_Phase (bkp_Status (backup_status_set now ph msg reason b)) = ph"
  "bst_BackupData (bkp_Status (backup_status_set now ph msg reason b)) = bst_BackupData (bkp_Status b)"
  "bst_BackupLocation (bkp_Status (backup_status_set now ph msg reason b)) = bst_BackupLocation (bkp_Status b)"
  "bst_LastScheduleTime (bkp_Status (backup_status_set now ph msg reason b)) = bst_LastScheduleTime (bkp_Status b)"
  by (simp_all add: backup_status_set_def Let_def)

text \<open>Whatever a phase writes, the condition Failed never becomes true, and Progressing never does.\<close>

lemma phase_condition_table:
  "(getConditionType ph = BackupCondFailed \<longleftrightarrow> ph = BackupFailed) \<and>
   (getConditionType ph = BackupCondReady \<longleftrightarrow> ph = BackupCompleted) \<and>
   (getConditionStatus ph = CTrue \<longleftrightarrow> ph = BackupCompleted)"
  by (simp add: getConditionType_def getConditionStatus_def)

end
