(* ===== verification/BackupFiles.thy ===== *)
theory BackupFiles
  imports BackupTypes
begin

section \<open>Cleaning up local backups\<close>

text \<open>
  The clean-up of local storage in \<open>controllers/mcpserverbackup_controller.go\<close>. The file system is the
  record \<open>os_files\<close> over the world: what \<open>Stat\<close> says of a path, and what the calls of package \<open>os\<close> do;
  \<open>filepath.Match\<close> and the JSON of an index are parameters of it.
\<close>

datatype file_stat = FileExists | FileNotExist | StatError string

record 'w os_files =
  osf_Stat :: "string \<Rightarrow> 'w \<Rightarrow> file_stat"
  osf_Remove :: "string \<Rightarrow> 'w \<Rightarrow> go_error \<times> 'w"
  osf_ReadDir :: "string \<Rightarrow> 'w \<Rightarrow> string + (string \<times> bool) list"
  osf_ReadFile :: "string \<Rightarrow> 'w \<Rightarrow> string + string"
  osf_WriteFile :: "string \<Rightarrow> string \<Rightarrow> 'w \<Rightarrow> go_error \<times> 'w"
  osf_Match :: "string \<Rightarrow> string \<Rightarrow> string + bool"
  osf_Abs :: "string \<Rightarrow> string + string"
  osf_decode :: "string \<Rightarrow> string + opaque gomap"
  osf_encode :: "opaque gomap \<Rightarrow> string + string"

definition local_path :: "mcp_backup \<Rightarrow> string option" where
  "local_path b =
     (case slo_Local (bsp_StorageLocation (bkp_Spec b)) of
        None \<Rightarrow> None
      | Some l \<Rightarrow> if lst_Path l = [] then None else Some (lst_Path l))"

text \<open>A directory is removed when it is empty; that this fails is not an error.\<close>

definition remove_if_empty :: "'w os_files \<Rightarrow> string \<Rightarrow> 'w \<Rightarrow> 'w" where
  "remove_if_empty fs dir w =
     (case osf_ReadDir fs dir w of
        Inr [] \<Rightarrow> snd (osf_Remove fs dir w)
      | _ \<Rightarrow> w)"

definition backup_file :: "string \<Rightarrow> mcp_backup \<Rightarrow> string" where
  "backup_file path b = path_Join [path, bkp_Namespace b, bkp_Name b @ ''-'' @ bkp_UID b @ ''.json'']"

definition cleanupBackupFiles :: "'w os_files \<Rightarrow> mcp_backup \<Rightarrow> 'w \<Rightarrow> go_error \<times> 'w" where
  "cleanupBackupFiles fs b w =
     (case local_path b of
        None \<Rightarrow> (None, w)
      | Some path \<Rightarrow>
          (let file = backup_file path b in
           case osf_Stat fs file w of
             FileNotExist \<Rightarrow> (None, w)
           | StatError e \<Rightarrow> (Some (''failed to check backup file status: '' @ e), w)
           | FileExists \<Rightarrow>
               (case osf_Remove fs file w of
                  (Some e, w1) \<Rightarrow> (Some (''failed to delete backup file '' @ file @ '': '' @ e), w1)
                | (None, w1) \<Rightarrow> (None, remove_if_empty fs (path_Join [path, bkp_Namespace b]) w1))))"

definition temp_patterns :: "mcp_backup \<Rightarrow> string list" where
  "temp_patterns b =
     (let base = bkp_Name b @ ''-'' @ bkp_UID b
      in [base @ ''.tmp'', base @ ''.partial'', ''.'' @ base @ ''.*''])"

text \<open>A pattern that cannot be matched is logged and counts as not matching.\<close>

definition matches_any :: "'w os_files \<Rightarrow> string list \<Rightarrow> string \<Rightarrow> bool" where
  "matches_any fs patterns name = list_ex (\<lambda>p. osf_Match fs p name = Inr True) patterns"

primrec remove_matching ::
  "'w os_files \<Rightarrow> string \<Rightarrow> string list \<Rightarrow> (string \<times> bool) list \<Rightarrow> 'w \<Rightarrow> 'w" where
  "remove_matching fs dir patterns [] w = w"
| "remove_matching fs dir patterns (e # es) w =
     remove_matching fs dir patterns es
       (if \<not> snd e \<and> matches_any fs patterns (fst e) then snd (osf_Remove fs (path_Join [dir, fst e]) w) else w)"

definition cleanupTempFilesInDirectory ::
  "'w os_files \<Rightarrow> string \<Rightarrow> string list \<Rightarrow> 'w \<Rightarrow> go_error \<times> 'w" where
  "cleanupTempFilesInDirectory fs dir patterns w =
     (if osf_Stat fs dir w = FileNotExist then (None, w)
      else (case osf_ReadDir fs dir w of
              Inl e \<Rightarrow> (Some (''failed to read directory '' @ dir @ '': '' @ e), w)
            | Inr entries \<Rightarrow> (None, remove_matching fs dir patterns entries w)))"

definition cleanupTemporaryFiles :: "'w os_files \<Rightarrow> mcp_backup \<Rightarrow> 'w \<Rightarrow> go_error \<times> 'w" where
  "cleanupTemporaryFiles fs b w =
     (case local_path b of
        None \<Rightarrow> (None, w)
      | Some path \<Rightarrow>
          (let nsdir = path_Join [path, bkp_Namespace b]; tmpdir = path_Join [path, bkp_Namespace b, ''tmp''];
               w1 = snd (cleanupTempFilesInDirectory fs nsdir (temp_patterns b) w);
               w2 = snd (cleanupTempFilesInDirectory fs tmpdir (temp_patterns b) w1)
           in (None, remove_if_empty fs tmpdir w2)))"

subsection \<open>Indexes\<close>

text \<open>\<open>filepath.Base\<close> of a path.\<close>

definition path_Base :: "string \<Rightarrow> string" where
  "path_Base p =
     (if p = [] then ''.''
      else (let q = rev (trim_left ''/'' (rev p)) in
            if q = [] then ''/'' else List.last (split_on (CHR ''/'') q)))"

definition validateIndexPath :: "'w os_files \<Rightarrow> string \<Rightarrow> go_error" where
  "validateIndexPath fs p =
     (if CHR 0x00 \<in> set p then Some (''invalid characters in index path: '' @ p)
      else if str_contains p ''..'' then Some (''path traversal detected in index path: '' @ p)
      else (case osf_Abs fs (path_Clean p) of
              Inl e \<Rightarrow> Some (''failed to resolve absolute path: '' @ e)
            | Inr absolute \<Rightarrow>
                if str_contains (path_Base absolute) ''..''
                then Some (''suspicious path detected after resolution: '' @ p) else None))"

text \<open>The index without the entries of the backup; the deletions go by its key and by its UID.\<close>

definition index_without :: "string \<Rightarrow> string \<Rightarrow> opaque gomap \<Rightarrow> bool \<times> opaque gomap" where
  "index_without key uid index =
     (let index1 = gm_delete key index
      in (gm_get index key \<noteq> None \<or> gm_get index1 uid \<noteq> None, gm_delete uid index1))"

definition backup_key :: "mcp_backup \<Rightarrow> string" where
  "backup_key b = bkp_Namespace b @ ''/'' @ bkp_Name b"

definition removeBackupFromIndexFile ::
  "'w os_files \<Rightarrow> string \<Rightarrow> string \<Rightarrow> mcp_backup \<Rightarrow> 'w \<Rightarrow> go_error \<times> 'w" where
  "removeBackupFromIndexFile fs indexPath key b w =
     (case validateIndexPath fs indexPath of
        Some e \<Rightarrow> (Some (''invalid index path: '' @ e), w)
      | None \<Rightarrow>
          if osf_Stat fs indexPath w = FileNotExist then (None, w)
          else (case osf_ReadFile fs indexPath w of
            Inl e \<Rightarrow> (Some (''failed to read index file '' @ indexPath @ '': '' @ e), w)
          | Inr bytes \<Rightarrow>
              (case osf_decode fs bytes of
                 Inl _ \<Rightarrow> (None, w)
               | Inr index \<Rightarrow>
                   (let (modified, rest) = index_without key (bkp_UID b) index in
                    if \<not> modified then (None, w)
                    else (case osf_encode fs rest of
                      Inl e \<Rightarrow> (Some (''failed to marshal updated index: '' @ e), w)
                    | Inr new \<Rightarrow>
                        (case osf_WriteFile fs indexPath new w of
                           (Some e, w1) \<Rightarrow> (Some (''failed to write updated index file '' @ indexPath @ '': '' @ e), w1)
                         | (None, w1) \<Rightarrow> (None, w1)))))))"

definition index_files :: "string \<Rightarrow> mcp_backup \<Rightarrow> string list" where
  "index_files path b =
     [path_Join [path, ''backup-index.json''],
      path_Join [path, bkp_Namespace b, ''namespace-index.json''],
      path_Join [path, ''.backup-metadata.json'']]"

definition removeFromLocalStorageIndex :: "'w os_files \<Rightarrow> mcp_backup \<Rightarrow> 'w \<Rightarrow> go_error \<times> 'w" where
  "removeFromLocalStorageIndex fs b w =
     (case local_path b of
        None \<Rightarrow> (None, w)
      | Some path \<Rightarrow>
          (None, fold (\<lambda>f w. snd (removeBackupFromIndexFile fs f (backup_key b) b w)) (index_files path b) w))"

text \<open>All of it, after the data in the status has been cleared.\<close>

definition cleanup_files :: "'w os_files \<Rightarrow> mcp_backup \<Rightarrow> 'w \<Rightarrow> go_error \<times> 'w" where
  "cleanup_files fs b w =
     (case cleanupBackupFiles fs b w of
        (Some e, w1) \<Rightarrow> (Some (''failed to cleanup backup files: '' @ e), w1)
      | (None, w1) \<Rightarrow>
          (case cleanupTemporaryFiles fs b w1 of
             (Some e, w2) \<Rightarrow> (Some (''failed to cleanup temporary files: '' @ e), w2)
           | (None, w2) \<Rightarrow>
               (case removeFromLocalStorageIndex fs b w2 of
                  (Some e, w3) \<Rightarrow> (Some (''failed to remove from local storage index: '' @ e), w3)
                | (None, w3) \<Rightarrow> (None, w3))))"

subsection \<open>Correctness\<close>

text \<open>An index keeps every entry but those of the backup, and is rewritten exactly if it had one.\<close>

lemma index_without_exact:
  "gm_get (snd (index_without key uid index)) k = (if k = key \<or> k = uid then None else gm_get index k)"
  "fst (index_without key uid index) \<longleftrightarrow> gm_get index key \<noteq> None \<or> gm_get index uid \<noteq> None"
  by (auto simp: index_without_def Let_def)

text \<open>
  The test for path traversal looks for two dots anywhere, so that an index below a directory whose
  name contains two dots is never updated.
\<close>

lemma two_dots_rejected:
  assumes "str_contains p ''..''" and "CHR 0x00 \<notin> set p"
  shows "removeBackupFromIndexFile fs p key b w =
    (Some (''invalid index path: path traversal detected in index path: '' @ p), w)"
  using assms by (simp add: removeBackupFromIndexFile_def validateIndexPath_def)

text \<open>The clean-up fails only because of the backup file itself.\<close>

lemma cleanup_files_fails_iff:
  "fst (cleanup_files fs b w) = None \<longleftrightarrow> fst (cleanupBackupFiles fs b w) = None"
  by (auto simp: cleanup_files_def cleanupTemporaryFiles_def removeFromLocalStorageIndex_def Let_def
      split: prod.splits option.splits)

end
