(* ===== verification/BackupS3.thy ===== *)
theory BackupS3
  imports BackupFiles RegistryService
begin

section \<open>Cleaning up backups in S3\<close>

text \<open>
  The clean-up of S3 storage in \<open>controllers/mcpserverbackup_controller.go\<close>. The client of the SDK is
  the record \<open>s3_client\<close>; a paginator is a value of type \<open>'p\<close> with the two calls the code makes of it.
  The loops over a paginator may run for ever, so they are partial functions: \<open>None\<close> is a call that
  does not return.
\<close>

record s3_upload =
  sup_Key :: "string option"
  sup_UploadId :: "string option"

record ('w, 'p) s3_client =
  s3c_ListObjects :: "string \<Rightarrow> string \<Rightarrow> 'p"
  s3c_ListUploads :: "string \<Rightarrow> string option \<Rightarrow> 'p"
  s3c_HasMorePages :: "'p \<Rightarrow> bool"
  s3c_NextObjects :: "'p \<Rightarrow> 'w \<Rightarrow> (string + string option list) \<times> 'p \<times> 'w"
  s3c_NextUploads :: "'p \<Rightarrow> 'w \<Rightarrow> (string + s3_upload list) \<times> 'p \<times> 'w"
  s3c_DeleteObjects :: "string \<Rightarrow> string list \<Rightarrow> 'w \<Rightarrow> go_error \<times> 'w"
  s3c_AbortUpload :: "string \<Rightarrow> string \<Rightarrow> string \<Rightarrow> 'w \<Rightarrow> go_error \<times> 'w"
  s3c_GetObject :: "string \<Rightarrow> string \<Rightarrow> 'w \<Rightarrow> (string + (string + string)) \<times> 'w"
  s3c_PutObject :: "string \<Rightarrow> string \<Rightarrow> string \<Rightarrow> 'w \<Rightarrow> go_error \<times> 'w"

type_synonym 'w eventually = "(go_error \<times> 'w) option"

definition after_step :: "string \<Rightarrow> 'w eventually \<Rightarrow> ('w \<Rightarrow> 'w eventually) \<Rightarrow> 'w eventually" where
  "after_step p r f =
     (case r of
        None \<Rightarrow> None
      | Some (Some e, w) \<Rightarrow> Some (Some (p @ e), w)
      | Some (None, w) \<Rightarrow> f w)"

subsection \<open>Which keys belong to a backup\<close>

definition named_in_namespace :: "string \<Rightarrow> mcp_backup \<Rightarrow> bool" where
  "named_in_namespace key b =
     list_ex (\<lambda>i. str_contains key i \<and> (str_contains key (bkp_Namespace b) \<or> \<not> str_contains key ''/''))
       [bkp_Name b @ ''-'' @ bkp_UID b, bkp_Name b]"

definition matchesBackupPattern :: "string \<Rightarrow> mcp_backup \<Rightarrow> bool" where
  "matchesBackupPattern key b = named_in_namespace key b"

definition matchesBackupMetadataPattern :: "string \<Rightarrow> mcp_backup \<Rightarrow> bool" where
  "matchesBackupMetadataPattern key b \<longleftrightarrow>
     (str_contains key ''.metadata'' \<or> str_contains key ''.backup-metadata'') \<and> named_in_namespace key b"

text \<open>The patterns are written below the prefix of the storage, if it has one.\<close>

definition under_prefix :: "s3_storage \<Rightarrow> string \<Rightarrow> string" where
  "under_prefix s p = (if s3s_Prefix s = [] then p else s3s_Prefix s @ ''/'' @ p)"

definition object_patterns :: "s3_storage \<Rightarrow> mcp_backup \<Rightarrow> string list" where
  "object_patterns s b = map (under_prefix s)
     [bkp_Name b @ ''-'' @ bkp_UID b @ ''.json'',
      bkp_Namespace b @ ''/'' @ bkp_Name b @ ''-'' @ bkp_UID b @ ''.json'',
      bkp_Namespace b @ ''/'' @ bkp_Name b @ ''.json'']"

definition metadata_patterns :: "s3_storage \<Rightarrow> mcp_backup \<Rightarrow> string list" where
  "metadata_patterns s b = map (under_prefix s)
     [''.metadata/'' @ bkp_Name b @ ''-'' @ bkp_UID b @ ''.json'',
      bkp_Namespace b @ ''/.metadata/'' @ bkp_Name b @ ''-'' @ bkp_UID b @ ''.json'',
      ''.backup-metadata/'' @ bkp_Namespace b @ ''/'' @ bkp_Name b @ ''.json'']"

definition object_prefix :: "string \<Rightarrow> string" where
  "object_prefix p = (if CHR ''*'' \<in> set p then hd (split_on (CHR ''*'') p) else p)"

definition metadata_prefix :: "string \<Rightarrow> string" where
  "metadata_prefix p =
     (if CHR ''*'' \<in> set p then hd (split_on (CHR ''*'') p)
      else if CHR ''/'' \<in> set p then join ''/'' (butlast (split_on (CHR ''/'') p)) @ ''/''
      else p)"

subsection \<open>Listing and deleting\<close>

text \<open>An error of a page is logged and the loop goes on with the paginator as it is.\<close>

partial_function (option) list_keys ::
  "('w, 'p) s3_client \<Rightarrow> (string \<Rightarrow> bool) \<Rightarrow> 'p \<Rightarrow> string list \<Rightarrow> 'w \<Rightarrow> (string list \<times> 'w) option" where
  "list_keys c keep p acc w =
     (if \<not> s3c_HasMorePages c p then Some (acc, w)
      else (case s3c_NextObjects c p w of
              (Inl e, p1, w1) \<Rightarrow> list_keys c keep p1 acc w1
            | (Inr page, p1, w1) \<Rightarrow> list_keys c keep p1 (acc @ filter keep (List.map_filter (\<lambda>k. k) page)) w1))"

primrec list_all_keys ::
  "('w, 'p) s3_client \<Rightarrow> string \<Rightarrow> (string \<Rightarrow> bool) \<Rightarrow> string list \<Rightarrow> string list \<Rightarrow> 'w
     \<Rightarrow> (string list \<times> 'w) option" where
  "list_all_keys c bucket keep [] acc w = Some (acc, w)"
| "list_all_keys c bucket keep (p # ps) acc w =
     (case list_keys c keep (s3c_ListObjects c bucket p) acc w of
        None \<Rightarrow> None
      | Some (acc1, w1) \<Rightarrow> list_all_keys c bucket keep ps acc1 w1)"

text \<open>At most a thousand objects per request.\<close>

function delete_batches :: "('w, 'p) s3_client \<Rightarrow> string \<Rightarrow> string list \<Rightarrow> 'w \<Rightarrow> go_error \<times> 'w" where
  "delete_batches c bucket keys w =
     (if keys = [] then (None, w)
      else (case s3c_DeleteObjects c bucket (take 1000 keys) w of
              (Some e, w1) \<Rightarrow> (Some e, w1)
            | (None, w1) \<Rightarrow> delete_batches c bucket (drop 1000 keys) w1))"
  by pat_completeness auto
termination
  by (relation "measure (\<lambda>(c, bucket, keys, w). length keys)") auto

declare delete_batches.simps [simp del]

definition delete_listed ::
  "('w, 'p) s3_client \<Rightarrow> string \<Rightarrow> string \<Rightarrow> (string \<Rightarrow> bool) \<Rightarrow> string list \<Rightarrow> 'w \<Rightarrow> 'w eventually" where
  "delete_listed c bucket what keep dirs w =
     (case list_all_keys c bucket keep dirs [] w of
        None \<Rightarrow> None
      | Some (keys, w1) \<Rightarrow> Some (apfst (wrap_err what) (delete_batches c bucket keys w1)))"

definition deleteS3BackupObjects ::
  "('w, 'p) s3_client \<Rightarrow> s3_storage \<Rightarrow> mcp_backup \<Rightarrow> 'w \<Rightarrow> 'w eventually" where
  "deleteS3BackupObjects c s b w =
     delete_listed c (s3s_Bucket s) ''failed to delete S3 objects: '' (\<lambda>k. matchesBackupPattern k b)
       (map object_prefix (object_patterns s b)) w"

definition removeS3BackupMetadata ::
  "('w, 'p) s3_client \<Rightarrow> s3_storage \<Rightarrow> mcp_backup \<Rightarrow> 'w \<Rightarrow> 'w eventually" where
  "removeS3BackupMetadata c s b w =
     delete_listed c (s3s_Bucket s) ''failed to delete S3 metadata objects: ''
       (\<lambda>k. matchesBackupMetadataPattern k b) (map metadata_prefix (metadata_patterns s b)) w"

subsection \<open>Uploads\<close>

definition matching_uploads :: "mcp_backup \<Rightarrow> s3_upload list \<Rightarrow> string list" where
  "matching_uploads b us = List.map_filter (\<lambda>u. case (sup_Key u, sup_UploadId u) of
     (Some k, Some i) \<Rightarrow> if matchesBackupPattern k b then Some i else None | _ \<Rightarrow> None) us"

partial_function (option) list_uploads ::
  "('w, 'p) s3_client \<Rightarrow> mcp_backup \<Rightarrow> 'p \<Rightarrow> string list \<Rightarrow> 'w \<Rightarrow> ((string + string list) \<times> 'w) option" where
  "list_uploads c b p acc w =
     (if \<not> s3c_HasMorePages c p then Some (Inr acc, w)
      else (case s3c_NextUploads c p w of
              (Inl e, p1, w1) \<Rightarrow> Some (Inl (''failed to list multipart uploads: '' @ e), w1)
            | (Inr page, p1, w1) \<Rightarrow> list_uploads c b p1 (acc @ matching_uploads b page) w1))"

definition abort_on_page :: "('w, 'p) s3_client \<Rightarrow> string \<Rightarrow> string \<Rightarrow> s3_upload list \<Rightarrow> 'w \<Rightarrow> 'w" where
  "abort_on_page c bucket i page w =
     (case find (\<lambda>u. sup_UploadId u = Some i \<and> sup_Key u \<noteq> None) page of
        None \<Rightarrow> w
      | Some u \<Rightarrow> (case sup_Key u of None \<Rightarrow> w | Some k \<Rightarrow> snd (s3c_AbortUpload c bucket k i w)))"

partial_function (option) abort_upload ::
  "('w, 'p) s3_client \<Rightarrow> string \<Rightarrow> string \<Rightarrow> 'p \<Rightarrow> 'w \<Rightarrow> 'w option" where
  "abort_upload c bucket i p w =
     (if \<not> s3c_HasMorePages c p then Some w
      else (case s3c_NextUploads c p w of
              (Inl e, p1, w1) \<Rightarrow> abort_upload c bucket i p1 w1
            | (Inr page, p1, w1) \<Rightarrow> abort_upload c bucket i p1 (abort_on_page c bucket i page w1)))"

primrec abort_uploads ::
  "('w, 'p) s3_client \<Rightarrow> string \<Rightarrow> string option \<Rightarrow> string list \<Rightarrow> 'w \<Rightarrow> 'w option" where
  "abort_uploads c bucket dir [] w = Some w"
| "abort_uploads c bucket dir (i # is) w =
     (case abort_upload c bucket i (s3c_ListUploads c bucket dir) w of
        None \<Rightarrow> None
      | Some w1 \<Rightarrow> abort_uploads c bucket dir is w1)"

definition cleanupS3MultipartUploads ::
  "('w, 'p) s3_client \<Rightarrow> s3_storage \<Rightarrow> mcp_backup \<Rightarrow> 'w \<Rightarrow> 'w eventually" where
  "cleanupS3MultipartUploads c s b w =
     (let prefix = (if s3s_Prefix s \<noteq> [] then Some (s3s_Prefix s) else None) in
      case list_uploads c b (s3c_ListUploads c (s3s_Bucket s) prefix) [] w of
        None \<Rightarrow> None
      | Some (Inl e, w1) \<Rightarrow> Some (Some e, w1)
      | Some (Inr is, w1) \<Rightarrow>
          (case abort_uploads c (s3s_Bucket s) prefix is w1 of
             None \<Rightarrow> None
           | Some w2 \<Rightarrow> Some (None, w2)))"

subsection \<open>Indexes\<close>

record index_codec =
  ixc_decode :: "string \<Rightarrow> string + opaque gomap"
  ixc_encode :: "opaque gomap \<Rightarrow> string + string"

definition updateS3IndexFile ::
  "('w, 'p) s3_client \<Rightarrow> index_codec \<Rightarrow> string \<Rightarrow> string \<Rightarrow> string \<Rightarrow> mcp_backup \<Rightarrow> 'w \<Rightarrow> go_error \<times> 'w" where
  "updateS3IndexFile c x bucket indexKey key b w =
     (case s3c_GetObject c bucket indexKey w of
        (Inl e, w1) \<Rightarrow>
          (if str_contains e ''NoSuchKey'' \<or> str_contains e ''not found'' then (None, w1)
           else (Some (''failed to get S3 index file '' @ indexKey @ '': '' @ e), w1))
      | (Inr (Inl e), w1) \<Rightarrow> (Some (''failed to read S3 index file '' @ indexKey @ '': '' @ e), w1)
      | (Inr (Inr bytes), w1) \<Rightarrow>
          (case ixc_decode x bytes of
             Inl _ \<Rightarrow> (None, w1)
           | Inr index \<Rightarrow>
               (let (modified, rest) = index_without key (bkp_UID b) index in
                if \<not> modified then (None, w1)
                else (case ixc_encode x rest of
                  Inl e \<Rightarrow> (Some (''failed to marshal updated S3 index: '' @ e), w1)
                | Inr new \<Rightarrow>
                    (case s3c_PutObject c bucket indexKey new w1 of
                       (Some e, w2) \<Rightarrow> (Some (''failed to update S3 index file '' @ indexKey @ '': '' @ e), w2)
                     | (None, w2) \<Rightarrow> (None, w2))))))"

definition index_patterns :: "s3_storage \<Rightarrow> mcp_backup \<Rightarrow> string list" where
  "index_patterns s b = map (under_prefix s)
     [''backup-index.json'', bkp_Namespace b @ ''/namespace-index.json'', ''.backup-metadata.json'']"

definition updateS3BackupIndexes ::
  "('w, 'p) s3_client \<Rightarrow> index_codec \<Rightarrow> s3_storage \<Rightarrow> mcp_backup \<Rightarrow> 'w \<Rightarrow> 'w eventually" where
  "updateS3BackupIndexes c x s b w =
     Some (None, fold (\<lambda>f w. snd (updateS3IndexFile c x (s3s_Bucket s) f
        (backup_key b) b w)) (index_patterns s b) w)"

subsection \<open>All of it\<close>

text \<open>
  \<open>connect\<close> loads the configuration for a region, an endpoint, an access key and its secret.
\<close>

definition createS3Client ::
  "('w, secret_object) kube_api \<Rightarrow> (string \<Rightarrow> string \<Rightarrow> string \<Rightarrow> string \<Rightarrow> string + ('w, 'p) s3_client)
     \<Rightarrow> string \<Rightarrow> s3_storage \<Rightarrow> 'w \<Rightarrow> (string + ('w, 'p) s3_client) \<times> 'w" where
  "createS3Client secrets connect namespace s w =
     (let name = s3s_CredentialsSecret s in
      case ka_get secrets namespace name w of
        (Inl e, w1) \<Rightarrow> (Inl (''failed to get credentials secret '' @ name @ '': '' @ api_msg e), w1)
      | (Inr sec, w1) \<Rightarrow>
          (case gm_get (sec_Data sec) ''AWS_ACCESS_KEY_ID'' of
             None \<Rightarrow> (Inl (''AWS_ACCESS_KEY_ID not found in secret '' @ name), w1)
           | Some k \<Rightarrow>
               (case gm_get (sec_Data sec) ''AWS_SECRET_ACCESS_KEY'' of
                  None \<Rightarrow> (Inl (''AWS_SECRET_ACCESS_KEY not found in secret '' @ name), w1)
                | Some sk \<Rightarrow>
                    (case connect (s3s_Region s) (s3s_Endpoint s) k sk of
                       Inl e \<Rightarrow> (Inl (''failed to load AWS config: '' @ e), w1)
                     | Inr c \<Rightarrow> (Inr c, w1)))))"

definition cleanup_bucket ::
  "('w, 'p) s3_client \<Rightarrow> index_codec \<Rightarrow> s3_storage \<Rightarrow> mcp_backup \<Rightarrow> 'w \<Rightarrow> 'w eventually" where
  "cleanup_bucket c x s b w =
     after_step ''failed to delete backup objects: '' (deleteS3BackupObjects c s b w) (\<lambda>w1.
     after_step ''failed to cleanup multipart uploads: '' (cleanupS3MultipartUploads c s b w1) (\<lambda>w2.
     after_step ''failed to remove backup metadata: '' (removeS3BackupMetadata c s b w2) (\<lambda>w3.
     after_step ''failed to update backup indexes: '' (updateS3BackupIndexes c x s b w3) (\<lambda>w4.
       Some (None, w4)))))"

definition cleanupS3Backup ::
  "('w, secret_object) kube_api \<Rightarrow> (string \<Rightarrow> string \<Rightarrow> string \<Rightarrow> string \<Rightarrow> string + ('w, 'p) s3_client)
     \<Rightarrow> index_codec \<Rightarrow> mcp_backup \<Rightarrow> 'w \<Rightarrow> 'w eventually" where
  "cleanupS3Backup secrets connect x b w =
     (case slo_S3 (bsp_StorageLocation (bkp_Spec b)) of
        None \<Rightarrow> Some (None, w)
      | Some s \<Rightarrow>
          (case createS3Client secrets connect (bkp_Namespace b) s w of
             (Inl e, w1) \<Rightarrow> Some (Some (''failed to create S3 client: '' @ e), w1)
           | (Inr c, w1) \<Rightarrow> cleanup_bucket c x s b w1))"

section \<open>Correctness\<close>

subsection \<open>Listings that fail\<close>

text \<open>
  The documentation of a paginator: a page that cannot be fetched leaves it where it is. If listing is
  refused for good, the loop does not end.
\<close>

definition listing_refused :: "('w, 'p) s3_client \<Rightarrow> bool" where
  "listing_refused c \<longleftrightarrow>
     (\<forall>bucket prefix. s3c_HasMorePages c (s3c_ListObjects c bucket prefix)) \<and>
     (\<forall>p w. \<exists>e w1. s3c_NextObjects c p w = (Inl e, p, w1))"

lemma list_keys_returns_not:
  assumes "list_keys c keep p acc w = Some r"
  shows "\<not> ((\<forall>w. \<exists>e w1. s3c_NextObjects c p w = (Inl e, p, w1)) \<and> s3c_HasMorePages c p)"
proof (rule list_keys.raw_induct[where P = "\<lambda>c keep p acc w r.
    \<not> ((\<forall>w. \<exists>e w1. s3c_NextObjects c p w = (Inl e, p, w1)) \<and> s3c_HasMorePages c p)", OF _ assms])
  fix f c keep p acc and w :: 'a and r :: "string list \<times> 'a"
  assume IH: "\<And>c keep p acc w r. f c keep p acc w = Some r \<Longrightarrow>
      \<not> ((\<forall>w. \<exists>e w1. s3c_NextObjects c p w = (Inl e, p, w1)) \<and> s3c_HasMorePages c p)"
    and body: "(if \<not> s3c_HasMorePages c p then Some (acc, w)
      else (case s3c_NextObjects c p w of
              (Inl e, p1, w1) \<Rightarrow> f c keep p1 acc w1
            | (Inr page, p1, w1) \<Rightarrow> f c keep p1 (acc @ filter keep (List.map_filter (\<lambda>k. k) page)) w1)) = Some r"
  show "\<not> ((\<forall>w. \<exists>e w1. s3c_NextObjects c p w = (Inl e, p, w1)) \<and> s3c_HasMorePages c p)"
  proof
    assume stuck: "(\<forall>w. \<exists>e w1. s3c_NextObjects c p w = (Inl e, p, w1)) \<and> s3c_HasMorePages c p"
    then obtain e w1 where "s3c_NextObjects c p w = (Inl e, p, w1)" by blast
    with body stuck have "f c keep p acc w1 = Some r" by simp
    with IH stuck show False by blast
  qed
qed

lemma list_keys_diverges:
  assumes "\<forall>w. \<exists>e w1. s3c_NextObjects c p w = (Inl e, p, w1)" and "s3c_HasMorePages c p"
  shows "list_keys c keep p acc w = None"
  using list_keys_returns_not[of c keep p acc w] assms by (cases "list_keys c keep p acc w") blast+

lemma refused_delete_diverges:
  assumes "listing_refused c"
  shows "deleteS3BackupObjects c s b w = None"
proof -
  have "list_keys c keep (s3c_ListObjects c bucket p) acc w = None" for keep bucket p acc w
    using assms unfolding listing_refused_def by (intro list_keys_diverges) blast+
  then show ?thesis by (simp add: deleteS3BackupObjects_def delete_listed_def object_patterns_def)
qed

text \<open>C16 When the bucket may not be listed, the clean-up of a backup in S3 does not end: the loop over the
  pages logs the error and asks the same paginator again. Neither is the error reported nor the
  finalizer removed.\<close>

theorem refused_listing_never_returns:
  assumes "slo_S3 (bsp_StorageLocation (bkp_Spec b)) = Some s"
    and "createS3Client secrets connect (bkp_Namespace b) s w = (Inr c, w1)"
    and "listing_refused c"
  shows "cleanupS3Backup secrets connect x b w = None"
  using assms
  by (simp add: cleanupS3Backup_def cleanup_bucket_def after_step_def refused_delete_diverges)

subsection \<open>Listings that succeed\<close>

text \<open>A paginator that yields the pages \<open>ps\<close> and changes nothing.\<close>

primrec yields_pages :: "('w, 'p) s3_client \<Rightarrow> 'w \<Rightarrow> 'p \<Rightarrow> string list list \<Rightarrow> bool" where
  "yields_pages c w p [] = (\<not> s3c_HasMorePages c p)"
| "yields_pages c w p (page # ps) =
     (s3c_HasMorePages c p \<and>
      (\<exists>p1. s3c_NextObjects c p w = (Inr (map Some page), p1, w) \<and> yields_pages c w p1 ps))"

text \<open>A bucket whose objects are the set \<open>objs w\<close>: listing finds those with the prefix, deleting removes them.\<close>

definition holds_objects :: "('w, 'p) s3_client \<Rightarrow> string \<Rightarrow> ('w \<Rightarrow> string set) \<Rightarrow> bool" where
  "holds_objects c bucket objs \<longleftrightarrow>
     (\<forall>d w. \<exists>ps. yields_pages c w (s3c_ListObjects c bucket d) ps \<and>
        set (concat ps) = {k \<in> objs w. has_prefix k d}) \<and>
     (\<forall>ks w. \<exists>w1. s3c_DeleteObjects c bucket ks w = (None, w1) \<and> objs w1 = objs w - set ks)"

lemma map_filter_Some: "List.map_filter (\<lambda>k. k) (map Some xs) = xs"
  by (induction xs) (simp_all add: map_filter_simps)

lemma list_keys_pages:
  "yields_pages c w p ps \<Longrightarrow> list_keys c keep p acc w = Some (acc @ filter keep (concat ps), w)"
proof (induction ps arbitrary: p acc)
  case (Cons page ps)
  then obtain p1 where "s3c_HasMorePages c p" "s3c_NextObjects c p w = (Inr (map Some page), p1, w)"
    "yields_pages c w p1 ps" by auto
  with Cons.IH[of p1 "acc @ filter keep page"] show ?case
    by (simp add: list_keys.simps[of c keep p] map_filter_Some)
qed (simp add: list_keys.simps)

lemma list_all_keys_found:
  assumes "holds_objects c bucket objs"
  obtains keys where "list_all_keys c bucket keep ds acc w = Some (acc @ keys, w)"
    and "set keys = {k \<in> objs w. keep k \<and> (\<exists>d \<in> set ds. has_prefix k d)}"
proof -
  have "\<exists>keys. list_all_keys c bucket keep ds acc w = Some (acc @ keys, w) \<and>
      set keys = {k \<in> objs w. keep k \<and> (\<exists>d \<in> set ds. has_prefix k d)}"
  proof (induction ds arbitrary: acc)
    case (Cons d ds)
    obtain ps where ps: "yields_pages c w (s3c_ListObjects c bucket d) ps"
      and set: "set (concat ps) = {k \<in> objs w. has_prefix k d}"
      using assms unfolding holds_objects_def by blast
    obtain keys where k: "list_all_keys c bucket keep ds (acc @ filter keep (concat ps)) w =
        Some ((acc @ filter keep (concat ps)) @ keys, w)"
      and keys: "set keys = {k \<in> objs w. keep k \<and> (\<exists>d \<in> set ds. has_prefix k d)}"
      using Cons.IH by blast
    have "set (filter keep (concat ps) @ keys) =
        {k \<in> objs w. keep k \<and> (\<exists>d \<in> set (d # ds). has_prefix k d)}"
      unfolding set_append set_filter set keys by auto
    with k show ?case
      by (intro exI[of _ "filter keep (concat ps) @ keys"]) (simp add: list_keys_pages[OF ps])
  qed simp
  then show ?thesis using that by blast
qed

lemma delete_batches_removes:
  assumes "holds_objects c bucket objs"
  shows "\<exists>w1. delete_batches c bucket keys w = (None, w1) \<and> objs w1 = objs w - set keys"
proof (induction "length keys" arbitrary: keys w rule: less_induct)
  case less
  show ?case
  proof (cases "keys = []")
    case False
    obtain w1 where d: "s3c_DeleteObjects c bucket (take 1000 keys) w = (None, w1)"
      and o1: "objs w1 = objs w - set (take 1000 keys)"
      using assms unfolding holds_objects_def by blast
    have "length (drop 1000 keys) < length keys" using False by simp
    from less[OF this] obtain w2 where "delete_batches c bucket (drop 1000 keys) w1 = (None, w2)"
      "objs w2 = objs w1 - set (drop 1000 keys)" by blast
    moreover have "set keys = set (take 1000 keys) \<union> set (drop 1000 keys)"
      by (metis append_take_drop_id set_append)
    ultimately show ?thesis using False d o1
      by (simp add: delete_batches.simps[of c bucket keys]) blast
  qed (simp add: delete_batches.simps)
qed

lemma delete_listed_removes:
  assumes "holds_objects c bucket objs"
  shows "\<exists>w1. delete_listed c bucket what keep ds w = Some (None, w1) \<and>
    objs w1 = objs w - {k. keep k \<and> (\<exists>d \<in> set ds. has_prefix k d)}"
proof -
  obtain keys where k: "list_all_keys c bucket keep ds [] w = Some (keys, w)"
    and keys: "set keys = {k \<in> objs w. keep k \<and> (\<exists>d \<in> set ds. has_prefix k d)}"
    using list_all_keys_found[OF assms, of keep ds "[]" w] by auto
  obtain w1 where "delete_batches c bucket keys w = (None, w1)" "objs w1 = objs w - set keys"
    using delete_batches_removes[OF assms] by blast
  with k keys show ?thesis by (intro exI[of _ w1]) (auto simp: delete_listed_def)
qed

subsection \<open>Objects of other backups\<close>

lemma str_contains_within: "str_contains s p \<Longrightarrow> str_contains (a @ s @ b) p"
  unfolding str_contains_iff by (metis append.assoc)

lemma str_contains_part: "str_contains (a @ p @ b) p"
  unfolding str_contains_iff by blast

lemma metadata_prefix_dir:
  assumes "CHR ''/'' \<notin> set f" and "CHR ''*'' \<notin> set (d @ ''/'' @ f)"
  shows "metadata_prefix (d @ ''/'' @ f) = d @ ''/''"
proof -
  have "split_on (CHR ''/'') (d @ ''/'' @ f) = split_on (CHR ''/'') d @ [f]"
    using assms(1) by (simp add: split_concat split_free)
  moreover have "join ''/'' (split_on (CHR ''/'') d) = d" by (rule join_split)
  ultimately show ?thesis using assms(2) by (simp add: metadata_prefix_def)
qed

definition metadata_key :: "s3_storage \<Rightarrow> mcp_backup \<Rightarrow> string" where
  "metadata_key s b = under_prefix s (bkp_Namespace b @ ''/.metadata/'' @ bkp_Name b @ ''-'' @ bkp_UID b @ ''.json'')"

definition plain_backup :: "s3_storage \<Rightarrow> mcp_backup \<Rightarrow> bool" where
  "plain_backup s b \<longleftrightarrow> CHR ''*'' \<notin> set (s3s_Prefix s @ bkp_Namespace b @ bkp_Name b @ bkp_UID b) \<and>
     CHR ''/'' \<notin> set (bkp_Name b @ bkp_UID b)"

text \<open>Removing the metadata of one backup removes that of every backup of its namespace whose name
  contains its name: the directory is listed as a whole, and a key belongs to a backup as soon as the
  name occurs in it.\<close>

theorem foreign_metadata_deleted:
  assumes "holds_objects c (s3s_Bucket s) objs" and "plain_backup s b"
    and "bkp_Namespace b2 = bkp_Namespace b" and "str_contains (bkp_Name b2) (bkp_Name b)"
  shows "\<exists>w1. removeS3BackupMetadata c s b w = Some (None, w1) \<and> metadata_key s b2 \<notin> objs w1"
proof -
  let ?dir = "under_prefix s (bkp_Namespace b @ ''/.metadata'')"
  let ?file = "bkp_Name b @ ''-'' @ bkp_UID b @ ''.json''"
  have pre: "metadata_prefix (?dir @ ''/'' @ ?file) = ?dir @ ''/''"
    using assms(2) by (intro metadata_prefix_dir) (auto simp: plain_backup_def under_prefix_def)
  have listed: "?dir @ ''/'' @ ?file \<in> set (metadata_patterns s b)"
    by (simp add: metadata_patterns_def under_prefix_def)
  have dir: "?dir @ ''/'' \<in> set (map metadata_prefix (metadata_patterns s b))"
    unfolding set_map by (rule image_eqI[where f = metadata_prefix, OF pre[symmetric] listed])
  have key: "metadata_key s b2 = (?dir @ ''/'') @ bkp_Name b2 @ (''-'' @ bkp_UID b2 @ ''.json'')"
    using assms(3) by (simp add: metadata_key_def under_prefix_def)
  have "str_contains (metadata_key s b2) (bkp_Name b)"
    unfolding key using assms(4) by (rule str_contains_within)
  moreover have "str_contains (metadata_key s b2) ''.metadata''"
  proof -
    have "metadata_key s b2 = under_prefix s (bkp_Namespace b @ ''/'') @ ''.metadata'' @
        (''/'' @ bkp_Name b2 @ ''-'' @ bkp_UID b2 @ ''.json'')"
      using assms(3) by (simp add: metadata_key_def under_prefix_def)
    then show ?thesis by (simp only: str_contains_part)
  qed
  moreover have "str_contains (metadata_key s b2) (bkp_Namespace b)"
  proof -
    have "metadata_key s b2 = under_prefix s [] @ bkp_Namespace b @
        (''/.metadata/'' @ bkp_Name b2 @ ''-'' @ bkp_UID b2 @ ''.json'')"
      using assms(3) by (simp add: metadata_key_def under_prefix_def)
    then show ?thesis by (simp only: str_contains_part)
  qed
  ultimately have "matchesBackupMetadataPattern (metadata_key s b2) b"
    by (simp add: matchesBackupMetadataPattern_def named_in_namespace_def)
  moreover have "has_prefix (metadata_key s b2) (?dir @ ''/'')" unfolding key by (rule has_prefix_append)
  moreover obtain w1 where "removeS3BackupMetadata c s b w = Some (None, w1)"
    "objs w1 = objs w - {k. matchesBackupMetadataPattern k b \<and>
      (\<exists>d \<in> set (map metadata_prefix (metadata_patterns s b)). has_prefix k d)}"
    using delete_listed_removes[OF assms(1)] unfolding removeS3BackupMetadata_def by blast
  ultimately show ?thesis using dir by blast
qed

subsection \<open>Concrete buckets\<close>

text \<open>A paginator is the list of the keys still to come, if any, in one page.\<close>

definition list_bucket :: "(string list, bool \<times> string) s3_client" where
  "list_bucket = \<lparr>s3c_ListObjects = (\<lambda>_ d. (True, d)), s3c_ListUploads = (\<lambda>_ _. (False, [])),
     s3c_HasMorePages = fst,
     s3c_NextObjects = (\<lambda>(_, d) w. (Inr (map Some (filter (\<lambda>k. has_prefix k d) w)), (False, d), w)),
     s3c_NextUploads = (\<lambda>p w. (Inr [], p, w)),
     s3c_DeleteObjects = (\<lambda>_ ks w. (None, filter (\<lambda>k. k \<notin> set ks) w)),
     s3c_AbortUpload = (\<lambda>_ _ _ w. (None, w)), s3c_GetObject = (\<lambda>_ _ w. (Inl ''NoSuchKey'', w)),
     s3c_PutObject = (\<lambda>_ _ _ w. (None, w))\<rparr>"

lemma list_bucket_holds: "holds_objects list_bucket bucket set"
  unfolding holds_objects_def
proof (intro conjI allI)
  fix d and w :: "string list"
  have "yields_pages list_bucket w (s3c_ListObjects list_bucket bucket d) [filter (\<lambda>k. has_prefix k d) w]"
    by (simp add: list_bucket_def)
  moreover have "set (concat [filter (\<lambda>k. has_prefix k d) w]) = {k \<in> set w. has_prefix k d}" by simp
  ultimately show "\<exists>ps. yields_pages list_bucket w (s3c_ListObjects list_bucket bucket d) ps \<and>
      set (concat ps) = {k \<in> set w. has_prefix k d}" by blast
next
  fix ks and w :: "string list"
  show "\<exists>w1. s3c_DeleteObjects list_bucket bucket ks w = (None, w1) \<and> set w1 = set w - set ks"
    by (auto simp: list_bucket_def)
qed

definition denied_bucket :: "(unit, unit) s3_client" where
  "denied_bucket = \<lparr>s3c_ListObjects = (\<lambda>_ _. ()), s3c_ListUploads = (\<lambda>_ _. ()),
     s3c_HasMorePages = (\<lambda>_. True), s3c_NextObjects = (\<lambda>p w. (Inl ''AccessDenied'', p, w)),
     s3c_NextUploads = (\<lambda>p w. (Inl ''AccessDenied'', p, w)),
     s3c_DeleteObjects = (\<lambda>_ _ w. (None, w)), s3c_AbortUpload = (\<lambda>_ _ _ w. (None, w)),
     s3c_GetObject = (\<lambda>_ _ w. (Inl ''AccessDenied'', w)), s3c_PutObject = (\<lambda>_ _ _ w. (None, w))\<rparr>"

definition sample_s3 :: s3_storage where
  "sample_s3 = \<lparr>s3s_Bucket = ''backups'', s3s_Region = [], s3s_Prefix = ''p'', s3s_Endpoint = [],
     s3s_CredentialsSecret = ''aws''\<rparr>"

definition aws_secret :: secret_object where
  "aws_secret = \<lparr>sec_Name = ''aws'',
     sec_Data = Some [(''AWS_ACCESS_KEY_ID'', ''k''), (''AWS_SECRET_ACCESS_KEY'', ''s'')]\<rparr>"

definition named_backup :: "string \<Rightarrow> mcp_backup" where
  "named_backup n = zero_backup\<lparr>
     bkp_Meta := zero_meta\<lparr>om_Name := n, om_Namespace := ''prod'', om_UID := ''1''\<rparr>,
     bkp_Spec := (bkp_Spec zero_backup)\<lparr>bsp_StorageLocation := zero_storage\<lparr>slo_Type := ''S3'', slo_S3 := Some sample_s3\<rparr>\<rparr>\<rparr>"

lemma refused_listing_never_returns_witness:
  "cleanupS3Backup (static_api [aws_secret]) (\<lambda>_ _ _ _. Inr denied_bucket)
     \<lparr>ixc_decode = (\<lambda>_. Inl []), ixc_encode = (\<lambda>_. Inl [])\<rparr> (named_backup ''db'') () = None"
  by (rule refused_listing_never_returns[where s = sample_s3 and c = denied_bucket and ?w1.0 = "()"])
     (simp_all add: named_backup_def zero_storage_def createS3Client_def static_api_def aws_secret_def
       gm_get_def listing_refused_def denied_bucket_def Let_def zero_backup_def)

lemma foreign_metadata_deleted_witness:
  "\<exists>w1. removeS3BackupMetadata list_bucket sample_s3 (named_backup ''db'')
      [metadata_key sample_s3 (named_backup ''mydb-old'')] = Some (None, w1) \<and>
    metadata_key sample_s3 (named_backup ''mydb-old'') \<notin> set w1"
proof (rule foreign_metadata_deleted[OF list_bucket_holds])
  show "plain_backup sample_s3 (named_backup ''db'')"
    by (simp add: plain_backup_def sample_s3_def named_backup_def)
  show "bkp_Namespace (named_backup ''mydb-old'') = bkp_Namespace (named_backup ''db'')"
    by (simp add: named_backup_def)
  show "str_contains (bkp_Name (named_backup ''mydb-old'')) (bkp_Name (named_backup ''db''))"
    by code_simp
qed

end
