(* ===== verification/VersionInfo.thy ===== *)
theory VersionInfo
  imports GoText
begin

section \<open>Versions\<close>

text \<open>
  \<open>pkg/version/version.go\<close>: the version of the operator, from the variables set by the linker or from
  the build information of the binary, and the version of the cluster. What the run-time and the
  discovery client report are parameters.
\<close>

record build_info =
  bin_Version :: string
  bin_GitCommit :: string
  bin_BuildDate :: string
  bin_GoVersion :: string

text \<open>\<open>debug.ReadBuildInfo\<close>: the version of Go and the settings of the build.\<close>

record debug_build_info =
  dbi_GoVersion :: string
  dbi_Settings :: "(string \<times> string) list"

record linked_variables =
  lkv_Version :: string
  lkv_GitCommit :: string
  lkv_BuildDate :: string

definition default_variables :: linked_variables where
  "default_variables = \<lparr>lkv_Version = ''dev'', lkv_GitCommit = ''unknown'', lkv_BuildDate = ''unknown''\<rparr>"

definition apply_setting :: "string \<times> string \<Rightarrow> build_info \<Rightarrow> build_info" where
  "apply_setting kv i =
     (if fst kv = ''vcs.revision'' then
        (if bin_GitCommit i = ''unknown''
         then i\<lparr>bin_GitCommit := (if length (snd kv) \<ge> 7 then take 7 (snd kv) else snd kv)\<rparr> else i)
      else if fst kv = ''vcs.time'' then
        (if bin_BuildDate i = ''unknown'' then i\<lparr>bin_BuildDate := snd kv\<rparr> else i)
      else i)"

definition GetBuildInfo :: "linked_variables \<Rightarrow> debug_build_info option \<Rightarrow> build_info" where
  "GetBuildInfo v d =
     (let info = \<lparr>bin_Version = lkv_Version v, bin_GitCommit = lkv_GitCommit v,
                  bin_BuildDate = lkv_BuildDate v, bin_GoVersion = ''unknown''\<rparr> in
      case d of
        None \<Rightarrow> info
      | Some x \<Rightarrow>
          (let info1 = info\<lparr>bin_GoVersion := dbi_GoVersion x\<rparr> in
           if bin_Version info1 = ''dev'' then fold apply_setting (dbi_Settings x) info1 else info1))"

definition GetOperatorVersion :: "linked_variables \<Rightarrow> debug_build_info option \<Rightarrow> string" where
  "GetOperatorVersion v d =
     (let i = GetBuildInfo v d in
      if bin_Version i \<noteq> ''dev'' then bin_Version i
      else if bin_GitCommit i \<noteq> ''unknown'' then ''dev-'' @ bin_GitCommit i
      else ''dev-unknown'')"

subsection \<open>The cluster\<close>

text \<open>What making a discovery client and asking it for the version report.\<close>

record 'w discovery =
  dsc_connect :: go_error
  dsc_ServerVersion :: "'w \<Rightarrow> (string + string) \<times> 'w"

record cluster_info =
  cli_Version :: string
  cli_GitVersion :: string
  cli_Platform :: string

definition GetClusterVersion :: "'w discovery \<Rightarrow> 'w \<Rightarrow> (string + string) \<times> 'w" where
  "GetClusterVersion d w =
     (case dsc_connect d of
        Some e \<Rightarrow> (Inl (''failed to create discovery client: '' @ e), w)
      | None \<Rightarrow>
          (case dsc_ServerVersion d w of
             (Inl e, w1) \<Rightarrow> (Inl (''failed to get server version: '' @ e), w1)
           | (Inr v, w1) \<Rightarrow> (Inr v, w1)))"

definition simple_version :: "string \<Rightarrow> string" where
  "simple_version full =
     (let version = trim_prefix full ''v''; parts = split_on (CHR ''-'') version
      in if length parts > 0 then hd parts else version)"

definition GetClusterVersionSimple :: "'w discovery \<Rightarrow> 'w \<Rightarrow> (string + string) \<times> 'w" where
  "GetClusterVersionSimple d w =
     (case GetClusterVersion d w of
        (Inl e, w1) \<Rightarrow> (Inl e, w1)
      | (Inr full, w1) \<Rightarrow> (Inr (simple_version full), w1))"

definition platform_of :: "string \<Rightarrow> string" where
  "platform_of v =
     (if str_contains v ''gke'' then ''GKE''
      else if str_contains v ''eks'' then ''EKS''
      else if str_contains v ''aks'' then ''AKS''
      else if str_contains v ''k3s'' then ''K3s''
      else if str_contains v ''kind'' then ''kind''
      else if str_contains v ''minikube'' then ''minikube''
      else ''kubernetes'')"

text \<open>The version is asked for twice; an error leaves what was filled in so far.\<close>

definition GetClusterInfo :: "'w discovery \<Rightarrow> 'w \<Rightarrow> (cluster_info \<times> go_error) \<times> 'w" where
  "GetClusterInfo d w =
     (let info = \<lparr>cli_Version = [], cli_GitVersion = [], cli_Platform = []\<rparr> in
      case GetClusterVersion d w of
        (Inl e, w1) \<Rightarrow> ((info, Some e), w1)
      | (Inr full, w1) \<Rightarrow>
          (case GetClusterVersionSimple d w1 of
             (Inl e, w2) \<Rightarrow> ((info\<lparr>cli_GitVersion := full\<rparr>, Some e), w2)
           | (Inr v, w2) \<Rightarrow>
               ((\<lparr>cli_Version = v, cli_GitVersion = full, cli_Platform = platform_of full\<rparr>, None), w2)))"

section \<open>Correctness\<close>

text \<open>The first revision among the settings that says something names a development build.\<close>

lemma apply_setting_commit:
  "bin_GitCommit (apply_setting kv i) =
     (if bin_GitCommit i = ''unknown'' \<and> fst kv = ''vcs.revision'' then take 7 (snd kv) else bin_GitCommit i)"
  unfolding apply_setting_def by (cases "length (snd kv) \<ge> 7") simp_all

lemma revisions_commit:
  "bin_GitCommit (fold apply_setting ss i) =
     (if bin_GitCommit i \<noteq> ''unknown'' then bin_GitCommit i
      else case find (\<lambda>kv. fst kv = ''vcs.revision'' \<and> take 7 (snd kv) \<noteq> ''unknown'') ss of
             None \<Rightarrow> ''unknown'' | Some kv \<Rightarrow> take 7 (snd kv))"
proof (induction ss arbitrary: i)
  case (Cons kv ss)
  show ?case
    by (cases "bin_GitCommit i = ''unknown''"; cases "fst kv = ''vcs.revision''";
        cases "take 7 (snd kv) = ''unknown''")
       (simp_all only: fold_Cons o_apply Cons apply_setting_commit find.simps simp_thms if_True if_False option.case)
qed simp

lemma settings_keep_version: "bin_Version (fold apply_setting ss i) = bin_Version i"
  by (induction ss arbitrary: i) (auto simp: apply_setting_def)

lemma released_version:
  "lkv_Version v \<noteq> ''dev'' \<Longrightarrow> GetOperatorVersion v d = lkv_Version v"
  by (auto simp: GetOperatorVersion_def GetBuildInfo_def Let_def split: option.splits)

lemma development_version:
  "GetOperatorVersion default_variables (Some x) =
     (case find (\<lambda>kv. fst kv = ''vcs.revision'' \<and> take 7 (snd kv) \<noteq> ''unknown'') (dbi_Settings x) of
        None \<Rightarrow> ''dev-unknown'' | Some kv \<Rightarrow> ''dev-'' @ take 7 (snd kv))"
proof -
  let ?P = "\<lambda>kv. fst kv = ''vcs.revision'' \<and> take 7 (snd kv) \<noteq> ''unknown''"
  let ?i = "GetBuildInfo default_variables (Some x)"
  have v: "bin_Version ?i = ''dev''" and c: "bin_GitCommit ?i =
      (case find ?P (dbi_Settings x) of None \<Rightarrow> ''unknown'' | Some kv \<Rightarrow> take 7 (snd kv))"
    by (simp_all add: GetBuildInfo_def default_variables_def settings_keep_version revisions_commit)
  show ?thesis
  proof (cases "find ?P (dbi_Settings x)")
    case None
    with v c show ?thesis by (simp add: GetOperatorVersion_def Let_def)
  next
    case (Some kv)
    then have "take 7 (snd kv) \<noteq> ''unknown''" by (auto simp: find_Some_iff)
    with Some v c show ?thesis by (simp add: GetOperatorVersion_def Let_def)
  qed
qed

text \<open>The simple version is what stands between the letter and the first hyphen.\<close>

lemma simple_version_of_suffixed:
  assumes "CHR ''-'' \<notin> set v"
  shows "simple_version (CHR ''v'' # v @ CHR ''-'' # rest) = v"
  using assms by (simp add: split_concat split_free simple_version_def trim_prefix_def has_prefix_def Let_def)

end
