(* ===== verification/BackupController.thy ===== *)
theory BackupController
  imports BackupS3 VersionInfo
begin

section \<open>The backup controller\<close>

text \<open>
  The rest of \<open>controllers/mcpserverbackup_controller.go\<close>: one pass over a backup, with its finalizer,
  its schedule, the backup itself and the retention policy. Parameters are the API server for each
  kind, the file system and the client of S3 (theories BackupFiles and BackupS3), the parser of cron
  expressions, the encoder of the data and the order in which \<open>sort.Slice\<close>, which is not stable,
  leaves the backups. The manager has a configuration for its cluster, so \<open>GetConfigOrDie\<close> returns.
  A pass that does not return is \<open>None\<close>.
\<close>

record ('w, 'p) backup_env =
  bke_api :: "('w, mcp_backup) kube_api"
  bke_servers :: "('w, mcp_server) kube_api"
  bke_secrets :: "('w, secret_object) kube_api"
  bke_files :: "'w os_files"
  bke_connect :: "string \<Rightarrow> string \<Rightarrow> string \<Rightarrow> string \<Rightarrow> string + ('w, 'p) s3_client"
  bke_index :: index_codec
  bke_Parse :: "string \<Rightarrow> string + (instant \<Rightarrow> instant)"
  bke_now :: "'w \<Rightarrow> instant"
  bke_linked :: linked_variables
  bke_build :: "debug_build_info option"
  bke_discovery :: "'w discovery"
  bke_marshal :: "backup_data \<Rightarrow> string + string"
  bke_sort :: "mcp_backup list \<Rightarrow> mcp_backup list"

type_synonym 'w backup_step = "go_error \<times> mcp_backup \<times> 'w"
type_synonym 'w backup_pass = "((duration \<times> go_error) \<times> 'w) option"

definition MCPServerBackupFinalizer :: string where
  "MCPServerBackupFinalizer = ''mcp.allbeone.io/backup-finalizer''"

definition with_backup_finalizers :: "string list \<Rightarrow> mcp_backup \<Rightarrow> mcp_backup" where
  "with_backup_finalizers fs b = b\<lparr>bkp_Meta := (bkp_Meta b)\<lparr>om_Finalizers := fs\<rparr>\<rparr>"

abbreviation bkp_Finalizers :: "mcp_backup \<Rightarrow> string list" where
  "bkp_Finalizers b \<equiv> om_Finalizers (bkp_Meta b)"

definition updateBackupStatus ::
  "('w, 'p) backup_env \<Rightarrow> backup_phase \<Rightarrow> string \<Rightarrow> string \<Rightarrow> mcp_backup \<Rightarrow> 'w \<Rightarrow> 'w backup_step" where
  "updateBackupStatus env ph msg reason b w =
     (let b1 = backup_status_set (bke_now env w) ph msg reason b in
      case ka_update_status (bke_api env) b1 w of
        (Inl e, w1) \<Rightarrow> (Some (''failed to update backup status: '' @ api_msg e), b1, w1)
      | (Inr stored, w1) \<Rightarrow> (None, stored, w1))"

text \<open>The result of a pass that ends by writing the status.\<close>

definition ends_with :: "'w backup_step \<Rightarrow> 'w backup_pass" where
  "ends_with r = Some ((0, fst r), snd (snd r))"

subsection \<open>Deletion\<close>

definition without_data :: "mcp_backup \<Rightarrow> mcp_backup" where
  "without_data b = b\<lparr>bkp_Status := (bkp_Status b)\<lparr>bst_BackupData := None, bst_BackupSize := 0,
     bst_BackupLocation := []\<rparr>\<rparr>"

definition cleanupLocalBackup :: "('w, 'p) backup_env \<Rightarrow> mcp_backup \<Rightarrow> 'w \<Rightarrow> 'w backup_step" where
  "cleanupLocalBackup env b w =
     (let (e, b1, w1) =
        (if bst_BackupData (bkp_Status b) \<noteq> None then
           (case ka_update_status (bke_api env) (without_data b) w of
              (Inl e, w1) \<Rightarrow>
                (Some (''failed to update backup status after cleanup: '' @ api_msg e), without_data b, w1)
            | (Inr stored, w1) \<Rightarrow> (None, stored, w1))
         else (None, b, w)) in
      if e \<noteq> None then (e, b1, w1)
      else (let (e2, w2) = cleanup_files (bke_files env) b1 w1 in (e2, b1, w2)))"

definition cleanupGCSBackup :: "mcp_backup \<Rightarrow> 'w \<Rightarrow> go_error \<times> 'w" where
  "cleanupGCSBackup b w = (None, w)"

definition cleanupAzureBackup :: "mcp_backup \<Rightarrow> 'w \<Rightarrow> go_error \<times> 'w" where
  "cleanupAzureBackup b w = (None, w)"

definition storage_type :: "mcp_backup \<Rightarrow> string" where
  "storage_type b = slo_Type (bsp_StorageLocation (bkp_Spec b))"

definition performBackupCleanup ::
  "('w, 'p) backup_env \<Rightarrow> mcp_backup \<Rightarrow> 'w \<Rightarrow> 'w backup_step option" where
  "performBackupCleanup env b w =
     map_option (apfst (wrap_err ''failed to cleanup backup: ''))
       (if storage_type b = ''Local'' then Some (cleanupLocalBackup env b w)
        else if storage_type b = ''S3'' then
          map_option (apsnd (Pair b)) (cleanupS3Backup (bke_secrets env) (bke_connect env) (bke_index env) b w)
        else if storage_type b = ''GCS'' then Some (apsnd (Pair b) (cleanupGCSBackup b w))
        else if storage_type b = ''Azure'' then Some (apsnd (Pair b) (cleanupAzureBackup b w))
        else Some (Some (''unsupported storage type: '' @ storage_type b), b, w))"

definition backup_handleDeletion ::
  "('w, 'p) backup_env \<Rightarrow> mcp_backup \<Rightarrow> 'w \<Rightarrow> 'w backup_pass" where
  "backup_handleDeletion env b w =
     (case performBackupCleanup env b w of
        None \<Rightarrow> None
      | Some (Some e, b1, w1) \<Rightarrow> Some ((0, Some e), w1)
      | Some (None, b1, w1) \<Rightarrow>
          (case ka_update (bke_api env)
              (with_backup_finalizers (removeAll MCPServerBackupFinalizer (bkp_Finalizers b1)) b1) w1 of
             (Inl e, w2) \<Rightarrow> Some ((0, Some (api_msg e)), w2)
           | (Inr _, w2) \<Rightarrow> Some ((0, None), w2)))"

subsection \<open>The backup itself\<close>

definition reference_to :: "string \<Rightarrow> string \<Rightarrow> string \<Rightarrow> string \<Rightarrow> resource_reference" where
  "reference_to api kind ns name =
     \<lparr>rfr_APIVersion = api, rfr_Kind = kind, rfr_Name = name, rfr_Namespace = ns, rfr_UID = []\<rparr>"

definition dependency :: "string \<Rightarrow> string \<Rightarrow> string option \<Rightarrow> resource_reference list" where
  "dependency kind ns name = (case name of None \<Rightarrow> [] | Some n \<Rightarrow> [reference_to ''v1'' kind ns n])"

definition volume_dependencies :: "string \<Rightarrow> mcp_volume \<Rightarrow> resource_reference list" where
  "volume_dependencies ns v =
     dependency ''ConfigMap'' ns (map_option kvs_Name (vol_ConfigMap v)) @
     dependency ''Secret'' ns (map_option kvs_Name (vol_Secret v)) @
     dependency ''PersistentVolumeClaim'' ns (map_option pvc_ClaimName (vol_PersistentVolumeClaim v)) @
     (case vol_Projected v of None \<Rightarrow> []
      | Some p \<Rightarrow> concat (map (\<lambda>q. dependency ''ConfigMap'' ns (map_option op_Name (vp_ConfigMap q)) @
                    dependency ''Secret'' ns (map_option op_Name (vp_Secret q))) (pj_Sources p)))"

definition collectDependencies :: "mcp_server \<Rightarrow> resource_reference list" where
  "collectDependencies sv =
     (let ns = srv_Namespace sv; sp = srv_Spec sv in
      concat (map (\<lambda>c. dependency ''ConfigMap'' ns (map_option os_Name (cs_ConfigMap c))) (sp_ConfigSources sp)) @
      map (\<lambda>r. reference_to ''v1'' ''Secret'' ns (sr_Name r)) (sp_SecretRefs sp) @
      concat (map (\<lambda>f. dependency ''ConfigMap'' ns (map_option oes_Name (ef_ConfigMapRef f)) @
                       dependency ''Secret'' ns (map_option oes_Name (ef_SecretRef f))) (sp_EnvFrom sp)) @
      concat (map (volume_dependencies ns) (sp_Volumes sp)) @
      [reference_to ''v1'' ''Service'' ns (srv_Name sv),
       reference_to ''apps/v1'' ''Deployment'' ns (srv_Name sv)])"

definition backup_data_of ::
  "('w, 'p) backup_env \<Rightarrow> string \<Rightarrow> mcp_backup \<Rightarrow> mcp_server \<Rightarrow> backup_data" where
  "backup_data_of env cluster b sv =
     \<lparr>bdt_MCPServerSpec = srv_Spec sv,
      bdt_Metadata = \<lparr>bmd_BackupVersion = ''v1'',
        bmd_OperatorVersion = GetOperatorVersion (bke_linked env) (bke_build env),
        bmd_KubernetesVersion = cluster, bmd_CreatedBy = ''mcp-operator'',
        bmd_Labels = om_Labels (bkp_Meta b), bmd_Annotations = om_Annotations (bkp_Meta b)\<rparr>,
      bdt_Dependencies = collectDependencies sv\<rparr>"

definition storeLocalBackup ::
  "('w, 'p) backup_env \<Rightarrow> backup_data \<Rightarrow> mcp_backup \<Rightarrow> go_error \<times> mcp_backup" where
  "storeLocalBackup env data b =
     (let b1 = b\<lparr>bkp_Status := (bkp_Status b)\<lparr>bst_BackupData := Some data\<rparr>\<rparr> in
      case bke_marshal env data of
        Inl e \<Rightarrow> (Some (''failed to marshal backup data: '' @ e), b1)
      | Inr json \<Rightarrow>
          (None, b1\<lparr>bkp_Status := (bkp_Status b1)\<lparr>bst_BackupSize := int (length json),
             bst_BackupLocation := ''local://'' @ bkp_Namespace b @ ''/'' @ bkp_Name b\<rparr>\<rparr>))"

definition storeS3Backup :: "backup_data \<Rightarrow> mcp_backup \<Rightarrow> go_error \<times> mcp_backup" where
  "storeS3Backup data b = (Some ''S3 backup storage not implemented yet'', b)"

definition storeGCSBackup :: "backup_data \<Rightarrow> mcp_backup \<Rightarrow> go_error \<times> mcp_backup" where
  "storeGCSBackup data b = (Some ''GCS backup storage not implemented yet'', b)"

definition storeAzureBackup :: "backup_data \<Rightarrow> mcp_backup \<Rightarrow> go_error \<times> mcp_backup" where
  "storeAzureBackup data b = (Some ''azure backup storage not implemented yet'', b)"

definition createBackup ::
  "('w, 'p) backup_env \<Rightarrow> mcp_backup \<Rightarrow> mcp_server \<Rightarrow> 'w \<Rightarrow> 'w backup_step" where
  "createBackup env b sv w =
     (let (v, w1) = GetClusterVersionSimple (bke_discovery env) w;
          data = backup_data_of env (case v of Inl _ \<Rightarrow> ''unknown'' | Inr c \<Rightarrow> c) b sv;
          (e, b1) =
            (if storage_type b = ''Local'' then storeLocalBackup env data b
             else if storage_type b = ''S3'' then storeS3Backup data b
             else if storage_type b = ''GCS'' then storeGCSBackup data b
             else if storage_type b = ''Azure'' then storeAzureBackup data b
             else (Some (''unsupported storage type: '' @ storage_type b), b))
      in (e, b1, w1))"

subsection \<open>Retention\<close>

abbreviation bkp_created :: "mcp_backup \<Rightarrow> instant" where
  "bkp_created b \<equiv> om_CreationTimestamp (bkp_Meta b)"

definition beyond_last :: "int option \<Rightarrow> mcp_backup list \<Rightarrow> mcp_backup list" where
  "beyond_last keep bs =
     (case keep of None \<Rightarrow> [] | Some n \<Rightarrow>
        if n > 0 \<and> int (length bs) > n then drop (nat n) bs else [])"

primrec add_expired :: "instant \<Rightarrow> mcp_backup list \<Rightarrow> mcp_backup list \<Rightarrow> mcp_backup list" where
  "add_expired cutoff [] vs = vs"
| "add_expired cutoff (b # bs) vs =
     add_expired cutoff bs
       (if bkp_created b < cutoff \<and>
           \<not> list_ex (\<lambda>v. bkp_Name v = bkp_Name b \<and> bkp_Namespace v = bkp_Namespace b) vs
        then vs @ [b] else vs)"

definition backups_to_delete :: "retention_policy \<Rightarrow> instant \<Rightarrow> mcp_backup list \<Rightarrow> mcp_backup list" where
  "backups_to_delete policy now bs =
     (let vs = beyond_last (rtp_KeepLast policy) bs in
      case rtp_MaxAge policy of
        None \<Rightarrow> vs
      | Some age \<Rightarrow> add_expired (now + to_i64 (- age)) bs vs)"

primrec delete_backups ::
  "('w, 'p) backup_env \<Rightarrow> mcp_backup list \<Rightarrow> 'w \<Rightarrow> go_error \<times> 'w" where
  "delete_backups env [] w = (None, w)"
| "delete_backups env (b # bs) w =
     (case ka_delete (bke_api env) b w of
        (Some e, w1) \<Rightarrow>
          (if is_not_found e then delete_backups env bs w1
           else (Some (''failed to delete backup '' @ bkp_Name b @ '': '' @ api_msg e), w1))
      | (None, w1) \<Rightarrow> delete_backups env bs w1)"

definition completed_backups :: "mcp_backup list \<Rightarrow> mcp_backup list" where
  "completed_backups bs = filter (\<lambda>b. bst_Phase (bkp_Status b) = BackupCompleted) bs"

definition enforceRetentionPolicy ::
  "('w, 'p) backup_env \<Rightarrow> mcp_backup \<Rightarrow> 'w \<Rightarrow> go_error \<times> 'w" where
  "enforceRetentionPolicy env b w =
     (let policy = bsp_RetentionPolicy (bkp_Spec b) in
      if rtp_KeepLast policy = None then (None, w)
      else (case ka_list (bke_api env) (bkp_Namespace b,
                [(''mcp.allbeone.io/mcpserver'', bsp_MCPServerRef (bkp_Spec b))]) w of
              (Inl e, w1) \<Rightarrow> (Some (''failed to list backups: '' @ api_msg e), w1)
            | (Inr items, w1) \<Rightarrow>
                (let done = completed_backups items in
                 if done = [] then (None, w1)
                 else delete_backups env (backups_to_delete policy (bke_now env w1) (bke_sort env done)) w1)))"

subsection \<open>Schedules\<close>

definition is_due :: "(instant \<Rightarrow> instant) \<Rightarrow> instant option \<Rightarrow> instant \<Rightarrow> bool" where
  "is_due nextTime lastTime now =
     (case lastTime of None \<Rightarrow> True | Some t \<Rightarrow> nextTime t < now \<or> nextTime t = now)"

definition with_next :: "instant \<Rightarrow> mcp_backup \<Rightarrow> mcp_backup" where
  "with_next t b = b\<lparr>bkp_Status := (bkp_Status b)\<lparr>bst_NextScheduleTime := Some t\<rparr>\<rparr>"

definition with_last :: "instant \<Rightarrow> mcp_backup \<Rightarrow> mcp_backup" where
  "with_last t b = b\<lparr>bkp_Status := (bkp_Status b)\<lparr>bst_LastScheduleTime := Some t\<rparr>\<rparr>"

definition schedule_processed :: "('w, 'p) backup_env \<Rightarrow> mcp_backup \<Rightarrow> 'w \<Rightarrow> 'w backup_pass" where
  "schedule_processed env b w =
     (case updateBackupStatus env BackupCompleted ''Scheduled backup processed'' ''ScheduleProcessed'' b w of
        (Some e, b1, w1) \<Rightarrow> Some ((0, Some e), w1)
      | (None, b1, w1) \<Rightarrow> Some ((time_Minute, None), w1))"

definition creation_failed :: "('w, 'p) backup_env \<Rightarrow> string \<Rightarrow> mcp_backup \<Rightarrow> 'w \<Rightarrow> 'w backup_pass" where
  "creation_failed env e b w =
     ends_with (updateBackupStatus env BackupFailed (''Failed to create backup: '' @ e) ''BackupCreationFailed'' b w)"

definition handleScheduledBackup ::
  "('w, 'p) backup_env \<Rightarrow> mcp_backup \<Rightarrow> mcp_server \<Rightarrow> 'w \<Rightarrow> 'w backup_pass" where
  "handleScheduledBackup env b sv w =
     (case bke_Parse env (bsp_Schedule (bkp_Spec b)) of
        Inl _ \<Rightarrow> ends_with (updateBackupStatus env BackupFailed
          (''Invalid schedule format: '' @ bsp_Schedule (bkp_Spec b)) ''InvalidSchedule'' b w)
      | Inr nextTime \<Rightarrow>
          (let now = bke_now env w; b1 = with_next (nextTime now) b in
           if is_due nextTime (bst_LastScheduleTime (bkp_Status b1)) now then
             (case createBackup env b1 sv w of
                (Some e, b2, w1) \<Rightarrow> creation_failed env e b2 w1
              | (None, b2, w1) \<Rightarrow>
                  (let b3 = with_last now b2; (_, w2) = enforceRetentionPolicy env b3 w1
                   in schedule_processed env b3 w2))
           else schedule_processed env b1 w))"

definition handleOneTimeBackup ::
  "('w, 'p) backup_env \<Rightarrow> mcp_backup \<Rightarrow> mcp_server \<Rightarrow> 'w \<Rightarrow> 'w backup_pass" where
  "handleOneTimeBackup env b sv w =
     (if bst_Phase (bkp_Status b) = BackupCompleted then Some ((0, None), w)
      else (case updateBackupStatus env BackupRunning ''Creating backup'' ''BackupInProgress'' b w of
              (Some e, b1, w1) \<Rightarrow> Some ((0, Some e), w1)
            | (None, b1, w1) \<Rightarrow>
                (case createBackup env b1 sv w1 of
                   (Some e, b2, w2) \<Rightarrow> creation_failed env e b2 w2
                 | (None, b2, w2) \<Rightarrow> ends_with (updateBackupStatus env BackupCompleted
                     ''Backup created successfully'' ''BackupCompleted'' b2 w2))))"

subsection \<open>The pass\<close>

definition backup_Reconcile ::
  "('w, 'p) backup_env \<Rightarrow> string \<Rightarrow> string \<Rightarrow> 'w \<Rightarrow> 'w backup_pass" where
  "backup_Reconcile env namespace name w =
     (case ka_get (bke_api env) namespace name w of
        (Inl e, w1) \<Rightarrow> (if is_not_found e then Some ((0, None), w1) else Some ((0, Some (api_msg e)), w1))
      | (Inr b, w1) \<Rightarrow>
          if om_DeletionTimestamp (bkp_Meta b) \<noteq> None then backup_handleDeletion env b w1
          else if MCPServerBackupFinalizer \<notin> set (bkp_Finalizers b) then
            (case ka_update (bke_api env)
                (with_backup_finalizers (bkp_Finalizers b @ [MCPServerBackupFinalizer]) b) w1 of
               (Inl e, w2) \<Rightarrow> Some ((0, Some (api_msg e)), w2)
             | (Inr _, w2) \<Rightarrow> Some ((time_Second * 1, None), w2))
          else if bsp_Suspend (bkp_Spec b) = Some True then
            ends_with (updateBackupStatus env BackupPending ''Backup is suspended'' ''Suspended'' b w1)
          else (case ka_get (bke_servers env) (bkp_Namespace b) (bsp_MCPServerRef (bkp_Spec b)) w1 of
             (Inl e, w2) \<Rightarrow>
               (if is_not_found e then
                  ends_with (updateBackupStatus env BackupFailed
                    (''MCPServer '' @ bsp_MCPServerRef (bkp_Spec b) @ '' not found'') ''MCPServerNotFound'' b w2)
                else Some ((0, Some (api_msg e)), w2))
           | (Inr sv, w2) \<Rightarrow>
               if bsp_Schedule (bkp_Spec b) \<noteq> [] then handleScheduledBackup env b sv w2
               else handleOneTimeBackup env b sv w2))"

section \<open>Correctness\<close>

subsection \<open>The status that is written\<close>

definition bkp_id :: "mcp_backup \<Rightarrow> string \<times> string" where
  "bkp_id b = (bkp_Namespace b, bkp_Name b)"

text \<open>No one else writes to the backup: an update of its status succeeds and is what is stored.\<close>

definition stores_backups ::
  "('w, 'p) backup_env \<Rightarrow> ('w \<Rightarrow> string \<times> string \<Rightarrow> mcp_backup option) \<Rightarrow> bool" where
  "stores_backups env look \<longleftrightarrow>
     (\<forall>b w. \<exists>w1. ka_update_status (bke_api env) b w = (Inr b, w1) \<and> look w1 = (look w)(bkp_id b \<mapsto> b))"

lemma status_update_stored:
  assumes "stores_backups env look"
  obtains w1 where
    "updateBackupStatus env ph msg reason b w = (None, backup_status_set (bke_now env w) ph msg reason b, w1)"
    and "look w1 (bkp_id b) = Some (backup_status_set (bke_now env w) ph msg reason b)"
proof -
  let ?b = "backup_status_set (bke_now env w) ph msg reason b"
  obtain w1 where "ka_update_status (bke_api env) ?b w = (Inr ?b, w1)" "look w1 = (look w)(bkp_id ?b \<mapsto> ?b)"
    using assms unfolding stores_backups_def by blast
  then show ?thesis
    by (intro that[of w1]) (simp_all add: updateBackupStatus_def bkp_id_def)
qed

lemma failure_stored:
  assumes "stores_backups env look"
  obtains w1 where "creation_failed env e b w = Some ((0, None), w1)"
    and "look w1 (bkp_id b) = Some (backup_status_set (bke_now env w) BackupFailed
       (''Failed to create backup: '' @ e) ''BackupCreationFailed'' b)"
proof (rule status_update_stored[OF assms, of BackupFailed "''Failed to create backup: '' @ e"
      "''BackupCreationFailed''" b w])
  fix w1
  assume "updateBackupStatus env BackupFailed (''Failed to create backup: '' @ e) ''BackupCreationFailed'' b w =
      (None, backup_status_set (bke_now env w) BackupFailed (''Failed to create backup: '' @ e)
        ''BackupCreationFailed'' b, w1)"
    and "look w1 (bkp_id b) = Some (backup_status_set (bke_now env w) BackupFailed
        (''Failed to create backup: '' @ e) ''BackupCreationFailed'' b)"
  then show thesis by (intro that) (simp_all add: creation_failed_def ends_with_def)
qed

text \<open>A backup that is neither being deleted nor suspended and has its finalizer.\<close>

definition active_backup :: "mcp_backup \<Rightarrow> bool" where
  "active_backup b \<longleftrightarrow> om_DeletionTimestamp (bkp_Meta b) = None \<and>
     MCPServerBackupFinalizer \<in> set (bkp_Finalizers b) \<and> bsp_Suspend (bkp_Spec b) \<noteq> Some True"

lemma reconcile_active:
  assumes "ka_get (bke_api env) ns n w = (Inr b, w1)" and "active_backup b"
    and "ka_get (bke_servers env) (bkp_Namespace b) (bsp_MCPServerRef (bkp_Spec b)) w1 = (Inr sv, w2)"
  shows "backup_Reconcile env ns n w =
    (if bsp_Schedule (bkp_Spec b) \<noteq> [] then handleScheduledBackup env b sv w2 else handleOneTimeBackup env b sv w2)"
  using assms by (simp add: backup_Reconcile_def active_backup_def)

subsection \<open>Storage that is not implemented\<close>

text \<open>A backup that has not been taken, and whose turn it is.\<close>

definition never_taken :: "('w, 'p) backup_env \<Rightarrow> mcp_backup \<Rightarrow> bool" where
  "never_taken env b \<longleftrightarrow>
     (if bsp_Schedule (bkp_Spec b) = [] then bst_Phase (bkp_Status b) \<noteq> BackupCompleted
      else \<not> isl (bke_Parse env (bsp_Schedule (bkp_Spec b))) \<and> bst_LastScheduleTime (bkp_Status b) = None)"

lemma remote_creation_fails:
  assumes "storage_type b \<noteq> ''Local''"
  obtains e w1 where "createBackup env b sv w = (Some e, b, w1)"
proof -
  obtain v w1 where "GetClusterVersionSimple (bke_discovery env) w = (v, w1)" by fastforce
  with assms show ?thesis
    by (cases "storage_type b = ''S3''"; cases "storage_type b = ''GCS''"; cases "storage_type b = ''Azure''")
       (auto simp: createBackup_def Let_def storeS3Backup_def storeGCSBackup_def storeAzureBackup_def intro: that)
qed

lemma backup_status_set_type [simp]:
  "storage_type (backup_status_set now ph msg reason b) = storage_type b"
  "storage_type (with_next t b) = storage_type b"
  by (simp_all add: storage_type_def with_next_def)

lemma with_next_frame [simp]:
  "bkp_Meta (with_next t b) = bkp_Meta b" "bkp_Spec (with_next t b) = bkp_Spec b"
  "bst_BackupData (bkp_Status (with_next t b)) = bst_BackupData (bkp_Status b)"
  "bst_LastScheduleTime (bkp_Status (with_next t b)) = bst_LastScheduleTime (bkp_Status b)"
  "bst_Conditions (bkp_Status (with_next t b)) = bst_Conditions (bkp_Status b)"
  by (simp_all add: with_next_def)

text \<open>C14 A backup whose storage is not local can never be taken: every pass over it ends with the phase
  Failed, without an error and without data, and leaves it as much to be taken as before.\<close>

theorem remote_backup_fails:
  assumes "stores_backups env look"
    and "ka_get (bke_api env) ns n w = (Inr b, w1)" and "active_backup b"
    and "ka_get (bke_servers env) (bkp_Namespace b) (bsp_MCPServerRef (bkp_Spec b)) w1 = (Inr sv, w2)"
    and "storage_type b \<noteq> ''Local''" and "never_taken env b"
  shows "\<exists>w3 b3. backup_Reconcile env ns n w = Some ((0, None), w3) \<and> look w3 (bkp_id b) = Some b3 \<and>
    bst_Phase (bkp_Status b3) = BackupFailed \<and> bst_BackupData (bkp_Status b3) = bst_BackupData (bkp_Status b) \<and>
    bkp_Meta b3 = bkp_Meta b \<and> bkp_Spec b3 = bkp_Spec b \<and> never_taken env b3"
proof -
  note pass = reconcile_active[OF assms(2-4)]
  show ?thesis
  proof (cases "bsp_Schedule (bkp_Spec b) = []")
    case True
    obtain w3 where r: "updateBackupStatus env BackupRunning ''Creating backup'' ''BackupInProgress'' b w2 =
        (None, backup_status_set (bke_now env w2) BackupRunning ''Creating backup'' ''BackupInProgress'' b, w3)"
      by (rule status_update_stored[OF assms(1)])
    let ?b = "backup_status_set (bke_now env w2) BackupRunning ''Creating backup'' ''BackupInProgress'' b"
    obtain e w4 where c: "createBackup env ?b sv w3 = (Some e, ?b, w4)"
      using remote_creation_fails[of ?b env sv w3] assms(5) by auto
    obtain w5 where "creation_failed env e ?b w4 = Some ((0, None), w5)"
      and "look w5 (bkp_id ?b) = Some (backup_status_set (bke_now env w4) BackupFailed
        (''Failed to create backup: '' @ e) ''BackupCreationFailed'' ?b)"
      by (rule failure_stored[OF assms(1)])
    moreover have "bkp_id ?b = bkp_id b" by (simp add: bkp_id_def)
    ultimately show ?thesis
      using pass True assms(6) r c by (simp add: handleOneTimeBackup_def never_taken_def)
  next
    case False
    then obtain f where f: "bke_Parse env (bsp_Schedule (bkp_Spec b)) = Inr f"
      and l: "bst_LastScheduleTime (bkp_Status b) = None"
      using assms(6) by (cases "bke_Parse env (bsp_Schedule (bkp_Spec b))") (auto simp: never_taken_def)
    let ?b = "with_next (f (bke_now env w2)) b"
    obtain e w4 where c: "createBackup env ?b sv w2 = (Some e, ?b, w4)"
      using remote_creation_fails[of ?b env sv w2] assms(5) by auto
    obtain w5 where "creation_failed env e ?b w4 = Some ((0, None), w5)"
      and "look w5 (bkp_id ?b) = Some (backup_status_set (bke_now env w4) BackupFailed
        (''Failed to create backup: '' @ e) ''BackupCreationFailed'' ?b)"
      by (rule failure_stored[OF assms(1)])
    moreover have "bkp_id ?b = bkp_id b" by (simp add: bkp_id_def)
    ultimately show ?thesis
      using pass False f l c by (simp add: handleScheduledBackup_def never_taken_def is_due_def Let_def)
  qed
qed

subsection \<open>Local backups\<close>

lemma local_creation:
  assumes "storage_type b = ''Local''" and "\<forall>d. \<exists>json. bke_marshal env d = Inr json"
  obtains cluster json w1 where "bke_marshal env (backup_data_of env cluster b sv) = Inr json"
    and "createBackup env b sv w = (None, b\<lparr>bkp_Status := (bkp_Status b)\<lparr>
      bst_BackupData := Some (backup_data_of env cluster b sv), bst_BackupSize := int (length json),
      bst_BackupLocation := ''local://'' @ bkp_Namespace b @ ''/'' @ bkp_Name b\<rparr>\<rparr>, w1)"
proof -
  obtain v w1 where v: "GetClusterVersionSimple (bke_discovery env) w = (v, w1)" by fastforce
  let ?c = "case v of Inl _ \<Rightarrow> ''unknown'' | Inr c \<Rightarrow> c"
  obtain json where "bke_marshal env (backup_data_of env ?c b sv) = Inr json" using assms(2) by blast
  with v assms(1) show ?thesis
    by (intro that[of ?c json w1]) (simp_all add: createBackup_def Let_def storeLocalBackup_def)
qed

text \<open>C13 A local backup without a schedule is taken in one pass: the stored object is completed, holds the
  specification of the server and its dependencies, and its size is that of their JSON. The condition
  Progressing, written at the start, stays unknown.\<close>

theorem local_backup_taken:
  assumes "stores_backups env look"
    and "ka_get (bke_api env) ns n w = (Inr b, w1)" and "active_backup b"
    and "ka_get (bke_servers env) (bkp_Namespace b) (bsp_MCPServerRef (bkp_Spec b)) w1 = (Inr sv, w2)"
    and "storage_type b = ''Local''" and "bsp_Schedule (bkp_Spec b) = []"
    and "bst_Phase (bkp_Status b) \<noteq> BackupCompleted" and "\<forall>d. \<exists>json. bke_marshal env d = Inr json"
  shows "\<exists>w3 b3 data json. backup_Reconcile env ns n w = Some ((0, None), w3) \<and>
    look w3 (bkp_id b) = Some b3 \<and> bst_Phase (bkp_Status b3) = BackupCompleted \<and>
    bst_BackupData (bkp_Status b3) = Some data \<and> bdt_MCPServerSpec data = srv_Spec sv \<and>
    bdt_Dependencies data = collectDependencies sv \<and>
    bke_marshal env data = Inr json \<and> bst_BackupSize (bkp_Status b3) = int (length json) \<and>
    backup_cond BackupCondReady b3 = Some CTrue \<and> backup_cond BackupCondProgressing b3 = Some CUnknown"
proof -
  obtain w3 where r: "updateBackupStatus env BackupRunning ''Creating backup'' ''BackupInProgress'' b w2 =
      (None, backup_status_set (bke_now env w2) BackupRunning ''Creating backup'' ''BackupInProgress'' b, w3)"
    by (rule status_update_stored[OF assms(1)])
  let ?b = "backup_status_set (bke_now env w2) BackupRunning ''Creating backup'' ''BackupInProgress'' b"
  have ty: "storage_type ?b = ''Local''" using assms(5) by simp
  obtain cluster json w4 where j: "bke_marshal env (backup_data_of env cluster ?b sv) = Inr json"
    and c: "createBackup env ?b sv w3 = (None, ?b\<lparr>bkp_Status := (bkp_Status ?b)\<lparr>
      bst_BackupData := Some (backup_data_of env cluster ?b sv), bst_BackupSize := int (length json),
      bst_BackupLocation := ''local://'' @ bkp_Namespace ?b @ ''/'' @ bkp_Name ?b\<rparr>\<rparr>, w4)"
    by (rule local_creation[OF ty assms(8)])
  define b2 where "b2 = ?b\<lparr>bkp_Status := (bkp_Status ?b)\<lparr>
      bst_BackupData := Some (backup_data_of env cluster ?b sv), bst_BackupSize := int (length json),
      bst_BackupLocation := ''local://'' @ bkp_Namespace ?b @ ''/'' @ bkp_Name ?b\<rparr>\<rparr>"
  let ?b3 = "backup_status_set (bke_now env w4) BackupCompleted ''Backup created successfully'' ''BackupCompleted'' b2"
  obtain w5 where s: "updateBackupStatus env BackupCompleted ''Backup created successfully'' ''BackupCompleted'' b2 w4 =
      (None, ?b3, w5)" and l: "look w5 (bkp_id b2) = Some ?b3"
    by (rule status_update_stored[OF assms(1)])
  have "backup_Reconcile env ns n w = Some ((0, None), w5)"
    using reconcile_active[OF assms(2-4)] assms(6,7) r c s
    by (simp add: handleOneTimeBackup_def ends_with_def b2_def)
  moreover have "bkp_id b2 = bkp_id b" by (simp add: b2_def bkp_id_def)
  moreover have "bst_BackupData (bkp_Status ?b3) = Some (backup_data_of env cluster ?b sv)" by (simp add: b2_def)
  moreover have "bst_BackupSize (bkp_Status ?b3) = int (length json)"
    by (simp add: b2_def backup_status_set_def Let_def)
  moreover have "backup_cond BackupCondProgressing b2 = Some CUnknown"
  proof -
    have "backup_cond BackupCondProgressing b2 = backup_cond BackupCondProgressing ?b"
      by (simp add: b2_def backup_cond_def)
    then show ?thesis by (simp add: backup_cond_set getConditionType_def getConditionStatus_def)
  qed
  then have "backup_cond BackupCondReady ?b3 = Some CTrue" "backup_cond BackupCondProgressing ?b3 = Some CUnknown"
    by (simp_all add: backup_cond_set getConditionType_def getConditionStatus_def)
  ultimately show ?thesis using l j
    by (intro exI[of _ w5] exI[of _ ?b3] exI[of _ "backup_data_of env cluster ?b sv"] exI[of _ json])
       (simp add: backup_data_of_def)
qed

text \<open>The secrets mounted as configuration are not among the dependencies of a server.\<close>

lemma secret_source_forgotten:
  "collectDependencies (sv\<lparr>srv_Spec := (srv_Spec sv)\<lparr>sp_ConfigSources :=
      map (\<lambda>c. c\<lparr>cs_Secret := s\<rparr>) (sp_ConfigSources (srv_Spec sv))\<rparr>\<rparr>) = collectDependencies sv"
  by (simp add: collectDependencies_def o_def Let_def)

subsection \<open>A concrete cluster\<close>

text \<open>Backups under their keys, and the keys whose deletion was asked for; one server; no files.\<close>

type_synonym backup_world = "(string \<times> string \<Rightarrow> mcp_backup option) \<times> (string \<times> string) set"

definition small_backup_api :: "mcp_backup list \<Rightarrow> (backup_world, mcp_backup) kube_api" where
  "small_backup_api items = (static_api items)\<lparr>
     ka_get := (\<lambda>ns n w. (case fst w (ns, n) of None \<Rightarrow> Inl (NotFound ''not found'') | Some b \<Rightarrow> Inr b, w)),
     ka_update := (\<lambda>b w. (Inr b, apfst (\<lambda>m. m(bkp_id b \<mapsto> b)) w)),
     ka_update_status := (\<lambda>b w. (Inr b, apfst (\<lambda>m. m(bkp_id b \<mapsto> b)) w)),
     ka_delete := (\<lambda>b w. (None, apsnd (insert (bkp_id b)) w))\<rparr>"

definition no_files :: "'w os_files" where
  "no_files = \<lparr>osf_Stat = (\<lambda>_ _. FileNotExist), osf_Remove = (\<lambda>_ w. (None, w)),
     osf_ReadDir = (\<lambda>_ _. Inl ''no such file''), osf_ReadFile = (\<lambda>_ _. Inl ''no such file''),
     osf_WriteFile = (\<lambda>_ _ w. (None, w)), osf_Match = (\<lambda>_ _. Inr False), osf_Abs = Inr,
     osf_decode = (\<lambda>_. Inl []), osf_encode = (\<lambda>_. Inl [])\<rparr>"

definition small_backup_env :: "mcp_backup list \<Rightarrow> (backup_world, unit) backup_env" where
  "small_backup_env items = \<lparr>bke_api = small_backup_api items, bke_servers = static_api [zero_server],
     bke_secrets = static_api [], bke_files = no_files, bke_connect = (\<lambda>_ _ _ _. Inl ''offline''),
     bke_index = \<lparr>ixc_decode = (\<lambda>_. Inl []), ixc_encode = (\<lambda>_. Inl [])\<rparr>,
     bke_Parse = (\<lambda>_. Inr (\<lambda>t. t + time_Hour)), bke_now = (\<lambda>_. 1000 * time_Hour),
     bke_linked = default_variables, bke_build = None,
     bke_discovery = \<lparr>dsc_connect = None, dsc_ServerVersion = (\<lambda>w. (Inr ''v1.30.2-gke.1'', w))\<rparr>,
     bke_marshal = (\<lambda>_. Inr ''{}''), bke_sort = (\<lambda>bs. rev (sort_key bkp_created bs))\<rparr>"

lemma small_backup_env_stores: "stores_backups (small_backup_env items) fst"
  by (simp add: stores_backups_def small_backup_env_def small_backup_api_def)

lemma small_backup_env_get:
  "ka_get (bke_api (small_backup_env items)) ns n (Map.empty((ns, n) \<mapsto> b), g) =
     (Inr b, (Map.empty((ns, n) \<mapsto> b), g))"
  by (simp add: small_backup_env_def small_backup_api_def)

lemma small_backup_env_server:
  "ka_get (bke_servers (small_backup_env items)) ns n w = (Inr zero_server, w)"
  by (simp add: small_backup_env_def static_api_def)

text \<open>A backup with its finalizer and the given storage, schedule and status.\<close>

definition held_backup :: "string \<Rightarrow> string \<Rightarrow> (bool option) \<Rightarrow> (backup_status \<Rightarrow> backup_status) \<Rightarrow> mcp_backup" where
  "held_backup ty schedule suspend f = zero_backup\<lparr>
     bkp_Meta := zero_meta\<lparr>om_Name := ''db'', om_Finalizers := [MCPServerBackupFinalizer]\<rparr>,
     bkp_Spec := (bkp_Spec zero_backup)\<lparr>bsp_Schedule := schedule, bsp_Suspend := suspend,
       bsp_StorageLocation := zero_storage\<lparr>slo_Type := ty\<rparr>\<rparr>,
     bkp_Status := f (bkp_Status zero_backup)\<rparr>"

lemma held_backup_facts:
  "bkp_Namespace (held_backup ty schedule suspend f) = []" "bkp_Name (held_backup ty schedule suspend f) = ''db''"
  "om_DeletionTimestamp (bkp_Meta (held_backup ty schedule suspend f)) = None"
  "bkp_Finalizers (held_backup ty schedule suspend f) = [MCPServerBackupFinalizer]"
  "bsp_Suspend (bkp_Spec (held_backup ty schedule suspend f)) = suspend"
  "bsp_Schedule (bkp_Spec (held_backup ty schedule suspend f)) = schedule"
  "storage_type (held_backup ty schedule suspend f) = ty"
  "bkp_Status (held_backup ty schedule suspend f) = f (bkp_Status zero_backup)"
  by (simp_all add: held_backup_def zero_meta_def storage_type_def)

lemma remote_backup_fails_witness:
  "\<exists>w3 b3. backup_Reconcile (small_backup_env []) [] ''db''
      (Map.empty(([], ''db'') \<mapsto> held_backup ''S3'' ''@daily'' None id), {}) = Some ((0, None), w3) \<and>
    fst w3 ([], ''db'') = Some b3 \<and> bst_Phase (bkp_Status b3) = BackupFailed"
proof -
  let ?b = "held_backup ''S3'' ''@daily'' None id"
  have "active_backup ?b" "never_taken (small_backup_env []) ?b" "storage_type ?b \<noteq> ''Local''"
    by (simp_all add: active_backup_def never_taken_def held_backup_facts small_backup_env_def zero_backup_def)
  from remote_backup_fails[OF small_backup_env_stores
      small_backup_env_get[of "[]" "[]" "''db''" ?b "{}"] this(1) small_backup_env_server this(3,2)]
  show ?thesis by (auto simp: bkp_id_def held_backup_facts)
qed

lemma local_backup_taken_witness:
  "\<exists>w3 b3 data. backup_Reconcile (small_backup_env []) [] ''db''
      (Map.empty(([], ''db'') \<mapsto> held_backup ''Local'' [] None id), {}) = Some ((0, None), w3) \<and>
    fst w3 ([], ''db'') = Some b3 \<and> bst_BackupData (bkp_Status b3) = Some data \<and>
    bst_BackupSize (bkp_Status b3) = 2"
proof -
  let ?b = "held_backup ''Local'' [] None id"
  have h: "active_backup ?b" "storage_type ?b = ''Local''" "bsp_Schedule (bkp_Spec ?b) = []"
    "bst_Phase (bkp_Status ?b) \<noteq> BackupCompleted"
    by (simp_all add: active_backup_def held_backup_facts zero_backup_def)
  have m: "bke_marshal (small_backup_env []) d = Inr ''{}''" for d by (simp add: small_backup_env_def)
  then have "\<forall>d. \<exists>json. bke_marshal (small_backup_env []) d = Inr json" by blast
  from local_backup_taken[OF small_backup_env_stores
      small_backup_env_get[of "[]" "[]" "''db''" ?b "{}"] h(1) small_backup_env_server h(2-4) this]
  show ?thesis by (auto simp: bkp_id_def held_backup_facts m)
qed

end
