(* ===== verification/BackupLifecycle.thy ===== *)
theory BackupLifecycle
  imports BackupController "HOL-Library.Multiset"
begin

section \<open>Retention, deletion and conditions of backups\<close>

text \<open>
  What the operations of theory BackupController achieve over the life of a backup: which backups the
  retention policy deletes, when the finalizer is released, what the conditions can tell, and that a
  pass with nothing to do still writes the status; with a concrete cluster for the hypotheses.
\<close>

subsection \<open>Retention\<close>

text \<open>What \<open>sort.Slice\<close> promises: the same backups, the newest first.\<close>

definition newest_first :: "(mcp_backup list \<Rightarrow> mcp_backup list) \<Rightarrow> bool" where
  "newest_first f \<longleftrightarrow>
     (\<forall>xs. mset (f xs) = mset xs \<and> sorted_wrt (\<lambda>a b. bkp_created b \<le> bkp_created a) (f xs))"

text \<open>The policy in words: more than the given number of newer ones, or too old.\<close>

definition surplus :: "retention_policy \<Rightarrow> mcp_backup set \<Rightarrow> mcp_backup \<Rightarrow> bool" where
  "surplus policy bs b \<longleftrightarrow>
     (\<exists>n. rtp_KeepLast policy = Some n \<and> 0 < n \<and> n \<le> int (card {c \<in> bs. bkp_created b < bkp_created c}))"

definition expired :: "retention_policy \<Rightarrow> instant \<Rightarrow> mcp_backup \<Rightarrow> bool" where
  "expired policy now b \<longleftrightarrow>
     (\<exists>age. rtp_MaxAge policy = Some age \<and> bkp_created b < now + to_i64 (- age))"

lemma card_earlier:
  assumes "sorted_wrt (\<lambda>a b. (f b :: int) \<le> f a) xs" and "distinct xs" and "inj_on f (set xs)" and "i < length xs"
  shows "card {c \<in> set xs. f (xs ! i) < f c} = i"
proof -
  have "{c \<in> set xs. f (xs ! i) < f c} = set (take i xs)"
  proof (rule set_eqI)
    fix c
    have lt: "f (xs ! i) < f (xs ! j)" if "j < i" for j
    proof -
      have "f (xs ! i) \<le> f (xs ! j)"
        using sorted_wrt_nth_less[OF assms(1) that assms(4)] .
      moreover have "xs ! i \<noteq> xs ! j" using assms(2,4) that by (simp add: nth_eq_iff_index_eq)
      then have "f (xs ! i) \<noteq> f (xs ! j)" using assms(3,4) that by (auto dest: inj_onD)
      ultimately show ?thesis by simp
    qed
    have le: "f (xs ! j) \<le> f (xs ! i)" if "i \<le> j" "j < length xs" for j
    proof (cases "i = j")
      case False
      then show ?thesis using sorted_wrt_nth_less[OF assms(1), of i j] that by simp
    qed simp
    show "c \<in> {c \<in> set xs. f (xs ! i) < f c} \<longleftrightarrow> c \<in> set (take i xs)"
    proof
      assume "c \<in> {c \<in> set xs. f (xs ! i) < f c}"
      then obtain j where j: "j < length xs" "c = xs ! j" "f (xs ! i) < f (xs ! j)"
        by (auto simp: in_set_conv_nth)
      then have "j < i" using le[of j] by (cases "i \<le> j") auto
      with j show "c \<in> set (take i xs)" by (auto simp: in_set_conv_nth)
    next
      assume "c \<in> set (take i xs)"
      then obtain j where "j < i" "c = xs ! j" by (auto simp: in_set_conv_nth)
      with lt[of j] assms(4) show "c \<in> {c \<in> set xs. f (xs ! i) < f c}" by simp
    qed
  qed
  then show ?thesis using assms(2,4) by (simp add: distinct_card)
qed

lemma drop_by_rank:
  assumes "sorted_wrt (\<lambda>a b. (f b :: int) \<le> f a) xs" and "distinct xs" and "inj_on f (set xs)"
  shows "b \<in> set (drop n xs) \<longleftrightarrow> b \<in> set xs \<and> n \<le> card {c \<in> set xs. f b < f c}"
proof
  assume "b \<in> set (drop n xs)"
  then obtain i where "i < length (drop n xs)" "b = drop n xs ! i" by (auto simp: in_set_conv_nth)
  then have "n + i < length xs" "b = xs ! (n + i)" by auto
  with card_earlier[OF assms, of "n + i"] show "b \<in> set xs \<and> n \<le> card {c \<in> set xs. f b < f c}" by simp
next
  assume r: "b \<in> set xs \<and> n \<le> card {c \<in> set xs. f b < f c}"
  then obtain i where i: "i < length xs" "b = xs ! i" by (auto simp: in_set_conv_nth)
  with r card_earlier[OF assms i(1)] have "n \<le> i" by simp
  then have "b = drop n xs ! (i - n)" "i - n < length (drop n xs)" using i by auto
  then show "b \<in> set (drop n xs)" using nth_mem by blast
qed

lemma add_expired_set:
  assumes "\<forall>x \<in> set bs \<union> set vs. \<forall>y \<in> set bs \<union> set vs. bkp_id x = bkp_id y \<longrightarrow> x = y"
  shows "set (add_expired cutoff bs vs) = set vs \<union> {b \<in> set bs. bkp_created b < cutoff}"
  using assms
proof (induction bs arbitrary: vs)
  case (Cons b bs)
  have listed: "list_ex (\<lambda>v. bkp_Name v = bkp_Name b \<and> bkp_Namespace v = bkp_Namespace b) vs \<longleftrightarrow> b \<in> set vs"
    using Cons.prems unfolding list_ex_iff bkp_id_def by auto
  show ?case
  proof (cases "bkp_created b < cutoff \<and> b \<notin> set vs")
    case True
    with listed have "add_expired cutoff (b # bs) vs = add_expired cutoff bs (vs @ [b])" by simp
    moreover have "set (add_expired cutoff bs (vs @ [b])) = set (vs @ [b]) \<union> {b \<in> set bs. bkp_created b < cutoff}"
      by (rule Cons.IH) (use Cons.prems in auto)
    ultimately show ?thesis using True by auto
  next
    case False
    with listed have "add_expired cutoff (b # bs) vs = add_expired cutoff bs vs" by auto
    moreover have "set (add_expired cutoff bs vs) = set vs \<union> {b \<in> set bs. bkp_created b < cutoff}"
      by (rule Cons.IH) (use Cons.prems in auto)
    ultimately show ?thesis using False by auto
  qed
qed simp

lemma beyond_last_surplus:
  assumes "newest_first f" and "distinct bs" and "inj_on bkp_created (set bs)"
  shows "b \<in> set (beyond_last (rtp_KeepLast policy) (f bs)) \<longleftrightarrow> b \<in> set bs \<and> surplus policy (set bs) b"
proof (cases "rtp_KeepLast policy")
  case (Some n)
  have m: "mset (f bs) = mset bs" and s: "sorted_wrt (\<lambda>a b. bkp_created b \<le> bkp_created a) (f bs)"
    using assms(1) unfolding newest_first_def by auto
  have bs: "set (f bs) = set bs" and d: "distinct (f bs)"
    using m assms(2) mset_eq_setD[OF m] mset_eq_imp_distinct_iff[OF m] by auto
  have i: "inj_on bkp_created (set (f bs))" using assms(3) bs by simp
  have r: "b \<in> set (drop (nat n) (f bs)) \<longleftrightarrow> b \<in> set bs \<and> nat n \<le> card {c \<in> set bs. bkp_created b < bkp_created c}"
    using drop_by_rank[OF s d i, of b "nat n"] bs by simp
  show ?thesis
  proof (cases "0 < n \<and> n < int (length (f bs))")
    case True
    with Some r show ?thesis by (auto simp: beyond_last_def surplus_def)
  next
    case False
    then have "drop (nat n) (f bs) = [] \<or> \<not> 0 < n" by auto
    then have "\<not> (b \<in> set bs \<and> surplus policy (set bs) b)" using r Some by (auto simp: surplus_def)
    moreover have "beyond_last (rtp_KeepLast policy) (f bs) = []" using False Some by (auto simp: beyond_last_def)
    ultimately show ?thesis by simp
  qed
qed (simp add: beyond_last_def surplus_def)

lemma to_delete_exact:
  assumes "newest_first f" and "distinct (map bkp_id bs)" and "inj_on bkp_created (set bs)"
  shows "set (backups_to_delete policy now (f bs)) = {b \<in> set bs. surplus policy (set bs) b \<or> expired policy now b}"
proof -
  have d: "distinct bs" and u: "\<forall>x \<in> set bs. \<forall>y \<in> set bs. bkp_id x = bkp_id y \<longrightarrow> x = y"
    using assms(2) by (auto simp: distinct_map inj_on_def)
  have bs: "set (f bs) = set bs" using assms(1) mset_eq_setD unfolding newest_first_def by blast
  have last: "set (beyond_last (rtp_KeepLast policy) (f bs)) = {b \<in> set bs. surplus policy (set bs) b}"
    using beyond_last_surplus[OF assms(1) d assms(3)] by blast
  show ?thesis
  proof (cases "rtp_MaxAge policy")
    case None
    then show ?thesis using last by (auto simp: backups_to_delete_def expired_def)
  next
    case (Some age)
    have "set (add_expired (now + to_i64 (- age)) (f bs) (beyond_last (rtp_KeepLast policy) (f bs))) =
        set (beyond_last (rtp_KeepLast policy) (f bs)) \<union> {b \<in> set (f bs). bkp_created b < now + to_i64 (- age)}"
      by (rule add_expired_set) (use u bs last in auto)
    then show ?thesis using Some last bs by (auto simp: backups_to_delete_def expired_def)
  qed
qed

text \<open>
  \<open>gone\<close> are the keys of backups that are deleted or marked for deletion: the server accepts a request
  to delete a backup, or says that there is none.
\<close>

definition deletes_backups ::
  "('w, 'p) backup_env \<Rightarrow> ('w \<Rightarrow> (string \<times> string) set) \<Rightarrow> bool" where
  "deletes_backups env gone \<longleftrightarrow>
     (\<forall>b w. \<exists>e w1. ka_delete (bke_api env) b w = (e, w1) \<and> (e = None \<or> (\<exists>m. e = Some (NotFound m))) \<and>
        gone w1 = insert (bkp_id b) (gone w))"

lemma delete_backups_all:
  assumes "deletes_backups env gone"
  shows "\<exists>w1. delete_backups env bs w = (None, w1) \<and> gone w1 = gone w \<union> bkp_id ` set bs"
proof (induction bs arbitrary: w)
  case (Cons b bs)
  obtain e w1 where d: "ka_delete (bke_api env) b w = (e, w1)" "e = None \<or> (\<exists>m. e = Some (NotFound m))"
    and g: "gone w1 = insert (bkp_id b) (gone w)"
    using assms unfolding deletes_backups_def by blast
  obtain w2 where "delete_backups env bs w1 = (None, w2)" "gone w2 = gone w1 \<union> bkp_id ` set bs"
    using Cons.IH by blast
  with d g show ?case by auto
qed simp

text \<open>C11 The retention policy deletes exactly the completed backups of the server that are surplus or
  expired, provided that it says how many to keep; without that number nothing is deleted, whatever
  the age.\<close>

theorem retention_exact:
  assumes "newest_first (bke_sort env)" and "deletes_backups env gone"
    and "ka_list (bke_api env) (bkp_Namespace b,
      [(''mcp.allbeone.io/mcpserver'', bsp_MCPServerRef (bkp_Spec b))]) w = (Inr items, w1)"
    and "gone w1 = gone w" and "distinct (map bkp_id items)"
    and "inj_on bkp_created (set (completed_backups items))"
  shows "\<exists>w2. enforceRetentionPolicy env b w = (None, w2) \<and> gone w2 = gone w \<union>
    bkp_id ` {c \<in> set (completed_backups items). rtp_KeepLast (bsp_RetentionPolicy (bkp_Spec b)) \<noteq> None \<and>
      (surplus (bsp_RetentionPolicy (bkp_Spec b)) (set (completed_backups items)) c \<or>
       expired (bsp_RetentionPolicy (bkp_Spec b)) (bke_now env w1) c)}"
proof -
  let ?p = "bsp_RetentionPolicy (bkp_Spec b)"
  let ?done = "completed_backups items"
  have "distinct (map bkp_id ?done)"
    using assms(5) by (simp add: completed_backups_def distinct_map_filter)
  then have victims: "set (backups_to_delete ?p (bke_now env w1) (bke_sort env ?done)) =
      {c \<in> set ?done. surplus ?p (set ?done) c \<or> expired ?p (bke_now env w1) c}"
    by (rule to_delete_exact[OF assms(1) _ assms(6)])
  show ?thesis
  proof (cases "rtp_KeepLast ?p = None \<or> ?done = []")
    case True
    then show ?thesis using assms(3,4) by (auto simp: enforceRetentionPolicy_def Let_def)
  next
    case False
    obtain w2 where "delete_backups env (backups_to_delete ?p (bke_now env w1) (bke_sort env ?done)) w1 = (None, w2)"
      and "gone w2 = gone w1 \<union> bkp_id ` set (backups_to_delete ?p (bke_now env w1) (bke_sort env ?done))"
      using delete_backups_all[OF assms(2)] by blast
    moreover obtain n where "rtp_KeepLast ?p = Some n" using False by auto
    ultimately show ?thesis using False victims assms(3,4) by (simp add: enforceRetentionPolicy_def Let_def)
  qed
qed

text \<open>
  A schedule stores its backup in its own object and keeps the time of creation; so as soon as the
  object itself is older than the policy allows, the policy deletes the schedule.
\<close>

lemma schedule_deletes_itself:
  assumes "newest_first (bke_sort env)" and "distinct (map bkp_id (completed_backups items))"
    and "inj_on bkp_created (set (completed_backups items))"
    and "b \<in> set items" and "bst_Phase (bkp_Status b) = BackupCompleted" and "expired policy now b"
  shows "b \<in> set (backups_to_delete policy now (bke_sort env (completed_backups items)))"
  using to_delete_exact[OF assms(1-3)] assms(4-6) by (simp add: completed_backups_def)

subsection \<open>Deletion\<close>

definition updates_backups ::
  "('w, 'p) backup_env \<Rightarrow> ('w \<Rightarrow> string \<times> string \<Rightarrow> mcp_backup option) \<Rightarrow> bool" where
  "updates_backups env look \<longleftrightarrow>
     (\<forall>b w. \<exists>w1. ka_update (bke_api env) b w = (Inr b, w1) \<and> look w1 = (look w)(bkp_id b \<mapsto> b))"

text \<open>Files are not part of what the API server stores.\<close>

definition files_apart ::
  "('w, 'p) backup_env \<Rightarrow> ('w \<Rightarrow> string \<times> string \<Rightarrow> mcp_backup option) \<Rightarrow> bool" where
  "files_apart env look \<longleftrightarrow> (\<forall>b w. look (snd (cleanup_files (bke_files env) b w)) = look w)"

lemma without_data_frame [simp]:
  "bkp_Meta (without_data b) = bkp_Meta b" "bkp_Spec (without_data b) = bkp_Spec b"
  "bst_BackupData (bkp_Status (without_data b)) = None" "bkp_id (without_data b) = bkp_id b"
  "local_path (without_data b) = local_path b" "backup_file path (without_data b) = backup_file path b"
  by (simp_all add: without_data_def bkp_id_def local_path_def backup_file_def)

lemma cleanup_without_data: "cleanupBackupFiles fs (without_data b) w = cleanupBackupFiles fs b w"
  unfolding cleanupBackupFiles_def without_data_frame by (rule refl)

lemma finalizers_frame [simp]:
  "bkp_id (with_backup_finalizers fs b) = bkp_id b" "bkp_Finalizers (with_backup_finalizers fs b) = fs"
  "bkp_Status (with_backup_finalizers fs b) = bkp_Status b"
  by (simp_all add: with_backup_finalizers_def bkp_id_def)

text \<open>The world in which the clean-up of the files starts.\<close>

definition after_clearing :: "('w, 'p) backup_env \<Rightarrow> mcp_backup \<Rightarrow> 'w \<Rightarrow> 'w" where
  "after_clearing env b w =
     (if bst_BackupData (bkp_Status b) = None then w else snd (ka_update_status (bke_api env) (without_data b) w))"

lemma clearing_local:
  assumes "stores_backups env look" and "look w (bkp_id b) = Some b"
  obtains b1 where "cleanupLocalBackup env b w =
      (let (e, w2) = cleanup_files (bke_files env) b1 (after_clearing env b w) in (e, b1, w2))"
    and "look (after_clearing env b w) (bkp_id b) = Some b1" and "bkp_Meta b1 = bkp_Meta b"
    and "bst_BackupData (bkp_Status b1) = None"
    and "\<forall>v. cleanupBackupFiles (bke_files env) b1 v = cleanupBackupFiles (bke_files env) b v"
proof (cases "bst_BackupData (bkp_Status b)")
  case None
  with assms(2) show ?thesis
    by (intro that[of b]) (simp_all add: cleanupLocalBackup_def after_clearing_def)
next
  case (Some d)
  obtain w1 where "ka_update_status (bke_api env) (without_data b) w = (Inr (without_data b), w1)"
    and "look w1 = (look w)(bkp_id (without_data b) \<mapsto> without_data b)"
    using assms(1) unfolding stores_backups_def by blast
  with Some show ?thesis
    by (intro that[of "without_data b"])
       (simp_all add: cleanupLocalBackup_def after_clearing_def cleanup_without_data)
qed


subsection \<open>What the conditions tell\<close>

primrec set_statuses :: "(instant \<times> backup_phase \<times> string \<times> string) list \<Rightarrow> mcp_backup \<Rightarrow> mcp_backup" where
  "set_statuses [] b = b"
| "set_statuses (x # xs) b =
     (case x of (now, ph, msg, reason) \<Rightarrow> set_statuses xs (backup_status_set now ph msg reason b))"

lemma status_types_distinct:
  assumes "distinct (map bcd_Type (bst_Conditions (bkp_Status b)))"
  shows "distinct (map bcd_Type (bst_Conditions (bkp_Status (backup_status_set now ph msg reason b))))"
  using assms by (auto simp: backup_status_set_def Let_def update_types)

lemma set_statuses_conditions:
  assumes "distinct (map bcd_Type (bst_Conditions (bkp_Status b)))"
  shows "distinct (map bcd_Type (bst_Conditions (bkp_Status (set_statuses xs b)))) \<and>
    backup_cond ty (set_statuses xs b) =
      (if \<exists>x \<in> set xs. getConditionType (fst (snd x)) = ty
       then Some (if ty = BackupCondReady then CTrue else if ty = BackupCondFailed then CFalse else CUnknown)
       else backup_cond ty b)"
  using assms
proof (induction xs arbitrary: b)
  case (Cons x xs)
  obtain now ph msg reason where x: "x = (now, ph, msg, reason)" by (cases x)
  let ?b = "backup_status_set now ph msg reason b"
  have st: "getConditionStatus ph = (if getConditionType ph = BackupCondReady then CTrue
      else if getConditionType ph = BackupCondFailed then CFalse else CUnknown)"
    by (cases ph) (simp_all add: getConditionStatus_def getConditionType_def)
  show ?case
    using Cons.IH[OF status_types_distinct[OF Cons.prems, of now ph msg reason]]
    by (auto simp: x backup_cond_set st)
qed simp

text \<open>C15 The conditions of a backup cannot tell how its last attempt ended: they have one entry per type,
  and the status of each depends only on which phases were ever written. Failed is never true, and
  Ready, once true, stays true through every later failure.\<close>

theorem backup_condition_history:
  assumes "bst_Conditions (bkp_Status b) = []"
  shows "distinct (map bcd_Type (bst_Conditions (bkp_Status (set_statuses xs b)))) \<and>
    backup_cond BackupCondReady (set_statuses xs b) =
      (if BackupCompleted \<in> set (map (fst \<circ> snd) xs) then Some CTrue else None) \<and>
    backup_cond BackupCondFailed (set_statuses xs b) =
      (if BackupFailed \<in> set (map (fst \<circ> snd) xs) then Some CFalse else None)"
proof -
  have none: "backup_cond ty b = None" for ty using assms by (simp add: backup_cond_def)
  have d: "distinct (map bcd_Type (bst_Conditions (bkp_Status b)))" using assms by simp
  note h = set_statuses_conditions[OF d, of xs]
  have some: "(\<exists>x \<in> set xs. fst (snd x) = ph) \<longleftrightarrow> ph \<in> set (map (fst \<circ> snd) xs)" for ph
    by (auto simp: image_iff)
  have t: "getConditionType ph = BackupCondReady \<longleftrightarrow> ph = BackupCompleted"
    "getConditionType ph = BackupCondFailed \<longleftrightarrow> ph = BackupFailed" for ph
    using phase_condition_table[of ph] by simp_all
  show ?thesis using h[of BackupCondReady] h[of BackupCondFailed] unfolding t some none by simp
qed

subsection \<open>Passes with nothing to do\<close>

text \<open>Suspended, without its server, or between two times of its schedule.\<close>

definition nothing_to_do ::
  "('w, 'p) backup_env \<Rightarrow> mcp_backup \<Rightarrow> (api_error + mcp_server) \<Rightarrow> instant \<Rightarrow> bool" where
  "nothing_to_do env b answer now \<longleftrightarrow>
     bsp_Suspend (bkp_Spec b) = Some True \<or>
     (case answer of
        Inl e \<Rightarrow> is_not_found e
      | Inr sv \<Rightarrow> bsp_Schedule (bkp_Spec b) \<noteq> [] \<and>
          (case bke_Parse env (bsp_Schedule (bkp_Spec b)) of
             Inl _ \<Rightarrow> True
           | Inr f \<Rightarrow> (case bst_LastScheduleTime (bkp_Status b) of None \<Rightarrow> False | Some t \<Rightarrow> now < f t)))"

definition written_before :: "mcp_backup \<Rightarrow> instant \<Rightarrow> bool" where
  "written_before b now \<longleftrightarrow> (\<forall>c \<in> set (bst_Conditions (bkp_Status b)). bcd_LastTransitionTime c < now)"

lemma updated_condition: "c \<in> set (updateConditions c cs)"
  by (induction c cs rule: updateConditions.induct) auto

lemma status_set_changes:
  assumes "written_before b now"
  shows "bst_Conditions (bkp_Status (backup_status_set now ph msg reason b)) \<noteq> bst_Conditions (bkp_Status b)"
proof
  let ?c = "\<lparr>bcd_Type = getConditionType ph, bcd_Status = getConditionStatus ph,
    bcd_LastTransitionTime = now, bcd_Reason = reason, bcd_Message = msg\<rparr>"
  assume "bst_Conditions (bkp_Status (backup_status_set now ph msg reason b)) = bst_Conditions (bkp_Status b)"
  then have "?c \<in> set (bst_Conditions (bkp_Status b))"
    using updated_condition[of ?c "bst_Conditions (bkp_Status b)"]
    by (simp add: backup_status_set_def Let_def)
  with assms show False unfolding written_before_def by force
qed

lemma status_written_changes:
  assumes "stores_backups env look" and "written_before b (bke_now env w)"
  obtains w1 b1 where "updateBackupStatus env ph msg reason b w = (None, b1, w1)"
    and "look w1 (bkp_id b) = Some b1" and "bst_Conditions (bkp_Status b1) \<noteq> bst_Conditions (bkp_Status b)"
proof (rule status_update_stored[OF assms(1), of ph msg reason b w])
  fix w1
  let ?b = "backup_status_set (bke_now env w) ph msg reason b"
  assume u: "updateBackupStatus env ph msg reason b w = (None, ?b, w1)" and l: "look w1 (bkp_id b) = Some ?b"
  have c: "bst_Conditions (bkp_Status ?b) \<noteq> bst_Conditions (bkp_Status b)"
    by (rule status_set_changes[OF assms(2)])
  show thesis by (rule that[OF u l c])
qed

text \<open>A pass that has nothing to do writes the status of the backup nevertheless, with the time of the
  pass in a condition. The stored object changes, and since the controller watches every change of a
  backup, it calls the next pass: the backup is reconciled without rest.\<close>

theorem idle_pass_writes:
  assumes "stores_backups env look" and "ka_get (bke_api env) ns n w = (Inr b, w1)"
    and "om_DeletionTimestamp (bkp_Meta b) = None" and "MCPServerBackupFinalizer \<in> set (bkp_Finalizers b)"
    and "ka_get (bke_servers env) (bkp_Namespace b) (bsp_MCPServerRef (bkp_Spec b)) w1 = (answer, w2)"
    and "nothing_to_do env b answer (bke_now env w2)"
    and "written_before b (bke_now env w1)" and "written_before b (bke_now env w2)"
  shows "\<exists>r w3 b3. backup_Reconcile env ns n w = Some (r, w3) \<and> look w3 (bkp_id b) = Some b3 \<and>
    bst_Conditions (bkp_Status b3) \<noteq> bst_Conditions (bkp_Status b)"
proof (cases "bsp_Suspend (bkp_Spec b) = Some True")
  case True
  show ?thesis
    by (rule status_written_changes[OF assms(1,7), of BackupPending "''Backup is suspended''" "''Suspended''"])
       (use True assms(2-4) in \<open>simp add: backup_Reconcile_def ends_with_def\<close>)
next
  case False
  then have active: "active_backup b" using assms(3,4) by (simp add: active_backup_def)
  show ?thesis
  proof (cases answer)
    case (Inl e)
    with False assms(6) have nf: "is_not_found e" by (simp add: nothing_to_do_def)
    show ?thesis
      by (rule status_written_changes[OF assms(1,8), of BackupFailed
            "''MCPServer '' @ bsp_MCPServerRef (bkp_Spec b) @ '' not found''" "''MCPServerNotFound''"])
         (use False Inl nf assms(2-5) in \<open>simp add: backup_Reconcile_def ends_with_def\<close>)
  next
    case (Inr sv)
    note idle = assms(6)[unfolded nothing_to_do_def Inr sum.case]
    have "backup_Reconcile env ns n w = handleScheduledBackup env b sv w2"
      using reconcile_active[OF assms(2) active] assms(5) Inr idle False by simp
    moreover have "\<exists>r w3 b3. handleScheduledBackup env b sv w2 = Some (r, w3) \<and> look w3 (bkp_id b) = Some b3 \<and>
        bst_Conditions (bkp_Status b3) \<noteq> bst_Conditions (bkp_Status b)"
    proof (cases "bke_Parse env (bsp_Schedule (bkp_Spec b))")
      case (Inl e)
      show ?thesis
        by (rule status_written_changes[OF assms(1,8), of BackupFailed
              "''Invalid schedule format: '' @ bsp_Schedule (bkp_Spec b)" "''InvalidSchedule''"])
           (use Inl in \<open>simp add: handleScheduledBackup_def ends_with_def\<close>)
    next
      case (Inr f)
      let ?b = "with_next (f (bke_now env w2)) b"
      obtain t where t: "bst_LastScheduleTime (bkp_Status b) = Some t" "bke_now env w2 < f t"
        using idle False Inr by (auto split: option.splits)
      have wb: "written_before ?b (bke_now env w2)" using assms(8) by (simp add: written_before_def)
      have id: "bkp_id ?b = bkp_id b" by (simp add: bkp_id_def)
      show ?thesis
        by (rule status_written_changes[OF assms(1) wb, of BackupCompleted
              "''Scheduled backup processed''" "''ScheduleProcessed''"])
           (use Inr t id in \<open>simp add: handleScheduledBackup_def schedule_processed_def is_due_def Let_def\<close>)
    qed
    ultimately show ?thesis by simp
  qed
qed

subsection \<open>The hypotheses on a concrete cluster\<close>

lemma small_backup_env_sorts: "newest_first (bke_sort (small_backup_env items))"
  by (simp add: newest_first_def small_backup_env_def sorted_wrt_rev sorted_sort_key[unfolded sorted_map])

lemma small_backup_env_deletes: "deletes_backups (small_backup_env items) snd"
  by (simp add: deletes_backups_def small_backup_env_def small_backup_api_def)

lemma small_backup_env_updates: "updates_backups (small_backup_env items) fst"
  by (simp add: updates_backups_def small_backup_env_def small_backup_api_def)

lemma no_index_files: "snd (removeBackupFromIndexFile no_files f key b w) = w"
  by (auto simp: removeBackupFromIndexFile_def no_files_def split: option.splits)

lemma no_files_cleaned: "snd (cleanup_files no_files b w) = w"
proof -
  have c: "cleanupBackupFiles no_files b w = (None, w)" "cleanupTemporaryFiles no_files b w = (None, w)" for w :: 'a
    by (simp_all add: cleanupBackupFiles_def cleanupTemporaryFiles_def cleanupTempFilesInDirectory_def
        remove_if_empty_def no_files_def Let_def split: option.split)
  have "fold (\<lambda>f w. snd (removeBackupFromIndexFile no_files f key b w)) fs w = w" for fs key and w :: 'a
    by (induction fs) (simp_all add: no_index_files)
  then have "removeFromLocalStorageIndex no_files b w = (None, w)" for w :: 'a
    by (simp add: removeFromLocalStorageIndex_def split: option.split)
  with c show ?thesis by (simp add: cleanup_files_def)
qed

lemma small_backup_env_files: "files_apart (small_backup_env items) fst"
  by (simp add: files_apart_def small_backup_env_def no_files_cleaned)

definition kept_schedule :: "instant \<Rightarrow> string \<Rightarrow> mcp_backup" where
  "kept_schedule t n = zero_backup\<lparr>
     bkp_Meta := zero_meta\<lparr>om_Name := n, om_CreationTimestamp := t\<rparr>,
     bkp_Spec := (bkp_Spec zero_backup)\<lparr>bsp_RetentionPolicy :=
       (bsp_RetentionPolicy (bkp_Spec zero_backup))\<lparr>rtp_KeepLast := Some 1, rtp_MaxAge := Some time_Hour\<rparr>\<rparr>,
     bkp_Status := (bkp_Status zero_backup)\<lparr>bst_Phase := BackupCompleted\<rparr>\<rparr>"

lemma retention_exact_witness:
  "\<exists>w2. enforceRetentionPolicy (small_backup_env [kept_schedule 1 ''a'', kept_schedule 2 ''b''])
      (kept_schedule 1 ''a'') (Map.empty, {}) = (None, w2) \<and> ([], ''a'') \<in> snd w2"
proof -
  let ?items = "[kept_schedule 1 ''a'', kept_schedule 2 ''b'']"
  let ?env = "small_backup_env ?items"
  have l: "ka_list (bke_api ?env) (bkp_Namespace (kept_schedule 1 ''a''),
      [(''mcp.allbeone.io/mcpserver'', bsp_MCPServerRef (bkp_Spec (kept_schedule 1 ''a'')))]) (Map.empty, {}) =
      (Inr ?items, (Map.empty, {}))"
    by (simp add: small_backup_env_def small_backup_api_def static_api_def)
  have d: "distinct (map bkp_id ?items)" by (simp add: bkp_id_def kept_schedule_def)
  have c: "completed_backups ?items = ?items" by (simp add: completed_backups_def kept_schedule_def)
  have i: "inj_on bkp_created (set (completed_backups ?items))" unfolding c by (auto simp: kept_schedule_def)
  have e: "expired (bsp_RetentionPolicy (bkp_Spec (kept_schedule 1 ''a''))) (bke_now ?env (Map.empty, {})) (kept_schedule 1 ''a'')"
    by (simp add: expired_def kept_schedule_def small_backup_env_def time_Hour_def to_i64_def)
  have k: "rtp_KeepLast (bsp_RetentionPolicy (bkp_Spec (kept_schedule 1 ''a''))) \<noteq> None"
    by (simp add: kept_schedule_def)
  have a: "bkp_id (kept_schedule 1 ''a'') = ([], ''a'')" by (simp add: bkp_id_def kept_schedule_def zero_meta_def)
  obtain w2 where w: "enforceRetentionPolicy ?env (kept_schedule 1 ''a'') (Map.empty, {}) = (None, w2)"
    and g: "snd w2 = snd (Map.empty :: string \<times> string \<Rightarrow> mcp_backup option, {}) \<union>
      bkp_id ` {c \<in> set (completed_backups ?items). rtp_KeepLast (bsp_RetentionPolicy (bkp_Spec (kept_schedule 1 ''a''))) \<noteq> None \<and>
      (surplus (bsp_RetentionPolicy (bkp_Spec (kept_schedule 1 ''a''))) (set (completed_backups ?items)) c \<or>
       expired (bsp_RetentionPolicy (bkp_Spec (kept_schedule 1 ''a''))) (bke_now ?env (Map.empty, {})) c)}"
    using retention_exact[OF small_backup_env_sorts small_backup_env_deletes l _ d i] by blast
  have "kept_schedule 1 ''a'' \<in> set (completed_backups ?items)" unfolding c by simp
  with e k have "bkp_id (kept_schedule 1 ''a'') \<in> snd w2" unfolding g by blast
  with w a show ?thesis by auto
qed


lemma backup_condition_history_witness:
  "backup_cond BackupCondReady (set_statuses [(1, BackupCompleted, [], []), (2, BackupFailed, [], [])] zero_backup) = Some CTrue \<and>
   backup_cond BackupCondFailed (set_statuses [(1, BackupCompleted, [], []), (2, BackupFailed, [], [])] zero_backup) = Some CFalse"
  using backup_condition_history[of zero_backup "[(1, BackupCompleted, [], []), (2, BackupFailed, [], [])]"]
  by (simp add: zero_backup_def)

lemma idle_pass_writes_witness:
  "\<exists>r w3 b3. backup_Reconcile (small_backup_env []) [] ''db''
      (Map.empty(([], ''db'') \<mapsto> held_backup ''Local'' ''@daily'' (Some True) id), {}) = Some (r, w3) \<and>
    fst w3 ([], ''db'') = Some b3 \<and> bst_Conditions (bkp_Status b3) \<noteq> []"
proof -
  let ?b = "held_backup ''Local'' ''@daily'' (Some True) id"
  have id: "bkp_id ?b = ([], ''db'')" by (simp add: bkp_id_def held_backup_facts)
  have h: "om_DeletionTimestamp (bkp_Meta ?b) = None" "MCPServerBackupFinalizer \<in> set (bkp_Finalizers ?b)"
    by (simp_all add: held_backup_facts)
  have n: "nothing_to_do (small_backup_env []) ?b (Inr zero_server) t" "written_before ?b t" for t
    by (simp_all add: nothing_to_do_def written_before_def held_backup_facts zero_backup_def)
  from idle_pass_writes[OF small_backup_env_stores
      small_backup_env_get[of "[]" "[]" "''db''" ?b "{}"] h small_backup_env_server n(1) n(2) n(2)]
  show ?thesis unfolding id by (simp add: held_backup_facts zero_backup_def)
qed

end
