(* ===== verification/CliText.thy ===== *)
theory CliText
  imports RegistryClient
begin

section \<open>Text of the command line\<close>

text \<open>
  Functions of the standard library that the command line tool applies to what its user wrote, and
  the law by which numbers are read as they are printed.
\<close>

subsection \<open>White space\<close>

text \<open>
  \<open>strings.TrimSpace\<close> on UTF-8: the encodings of the runes that \<open>unicode.IsSpace\<close> accepts. No encoding
  of a rune is a proper part of the end of another, so the end can be compared byte by byte.
\<close>

definition white_runes :: "string list" where
  "white_runes =
     [[CHR 0x09], [CHR 0x0A], [CHR 0x0B], [CHR 0x0C], [CHR 0x0D], [CHR 0x20], [CHR 0xC2, CHR 0x85],
      [CHR 0xC2, CHR 0xA0], [CHR 0xE1, CHR 0x9A, CHR 0x80], [CHR 0xE2, CHR 0x80, CHR 0x80],
      [CHR 0xE2, CHR 0x80, CHR 0x81], [CHR 0xE2, CHR 0x80, CHR 0x82], [CHR 0xE2, CHR 0x80, CHR 0x83],
      [CHR 0xE2, CHR 0x80, CHR 0x84], [CHR 0xE2, CHR 0x80, CHR 0x85], [CHR 0xE2, CHR 0x80, CHR 0x86],
      [CHR 0xE2, CHR 0x80, CHR 0x87], [CHR 0xE2, CHR 0x80, CHR 0x88], [CHR 0xE2, CHR 0x80, CHR 0x89],
      [CHR 0xE2, CHR 0x80, CHR 0x8A], [CHR 0xE2, CHR 0x80, CHR 0xA8], [CHR 0xE2, CHR 0x80, CHR 0xA9],
      [CHR 0xE2, CHR 0x80, CHR 0xAF], [CHR 0xE2, CHR 0x81, CHR 0x9F], [CHR 0xE3, CHR 0x80, CHR 0x80]]"

function drop_runes :: "string list \<Rightarrow> string \<Rightarrow> string" where
  "drop_runes rs s =
     (case find (\<lambda>r. r \<noteq> [] \<and> has_prefix s r) rs of
        None \<Rightarrow> s
      | Some r \<Rightarrow> drop_runes rs (drop (length r) s))"
  by pat_completeness auto
termination
proof (relation "measure (\<lambda>(rs, s). length s)")
  fix rs s r
  assume "find (\<lambda>r. r \<noteq> [] \<and> has_prefix s r) rs = Some r"
  then have "r \<noteq> []" "has_prefix s r" by (auto simp: find_Some_iff)
  then show "((rs, drop (length r) s), (rs, s)) \<in> measure (\<lambda>(rs, s). length s)"
    by (cases s) (auto simp: has_prefix_def)
qed simp

declare drop_runes.simps [simp del]

definition TrimSpace :: "string \<Rightarrow> string" where
  "TrimSpace s = rev (drop_runes (map rev white_runes) (rev (drop_runes white_runes s)))"

text \<open>What is trimmed neither starts nor ends with white space, and plain text is left alone.\<close>

lemma drop_runes_done: "find (\<lambda>r. r \<noteq> [] \<and> has_prefix (drop_runes rs s) r) rs = None"
proof (induction rs s rule: drop_runes.induct)
  case (1 rs s)
  show ?case
  proof (cases "find (\<lambda>r. r \<noteq> [] \<and> has_prefix s r) rs")
    case None
    then show ?thesis by (simp add: drop_runes.simps[of rs s])
  next
    case (Some r)
    then show ?thesis using 1[OF Some] by (simp add: drop_runes.simps[of rs s])
  qed
qed

lemma drop_runes_id: "\<forall>r \<in> set rs. r = [] \<or> \<not> has_prefix s r \<Longrightarrow> drop_runes rs s = s"
  using find_None_iff[of "\<lambda>r. r \<noteq> [] \<and> has_prefix s r" rs] by (auto simp: drop_runes.simps[of rs s])

text \<open>Evaluation stops at a text that is not known.\<close>

lemma drop_runes_code [code]:
  "drop_runes rs [] = []"
  "drop_runes rs (c # cs) =
     (case find (\<lambda>r. r \<noteq> [] \<and> has_prefix (c # cs) r) rs of
        None \<Rightarrow> c # cs
      | Some r \<Rightarrow> drop_runes rs (drop (length r) (c # cs)))"
proof -
  show "drop_runes rs [] = []" by (rule drop_runes_id) (auto simp: has_prefix_def)
qed (rule drop_runes.simps)

definition white_bytes :: "char set" where
  "white_bytes = hd ` set white_runes \<union> last ` set white_runes"

lemma white_runes_ne: "r \<in> set white_runes \<Longrightarrow> r \<noteq> []"
  by (auto simp: white_runes_def)

lemma TrimSpace_id:
  assumes "s = [] \<or> hd s \<notin> white_bytes \<and> last s \<notin> white_bytes"
  shows "TrimSpace s = s"
proof (cases "s = []")
  case True
  then have "drop_runes rs [] = []" for rs by (intro drop_runes_id) (auto simp: has_prefix_def)
  with True show ?thesis by (simp add: TrimSpace_def)
next
  case False
  with assms have h: "hd s \<notin> hd ` set white_runes" "last s \<notin> last ` set white_runes"
    by (auto simp: white_bytes_def)
  have "\<not> has_prefix s r" if r: "r \<in> set white_runes" for r
  proof
    assume "has_prefix s r"
    then have "hd s = hd r" using white_runes_ne[OF r] by (metis has_prefix_def hd_append2 append_take_drop_id)
    with h r show False by auto
  qed
  then have l: "drop_runes white_runes s = s" by (intro drop_runes_id) blast
  have "\<not> has_prefix (rev s) (rev r)" if r: "r \<in> set white_runes" for r
  proof
    assume "has_prefix (rev s) (rev r)"
    then have "hd (rev s) = hd (rev r)"
      using white_runes_ne[OF r] by (metis has_prefix_def hd_append2 append_take_drop_id rev_is_Nil_conv)
    then have "last s = last r" using False white_runes_ne[OF r] by (simp add: hd_rev)
    with h r show False by auto
  qed
  then have "drop_runes (map rev white_runes) (rev s) = rev s" by (intro drop_runes_id) auto
  with l show ?thesis by (simp add: TrimSpace_def)
qed

subsection \<open>Cutting and folding\<close>

text \<open>\<open>strings.SplitN(s, sep, 2)\<close>: one part without the separator, two otherwise.\<close>

fun SplitN2 :: "char \<Rightarrow> string \<Rightarrow> string \<times> string option" where
  "SplitN2 d [] = ([], None)"
| "SplitN2 d (c # cs) = (if c = d then ([], Some cs) else apfst (Cons c) (SplitN2 d cs))"

lemma SplitN2_cut: "d \<notin> set k \<Longrightarrow> SplitN2 d (k @ d # v) = (k, Some v)"
  by (induction k) auto

text \<open>
  \<open>strings.EqualFold\<close> with a constant of lower-case letters: besides the capitals, the Kelvin sign
  (U+212A) folds to \<open>k\<close> and the long s (U+017F) to \<open>s\<close>.
\<close>

fun fold_case :: "string \<Rightarrow> string" where
  "fold_case (a # b # c # s) =
     (if a = CHR 0xE2 \<and> b = CHR 0x84 \<and> c = CHR 0xAA then CHR ''k'' # fold_case s
      else if a = CHR 0xC5 \<and> b = CHR 0xBF then CHR ''s'' # fold_case (c # s)
      else lower_char a # fold_case (b # c # s))"
| "fold_case [a, b] = (if a = CHR 0xC5 \<and> b = CHR 0xBF then ''s'' else [lower_char a, lower_char b])"
| "fold_case [a] = [lower_char a]"
| "fold_case [] = []"

definition EqualFold_const :: "string \<Rightarrow> string \<Rightarrow> bool" where
  "EqualFold_const s lower = (fold_case s = lower)"

subsection \<open>Numbers\<close>

lemma digit_char_byte: "n < 10 \<Longrightarrow> byte_of (digit_char n) = 48 + n"
  by (simp add: digit_char_def byte_of_def)

lemma digit_char_digit: "n < 10 \<Longrightarrow> is_digit (digit_char n)"
  by (simp add: is_digit_def digit_char_byte)

lemma digits_value_append: "digits_value (s @ [c]) = digits_value s * 10 + (int (byte_of c) - 48)"
  by (simp add: digits_value_def)

lemma show_nat_digits: "digits_value (show_nat n) = int n \<and> list_all is_digit (show_nat n) \<and> show_nat n \<noteq> []"
proof (induction n rule: show_nat.induct)
  case (1 n)
  show ?case
  proof (cases "n < 10")
    case True
    then show ?thesis
      by (simp add: show_nat.simps[of n] digits_value_def is_digit_def digit_char_byte)
  next
    case False
    with 1 have IH: "digits_value (show_nat (n div 10)) = int (n div 10)" "list_all is_digit (show_nat (n div 10))"
      by simp_all
    have "int n = int (n div 10) * 10 + int (n mod 10)" by presburger
    with IH False show ?thesis
      by (simp add: show_nat.simps[of n] digits_value_append digit_char_digit digit_char_byte)
  qed
qed

lemma digit_no_sign: "is_digit c \<Longrightarrow> c \<noteq> CHR ''-'' \<and> c \<noteq> CHR ''+'' \<and> c \<noteq> CHR '':''"
  by (auto simp: is_digit_def byte_of_def)

lemma show_nat_no_sign: "hd (show_nat n) \<noteq> CHR ''-'' \<and> hd (show_nat n) \<noteq> CHR ''+''"
proof -
  have "is_digit (hd (show_nat n))" using show_nat_digits[of n] by (cases "show_nat n") auto
  then show ?thesis by (auto dest: digit_no_sign)
qed

text \<open>A number of 32 bits is read as it is printed.\<close>

lemma parse_int32_show_int:
  assumes "- (2 ^ 31) \<le> n" and "n < 2 ^ 31"
  shows "parse_int32 (show_int n) = Some n"
proof -
  have "parse_int64 (show_int n) = Some n"
  proof (cases "n < 0")
    case True
    have "digits_value (show_nat (nat (- n))) = - n" "list_all is_digit (show_nat (nat (- n)))"
      "show_nat (nat (- n)) \<noteq> []"
      using show_nat_digits[of "nat (- n)"] True by simp_all
    then show ?thesis using True assms by (simp add: parse_int64_def show_int_def Let_def)
  next
    case False
    then have "digits_value (show_nat (nat n)) = n" "list_all is_digit (show_nat (nat n))" "show_nat (nat n) \<noteq> []"
      "hd (show_nat (nat n)) \<noteq> CHR ''-''" "hd (show_nat (nat n)) \<noteq> CHR ''+''"
      using show_nat_digits[of "nat n"] show_nat_no_sign[of "nat n"] by simp_all
    then show ?thesis using False assms by (simp add: parse_int64_def show_int_def Let_def)
  qed
  then show ?thesis using assms by (simp add: parse_int32_def)
qed

lemma show_int_colon_free: "CHR '':'' \<notin> set (show_int n)"
proof -
  have "CHR '':'' \<notin> set (show_nat m)" for m
    using show_nat_digits[of m] by (auto simp: list_all_iff dest: digit_no_sign)
  then show ?thesis by (simp add: show_int_def)
qed

subsection \<open>Tables\<close>

text \<open>
  \<open>text/tabwriter\<close> with a padding of three spaces, for rows of equally many cells: every cell but the
  last of its row is filled to the width of its column, counted in runes.
\<close>

definition cell_width :: "string \<Rightarrow> nat" where
  "cell_width s = length (runes s)"

definition padded :: "nat \<Rightarrow> string \<Rightarrow> string" where
  "padded n s = s @ replicate (n - cell_width s) (CHR '' '')"

primrec tab_columns :: "nat \<Rightarrow> string list list \<Rightarrow> string list" where
  "tab_columns 0 rows = map concat rows"
| "tab_columns (Suc n) rows =
     (let width = foldr (\<lambda>r m. max (cell_width (hd r)) m) rows 0 + 3 in
      map2 (\<lambda>r rest. padded width (hd r) @ rest) rows (tab_columns n (map tl rows)))"

definition tab_table :: "string list list \<Rightarrow> string list" where
  "tab_table rows = tab_columns (length (hd rows) - 1) rows"

end
