(* ===== verification/Polling.thy ===== *)
theory Polling
  imports Prelude
begin

section \<open>Loops that poll\<close>

text \<open>
  The loops \<open>for { select { ... } }\<close> of the command line tool: a round either decides the result or
  leaves it undecided, and the next round follows. A loop whose rounds decide nothing for ever is
  \<open>None\<close>. The laws below say when a loop returns and what it returns, once for all of them.
\<close>

partial_function (option) poll :: "('w \<Rightarrow> 'r option \<times> 'w) \<Rightarrow> 'w \<Rightarrow> ('r \<times> 'w) option" where
  "poll step w = (case step w of (Some r, w1) \<Rightarrow> Some (r, w1) | (None, w1) \<Rightarrow> poll step w1)"

text \<open>The state after \<open>n\<close> rounds, if none of them decided.\<close>

primrec undecided_rounds :: "('w \<Rightarrow> 'r option \<times> 'w) \<Rightarrow> nat \<Rightarrow> 'w \<Rightarrow> 'w option" where
  "undecided_rounds step 0 w = Some w"
| "undecided_rounds step (Suc n) w =
     (case step w of (Some _, _) \<Rightarrow> None | (None, w1) \<Rightarrow> undecided_rounds step n w1)"

lemma poll_decided: "step w = (Some r, w1) \<Longrightarrow> poll step w = Some (r, w1)"
  by (simp add: poll.simps)

lemma poll_undecided: "step w = (None, w1) \<Longrightarrow> poll step w = poll step w1"
  by (subst poll.simps) simp

lemma poll_rounds: "undecided_rounds step n w = None \<Longrightarrow> \<exists>r w1. poll step w = Some (r, w1)"
proof (induction n arbitrary: w)
  case (Suc n)
  obtain d w1 where s: "step w = (d, w1)" by fastforce
  with Suc show ?case by (cases d) (simp_all add: poll_decided poll_undecided)
qed simp

text \<open>A result is the decision of a round, which some number of undecided rounds precede.\<close>

lemma poll_result:
  fixes step :: "'w \<Rightarrow> 'r option \<times> 'w"
  assumes "poll step w = Some x"
  shows "\<exists>n v. undecided_rounds step n w = Some v \<and> step v = (Some (fst x), snd x)"
proof (rule poll.raw_induct[where P = "\<lambda>st w x. \<exists>n v. undecided_rounds st n w = Some v \<and>
    st v = (Some (fst x), snd x)", OF _ assms])
  fix p :: "('w \<Rightarrow> 'r option \<times> 'w) \<Rightarrow> 'w \<Rightarrow> ('r \<times> 'w) option" and st w x
  assume IH: "\<And>st w x. p st w = Some x \<Longrightarrow>
      \<exists>n v. undecided_rounds st n w = Some v \<and> st v = (Some (fst x), snd x)"
    and run: "(case st w of (Some r, w1) \<Rightarrow> Some (r, w1) | (None, w1) \<Rightarrow> p st w1) = Some x"
  obtain d w1 where s: "st w = (d, w1)" by fastforce
  show "\<exists>n v. undecided_rounds st n w = Some v \<and> st v = (Some (fst x), snd x)"
  proof (cases d)
    case None
    with run s obtain n v where "undecided_rounds st n w1 = Some v" "st v = (Some (fst x), snd x)"
      using IH[of st w1 x] by auto
    with None s have "undecided_rounds st (Suc n) w = Some v \<and> st v = (Some (fst x), snd x)" by simp
    then show ?thesis by blast
  next
    case (Some r)
    with run s have "undecided_rounds st 0 w = Some w \<and> st w = (Some (fst x), snd x)" by auto
    then show ?thesis by blast
  qed
qed

lemma undecided_Suc:
  "undecided_rounds step n w = Some v \<Longrightarrow> step v = (Some r, w1) \<Longrightarrow> undecided_rounds step (Suc n) w = None"
proof (induction n arbitrary: w)
  case (Suc n)
  obtain d w2 where s: "step w = (d, w2)" by fastforce
  with Suc show ?case by (cases d) simp_all
qed simp

theorem poll_returns_iff: "(\<exists>x. poll step w = Some x) \<longleftrightarrow> (\<exists>n. undecided_rounds step n w = None)"
proof
  assume "\<exists>x. poll step w = Some x"
  then obtain x where "poll step w = Some x" ..
  then obtain n v where u: "undecided_rounds step n w = Some v" "step v = (Some (fst x), snd x)"
    using poll_result[of step w x] by blast
  show "\<exists>n. undecided_rounds step n w = None" using undecided_Suc[OF u] by blast
next
  assume "\<exists>n. undecided_rounds step n w = None"
  then show "\<exists>x. poll step w = Some x" using poll_rounds[of step] by blast
qed

lemma poll_ends: "poll step w = Some (r, w1) \<Longrightarrow> \<exists>v. step v = (Some r, w1)"
  using poll_result[of step w "(r, w1)"] by auto

text \<open>A loop without a decision never returns.\<close>

lemma poll_never:
  assumes "\<And>w. fst (step w) = None"
  shows "poll step w = None"
proof (rule ccontr)
  assume "poll step w \<noteq> None"
  then obtain r w1 where "poll step w = Some (r, w1)" by auto
  then obtain v where "step v = (Some r, w1)" using poll_ends[of step w r w1] by blast
  with assms[of v] show False by simp
qed

end
