(* ===== verification/CliDeploy.thy ===== *)
theory CliDeploy
  imports CliText Webhook Polling
begin

section \<open>The commands deploy and update\<close>

text \<open>
  \<open>cmd/mcp/deploy.go\<close>, \<open>cmd/mcp/update.go\<close> and \<open>cmd/mcp/kubeconfig.go\<close>: what the two commands make of
  their flags, which resource they write and how they wait for it. The text of a dry run is modelled;
  progress messages are not. Parameters are the ways to a cluster configuration (record
  \<open>kube_access\<close>), the API server, the formatted time and \<open>select\<close>, which says whether the deadline or
  the next tick came first. A wait that never ends is \<open>None\<close>.
\<close>

subsection \<open>Reaching the cluster\<close>

record ('c, 'k) kube_access =
  kac_BuildConfig :: "string \<Rightarrow> string + 'c"
  kac_KUBECONFIG :: string
  kac_exists :: "string \<Rightarrow> bool"
  kac_default :: "string + 'c"
  kac_in_cluster :: "string + 'c"
  kac_core_scheme :: go_error
  kac_mcp_scheme :: go_error
  kac_New :: "'c \<Rightarrow> string + 'k"

definition no_configuration :: string where
  "no_configuration = ''no Kubernetes configuration provided. Please provide configuration using one of these methods:'' @
     [CHR 0x0A] @ ''  1. Use --kubeconfig flag: --kubeconfig /path/to/kubeconfig'' @
     [CHR 0x0A] @ ''  2. Set KUBECONFIG environment variable: export KUBECONFIG=/path/to/kubeconfig'' @
     [CHR 0x0A] @ ''  3. Place kubeconfig at default location: ~/.kube/config'' @
     [CHR 0x0A] @ ''  4. Run from within a Kubernetes cluster (using service account)''"

definition getKubernetesConfigWithPriority :: "('c, 'k) kube_access \<Rightarrow> string \<Rightarrow> string + 'c" where
  "getKubernetesConfigWithPriority a kubeconfig =
     (if kubeconfig \<noteq> [] then kac_BuildConfig a kubeconfig
      else if kac_KUBECONFIG a \<noteq> [] \<and> kac_exists a (kac_KUBECONFIG a) then kac_BuildConfig a (kac_KUBECONFIG a)
      else (case kac_default a of
         Inr c \<Rightarrow> Inr c
       | Inl _ \<Rightarrow> (case kac_in_cluster a of Inr c \<Rightarrow> Inr c | Inl _ \<Rightarrow> Inl no_configuration)))"

definition createKubernetesClient :: "('c, 'k) kube_access \<Rightarrow> string \<Rightarrow> string + 'k" where
  "createKubernetesClient a kubeconfig =
     (case getKubernetesConfigWithPriority a kubeconfig of
        Inl e \<Rightarrow> Inl (''failed to load kubeconfig: '' @ e)
      | Inr config \<Rightarrow>
          (case kac_core_scheme a of
             Some e \<Rightarrow> Inl (''failed to add core types to scheme: '' @ e)
           | None \<Rightarrow>
               (case kac_mcp_scheme a of
                  Some e \<Rightarrow> Inl (''failed to add MCP types to scheme: '' @ e)
                | None \<Rightarrow>
                    (case kac_New a config of
                       Inl e \<Rightarrow> Inl (''failed to create Kubernetes client: '' @ e)
                     | Inr k \<Rightarrow> Inr k))))"

subsection \<open>Ports\<close>

definition port_number :: "string \<Rightarrow> string \<Rightarrow> string + int" where
  "port_number what s =
     (case parse_int32 s of None \<Rightarrow> Inl (''invalid '' @ what @ '' number: '' @ s) | Some n \<Rightarrow> Inr n)"

definition port_of :: "string \<Rightarrow> int \<Rightarrow> int \<Rightarrow> port_spec" where
  "port_of name port target = \<lparr>ps_Name = name, ps_Port = port, ps_TargetPort = target,
     ps_Protocol = ''TCP'', ps_AppProtocol = []\<rparr>"

definition two_ports :: "string \<Rightarrow> string \<Rightarrow> string \<Rightarrow> string + port_spec" where
  "two_ports name a b =
     (case port_number ''port'' a of
        Inl e \<Rightarrow> Inl e
      | Inr port \<Rightarrow>
          (case port_number ''target port'' b of
             Inl e \<Rightarrow> Inl e
           | Inr target \<Rightarrow> Inr (port_of name port target)))"

definition with_protocol :: "string \<Rightarrow> string \<Rightarrow> string + port_spec \<Rightarrow> string + port_spec" where
  "with_protocol proto app r =
     (case r of
        Inl e \<Rightarrow> Inl e
      | Inr p \<Rightarrow>
          if proto \<noteq> [] \<and> proto \<noteq> ''TCP'' \<and> proto \<noteq> ''UDP''
          then Inl (''invalid protocol: '' @ proto @ '' (must be TCP or UDP)'')
          else Inr (p\<lparr>ps_Protocol := (if proto \<noteq> [] then proto else ps_Protocol p),
                      ps_AppProtocol := (if app \<noteq> [] then app else ps_AppProtocol p)\<rparr>))"

definition read_ports :: "string list \<Rightarrow> string + port_spec" where
  "read_ports parts =
     (case parts of
        [a] \<Rightarrow> (case port_number ''port'' a of
            Inl e \<Rightarrow> Inl e
          | Inr n \<Rightarrow> Inr (port_of (''port-'' @ show_int n) n n))
      | [a, b] \<Rightarrow> (case port_number ''port'' b of
            Inl e \<Rightarrow> Inl e
          | Inr n \<Rightarrow> (case parse_int32 a of
                Some first \<Rightarrow> Inr (port_of (''port-'' @ show_int first) first n)
              | None \<Rightarrow> Inr (port_of a n n)))
      | [a, b, c] \<Rightarrow> two_ports a b c
      | [a, b, c, d] \<Rightarrow> with_protocol d [] (two_ports a b c)
      | [a, b, c, d, e] \<Rightarrow> with_protocol d e (two_ports a b c)
      | _ \<Rightarrow> Inl ''invalid port format, expected name:port[:targetPort[:protocol[:appProtocol]]]'')"

definition in_port_range :: "int \<Rightarrow> bool" where
  "in_port_range n \<longleftrightarrow> \<not> (n < 1 \<or> n > 65535)"

definition parsePortSpec :: "string \<Rightarrow> string + port_spec" where
  "parsePortSpec s =
     (case read_ports (split_on (CHR '':'') s) of
        Inl e \<Rightarrow> Inl e
      | Inr p \<Rightarrow>
          if \<not> in_port_range (ps_Port p)
          then Inl (''port must be between 1 and 65535, got '' @ show_int (ps_Port p))
          else if \<not> in_port_range (ps_TargetPort p)
          then Inl (''target port must be between 1 and 65535, got '' @ show_int (ps_TargetPort p))
          else Inr p)"

primrec parse_ports :: "string list \<Rightarrow> string + port_spec list" where
  "parse_ports [] = Inr []"
| "parse_ports (s # ss) =
     (case parsePortSpec s of
        Inl e \<Rightarrow> Inl (''invalid --ports entry '' @ [CHR 0x27] @ s @ [CHR 0x27] @ '': '' @ e)
      | Inr p \<Rightarrow> (case parse_ports ss of Inl e \<Rightarrow> Inl e | Inr ps \<Rightarrow> Inr (p # ps)))"

subsection \<open>The resource\<close>

record deploy_flags =
  dfl_Server :: string
  dfl_Registry :: string
  dfl_Namespace :: string
  dfl_Kubeconfig :: string
  dfl_Replicas :: int
  dfl_DryRun :: bool
  dfl_Wait :: bool
  dfl_Autoscale :: bool
  dfl_MinReplicas :: int
  dfl_MaxReplicas :: int
  dfl_TargetCPU :: int
  dfl_Env :: "string list"
  dfl_EnvFromSecrets :: "string list"
  dfl_Runtime :: string
  dfl_Image :: string
  dfl_Transport :: string
  dfl_HttpPath :: string
  dfl_Ports :: "string list"
  dfl_Gateway :: bool
  dfl_GatewayImage :: string
  dfl_GatewayPort :: int
  dfl_GatewayArgs :: "string list"
  dfl_Istio :: bool
  dfl_IstioHost :: string
  dfl_IstioGateway :: string

definition flags_error :: "deploy_flags \<Rightarrow> go_error" where
  "flags_error f = first_err
     [check (dfl_Registry f = []) ''registry name is required, use --registry flag'',
      check (EqualFold_const (dfl_Runtime f) ''docker'' \<and> TrimSpace (dfl_Image f) = [])
        ''--image is required when --runtime=docker'',
      check (dfl_Transport f \<notin> {''stdio'', ''http'', ''streamable-http''})
        (''unsupported transport type: '' @ dfl_Transport f @ ''. Valid options: stdio, http, streamable-http''),
      check (dfl_Gateway f \<and> dfl_GatewayImage f = []) ''--gateway-image is required when --gateway is enabled'',
      check (dfl_Gateway f \<and> dfl_GatewayPort f = 0) ''--gateway-port is required when --gateway is enabled'',
      check (dfl_Istio f \<and> \<not> dfl_Gateway f) ''--istio requires --gateway to be enabled'']"

primrec parse_env :: "string list \<Rightarrow> string gomap \<Rightarrow> string + string gomap" where
  "parse_env [] m = Inr m"
| "parse_env (e # es) m =
     (case SplitN2 (CHR ''='') e of
        (_, None) \<Rightarrow> Inl (''invalid environment variable format '' @ [CHR 0x27] @ e @ [CHR 0x27] @
                         '', expected KEY=VALUE'')
      | (k, Some v) \<Rightarrow> parse_env es (gm_put k v m))"

definition transport_of :: "deploy_flags \<Rightarrow> transport_spec option" where
  "transport_of f =
     (if dfl_Transport f = [] then None
      else Some \<lparr>tr_Type = dfl_Transport f,
        tr_Path = (if dfl_Transport f = ''http'' \<or> dfl_Transport f = ''streamable-http'' then dfl_HttpPath f else [])\<rparr>)"

definition gateway_of :: "deploy_flags \<Rightarrow> gateway_spec option" where
  "gateway_of f =
     (if \<not> dfl_Gateway f then None
      else Some \<lparr>gw_Enabled = True, gw_Image = dfl_GatewayImage f, gw_Port = dfl_GatewayPort f,
        gw_Args = dfl_GatewayArgs f, gw_Env = [],
        gw_Istio = (if dfl_Istio f then Some \<lparr>gi_Enabled = True, gi_Host = dfl_IstioHost f,
          gi_GatewayRef = dfl_IstioGateway f\<rparr> else None)\<rparr>)"

definition autoscaling_of :: "deploy_flags \<Rightarrow> autoscaling_spec option" where
  "autoscaling_of f =
     (if dfl_Autoscale f then Some \<lparr>as_HPA = Some \<lparr>hpa_Enabled = True, hpa_MinReplicas = Some (dfl_MinReplicas f),
        hpa_MaxReplicas = dfl_MaxReplicas f, hpa_TargetCPUUtilizationPercentage = Some (dfl_TargetCPU f),
        hpa_TargetMemoryUtilizationPercentage = None, hpa_Metrics = [], hpa_Behavior = None\<rparr>, as_VPA = None\<rparr>
      else None)"

definition deployed_meta :: "string \<Rightarrow> deploy_flags \<Rightarrow> object_meta" where
  "deployed_meta now f = zero_meta\<lparr>om_Name := dfl_Server f, om_Namespace := dfl_Namespace f,
     om_Labels := Some [(''app.kubernetes.io/name'', ''mcp-server''),
       (''app.kubernetes.io/instance'', dfl_Server f), (''app.kubernetes.io/component'', ''mcp-server''),
       (''app.kubernetes.io/created-by'', ''mcp-cli'')],
     om_Annotations := Some [(''mcp.allbeone.io/deployed-by'', ''mcp-cli''),
       (''mcp.allbeone.io/deployed-at'', now)]\<rparr>"

definition deployed_spec :: "deploy_flags \<Rightarrow> port_spec list \<Rightarrow> string gomap \<Rightarrow> mcp_server_spec" where
  "deployed_spec f ports env = zero_spec\<lparr>
     sp_Registry := Some \<lparr>rr_Name = dfl_Registry f, rr_ServerName = dfl_Server f, rr_Registry = []\<rparr>,
     sp_Runtime := Some (zero_runtime\<lparr>rt_Type := dfl_Runtime f, rt_Image := dfl_Image f, rt_Env := env\<rparr>),
     sp_Transport := transport_of f, sp_Ports := ports, sp_Gateway := gateway_of f,
     sp_EnvFrom := map (\<lambda>n. \<lparr>ef_ConfigMapRef = None, ef_SecretRef = Some \<lparr>oes_Name = n, oes_Optional = False\<rparr>,
       ef_Prefix = []\<rparr>) (dfl_EnvFromSecrets f),
     sp_Autoscaling := autoscaling_of f,
     sp_Replicas := (if dfl_Autoscale f then None else Some (dfl_Replicas f))\<rparr>"

definition deployed_server :: "string \<Rightarrow> deploy_flags \<Rightarrow> string + mcp_server" where
  "deployed_server now f =
     (case flags_error f of
        Some e \<Rightarrow> Inl e
      | None \<Rightarrow>
          (case parse_ports (dfl_Ports f) of
             Inl e \<Rightarrow> Inl e
           | Inr ports \<Rightarrow>
               (case parse_env (dfl_Env f) (Some []) of
                  Inl e \<Rightarrow> Inl e
                | Inr env \<Rightarrow> Inr (zero_server\<lparr>srv_Meta := deployed_meta now f,
                                              srv_Spec := deployed_spec f ports env\<rparr>))))"

subsection \<open>The text of a dry run\<close>

text \<open>The lines in order; a server without a registry or a runtime makes the printing panic.\<close>

definition bool_text :: "bool \<Rightarrow> string" where
  "bool_text b = (if b then ''true'' else ''false'')"

definition line_if :: "bool \<Rightarrow> string \<Rightarrow> string list" where
  "line_if b l = (if b then [l] else [])"

definition yaml_head :: "mcp_server \<Rightarrow> registry_ref \<Rightarrow> runtime_spec \<Rightarrow> string list" where
  "yaml_head s r rt =
     (let label = gm_str (om_Labels (srv_Meta s)); note = gm_str (srv_Annotations s) in
      [''apiVersion: mcp.allbeone.io/v1'', ''kind: MCPServer'', ''metadata:'',
       ''  name: '' @ srv_Name s, ''  namespace: '' @ srv_Namespace s, ''  labels:'',
       ''    app.kubernetes.io/name: '' @ label ''app.kubernetes.io/name'',
       ''    app.kubernetes.io/instance: '' @ label ''app.kubernetes.io/instance'',
       ''    app.kubernetes.io/component: '' @ label ''app.kubernetes.io/component'',
       ''    app.kubernetes.io/created-by: '' @ label ''app.kubernetes.io/created-by'',
       ''  annotations:'',
       ''    mcp.allbeone.io/deployed-by: '' @ note ''mcp.allbeone.io/deployed-by'',
       ''    mcp.allbeone.io/deployed-at: '' @ note ''mcp.allbeone.io/deployed-at'',
       ''spec:'', ''  registry:'', ''    name: '' @ rr_Name r, ''    serverName: '' @ rr_ServerName r,
       ''  runtime:'', ''    type: '' @ rt_Type rt] @
      line_if (rt_Image rt \<noteq> []) (''    image: '' @ rt_Image rt) @
      [''    port: '' @ show_int (rt_Port rt)] @
      (if gm_len (rt_Env rt) > 0
       then ''    env:'' # map (\<lambda>(k, v). ''      '' @ k @ '': '' @ v) (gm_entries (rt_Env rt)) else []))"

definition yaml_env_from :: "env_from_source list \<Rightarrow> string list" where
  "yaml_env_from es =
     (if length es > 0 then ''  envFrom:'' # concat (map (\<lambda>e.
        (case ef_SecretRef e of None \<Rightarrow> [] | Some r \<Rightarrow> [''  - secretRef:'', ''      name: '' @ oes_Name r]) @
        (case ef_ConfigMapRef e of None \<Rightarrow> [] | Some r \<Rightarrow> [''  - configMapRef:'', ''      name: '' @ oes_Name r])) es)
      else [])"

definition yaml_transport :: "transport_spec option \<Rightarrow> string list" where
  "yaml_transport t =
     (case t of None \<Rightarrow> []
      | Some x \<Rightarrow> [''  transport:'', ''    type: '' @ tr_Type x] @
          line_if (tr_Path x \<noteq> []) (''    path: '' @ tr_Path x))"

definition yaml_ports :: "port_spec list \<Rightarrow> string list" where
  "yaml_ports ps =
     (if length ps > 0 then ''  ports:'' # concat (map (\<lambda>p.
        [''  - name: '' @ ps_Name p, ''    port: '' @ show_int (ps_Port p)] @
        line_if (ps_TargetPort p > 0) (''    targetPort: '' @ show_int (ps_TargetPort p)) @
        line_if (ps_Protocol p \<noteq> []) (''    protocol: '' @ ps_Protocol p) @
        line_if (ps_AppProtocol p \<noteq> []) (''    appProtocol: '' @ ps_AppProtocol p)) ps)
      else [])"

definition yaml_gateway :: "gateway_spec option \<Rightarrow> string list" where
  "yaml_gateway g =
     (case g of None \<Rightarrow> []
      | Some x \<Rightarrow> [''  gateway:'', ''    enabled: '' @ bool_text (gw_Enabled x)] @
          line_if (gw_Image x \<noteq> []) (''    image: '' @ gw_Image x) @
          line_if (gw_Port x > 0) (''    port: '' @ show_int (gw_Port x)) @
          (if length (gw_Args x) > 0 then ''    args:'' # map (\<lambda>a. ''    - '' @ a) (gw_Args x) else []) @
          (case gw_Istio x of None \<Rightarrow> []
           | Some i \<Rightarrow> [''    istio:'', ''      enabled: '' @ bool_text (gi_Enabled i)] @
               line_if (gi_Host i \<noteq> []) (''      host: '' @ gi_Host i) @
               line_if (gi_GatewayRef i \<noteq> []) (''      gatewayRef: '' @ gi_GatewayRef i)))"

definition printMCPServerYAML :: "mcp_server \<Rightarrow> string outcome" where
  "printMCPServerYAML s =
     and_then (deref (sp_Registry (srv_Spec s))) (\<lambda>r.
     and_then (deref (sp_Runtime (srv_Spec s))) (\<lambda>rt.
       Returns (join [CHR 0x0A] (yaml_head s r rt @ yaml_env_from (sp_EnvFrom (srv_Spec s)) @
         yaml_transport (sp_Transport (srv_Spec s)) @ yaml_ports (sp_Ports (srv_Spec s)) @
         yaml_gateway (sp_Gateway (srv_Spec s)) @
         (case sp_Replicas (srv_Spec s) of None \<Rightarrow> [] | Some n \<Rightarrow> [''  replicas: '' @ show_int n])) @ [CHR 0x0A])))"

subsection \<open>Waiting\<close>

text \<open>\<open>select\<close> says true when the deadline has passed, false at a tick.\<close>

definition ready_round ::
  "('w \<Rightarrow> bool \<times> 'w) \<Rightarrow> ('w, mcp_server) kube_api \<Rightarrow> string \<Rightarrow> string \<Rightarrow> 'w \<Rightarrow> go_error option \<times> 'w" where
  "ready_round select api namespace name w =
     (let (late, w1) = select w in
      if late then (Some (Some ''timeout waiting for MCPServer to be ready''), w1)
      else (case ka_get api namespace name w1 of
              (Inl _, w2) \<Rightarrow> (None, w2)
            | (Inr s, w2) \<Rightarrow>
                if st_Phase (srv_Status s) = PhaseRunning \<and> st_ReadyReplicas (srv_Status s) > 0
                then (Some None, w2)
                else if st_Phase (srv_Status s) = PhaseFailed
                then (Some (Some (''MCPServer deployment failed: '' @ st_Message (srv_Status s))), w2)
                else (None, w2)))"

definition waitForMCPServerReady ::
  "('w \<Rightarrow> bool \<times> 'w) \<Rightarrow> ('w, mcp_server) kube_api \<Rightarrow> string \<Rightarrow> string \<Rightarrow> 'w \<Rightarrow> (go_error \<times> 'w) option" where
  "waitForMCPServerReady select api namespace name = poll (ready_round select api namespace name)"

text \<open>The status shown for a condition of the server.\<close>

definition shown_condition :: "mcp_server \<Rightarrow> mcp_server_condition_type \<Rightarrow> string" where
  "shown_condition s ty =
     (case find (\<lambda>c. mc_Type c = ty) (st_Conditions (srv_Status s)) of
        None \<Rightarrow> ''Unknown''
      | Some c \<Rightarrow> (case mc_Status c of CTrue \<Rightarrow> ''True'' | CFalse \<Rightarrow> ''False'' | CUnknown \<Rightarrow> ''Unknown''))"

subsection \<open>The commands\<close>

text \<open>The error, the text of a dry run (empty otherwise) and the cluster; a command may panic or hang.\<close>

type_synonym 'w command = "((go_error \<times> string) \<times> 'w) outcome option"

definition command_ended :: "go_error \<Rightarrow> 'w \<Rightarrow> 'w command" where
  "command_ended e w = Some (Returns ((e, []), w))"

definition dry_run :: "mcp_server \<Rightarrow> 'w \<Rightarrow> 'w command" where
  "dry_run s w = Some (and_then (printMCPServerYAML s) (\<lambda>text. Returns ((None, text), w)))"

definition wait_if ::
  "bool \<Rightarrow> ('w \<Rightarrow> bool \<times> 'w) \<Rightarrow> ('w, mcp_server) kube_api \<Rightarrow> string \<Rightarrow> string \<Rightarrow> 'w \<Rightarrow> 'w command" where
  "wait_if wait select api namespace name w =
     (if wait then map_option (\<lambda>(e, w1). Returns ((e, []), w1)) (waitForMCPServerReady select api namespace name w)
      else command_ended None w)"

definition runDeploy ::
  "('c, ('w, mcp_server) kube_api) kube_access \<Rightarrow> ('w \<Rightarrow> bool \<times> 'w) \<Rightarrow> string \<Rightarrow> deploy_flags \<Rightarrow> 'w \<Rightarrow> 'w command" where
  "runDeploy a select now f w =
     (case deployed_server now f of
        Inl e \<Rightarrow> command_ended (Some e) w
      | Inr s \<Rightarrow>
          if dfl_DryRun f then dry_run s w
          else (case createKubernetesClient a (dfl_Kubeconfig f) of
             Inl e \<Rightarrow> command_ended (Some (''failed to create Kubernetes client: '' @ e)) w
           | Inr api \<Rightarrow>
               (case ka_create api s w of
                  (Inl e, w1) \<Rightarrow>
                    command_ended (Some (''create MCPServer '' @ srv_Namespace s @ ''/'' @ srv_Name s @ '': '' @ api_msg e)) w1
                | (Inr _, w1) \<Rightarrow> wait_if (dfl_Wait f) select api (dfl_Namespace f) (dfl_Server f) w1)))"

record update_flags =
  ufl_Server :: string
  ufl_Namespace :: string
  ufl_Kubeconfig :: string
  ufl_Image :: string
  ufl_Replicas :: int
  ufl_Wait :: bool
  ufl_DryRun :: bool

definition update_flags_error :: "update_flags \<Rightarrow> go_error" where
  "update_flags_error f = first_err
     [check (ufl_Image f = [] \<and> ufl_Replicas f = 0)
        ''at least one update parameter must be specified (--image or --replicas)'',
      check (ufl_DryRun f \<and> ufl_Wait f)
        ''--dry-run and --wait flags are incompatible: cannot wait for changes that are not applied'']"

definition updated_server :: "string \<Rightarrow> update_flags \<Rightarrow> mcp_server \<Rightarrow> mcp_server outcome" where
  "updated_server now f s =
     and_then (if ufl_Image f = [] then Returns (srv_Spec s)
               else and_then (deref (sp_Runtime (srv_Spec s))) (\<lambda>rt.
                 Returns ((srv_Spec s)\<lparr>sp_Runtime := Some (rt\<lparr>rt_Image := ufl_Image f\<rparr>)\<rparr>))) (\<lambda>sp.
     Returns (s\<lparr>srv_Spec := (if ufl_Replicas f > 0 then sp\<lparr>sp_Replicas := Some (ufl_Replicas f)\<rparr> else sp),
       srv_Meta := (srv_Meta s)\<lparr>om_Annotations := gm_put ''mcp.allbeone.io/updated-at'' now
         (gm_put ''mcp.allbeone.io/updated-by'' ''mcp-cli'' (srv_Annotations s))\<rparr>\<rparr>))"

definition apply_update ::
  "('w \<Rightarrow> bool \<times> 'w) \<Rightarrow> ('w, mcp_server) kube_api \<Rightarrow> update_flags \<Rightarrow> mcp_server \<Rightarrow> 'w \<Rightarrow> 'w command" where
  "apply_update select api f s w =
     (if ufl_DryRun f then dry_run s w
      else (case ka_update api s w of
         (Inl e, w1) \<Rightarrow> command_ended (Some (''failed to update MCPServer: '' @ api_msg e)) w1
       | (Inr _, w1) \<Rightarrow> wait_if (ufl_Wait f) select api (ufl_Namespace f) (ufl_Server f) w1))"

definition runUpdate ::
  "('c, ('w, mcp_server) kube_api) kube_access \<Rightarrow> ('w \<Rightarrow> bool \<times> 'w) \<Rightarrow> string \<Rightarrow> update_flags \<Rightarrow> 'w \<Rightarrow> 'w command" where
  "runUpdate a select now f w =
     (case update_flags_error f of
        Some e \<Rightarrow> command_ended (Some e) w
      | None \<Rightarrow>
          (case createKubernetesClient a (ufl_Kubeconfig f) of
             Inl e \<Rightarrow> command_ended (Some (''failed to create Kubernetes client: '' @ e)) w
           | Inr api \<Rightarrow>
               (case ka_get api (ufl_Namespace f) (ufl_Server f) w of
                  (Inl e, w1) \<Rightarrow> command_ended (Some (''failed to get MCPServer '' @ [CHR 0x27] @ ufl_Server f @ [CHR 0x27] @
                    '' in namespace '' @ [CHR 0x27] @ ufl_Namespace f @ [CHR 0x27] @ '': '' @ api_msg e)) w1
                | (Inr s, w1) \<Rightarrow>
                    (case updated_server now f s of
                       Panic \<Rightarrow> Some Panic
                     | Returns s1 \<Rightarrow> apply_update select api f s1 w1))))"

section \<open>Correctness\<close>

subsection \<open>Ports\<close>

definition port_ok :: "port_spec \<Rightarrow> bool" where
  "port_ok p \<longleftrightarrow> 1 \<le> ps_Port p \<and> ps_Port p \<le> 65535 \<and> 1 \<le> ps_TargetPort p \<and> ps_TargetPort p \<le> 65535 \<and>
     ps_Protocol p \<in> {''TCP'', ''UDP''} \<and>
     CHR '':'' \<notin> set (ps_Name p) \<and> CHR '':'' \<notin> set (ps_AppProtocol p)"

text \<open>The long form of a port.\<close>

definition port_text :: "port_spec \<Rightarrow> string" where
  "port_text p = join '':'' [ps_Name p, show_int (ps_Port p), show_int (ps_TargetPort p), ps_Protocol p, ps_AppProtocol p]"

definition port_parts_ok :: "port_spec \<Rightarrow> bool" where
  "port_parts_ok p \<longleftrightarrow> ps_Protocol p \<in> {''TCP'', ''UDP''} \<and>
     CHR '':'' \<notin> set (ps_Name p) \<and> CHR '':'' \<notin> set (ps_AppProtocol p)"

lemma two_ports_ok:
  "two_ports name a b = Inr p \<Longrightarrow> CHR '':'' \<notin> set name \<Longrightarrow> port_parts_ok p"
  by (auto simp: two_ports_def port_parts_ok_def port_of_def split: sum.splits)

lemma with_protocol_ok:
  assumes "with_protocol proto app r = Inr p" and "\<And>p. r = Inr p \<Longrightarrow> port_parts_ok p" and "CHR '':'' \<notin> set app"
  shows "port_parts_ok p"
proof -
  obtain p0 where r: "r = Inr p0" using assms(1) by (cases r) (simp_all add: with_protocol_def)
  with assms(2) have "port_parts_ok p0" by simp
  then show ?thesis using assms(1,3) r
    by (auto simp: with_protocol_def port_parts_ok_def split: if_splits)
qed

lemma read_ports_ok:
  assumes "read_ports parts = Inr p" and "\<forall>x \<in> set parts. CHR '':'' \<notin> set x"
  shows "port_parts_ok p"
proof -
  have single: "port_parts_ok (port_of (''port-'' @ show_int n) a b)" for n a b
    using show_int_colon_free[of n] by (simp add: port_parts_ok_def port_of_def)
  have named: "CHR '':'' \<notin> set x \<Longrightarrow> port_parts_ok (port_of x a b)" for x a b
    by (simp add: port_parts_ok_def port_of_def)
  consider (A) a where "parts = [a]" | (B) a b where "parts = [a, b]" | (C) a b c where "parts = [a, b, c]"
    | (D) a b c d where "parts = [a, b, c, d]" | (E) a b c d e where "parts = [a, b, c, d, e]"
    using assms(1) by (auto simp: read_ports_def split: list.splits)
  then show ?thesis
  proof cases
    case A
    with assms(1) single show ?thesis by (auto simp: read_ports_def split: sum.splits)
  next
    case B
    with assms single named show ?thesis by (auto simp: read_ports_def split: sum.splits option.splits)
  next
    case C
    with assms two_ports_ok show ?thesis by (auto simp: read_ports_def)
  next
    case D
    show ?thesis
      by (rule with_protocol_ok[of d "[]" "two_ports a b c"])
         (use D assms two_ports_ok in \<open>auto simp: read_ports_def\<close>)
  next
    case E
    show ?thesis
      by (rule with_protocol_ok[of d e "two_ports a b c"])
         (use E assms two_ports_ok in \<open>auto simp: read_ports_def\<close>)
  qed
qed

lemma parsed_port_ok: "parsePortSpec s = Inr p \<Longrightarrow> port_ok p"
proof -
  assume p: "parsePortSpec s = Inr p"
  then have r: "read_ports (split_on (CHR '':'') s) = Inr p" and
    n: "in_port_range (ps_Port p)" "in_port_range (ps_TargetPort p)"
    by (auto simp: parsePortSpec_def split: sum.splits if_splits)
  have "port_parts_ok p" by (rule read_ports_ok[OF r]) (auto dest: split_parts)
  with n show ?thesis by (auto simp: port_parts_ok_def port_ok_def in_port_range_def)
qed

lemma port_text_parses:
  assumes "port_ok p"
  shows "parsePortSpec (port_text p) = Inr p"
proof -
  have free: "CHR '':'' \<notin> set (ps_Protocol p)" using assms by (auto simp: port_ok_def)
  have "split_on (CHR '':'') (port_text p) =
      [ps_Name p, show_int (ps_Port p), show_int (ps_TargetPort p), ps_Protocol p, ps_AppProtocol p]"
    unfolding port_text_def using assms free show_int_colon_free
    by (intro split_join) (auto simp: port_ok_def)
  moreover have "parse_int32 (show_int (ps_Port p)) = Some (ps_Port p)"
    "parse_int32 (show_int (ps_TargetPort p)) = Some (ps_TargetPort p)"
    using assms by (intro parse_int32_show_int; simp add: port_ok_def)+
  moreover have "in_port_range (ps_Port p)" "in_port_range (ps_TargetPort p)"
    using assms by (simp_all add: port_ok_def in_port_range_def)
  ultimately show ?thesis
    using assms by (auto simp: parsePortSpec_def read_ports_def two_ports_def port_number_def with_protocol_def
        port_of_def port_ok_def)
qed

text \<open>C19 Whatever short form a port is written in, what it is read as has both numbers between 1 and 65535
  and a known protocol, and its long form is read back as the same port.\<close>

theorem port_canonical:
  assumes "parsePortSpec s = Inr p"
  shows "port_ok p \<and> parsePortSpec (port_text p) = Inr p"
  using parsed_port_ok[OF assms] port_text_parses by blast

lemma port_canonical_witness:
  "port_ok (port_of ''http'' 8080 8081) \<and> parsePortSpec (port_text (port_of ''http'' 8080 8081)) = Inr (port_of ''http'' 8080 8081)"
proof -
  have "parsePortSpec ''http:8080:8081'' = Inr (port_of ''http'' 8080 8081)" by code_simp
  then show ?thesis by (rule port_canonical)
qed

subsection \<open>What is deployed and what is admitted\<close>

text \<open>C18 The resource that \<open>mcp deploy\<close> writes passes both webhooks exactly if its names are short enough,
  its image, for the runtime docker, comes from a trusted registry and is not \<open>:latest\<close>, and its
  replicas, unless it is scaled automatically, are at most ten. The example image of the help text,
  \<open>mcp/postgres\<close>, does not.\<close>

theorem deployed_server_admitted_iff:
  assumes "q_parse q ''500m'' = Inr c" and "q_cmp q c (maxCPU q) \<le> 0"
    and "q_parse q ''512Mi'' = Inr m" and "q_cmp q m (maxMemory q) \<le> 0"
    and "deployed_server now f = Inr s"
  shows "wh_validateMCPServer q (setDefaults s) = [] \<longleftrightarrow>
    length (dfl_Server f) \<le> 253 \<and> length (dfl_Registry f) \<le> 253 \<and>
    (dfl_Runtime f \<noteq> ''docker'' \<or> trusted_image (dfl_Image f)) \<and>
    (dfl_Autoscale f \<or> 0 \<le> dfl_Replicas f \<and> dfl_Replicas f \<le> 10)"
proof -
  have ok: "flags_error f = None" using assms(5) by (auto simp: deployed_server_def split: option.splits)
  obtain ports env where s: "srv_Spec s = deployed_spec f ports env" "srv_Meta s = deployed_meta now f"
    using assms(5) by (auto simp: deployed_server_def zero_server_def split: option.splits sum.splits)
  have reg: "dfl_Registry f \<noteq> []" and img: "dfl_Runtime f = ''docker'' \<Longrightarrow> dfl_Image f \<noteq> []"
  proof -
    show "dfl_Registry f \<noteq> []" using ok by (auto simp: flags_error_def check_def)
    have fc: "fold_case ''docker'' = ''docker''" by code_simp
    have "TrimSpace [] = []" by (rule TrimSpace_id) simp
    with ok fc show "dfl_Runtime f = ''docker'' \<Longrightarrow> dfl_Image f \<noteq> []"
      by (auto simp: flags_error_def check_def EqualFold_const_def split: if_splits)
  qed
  have names: "ref_server (srv_Name s) (default_registry (srv_Name s) (sp_Registry (srv_Spec s))) = dfl_Server f"
    "rr_Name (default_registry (srv_Name s) (sp_Registry (srv_Spec s))) = dfl_Registry f"
    using reg by (simp_all add: s deployed_spec_def deployed_meta_def default_registry_def ref_server_def Let_def)
  have rt: "\<exists>rt. sp_Runtime (srv_Spec s) = Some rt \<and> rt_Type rt = dfl_Runtime f \<and> rt_Image rt = dfl_Image f"
    by (simp add: s deployed_spec_def)
  have limits: "spec_limits q (rq_Limits (sp_Resources (srv_Spec s)))"
    by (simp add: s deployed_spec_def zero_spec_def spec_limits_def within_def)
  have sec: "spec_security s \<longleftrightarrow> dfl_Autoscale f \<or> 0 \<le> dfl_Replicas f \<and> dfl_Replicas f \<le> 10"
    by (simp add: s spec_security_def deployed_spec_def zero_spec_def)
  show ?thesis
    unfolding defaulted_server_admitted_iff[OF assms(1-4), of s] names sec using rt limits img by auto
qed

definition sample_flags :: deploy_flags where
  "sample_flags = \<lparr>dfl_Server = ''db'', dfl_Registry = ''team'', dfl_Namespace = ''ns'', dfl_Kubeconfig = [],
     dfl_Replicas = 2, dfl_DryRun = False, dfl_Wait = True, dfl_Autoscale = False, dfl_MinReplicas = 1,
     dfl_MaxReplicas = 10, dfl_TargetCPU = 80, dfl_Env = [''A=1=2''], dfl_EnvFromSecrets = [''s''],
     dfl_Runtime = ''docker'', dfl_Image = ''docker.io/mcp/db:1'', dfl_Transport = ''http'', dfl_HttpPath = ''/mcp'',
     dfl_Ports = [''http:8080''], dfl_Gateway = False, dfl_GatewayImage = [], dfl_GatewayPort = 0,
     dfl_GatewayArgs = [], dfl_Istio = False, dfl_IstioHost = [], dfl_IstioGateway = []\<rparr>"

lemma sample_deploys: "\<exists>s. deployed_server ''now'' sample_flags = Inr s"
proof -
  have "flags_error sample_flags = None" by code_simp
  moreover have "parse_ports (dfl_Ports sample_flags) = Inr [port_of ''http'' 8080 8080]" by code_simp
  moreover have "parse_env (dfl_Env sample_flags) (Some []) = Inr (Some [(''A'', ''1=2'')])" by code_simp
  ultimately show ?thesis by (simp add: deployed_server_def)
qed

lemma deployed_server_admitted_iff_witness:
  "\<exists>s. deployed_server ''now'' sample_flags = Inr s \<and> wh_validateMCPServer milli_ops (setDefaults s) = []"
proof -
  have q: "q_parse milli_ops ''500m'' = Inr (500000000, ''m'')"
    "q_cmp milli_ops (500000000, ''m'') (maxCPU milli_ops) \<le> 0"
    "q_parse milli_ops ''512Mi'' = Inr (536870912000000000, ''Mi'')"
    "q_cmp milli_ops (536870912000000000, ''Mi'') (maxMemory milli_ops) \<le> 0"
    by (simp_all add: milli_ops_def maxCPU_def maxMemory_def must_parse_def)
  obtain s where s: "deployed_server ''now'' sample_flags = Inr s" using sample_deploys ..
  have "trusted_image (dfl_Image sample_flags)" unfolding list_ex_trusted[symmetric] by code_simp
  then have "wh_validateMCPServer milli_ops (setDefaults s) = []"
    unfolding deployed_server_admitted_iff[OF q s] by (simp add: sample_flags_def)
  with s show ?thesis by blast
qed

text \<open>The image of the example in the help text of \<open>mcp deploy\<close> is not from a trusted registry.\<close>

lemma help_example_image_refused: "\<not> trusted_image ''mcp/postgres''"
  unfolding list_ex_trusted[symmetric] by code_simp

subsection \<open>Waiting\<close>

text \<open>A wait that ends without an error has seen the server running with a ready replica in its last
  answer from the cluster.\<close>

lemma wait_reports_ready:
  assumes "waitForMCPServerReady select api namespace name w = Some (None, w1)"
  shows "\<exists>w0 s. ka_get api namespace name w0 = (Inr s, w1) \<and>
    st_Phase (srv_Status s) = PhaseRunning \<and> st_ReadyReplicas (srv_Status s) > 0"
proof -
  obtain v where v: "ready_round select api namespace name v = (Some None, w1)"
    using poll_ends[OF assms[unfolded waitForMCPServerReady_def]] by blast
  obtain late v1 where s: "select v = (late, v1)" by fastforce
  obtain g v2 where g: "ka_get api namespace name v1 = (g, v2)" by fastforce
  obtain x where x: "g = Inr x" "v2 = w1" "st_Phase (srv_Status x) = PhaseRunning" "st_ReadyReplicas (srv_Status x) > 0"
    using v by (cases g) (simp_all add: ready_round_def s g split: if_splits)
  with g show ?thesis by blast
qed


subsection \<open>The text of a dry run\<close>

text \<open>The text a dry run prints says nothing of autoscaling: two sets of flags that differ only in how the
  server is scaled, and leave the replicas to it, print the same.\<close>

lemma dry_run_hides_autoscaling:
  "printMCPServerYAML (s\<lparr>srv_Spec := (srv_Spec s)\<lparr>sp_Autoscaling := x\<rparr>\<rparr>) = printMCPServerYAML s"
  by (simp add: printMCPServerYAML_def yaml_head_def)

text \<open>A deployed server always has the registry and the runtime the printing relies on.\<close>

lemma dry_run_prints:
  assumes "deployed_server now f = Inr s"
  shows "\<exists>text. printMCPServerYAML s = Returns text"
proof -
  obtain ports env where "srv_Spec s = deployed_spec f ports env"
    using assms by (auto simp: deployed_server_def zero_server_def split: option.splits sum.splits)
  then show ?thesis by (simp add: printMCPServerYAML_def deployed_spec_def)
qed

text \<open>A server without a runtime, which a resource may be, cannot have its image updated: the command
  panics.\<close>

lemma update_image_panics_iff:
  "updated_server now f s = Panic \<longleftrightarrow> ufl_Image f \<noteq> [] \<and> sp_Runtime (srv_Spec s) = None"
  by (cases "sp_Runtime (srv_Spec s)") (auto simp: updated_server_def)

text \<open>An update changes the image, the replicas and two annotations, and nothing else of the server.\<close>

lemma update_changes:
  assumes "updated_server now f s = Returns s1"
  shows "srv_Status s1 = srv_Status s" and "srv_Name s1 = srv_Name s" and "srv_Namespace s1 = srv_Namespace s"
    and "sp_Replicas (srv_Spec s1) = (if ufl_Replicas f > 0 then Some (ufl_Replicas f) else sp_Replicas (srv_Spec s))"
    and "map_option rt_Image (sp_Runtime (srv_Spec s1)) =
      (if ufl_Image f = [] then map_option rt_Image (sp_Runtime (srv_Spec s)) else Some (ufl_Image f))"
  using assms by (cases "sp_Runtime (srv_Spec s)";
      auto simp: updated_server_def split: if_splits)+

end
