(* ===== verification/CliSecrets.thy ===== *)
theory CliSecrets
  imports CliDeploy RegistryService
begin

section \<open>The command secrets sync\<close>

text \<open>
  \<open>cmd/mcp/secrets_sync.go\<close>: environment files are read line by line and the bindings found replace
  the data of a secret. Parameters are the files (what opening one gives: its content and the error
  that ends the reading), the ways to a configuration and the secrets of the cluster. The warnings
  that are printed are modelled, as they carry text of the files.
\<close>

subsection \<open>Files\<close>

type_synonym opened = "string + string \<times> go_error"

definition drop_CR :: "string \<Rightarrow> string" where
  "drop_CR s = (if s \<noteq> [] \<and> last s = CHR 0x0D then butlast s else s)"

text \<open>\<open>bufio.Scanner\<close>: lines without their ends; a line that does not fit the buffer with its end stops it.\<close>

definition content_lines :: "string \<Rightarrow> string list" where
  "content_lines content =
     (let ps = split_on (CHR 0x0A) content in if last ps = [] then butlast ps else ps)"

definition max_token :: int where
  "max_token = 64 * 1024"

definition scanned :: "string \<times> go_error \<Rightarrow> string list \<times> go_error" where
  "scanned body =
     (let ls = content_lines (fst body); fitting = takeWhile (\<lambda>l. int (length l) < max_token) ls in
      (map drop_CR fitting,
       if length fitting < length ls then Some ''bufio.Scanner: token too long'' else snd body))"

datatype env_line = Ignored | Invalid string | Binding string string

definition env_line_of :: "string \<Rightarrow> env_line" where
  "env_line_of text =
     (let line = TrimSpace text in
      if line = [] \<or> has_prefix line ''#'' then Ignored
      else (case SplitN2 (CHR ''='') line of
              (_, None) \<Rightarrow> Invalid line
            | (k, Some v) \<Rightarrow> Binding (TrimSpace k) (TrimSpace v)))"

definition skipping :: "nat \<Rightarrow> string \<Rightarrow> string \<Rightarrow> string" where
  "skipping n path line =
     ''Warning: skipping invalid line '' @ show_int (int n) @ '' in '' @ path @ '': '' @ line"

definition env_step :: "string \<Rightarrow> string \<Rightarrow> nat \<Rightarrow> string \<Rightarrow> string list \<times> string gomap \<Rightarrow> string list \<times> string gomap" where
  "env_step pre path n l r =
     (case env_line_of l of
        Ignored \<Rightarrow> r
      | Invalid line \<Rightarrow> (fst r @ [skipping n path line], snd r)
      | Binding k v \<Rightarrow>
          if pre \<noteq> [] \<and> \<not> has_prefix k pre then r else (fst r, gm_put k v (snd r)))"

text \<open>The lines from number \<open>n\<close> on; warnings and bindings are added to what there is.\<close>

primrec env_lines ::
  "string \<Rightarrow> string \<Rightarrow> nat \<Rightarrow> string list \<Rightarrow> string list \<times> string gomap \<Rightarrow> string list \<times> string gomap" where
  "env_lines pre path n [] r = r"
| "env_lines pre path n (l # ls) r = env_lines pre path (Suc n) ls (env_step pre path n l r)"

primrec env_files ::
  "(string \<Rightarrow> opened) \<Rightarrow> string \<Rightarrow> string list \<Rightarrow> string list \<times> string gomap \<Rightarrow>
   string list \<times> (string + string gomap)" where
  "env_files opens pre [] r = (fst r, Inr (snd r))"
| "env_files opens pre (f # fs) r =
     (case opens f of
        Inl e \<Rightarrow> (fst r, Inl (''failed to open file '' @ f @ '': '' @ e))
      | Inr body \<Rightarrow>
          (let (ls, e) = scanned body; r1 = env_lines pre f 1 ls r in
           case e of
             Some m \<Rightarrow> (fst r1, Inl (''failed to read file '' @ f @ '': '' @ m))
           | None \<Rightarrow> env_files opens pre fs r1))"

definition parseEnvFiles ::
  "(string \<Rightarrow> opened) \<Rightarrow> string list \<Rightarrow> string \<Rightarrow> string list \<times> (string + string gomap)" where
  "parseEnvFiles opens files pre = env_files opens pre files ([], Some [])"

subsection \<open>The secret\<close>

record typed_secret = secret_object +
  tse_Namespace :: string
  tse_Type :: string

definition createSecretsKubernetesClient :: "('c, 'k) kube_access \<Rightarrow> string \<Rightarrow> string \<Rightarrow> string + 'k" where
  "createSecretsKubernetesClient a home kubeconfig =
     (case (if kubeconfig \<noteq> [] then kac_BuildConfig a kubeconfig
            else (case kac_in_cluster a of Inr c \<Rightarrow> Inr c | Inl _ \<Rightarrow> kac_BuildConfig a home)) of
        Inl e \<Rightarrow> Inl e
      | Inr config \<Rightarrow> kac_New a config)"

definition new_secret :: "string \<Rightarrow> string \<Rightarrow> string gomap \<Rightarrow> typed_secret" where
  "new_secret namespace name data = \<lparr>sec_Name = name, sec_Data = data, tse_Namespace = namespace, tse_Type = ''Opaque''\<rparr>"

definition createOrUpdateSecret ::
  "('w, typed_secret) kube_api \<Rightarrow> string \<Rightarrow> string \<Rightarrow> string gomap \<Rightarrow> 'w \<Rightarrow> go_error \<times> 'w" where
  "createOrUpdateSecret api namespace name data w =
     (case ka_get api namespace name w of
        (Inl e, w1) \<Rightarrow>
          if is_not_found e
          then (case ka_create api (new_secret namespace name data) w1 of
                  (Inl e, w2) \<Rightarrow> (Some (''failed to create secret: '' @ api_msg e), w2)
                | (Inr _, w2) \<Rightarrow> (None, w2))
          else (Some (''failed to get secret: '' @ api_msg e), w1)
      | (Inr s, w1) \<Rightarrow>
          (case ka_update api (s\<lparr>sec_Data := data\<rparr>) w1 of
             (Inl e, w2) \<Rightarrow> (Some (''failed to update secret: '' @ api_msg e), w2)
           | (Inr _, w2) \<Rightarrow> (None, w2)))"

record secrets_flags =
  sfl_Namespace :: string
  sfl_Name :: string
  sfl_Files :: "string list"
  sfl_Prefix :: string
  sfl_Kubeconfig :: string

text \<open>What a run leaves: the warnings printed, the error, the cluster.\<close>

definition runSecretsSync ::
  "('c, ('w, typed_secret) kube_api) kube_access \<Rightarrow> string \<Rightarrow> (string \<Rightarrow> opened) \<Rightarrow> secrets_flags \<Rightarrow> 'w \<Rightarrow>
   string list \<times> go_error \<times> 'w" where
  "runSecretsSync a home opens f w =
     (let (warnings, r) = parseEnvFiles opens (sfl_Files f) (sfl_Prefix f) in
      (warnings,
       case r of
         Inl e \<Rightarrow> (Some (''failed to parse environment files: '' @ e), w)
       | Inr data \<Rightarrow>
           if gm_len data = 0 then (None, w)
           else (case createSecretsKubernetesClient a home (sfl_Kubeconfig f) of
                   Inl e \<Rightarrow> (Some (''failed to create Kubernetes client: '' @ e), w)
                 | Inr api \<Rightarrow> apfst (wrap_err ''failed to create/update secret: '')
                     (createOrUpdateSecret api (sfl_Namespace f) (sfl_Name f) data w))))"

definition secretsSync ::
  "('c, ('w, typed_secret) kube_api) kube_access \<Rightarrow> string \<Rightarrow> (string \<Rightarrow> opened) \<Rightarrow> secrets_flags \<Rightarrow> 'w \<Rightarrow>
   string list \<times> go_error \<times> 'w" where
  "secretsSync a home opens f w =
     (if sfl_Name f = [] then ([], Some ''--name flag is required'', w)
      else if sfl_Files f = [] then ([], Some ''at least one --from-file flag is required'', w)
      else runSecretsSync a home opens f w)"

section \<open>Correctness\<close>

subsection \<open>Bindings are read as they are written\<close>

definition untrimmed :: "string \<Rightarrow> bool" where
  "untrimmed s \<longleftrightarrow> s \<noteq> [] \<longrightarrow> hd s \<notin> white_bytes \<and> last s \<notin> white_bytes"

text \<open>A key and a value that a line can hold.\<close>

definition plain_binding :: "string \<times> string \<Rightarrow> bool" where
  "plain_binding b \<longleftrightarrow> (case b of (k, v) \<Rightarrow>
     k \<noteq> [] \<and> untrimmed k \<and> untrimmed v \<and> hd k \<noteq> CHR ''#'' \<and> CHR ''='' \<notin> set k \<and>
     CHR 0x0A \<notin> set k \<and> CHR 0x0A \<notin> set v \<and> int (length k) + int (length v) + 1 < max_token)"

definition binding_text :: "string \<times> string \<Rightarrow> string" where
  "binding_text b = fst b @ ''='' @ snd b"

definition env_text :: "(string \<times> string) list \<Rightarrow> string" where
  "env_text bs = concat (map (\<lambda>b. binding_text b @ [CHR 0x0A]) bs)"

lemma equals_not_white: "CHR ''='' \<notin> white_bytes"
  by code_simp

lemma CR_white: "CHR 0x0D \<in> white_bytes"
  by code_simp

lemma TrimSpace_untrimmed: "untrimmed s \<Longrightarrow> TrimSpace s = s"
  by (intro TrimSpace_id) (auto simp: untrimmed_def)

lemma binding_text_ends:
  assumes "plain_binding b"
  shows "binding_text b \<noteq> []" and "untrimmed (binding_text b)" and "CHR 0x0A \<notin> set (binding_text b)"
    and "int (length (binding_text b)) < max_token" and "drop_CR (binding_text b) = binding_text b"
proof -
  obtain k v where b: "b = (k, v)" by fastforce
  have p: "k \<noteq> []" "untrimmed k" "untrimmed v" "CHR 0x0A \<notin> set k" "CHR 0x0A \<notin> set v"
    "int (length k) + int (length v) + 1 < max_token"
    using assms by (auto simp: b plain_binding_def)
  show n: "binding_text b \<noteq> []" by (simp add: b binding_text_def)
  show u: "untrimmed (binding_text b)"
    using p equals_not_white by (auto simp: b binding_text_def untrimmed_def)
  show "CHR 0x0A \<notin> set (binding_text b)" using p by (auto simp: b binding_text_def)
  show "int (length (binding_text b)) < max_token" using p by (simp add: b binding_text_def)
  have "last (binding_text b) \<noteq> CHR 0x0D" using u n CR_white by (auto simp: untrimmed_def)
  then show "drop_CR (binding_text b) = binding_text b" by (simp add: drop_CR_def)
qed

lemma env_line_of_binding:
  assumes "plain_binding (k, v)"
  shows "env_line_of (binding_text (k, v)) = Binding k v"
proof -
  have p: "k \<noteq> []" "untrimmed k" "untrimmed v" "hd k \<noteq> CHR ''#''" "CHR ''='' \<notin> set k"
    using assms by (auto simp: plain_binding_def)
  have "TrimSpace (binding_text (k, v)) = binding_text (k, v)"
    by (rule TrimSpace_untrimmed[OF binding_text_ends(2)[OF assms]])
  moreover have "\<not> has_prefix (binding_text (k, v)) ''#''"
    using p(1,4) by (cases k) (simp_all add: binding_text_def has_prefix_def)
  ultimately show ?thesis
    using p binding_text_ends(1)[OF assms] SplitN2_cut[OF p(5), of v] TrimSpace_untrimmed
    by (simp add: env_line_of_def binding_text_def)
qed

lemma content_lines_text:
  "\<forall>l \<in> set ls. CHR 0x0A \<notin> set l \<Longrightarrow> content_lines (concat (map (\<lambda>l. l @ [CHR 0x0A]) ls)) = ls"
proof -
  assume free: "\<forall>l \<in> set ls. CHR 0x0A \<notin> set l"
  then have "split_on (CHR 0x0A) (concat (map (\<lambda>l. l @ [CHR 0x0A]) ls)) = ls @ [[]]"
    by (induction ls) (simp_all add: split_concat split_free)
  then show ?thesis by (simp add: content_lines_def)
qed

lemma scanned_text:
  assumes "\<forall>b \<in> set bs. plain_binding b"
  shows "scanned (env_text bs, None) = (map binding_text bs, None)"
proof -
  have lines: "content_lines (env_text bs) = map binding_text bs"
    using content_lines_text[of "map binding_text bs"] assms binding_text_ends(3)
    by (simp add: env_text_def comp_def)
  have tw: "takeWhile (\<lambda>l. int (length l) < max_token) (map binding_text bs) = map binding_text bs"
    using assms binding_text_ends(4) by (simp add: takeWhile_eq_all_conv)
  have "map drop_CR (map binding_text bs) = map binding_text bs"
    using assms binding_text_ends(5) by (simp add: map_idI)
  then show ?thesis unfolding scanned_def Let_def fst_conv lines tw by simp
qed

lemma env_lines_bindings:
  assumes "\<forall>b \<in> set bs. plain_binding b"
  shows "env_lines pre path n (map binding_text bs) (ws, m) =
    (ws, gm_put_all (filter (\<lambda>b. has_prefix (fst b) pre) bs) m)"
  using assms
proof (induction bs arbitrary: n m)
  case (Cons b bs)
  obtain k v where b: "b = (k, v)" by fastforce
  have "has_prefix k []" by (simp add: has_prefix_def)
  with Cons b show ?case by (auto simp: env_step_def env_line_of_binding)
qed simp

lemma update_new: "k \<notin> fst ` set m \<Longrightarrow> AList.update k v m = m @ [(k, v)]"
  by (induction m) auto

lemma gm_put_all_distinct:
  "distinct (map fst kvs) \<Longrightarrow> set (map fst kvs) \<inter> set (map fst m) = {} \<Longrightarrow>
   gm_put_all kvs (Some m) = Some (m @ kvs)"
proof (induction kvs arbitrary: m)
  case (Cons kv kvs)
  obtain k v where kv: "kv = (k, v)" by fastforce
  have "AList.update k v m = m @ [(k, v)]"
    using Cons.prems(2) kv by (intro update_new) auto
  with Cons kv show ?case by (auto simp: gm_put_def)
qed simp

text \<open>C22 Bindings written one to a line, with distinct keys, plain keys and plain values, are read back from
  the file exactly as they are, in their order, as far as their keys have the prefix asked for, and
  without a warning. A value may be empty and may contain further equals signs.\<close>

theorem env_file_roundtrip:
  assumes "\<forall>b \<in> set bs. plain_binding b" and "distinct (map fst bs)" and "opens path = Inr (env_text bs, None)"
  shows "parseEnvFiles opens [path] pre = ([], Inr (Some (filter (\<lambda>b. has_prefix (fst b) pre) bs)))"
proof -
  have "distinct (map fst (filter (\<lambda>b. has_prefix (fst b) pre) bs))"
    using assms(2) by (simp add: distinct_map_filter)
  then have "gm_put_all (filter (\<lambda>b. has_prefix (fst b) pre) bs) (Some []) =
      Some (filter (\<lambda>b. has_prefix (fst b) pre) bs)"
    by (simp add: gm_put_all_distinct)
  then show ?thesis
    by (simp add: parseEnvFiles_def assms(3) scanned_text[OF assms(1)] env_lines_bindings[OF assms(1)])
qed

definition sample_bindings :: "(string \<times> string) list" where
  "sample_bindings = [(''PG_URL'', ''db=1''), (''OTHER'', ''x''), (''PG_PASS'', [])]"

lemma sample_bindings_plain: "\<forall>b \<in> set sample_bindings. plain_binding b"
proof -
  have "plain_binding (''PG_URL'', ''db=1'')" "plain_binding (''OTHER'', ''x'')" "plain_binding (''PG_PASS'', [])"
    by code_simp+
  then show ?thesis by (simp add: sample_bindings_def)
qed

lemma env_file_roundtrip_witness:
  "parseEnvFiles (\<lambda>_. Inr (env_text sample_bindings, None)) [''.env''] ''PG_'' =
     ([], Inr (Some [(''PG_URL'', ''db=1''), (''PG_PASS'', [])]))"
proof -
  have "distinct (map fst sample_bindings)" by code_simp
  moreover have "filter (\<lambda>b. has_prefix (fst b) ''PG_'') sample_bindings = [(''PG_URL'', ''db=1''), (''PG_PASS'', [])]"
    by code_simp
  ultimately show ?thesis
    using env_file_roundtrip[OF sample_bindings_plain, of "\<lambda>_. Inr (env_text sample_bindings, None)" "''.env''" "''PG_''"]
    by simp
qed

text \<open>No key without the prefix gets into the data.\<close>

definition all_prefixed :: "string \<Rightarrow> string gomap \<Rightarrow> bool" where
  "all_prefixed pre m \<longleftrightarrow> (\<forall>k v. gm_get m k = Some v \<longrightarrow> has_prefix k pre)"

lemma env_step_prefixed: "all_prefixed pre (snd r) \<Longrightarrow> all_prefixed pre (snd (env_step pre path n l r))"
  by (cases "env_line_of l") (auto simp: env_step_def all_prefixed_def has_prefix_def)

lemma env_lines_prefixed: "all_prefixed pre (snd r) \<Longrightarrow> all_prefixed pre (snd (env_lines pre path n ls r))"
proof (induction ls arbitrary: n r)
  case (Cons l ls)
  then show ?case using env_step_prefixed[OF Cons.prems] by simp
qed simp

lemma env_files_prefixed:
  "env_files opens pre fs r = (ws, Inr m) \<Longrightarrow> all_prefixed pre (snd r) \<Longrightarrow> all_prefixed pre m"
proof (induction fs arbitrary: r)
  case (Cons f fs)
  then obtain body where o: "opens f = Inr body" by (cases "opens f") auto
  obtain ls e where s: "scanned body = (ls, e)" by fastforce
  have "env_files opens pre fs (env_lines pre f 1 ls r) = (ws, Inr m)"
    using Cons.prems(1) o s by (cases e) (simp_all add: Let_def)
  then show ?case using Cons.IH env_lines_prefixed[OF Cons.prems(2)] by blast
qed simp

lemma parsed_keys_prefixed:
  assumes "parseEnvFiles opens files pre = (ws, Inr m)" and "gm_get m k = Some v"
  shows "has_prefix k pre"
proof -
  have "all_prefixed pre m"
    using assms(1) unfolding parseEnvFiles_def by (rule env_files_prefixed) (simp add: all_prefixed_def)
  with assms(2) show ?thesis by (simp add: all_prefixed_def)
qed

text \<open>
  A line that is no binding is printed in full. The help text promises that values are not logged;
  a secret that runs over two lines of the file is.
\<close>

lemma second_line_of_secret_printed:
  "parseEnvFiles (\<lambda>_. Inr (''KEY=first'' @ [CHR 0x0A] @ ''hunter2'', None)) [''.env''] [] =
    ([''Warning: skipping invalid line 2 in .env: hunter2''], Inr (Some [(''KEY'', ''first'')]))"
  by code_simp

subsection \<open>What the secret holds\<close>

text \<open>Secrets are read under their keys, and stored with the data they are written with.\<close>

definition stores_secrets :: "('w, typed_secret) kube_api \<Rightarrow> ('w \<Rightarrow> string \<times> string \<Rightarrow> typed_secret option) \<Rightarrow> bool" where
  "stores_secrets api look \<longleftrightarrow> api_reads api look \<and>
     (\<forall>w ns n x. look w (ns, n) = Some x \<longrightarrow> tse_Namespace x = ns \<and> sec_Name x = n) \<and>
     (\<forall>x y w w1. ka_create api x w = (Inr y, w1) \<or> ka_update api x w = (Inr y, w1) \<longrightarrow>
        (\<exists>z. look w1 (tse_Namespace x, sec_Name x) = Some z \<and> sec_Data z = sec_Data x \<and> tse_Type z = tse_Type x))"

lemma written_secret:
  assumes "stores_secrets api look" and "createOrUpdateSecret api ns name data w = (None, w1)"
  shows "\<exists>z. look w1 (ns, name) = Some z \<and> sec_Data z = data \<and>
    tse_Type z = (case look w (ns, name) of None \<Rightarrow> ''Opaque'' | Some x \<Rightarrow> tse_Type x)"
proof -
  have st: "ka_create api x v = (Inr y, v1) \<or> ka_update api x v = (Inr y, v1) \<Longrightarrow>
      \<exists>z. look v1 (tse_Namespace x, sec_Name x) = Some z \<and> sec_Data z = sec_Data x \<and> tse_Type z = tse_Type x"
    for x y v v1
    using assms(1) unfolding stores_secrets_def by blast
  have reads: "api_reads api look" using assms(1) unfolding stores_secrets_def by blast
  show ?thesis
  proof (cases "look w (ns, name)")
    case None
    then obtain m where "ka_get api ns name w = (Inl (NotFound m), w)"
      by (rule reads_free[OF reads])
    then obtain y where "ka_create api (new_secret ns name data) w = (Inr y, w1)"
      using assms(2) by (auto simp: createOrUpdateSecret_def split: prod.splits sum.splits)
    with st[of "new_secret ns name data" w y w1] None show ?thesis by (simp add: new_secret_def)
  next
    case (Some x)
    then have g: "ka_get api ns name w = (Inr x, w)" by (rule reads_stored[OF reads])
    have key: "tse_Namespace x = ns" "sec_Name x = name"
      using Some assms(1) unfolding stores_secrets_def by blast+
    obtain y where "ka_update api (x\<lparr>sec_Data := data\<rparr>) w = (Inr y, w1)"
      using assms(2) g by (auto simp: createOrUpdateSecret_def split: prod.splits sum.splits)
    with st[of "x\<lparr>sec_Data := data\<rparr>" w y w1] Some key show ?thesis by simp
  qed
qed


text \<open>Nothing is written when no binding was found: an old secret survives that all its keys were removed.\<close>

lemma empty_files_change_nothing:
  assumes "parseEnvFiles opens (sfl_Files f) (sfl_Prefix f) = (ws, Inr data)" and "gm_len data = 0"
  shows "runSecretsSync a home opens f w = (ws, None, w)"
  by (simp add: runSecretsSync_def assms)

text \<open>A cluster of secrets.\<close>

type_synonym secret_world = "string \<times> string \<Rightarrow> typed_secret option"

definition secret_look :: "secret_world \<Rightarrow> secret_world" where
  "secret_look w key =
     (case w key of None \<Rightarrow> None | Some x \<Rightarrow> if (tse_Namespace x, sec_Name x) = key then Some x else None)"

definition secret_api :: "(secret_world, typed_secret) kube_api" where
  "secret_api = (static_api [])\<lparr>
     ka_get := (\<lambda>ns n w. (case secret_look w (ns, n) of None \<Rightarrow> Inl (NotFound ''not found'') | Some x \<Rightarrow> Inr x, w)),
     ka_create := (\<lambda>x w. (Inr x, w((tse_Namespace x, sec_Name x) \<mapsto> x))),
     ka_update := (\<lambda>x w. (Inr x, w((tse_Namespace x, sec_Name x) \<mapsto> x)))\<rparr>"

lemma secret_api_stores: "stores_secrets secret_api secret_look"
  by (auto simp: stores_secrets_def api_reads_def secret_api_def secret_look_def split: option.splits if_splits)

definition secret_access :: "(unit, (secret_world, typed_secret) kube_api) kube_access" where
  "secret_access = \<lparr>kac_BuildConfig = (\<lambda>_. Inr ()), kac_KUBECONFIG = [], kac_exists = (\<lambda>_. False),
     kac_default = Inr (), kac_in_cluster = Inl ''no cluster'', kac_core_scheme = None, kac_mcp_scheme = None,
     kac_New = (\<lambda>_. Inr secret_api)\<rparr>"

definition sample_secrets_flags :: secrets_flags where
  "sample_secrets_flags = \<lparr>sfl_Namespace = ''mcp'', sfl_Name = ''db'', sfl_Files = [''.env''], sfl_Prefix = ''PG_'',
     sfl_Kubeconfig = []\<rparr>"

definition old_secret :: secret_world where
  "old_secret = Map.empty((''mcp'', ''db'') \<mapsto> \<lparr>sec_Name = ''db'', sec_Data = Some [(''OLD'', ''1'')],
     tse_Namespace = ''mcp'', tse_Type = ''custom''\<rparr>)"


end
