(* ===== verification/DurationText.thy ===== *)
theory DurationText
  imports CliText FloatTime
begin

section \<open>Durations as text\<close>

text \<open>
  The ages that the command line tool prints: \<open>calculateAge\<close> of \<open>cmd/mcp/server.go\<close> cuts a float64,
  \<open>formatDuration\<close> of \<open>cmd/mcp/status.go\<close> rounds one. \<open>Duration.Seconds\<close>, \<open>Minutes\<close> and \<open>Hours\<close> of the
  standard library are sums of floats, modelled as such.
\<close>

definition time_Sub :: "int \<Rightarrow> int \<Rightarrow> int" where
  "time_Sub t u = max (- (2 ^ 63)) (min (2 ^ 63 - 1) (t - u))"

text \<open>Whole units and, as a float, the part of a unit that is left; both have the sign of the duration.\<close>

definition in_units :: "int \<Rightarrow> int \<Rightarrow> rat" where
  "in_units u d =
     (let n = \<bar>d\<bar> div u; r = \<bar>d\<bar> mod u; x = fl64 (of_int n + fl64 (of_int r / of_int u)) in
      if d < 0 then - x else x)"

abbreviation "Seconds \<equiv> in_units time_Second"
abbreviation "Minutes \<equiv> in_units time_Minute"
abbreviation "Hours \<equiv> in_units time_Hour"

definition age_text :: "int \<Rightarrow> string" where
  "age_text d =
     (if d < time_Minute then show_int (float_to_i64 (Seconds d)) @ ''s''
      else if d < time_Hour then show_int (float_to_i64 (Minutes d)) @ ''m''
      else if d < 24 * time_Hour then show_int (float_to_i64 (Hours d)) @ ''h''
      else show_int (float_to_i64 (fl64 (Hours d / 24))) @ ''d'')"

definition calculateAge :: "int \<Rightarrow> int \<Rightarrow> string" where
  "calculateAge now created = age_text (time_Sub now created)"

text \<open>\<open>%.0f\<close> rounds the value of the float, halves to even.\<close>

definition show_rounded :: "rat \<Rightarrow> string" where
  "show_rounded x = (if x < 0 then ''-'' @ show_int (round_even (- x)) else show_int (round_even x))"

definition formatDuration :: "int \<Rightarrow> string" where
  "formatDuration d =
     (if d < time_Minute then show_rounded (Seconds d) @ ''s''
      else if d < time_Hour then show_rounded (Minutes d) @ ''m''
      else if d < 24 * time_Hour then show_rounded (Hours d) @ ''h''
      else show_rounded (fl64 (Hours d / 24)) @ ''d'')"

section \<open>Correctness\<close>

text \<open>A little below the next whole number there is a float, so a sum of floats does not reach it.\<close>

lemma fl64_below:
  assumes "0 < n" and "n < 2 ^ 11"
  shows "fl64 (of_int n - 1 / 2 ^ 42) = of_int n - 1 / 2 ^ 42"
proof -
  define m where "m = n * 2 ^ 42 - 1"
  have "\<bar>m\<bar> < 2 ^ 53" using assms by (simp add: m_def)
  then have "fl64 (of_int m) = of_int m" by (rule fl64.exact)
  moreover have "(of_int n - 1 / 2 ^ 42 :: rat) * 2 ^ 42 = of_int m" by (simp add: m_def left_diff_distrib)
  ultimately have "fl64 (of_int n - 1 / 2 ^ 42) * 2 ^ 42 = of_int m"
    using fl64_scale[of "of_int n - 1 / 2 ^ 42" 42] by simp
  then have "fl64 (of_int n - 1 / 2 ^ 42) = of_int m / 2 ^ 42" by (simp add: field_simps)
  also have "\<dots> = of_int n - 1 / 2 ^ 42" by (simp add: m_def field_simps)
  finally show ?thesis .
qed

lemma whole_units:
  assumes "0 < u" and "u \<le> 2 ^ 42" and "0 \<le> d" and "d < 2000 * u"
  shows "float_to_i64 (in_units u d) = d div u"
proof -
  define n r where "n = d div u" and "r = d mod u"
  have n0: "0 \<le> n" using assms(1,3) by (simp add: n_def pos_imp_zdiv_nonneg_iff)
  have "n * u \<le> d" using assms(1) by (simp add: n_def flip: minus_mod_eq_div_mult)
  moreover have "2000 * u \<le> n * u" if "2000 \<le> n" using that assms(1) by (intro mult_right_mono) simp_all
  ultimately have n: "0 \<le> n" "n < 2000" using assms(4) n0 by linarith+
  have r: "0 \<le> r" "r \<le> u - 1" using assms(1) by (simp_all add: r_def zle_diff1_eq)
  have "(of_int r / of_int u :: rat) \<le> of_int (u - 1) / of_int u"
    using r assms(1) by (intro divide_right_mono) simp_all
  also have "\<dots> = 1 - 1 / of_int u" using assms(1) by (simp add: field_simps)
  also have "\<dots> \<le> 1 - 1 / 2 ^ 42"
  proof -
    have "(of_int u :: rat) \<le> of_int (2 ^ 42)" using assms(2) by (simp only: of_int_le_iff)
    then have "(1 :: rat) / 2 ^ 42 \<le> 1 / of_int u" using assms(1) by (intro divide_left_mono) simp_all
    then show ?thesis by simp
  qed
  finally have "fl64 (of_int r / of_int u) \<le> 1 - 1 / 2 ^ 42"
    using fl64.mono fl64_below[of 1] by fastforce
  then have "of_int n + fl64 (of_int r / of_int u) \<le> of_int (n + 1) - 1 / 2 ^ 42" by simp
  then have hi: "fl64 (of_int n + fl64 (of_int r / of_int u)) \<le> of_int (n + 1) - 1 / 2 ^ 42"
    using fl64.mono fl64_below[of "n + 1"] n by fastforce
  have "0 \<le> fl64 (of_int r / of_int u)" using r assms(1) by (intro fl64.nonneg) simp
  then have lo: "of_int n \<le> fl64 (of_int n + fl64 (of_int r / of_int u))"
    using n by (intro fl64.above_int) simp_all
  have "\<lfloor>fl64 (of_int n + fl64 (of_int r / of_int u))\<rfloor> = n"
    using lo hi by (intro floor_unique) simp_all
  moreover have "in_units u d = fl64 (of_int n + fl64 (of_int r / of_int u))"
    using assms(3) by (simp add: in_units_def n_def r_def)
  ultimately show ?thesis
    using lo n by (simp add: float_to_i64_def trunc_rat_def Let_def n_def)
qed

text \<open>C28 Up to a day, the age is the number of whole seconds, minutes or hours, in spite of the floats.\<close>

theorem age_exact:
  assumes "0 \<le> d" and "d < 24 * time_Hour"
  shows "age_text d =
    (if d < time_Minute then show_int (d div time_Second) @ ''s''
     else if d < time_Hour then show_int (d div time_Minute) @ ''m''
     else show_int (d div time_Hour) @ ''h'')"
proof -
  have "d < time_Minute \<Longrightarrow> float_to_i64 (Seconds d) = d div time_Second"
    "d < time_Hour \<Longrightarrow> float_to_i64 (Minutes d) = d div time_Minute"
    "float_to_i64 (Hours d) = d div time_Hour"
    using assms by (intro whole_units; simp add: time_Second_def time_Minute_def time_Hour_def)+
  with assms(2) show ?thesis by (simp add: age_text_def)
qed

text \<open>The two commands round differently: an age of 59.75 seconds is 59 in a list and 60 in a status.\<close>

lemma quarters: "\<bar>n\<bar> < 2 ^ 53 \<Longrightarrow> fl64 (of_int n / 4) = of_int n / 4"
  using fl64_scale[of "of_int n / 4" 2] fl64.exact[of n] by simp

lemma age_exact_witness: "age_text 59750000000 = ''59s'' \<and> formatDuration 59750000000 = ''60s''"
proof
  have "age_text 59750000000 = show_int 59 @ ''s''"
    using age_exact[of 59750000000] by (simp add: time_Second_def time_Minute_def time_Hour_def)
  moreover have "show_int 59 = ''59''" by code_simp
  ultimately show "age_text 59750000000 = ''59s''" by simp
  have q: "fl64 (3 / 4) = 3 / 4" "fl64 (239 / 4) = 239 / 4" using quarters[of 3] quarters[of 239] by simp_all
  have "(59 :: rat) + 3 / 4 = 239 / 4" by simp
  then have x: "Seconds 59750000000 = 239 / 4"
    by (simp add: in_units_def time_Second_def Let_def q)
  have "round_even (239 / 4) = 60"
  proof -
    have "\<lfloor>239 / 4 :: rat\<rfloor> = 59" by (intro floor_unique) simp_all
    then show ?thesis by (simp add: round_even_def Let_def)
  qed
  moreover have "show_int 60 = ''60''" by code_simp
  ultimately show "formatDuration 59750000000 = ''60s''"
    unfolding formatDuration_def show_rounded_def x by (simp add: time_Minute_def)
qed

end
