(* ===== verification/CliServer.thy ===== *)
theory CliServer
  imports CliDeploy DurationText WorkloadBuilder
begin

section \<open>The commands that look at servers\<close>

text \<open>
  \<open>cmd/mcp/server.go\<close> and \<open>cmd/mcp/status.go\<close>: listing, deleting and watching servers, and reading the
  logs of their pods. Parameters are the ways to a configuration, the objects of the cluster, the
  answer of the user, the log streams, the encoders of JSON and YAML and the format of times. The
  tables, the status and what the logs show are modelled as text; progress messages are not.
\<close>

subsection \<open>Clients\<close>

record 'w cluster =
  cla_servers :: "('w, mcp_server) kube_api"
  cla_deployments :: "('w, kube_deployment) kube_api"

definition createServerKubernetesClientWithConfig :: "('c, 'k) kube_access \<Rightarrow> string \<Rightarrow> string + 'k" where
  "createServerKubernetesClientWithConfig a kubeconfig =
     (case kac_mcp_scheme a of
        Some e \<Rightarrow> Inl (''failed to add MCPServer types to scheme: '' @ e)
      | None \<Rightarrow>
          (case getKubernetesConfigWithPriority a kubeconfig of
             Inl e \<Rightarrow> Inl (''failed to get Kubernetes config: '' @ e)
           | Inr config \<Rightarrow>
               (case kac_New a config of
                  Inl e \<Rightarrow> Inl (''failed to create Kubernetes client: '' @ e)
                | Inr k \<Rightarrow> Inr k)))"

definition createServerKubernetesClient :: "('c, 'k) kube_access \<Rightarrow> string + 'k" where
  "createServerKubernetesClient a = createServerKubernetesClientWithConfig a []"

definition getKubernetesConfig :: "('c, 'k) kube_access \<Rightarrow> string + 'c" where
  "getKubernetesConfig a = getKubernetesConfigWithPriority a []"

text \<open>\<open>context\<close> is the namespace of the current context.\<close>

definition getCurrentNamespace :: "string + string \<Rightarrow> string" where
  "getCurrentNamespace context =
     (case context of Inr namespace \<Rightarrow> if namespace \<noteq> [] then namespace else ''default'' | Inl _ \<Rightarrow> ''default'')"

definition quoted :: "string \<Rightarrow> string" where
  "quoted s = [CHR 0x27] @ s @ [CHR 0x27]"

subsection \<open>Deleting\<close>

text \<open>
  \<open>strings.ToLower\<close> as far as an accepted answer is concerned: of all runes only the capitals of its
  letters, ASCII and the Cyrillic D and A, become one of its letters.
\<close>

fun lower_answer :: "string \<Rightarrow> string" where
  "lower_answer (a # b # s) =
     (if a = CHR 0xD0 \<and> b = CHR 0x94 then CHR 0xD0 # CHR 0xB4 # lower_answer s
      else if a = CHR 0xD0 \<and> b = CHR 0x90 then CHR 0xD0 # CHR 0xB0 # lower_answer s
      else lower_char a # lower_answer (b # s))"
| "lower_answer [a] = [lower_char a]"
| "lower_answer [] = []"

definition confirmed :: "string \<Rightarrow> bool" where
  "confirmed response \<longleftrightarrow> TrimSpace (lower_answer response) \<in> {''y'', ''yes'', russian [36, 32]}"

definition checkDeploymentDeleted :: "'w cluster \<Rightarrow> string \<Rightarrow> string \<Rightarrow> 'w \<Rightarrow> go_error \<times> 'w" where
  "checkDeploymentDeleted cl name namespace w =
     (case ka_get (cla_deployments cl) namespace name w of
        (Inl e, w1) \<Rightarrow> (if is_not_found e then None else Some (''error checking deployment status: '' @ api_msg e), w1)
      | (Inr _, w1) \<Rightarrow> (Some ''deployment still exists'', w1))"

definition deletion_round ::
  "('w \<Rightarrow> bool \<times> 'w) \<Rightarrow> 'w cluster \<Rightarrow> string \<Rightarrow> string \<Rightarrow> 'w \<Rightarrow> go_error option \<times> 'w" where
  "deletion_round select cl name namespace w =
     (let (late, w1) = select w in
      if late then (Some (Some ''timeout waiting for MCPServer and related resources to be deleted''), w1)
      else (case ka_get (cla_servers cl) namespace name w1 of
              (Inr _, w2) \<Rightarrow> (None, w2)
            | (Inl _, w2) \<Rightarrow>
                (case checkDeploymentDeleted cl name namespace w2 of
                   (Some _, w3) \<Rightarrow> (None, w3)
                 | (None, w3) \<Rightarrow> (Some None, w3))))"

definition waitForMCPServerDeletion ::
  "('w \<Rightarrow> bool \<times> 'w) \<Rightarrow> 'w cluster \<Rightarrow> string \<Rightarrow> string \<Rightarrow> 'w \<Rightarrow> (go_error \<times> 'w) option" where
  "waitForMCPServerDeletion select cl name namespace = poll (deletion_round select cl name namespace)"

text \<open>\<open>answer\<close> is the line of the user, with its end, or the error of reading one.\<close>

definition refused :: "bool \<Rightarrow> string + string \<Rightarrow> (go_error) option" where
  "refused force answer =
     (if force then None
      else (case answer of
              Inl e \<Rightarrow> Some (Some (''failed to read user input: '' @ e))
            | Inr response \<Rightarrow> if confirmed response then None else Some None))"

definition runServerDelete ::
  "('c, 'w cluster) kube_access \<Rightarrow> ('w \<Rightarrow> bool \<times> 'w) \<Rightarrow> string + string \<Rightarrow> string \<Rightarrow> string \<Rightarrow> string \<Rightarrow> bool \<Rightarrow> bool \<Rightarrow>
   'w \<Rightarrow> (go_error \<times> 'w) option" where
  "runServerDelete a select answer server namespace kubeconfig force wait w =
     (case createServerKubernetesClient a of
        Inl e \<Rightarrow> Some (Some (''failed to create Kubernetes client: '' @ e), w)
      | Inr cl \<Rightarrow>
          (case ka_get (cla_servers cl) namespace server w of
             (Inl e, w1) \<Rightarrow>
               Some (Some (if is_not_found e
                 then ''MCPServer '' @ quoted server @ '' '' @ russian [45, 37] @ '' '' @
                      russian [45, 32, 41, 36, 37, 45] @ '' '' @ russian [34] @ '' namespace '' @ quoted namespace
                 else ''failed to get MCPServer '' @ quoted server @ '' in namespace '' @ quoted namespace @
                      '': '' @ api_msg e), w1)
           | (Inr s, w1) \<Rightarrow>
               (case refused force answer of
                  Some e \<Rightarrow> Some (e, w1)
                | None \<Rightarrow>
                    (case ka_delete (cla_servers cl) s w1 of
                       (Some e, w2) \<Rightarrow> Some (Some (''failed to delete MCPServer: '' @ api_msg e), w2)
                     | (None, w2) \<Rightarrow>
                         if wait then waitForMCPServerDeletion select cl server namespace w2
                         else Some (None, w2)))))"

subsection \<open>Listing\<close>

definition phase_text :: "mcp_server_phase \<Rightarrow> string" where
  "phase_text p =
     (case p of NoPhase \<Rightarrow> [] | PhasePending \<Rightarrow> ''Pending'' | PhaseRunning \<Rightarrow> ''Running''
      | PhaseFailed \<Rightarrow> ''Failed'' | PhaseTerminating \<Rightarrow> ''Terminating'')"

definition server_row :: "int \<Rightarrow> mcp_server \<Rightarrow> string list" where
  "server_row now s =
     [srv_Name s, (let p = phase_text (st_Phase (srv_Status s)) in if p = [] then ''Unknown'' else p),
      show_int (st_Replicas (srv_Status s)), show_int (st_ReadyReplicas (srv_Status s)),
      calculateAge now (om_CreationTimestamp (srv_Meta s))]"

definition printMCPServersTable :: "int \<Rightarrow> mcp_server list \<Rightarrow> string list" where
  "printMCPServersTable now servers = tab_table
     ([[''NAME'', ''PHASE'', ''REPLICAS'', ''READY'', ''AGE''], [''----'', ''-----'', ''--------'', ''-----'', ''---'']] @
      map (server_row now) servers)"

text \<open>JSON and YAML are parameters; what is printed is a list of lines or the text of an encoder.\<close>

record 'o printers =
  prn_JSON :: "'o \<Rightarrow> string + string"
  prn_YAML :: "'o \<Rightarrow> string + string"

definition printed_as :: "'o printers \<Rightarrow> string \<Rightarrow> ('o \<Rightarrow> string list) \<Rightarrow> 'o \<Rightarrow> string + string list" where
  "printed_as p format table x =
     (let one = (\<lambda>r. case r of Inl e \<Rightarrow> Inl e | Inr t \<Rightarrow> Inr [t]) in
      if format = ''json'' then one (prn_JSON p x)
      else if format = ''yaml'' then one (prn_YAML p x)
      else Inr (table x))"

definition runServerList ::
  "('c, 'w cluster) kube_access \<Rightarrow> string + string \<Rightarrow> mcp_server list printers \<Rightarrow> int \<Rightarrow> string \<Rightarrow> string \<Rightarrow>
   string \<Rightarrow> bool \<Rightarrow> 'w \<Rightarrow> (string + string list) \<times> 'w" where
  "runServerList a context p now namespace format kubeconfig allNamespaces w =
     (case createServerKubernetesClientWithConfig a kubeconfig of
        Inl e \<Rightarrow> (Inl (''failed to create Kubernetes client: '' @ e), w)
      | Inr cl \<Rightarrow>
          (let ns = (if allNamespaces then [] else if namespace = [] then getCurrentNamespace context else namespace);
               from = (if allNamespaces then ''all namespaces'' else ''namespace '' @ quoted ns);
               fetching = ''Fetching MCP servers from '' @ from @ ''...'' in
           (case ka_list (cla_servers cl) (ns, []) w of
              (Inl e, w1) \<Rightarrow> (Inl (''failed to list MCPServer resources: '' @ api_msg e), w1)
            | (Inr servers, w1) \<Rightarrow>
                (if servers = [] then Inr [fetching, ''No MCPServer found in '' @ from @ ''.'']
                 else map_sum id (Cons fetching) (printed_as p format (printMCPServersTable now) servers), w1))))"

subsection \<open>Logs\<close>

record log_pod =
  lpd_Name :: string
  lpd_Namespace :: string
  lpd_Labels :: "string gomap"
  lpd_Containers :: "string list"

text \<open>A stream of logs cannot be opened, or gives what is copied and the error that ends the copying.\<close>

type_synonym 'w log_stream = "log_pod \<Rightarrow> string \<Rightarrow> bool \<Rightarrow> int \<Rightarrow> 'w \<Rightarrow> string + string \<times> go_error"

definition log_container :: "log_pod \<Rightarrow> string \<Rightarrow> string + string" where
  "log_container pod container =
     (if container = [] \<and> lpd_Containers pod = [] then Inl (''no containers found in pod '' @ lpd_Name pod)
      else (let c = (if container = [] then hd (lpd_Containers pod) else container) in
            if c \<notin> set (lpd_Containers pod)
            then Inl (''container '' @ quoted c @ '' not found in pod '' @ lpd_Name pod)
            else Inr c))"

text \<open>The error and what reaches standard output.\<close>

definition getPodLogs :: "'w log_stream \<Rightarrow> 'w \<Rightarrow> log_pod \<Rightarrow> string \<Rightarrow> bool \<Rightarrow> int \<Rightarrow> go_error \<times> string" where
  "getPodLogs stream w pod container follow tail =
     (case log_container pod container of
        Inl e \<Rightarrow> (Some e, [])
      | Inr c \<Rightarrow>
          (case stream pod c follow tail w of
             Inl e \<Rightarrow> (Some (''failed to get log stream: '' @ e), [])
           | Inr (text, e) \<Rightarrow> (wrap_err ''failed to copy logs: '' e, text)))"

definition followed_pod :: "'w log_stream \<Rightarrow> 'w \<Rightarrow> string \<Rightarrow> int \<Rightarrow> log_pod \<Rightarrow> string" where
  "followed_pod stream w container tail pod =
     ''*** Following logs from pod '' @ lpd_Name pod @ '' ***'' @ [CHR 0x0A] @
     snd (getPodLogs stream w pod container True tail)"

text \<open>One goroutine to a pod: the texts reach standard output interleaved.\<close>

definition followLogsFromMultiplePods :: "'w log_stream \<Rightarrow> 'w \<Rightarrow> log_pod list \<Rightarrow> string \<Rightarrow> int \<Rightarrow> string list" where
  "followLogsFromMultiplePods stream w pods container tail = map (followed_pod stream w container tail) pods"

primrec pod_logs :: "'w log_stream \<Rightarrow> 'w \<Rightarrow> string \<Rightarrow> bool \<Rightarrow> int \<Rightarrow> bool \<Rightarrow> log_pod list \<Rightarrow> string" where
  "pod_logs stream w container follow tail several [] = []"
| "pod_logs stream w container follow tail several (pod # pods) =
     (if several then ''*** Logs from pod '' @ lpd_Name pod @ '' ***'' @ [CHR 0x0A] else []) @
     (case getPodLogs stream w pod container follow tail of
        (Some _, text) \<Rightarrow> text
      | (None, text) \<Rightarrow> text @ (if pods \<noteq> [] \<and> several then [CHR 0x0A] else [])) @
     pod_logs stream w container follow tail several pods"

definition logs_selector :: "string \<Rightarrow> (string \<times> string) list" where
  "logs_selector server = [(''app.kubernetes.io/instance'', server), (''app.kubernetes.io/component'', ''server'')]"

text \<open>The texts that are shown: one, or one of each pod that is followed.\<close>

definition runServerLogs ::
  "('c, 'w cluster) kube_access \<Rightarrow> ('c \<Rightarrow> string + ('w, log_pod) kube_api) \<Rightarrow> 'w log_stream \<Rightarrow> string + string \<Rightarrow>
   string \<Rightarrow> string \<Rightarrow> bool \<Rightarrow> int \<Rightarrow> string \<Rightarrow> string \<Rightarrow> 'w \<Rightarrow> (string + string list) \<times> 'w" where
  "runServerLogs a NewForConfig stream context server namespace follow tail container kubeconfig w =
     (let ns = (if namespace = [] then getCurrentNamespace context else namespace) in
      case createServerKubernetesClientWithConfig a kubeconfig of
        Inl e \<Rightarrow> (Inl (''failed to create Kubernetes client: '' @ e), w)
      | Inr cl \<Rightarrow>
          (case ka_get (cla_servers cl) ns server w of
             (Inl e, w1) \<Rightarrow>
               (Inl (if is_not_found e then ''MCPServer '' @ quoted server @ '' not found in namespace '' @ quoted ns
                     else ''failed to get MCPServer: '' @ api_msg e), w1)
           | (Inr _, w1) \<Rightarrow>
               (case getKubernetesConfig a of
                  Inl e \<Rightarrow> (Inl (''failed to get Kubernetes config: '' @ e), w1)
                | Inr config \<Rightarrow>
                    (case NewForConfig config of
                       Inl e \<Rightarrow> (Inl (''failed to create Kubernetes clientset: '' @ e), w1)
                     | Inr pods_api \<Rightarrow>
                         (case ka_list pods_api (ns, logs_selector server) w1 of
                            (Inl e, w2) \<Rightarrow> (Inl (''failed to list pods: '' @ api_msg e), w2)
                          | (Inr pods, w2) \<Rightarrow>
                              (if pods = [] then Inl (''no pods found for MCPServer '' @ quoted server @
                                 '' in namespace '' @ quoted ns)
                               else if follow \<and> length pods > 1
                               then Inr (followLogsFromMultiplePods stream w2 pods container tail)
                               else Inr [pod_logs stream w2 container follow tail (length pods > 1) pods], w2))))))"

subsection \<open>Status\<close>

definition condition_type_text :: "mcp_server_condition_type \<Rightarrow> string" where
  "condition_type_text t =
     (case t of CondReady \<Rightarrow> ''Ready'' | CondAvailable \<Rightarrow> ''Available'' | CondProgressing \<Rightarrow> ''Progressing''
      | CondRegistryFetched \<Rightarrow> ''RegistryFetched'' | CondRendered \<Rightarrow> ''Rendered'' | CondApplied \<Rightarrow> ''Applied''
      | CondGatewayReady \<Rightarrow> ''GatewayReady'' | CondIstioConfigured \<Rightarrow> ''IstioConfigured'')"

definition condition_status_text :: "condition_status \<Rightarrow> string" where
  "condition_status_text t = (case t of CTrue \<Rightarrow> ''True'' | CFalse \<Rightarrow> ''False'' | CUnknown \<Rightarrow> ''Unknown'')"

definition condition_line :: "mcp_server_condition \<Rightarrow> string" where
  "condition_line c =
     ''  '' @ [CHR 0xE2, CHR 0x9C, if mc_Status c = CTrue then CHR 0x93 else CHR 0x97] @ '' '' @
     condition_type_text (mc_Type c) @ '': '' @ condition_status_text (mc_Status c) @
     (if mc_Message c \<noteq> [] then '' - '' @ mc_Message c else [])"

text \<open>The lines, without the line feeds that end them. A server without a registry makes the printing panic.\<close>

definition printMCPServerStatusHuman :: "(string \<Rightarrow> instant \<Rightarrow> string) \<Rightarrow> int \<Rightarrow> mcp_server \<Rightarrow> string list outcome" where
  "printMCPServerStatusHuman format_time now s =
     (let t = srv_Status s in
      and_then (deref (sp_Registry (srv_Spec s))) (\<lambda>r. Returns (
        [''Name: '' @ srv_Name s, ''Namespace: '' @ srv_Namespace s, ''Phase: '' @ phase_text (st_Phase t)] @
        line_if (st_Message t \<noteq> []) (''Message: '' @ st_Message t) @
        line_if (st_Reason t \<noteq> []) (''Reason: '' @ st_Reason t) @
        [''Replicas: '' @ show_int (st_ReadyReplicas t) @ ''/'' @ show_int (st_Replicas t) @
          (if st_AvailableReplicas t > 0 then '' (Available: '' @ show_int (st_AvailableReplicas t) @ '')'' else [])] @
        line_if (st_ServiceEndpoint t \<noteq> []) (''Endpoint: '' @ st_ServiceEndpoint t) @
        [''Age: '' @ formatDuration (time_Sub now (om_CreationTimestamp (srv_Meta s)))] @
        line_if (rr_Registry r \<noteq> []) (''Registry: '' @ rr_Registry r) @
        (if st_Conditions t \<noteq> [] then [[], ''Conditions:''] @ map condition_line (st_Conditions t) else []) @
        (case st_LastUpdateTime t of None \<Rightarrow> [] | Some u \<Rightarrow> [[], ''Last Update: '' @ format_time ''2006-01-02 15:04:05'' u]))))"

text \<open>No rune outside of ASCII becomes a letter of the two formats in lower case, so \<open>to_lower\<close> will do.\<close>

definition printMCPServerStatus ::
  "mcp_server printers \<Rightarrow> (string \<Rightarrow> instant \<Rightarrow> string) \<Rightarrow> int \<Rightarrow> mcp_server \<Rightarrow> string \<Rightarrow> (string + string list) outcome" where
  "printMCPServerStatus p format_time now s output =
     (let one = (\<lambda>what r. case r of Inl e \<Rightarrow> Inl (''failed to marshal to '' @ what @ '': '' @ e) | Inr t \<Rightarrow> Inr [t]) in
      if to_lower output = ''json'' then Returns (one ''JSON'' (prn_JSON p s))
      else if to_lower output = ''yaml'' then Returns (one ''YAML'' (prn_YAML p s))
      else and_then (printMCPServerStatusHuman format_time now s) (\<lambda>ls. Returns (Inr ls)))"

definition getMCPServerStatus ::
  "'w cluster \<Rightarrow> mcp_server printers \<Rightarrow> (string \<Rightarrow> instant \<Rightarrow> string) \<Rightarrow> ('w \<Rightarrow> int) \<Rightarrow> string \<Rightarrow> string \<Rightarrow> string \<Rightarrow> 'w \<Rightarrow>
   ((string + string list) \<times> 'w) outcome" where
  "getMCPServerStatus cl p format_time clock name namespace output w =
     (case ka_get (cla_servers cl) namespace name w of
        (Inl e, w1) \<Rightarrow> Returns (Inl (''MCPServer '' @ quoted name @ '' not found in namespace '' @ quoted namespace @
                                  '': '' @ api_msg e), w1)
      | (Inr s, w1) \<Rightarrow> and_then (printMCPServerStatus p format_time (clock w1) s output) (\<lambda>r. Returns (r, w1)))"

text \<open>What a watch compares.\<close>

definition status_key :: "mcp_server \<Rightarrow> string" where
  "status_key s =
     (let t = srv_Status s in
      phase_text (st_Phase t) @ ''-'' @ show_int (st_Replicas t) @ ''-'' @ show_int (st_ReadyReplicas t) @ ''-'' @
      st_Message t)"

text \<open>
  A watch keeps the last key and what it printed; \<open>tick\<close> waits for the ticker. A round only ever decides
  by a panic.
\<close>

definition watch_round ::
  "('w \<Rightarrow> 'w) \<Rightarrow> 'w cluster \<Rightarrow> mcp_server printers \<Rightarrow> (string \<Rightarrow> instant \<Rightarrow> string) \<Rightarrow> ('w \<Rightarrow> int) \<Rightarrow> string \<Rightarrow> string \<Rightarrow> string \<Rightarrow>
   'w \<times> string \<times> string list \<Rightarrow> unit option \<times> 'w \<times> string \<times> string list" where
  "watch_round tick cl p format_time clock name namespace output state =
     (case state of (w, last_key, shown) \<Rightarrow>
       (case ka_get (cla_servers cl) namespace name (tick w) of
          (Inl e, w1) \<Rightarrow> (None, w1, last_key, shown @ [''Error getting MCPServer status: '' @ api_msg e])
        | (Inr s, w1) \<Rightarrow>
            if status_key s = last_key then (None, w1, last_key, shown)
            else (let heading = ''--- '' @ format_time ''15:04:05'' (clock w1) @ '' ---'' in
                  case printMCPServerStatus p format_time (clock w1) s output of
                    Panic \<Rightarrow> (Some (), w1, last_key, shown @ [heading])
                  | Returns (Inl e) \<Rightarrow> (None, w1, status_key s, shown @ [heading, ''Error printing status: '' @ e, []])
                  | Returns (Inr ls) \<Rightarrow> (None, w1, status_key s, shown @ heading # ls @ [[]]))))"

definition watchMCPServerStatus ::
  "('w \<Rightarrow> 'w) \<Rightarrow> 'w cluster \<Rightarrow> mcp_server printers \<Rightarrow> (string \<Rightarrow> instant \<Rightarrow> string) \<Rightarrow> ('w \<Rightarrow> int) \<Rightarrow> string \<Rightarrow> string \<Rightarrow> string \<Rightarrow>
   'w \<Rightarrow> (unit \<times> 'w \<times> string \<times> string list) option" where
  "watchMCPServerStatus tick cl p format_time clock name namespace output w =
     poll (watch_round tick cl p format_time clock name namespace output) (w, [], [])"

text \<open>A watch does not end but by a panic; without one the command is \<open>None\<close>.\<close>

definition runStatus ::
  "('c, 'w cluster) kube_access \<Rightarrow> ('w \<Rightarrow> 'w) \<Rightarrow> mcp_server printers \<Rightarrow> (string \<Rightarrow> instant \<Rightarrow> string) \<Rightarrow> ('w \<Rightarrow> int) \<Rightarrow>
   string \<Rightarrow> string \<Rightarrow> string \<Rightarrow> string \<Rightarrow> bool \<Rightarrow> 'w \<Rightarrow> ((string + string list) \<times> 'w) outcome option" where
  "runStatus a tick p format_time clock server namespace kubeconfig output watching w =
     (case createKubernetesClient a kubeconfig of
        Inl e \<Rightarrow> Some (Returns (Inl (''failed to create Kubernetes client: '' @ e), w))
      | Inr cl \<Rightarrow>
          if watching then map_option (\<lambda>_. Panic) (watchMCPServerStatus tick cl p format_time clock server namespace output w)
          else Some (getMCPServerStatus cl p format_time clock server namespace output w))"

section \<open>Correctness\<close>

subsection \<open>Deletion\<close>

text \<open>Waiting for a deletion returns exactly if some round decides it, and a round is decided exactly if
  the deadline passes first, or if the server could not be read, for whatever reason, and its
  deployment is known not to be there.\<close>

theorem deletion_wait_returns_iff:
  "((\<exists>r. waitForMCPServerDeletion select cl name namespace w = Some r) \<longleftrightarrow>
    (\<exists>n. undecided_rounds (deletion_round select cl name namespace) n w = None)) \<and>
   (fst (deletion_round select cl name namespace v) \<noteq> None \<longleftrightarrow>
    fst (select v) \<or> (\<exists>e w1 m w2. ka_get (cla_servers cl) namespace name (snd (select v)) = (Inl e, w1) \<and>
      ka_get (cla_deployments cl) namespace name w1 = (Inl (NotFound m), w2)))"
proof
  show "(\<exists>r. waitForMCPServerDeletion select cl name namespace w = Some r) \<longleftrightarrow>
    (\<exists>n. undecided_rounds (deletion_round select cl name namespace) n w = None)"
    unfolding waitForMCPServerDeletion_def by (rule poll_returns_iff)
  obtain late w1 where s: "select v = (late, w1)" by fastforce
  obtain g w2 where g: "ka_get (cla_servers cl) namespace name w1 = (g, w2)" by fastforce
  obtain d w3 where d: "ka_get (cla_deployments cl) namespace name w2 = (d, w3)" by fastforce
  show "fst (deletion_round select cl name namespace v) \<noteq> None \<longleftrightarrow>
    fst (select v) \<or> (\<exists>e w1 m w2. ka_get (cla_servers cl) namespace name (snd (select v)) = (Inl e, w1) \<and>
      ka_get (cla_deployments cl) namespace name w1 = (Inl (NotFound m), w2))"
  proof (cases g)
    case (Inl e)
    then show ?thesis
    proof (cases d)
      case d2: (Inl e2)
      show ?thesis by (cases e2) (simp_all add: deletion_round_def checkDeploymentDeleted_def s g d Inl d2)
    qed (simp add: deletion_round_def checkDeploymentDeleted_def s g d)
  qed (simp add: deletion_round_def s g)
qed

text \<open>Nothing is deleted without an answer that is one of the accepted ones, or \<open>--force\<close>.\<close>

lemma deletion_needs_consent:
  assumes "createServerKubernetesClient a = Inr cl" and "ka_get (cla_servers cl) namespace server w = (g, w1)"
    and "\<not> force" and "\<nexists>response. answer = Inr response \<and> confirmed response"
  shows "\<exists>e. runServerDelete a select answer server namespace kubeconfig force wait w = Some (e, w1)"
  using assms by (cases g; cases answer) (auto simp: runServerDelete_def refused_def)

text \<open>The flag \<open>--kubeconfig\<close> of \<open>delete\<close> has no effect: the server is deleted in the default cluster.\<close>

lemma delete_ignores_kubeconfig:
  "runServerDelete a select answer server namespace kubeconfig force wait =
   runServerDelete a select answer server namespace other force wait"
  by (simp add: runServerDelete_def fun_eq_iff)

subsection \<open>Logs\<close>

text \<open>C24 The pods of the deployment that the operator builds for a server carry the labels by which
  \<open>mcp server logs\<close> looks for them, whatever labels the server has itself, those that
  \<open>mcp deploy\<close> gives it included.\<close>

theorem logs_find_pods:
  assumes "BuildDeployment q s = Returns d" and "gm_wf (om_Labels (srv_Meta s))"
  shows "\<forall>(k, v) \<in> set (logs_selector (srv_Name s)). gm_get (pt_Labels (kd_Template d)) k = Some v"
proof -
  have "pt_Labels (kd_Template d) = buildLabels s" by (rule built_deployment[OF assms(1)])
  then show ?thesis using get_standard_label(2,3)[OF assms(2)] by (simp add: logs_selector_def)
qed

lemma logs_find_pods_witness:
  "\<exists>s d. deployed_server ''now'' sample_flags = Inr s \<and> BuildDeployment milli_ops s = Returns d \<and>
     gm_get (pt_Labels (kd_Template d)) ''app.kubernetes.io/component'' = Some ''server''"
proof -
  obtain s where s: "deployed_server ''now'' sample_flags = Inr s" using sample_deploys ..
  obtain ports env where p: "srv_Spec s = deployed_spec sample_flags ports env" "srv_Meta s = deployed_meta ''now'' sample_flags"
    using s by (auto simp: deployed_server_def zero_server_def split: option.splits sum.splits)
  have "sp_Runtime (srv_Spec s) \<noteq> None" by (simp add: p deployed_spec_def)
  then obtain d where d: "BuildDeployment milli_ops s = Returns d" using build_deployment_returns by blast
  have wf: "gm_wf (om_Labels (srv_Meta s))" by (simp add: p deployed_meta_def gm_wf_def)
  from logs_find_pods[OF d wf] s d show ?thesis by (auto simp: logs_selector_def)
qed

text \<open>The pods are looked for in the default cluster, wherever \<open>--kubeconfig\<close> found the server.\<close>

lemma logs_read_default_cluster:
  assumes "createServerKubernetesClientWithConfig a kubeconfig = Inr cl"
    and "ka_get (cla_servers cl) namespace server w = (Inr s, w1)" and "namespace \<noteq> []"
    and "getKubernetesConfig a = Inl e"
  shows "runServerLogs a conn stream context server namespace follow tail container kubeconfig w =
    (Inl (''failed to get Kubernetes config: '' @ e), w1)"
  using assms by (simp add: runServerLogs_def Let_def)

subsection \<open>Watching\<close>

text \<open>The key of a watch tells any two states of phase, replicas and message apart.\<close>

lemma phase_text_cut: "CHR ''-'' \<notin> set (phase_text p)" "phase_text p = phase_text q \<longleftrightarrow> p = q"
  by (cases p; simp add: phase_text_def) (cases p; cases q; simp add: phase_text_def)

lemma count_text_cut:
  assumes "0 \<le> n"
  shows "CHR ''-'' \<notin> set (show_int n)" and "0 \<le> m \<Longrightarrow> show_int n = show_int m \<Longrightarrow> n = m"
proof -
  show "CHR ''-'' \<notin> set (show_int n)"
    using assms show_nat_digits[of "nat n"] by (auto simp: show_int_def list_all_iff dest: digit_no_sign)
  assume "0 \<le> m" "show_int n = show_int m"
  then have "digits_value (show_nat (nat n)) = digits_value (show_nat (nat m))"
    using assms by (simp add: show_int_def)
  with assms \<open>0 \<le> m\<close> show "n = m" using show_nat_digits by simp
qed

lemma status_key_faithful:
  assumes "status_key s = status_key t"
    and "0 \<le> st_Replicas (srv_Status s)" and "0 \<le> st_ReadyReplicas (srv_Status s)"
    and "0 \<le> st_Replicas (srv_Status t)" and "0 \<le> st_ReadyReplicas (srv_Status t)"
  shows "st_Phase (srv_Status s) = st_Phase (srv_Status t) \<and>
    st_Replicas (srv_Status s) = st_Replicas (srv_Status t) \<and>
    st_ReadyReplicas (srv_Status s) = st_ReadyReplicas (srv_Status t) \<and>
    st_Message (srv_Status s) = st_Message (srv_Status t)"
proof -
  define x y where "x = srv_Status s" and "y = srv_Status t"
  have one: "phase_text (st_Phase x) = phase_text (st_Phase y) \<and>
      show_int (st_Replicas x) @ CHR ''-'' # show_int (st_ReadyReplicas x) @ CHR ''-'' # st_Message x =
      show_int (st_Replicas y) @ CHR ''-'' # show_int (st_ReadyReplicas y) @ CHR ''-'' # st_Message y"
    using assms(1) phase_text_cut(1) by (intro cut_inject[of "CHR ''-''"]) (simp_all add: status_key_def Let_def x_def y_def)
  then have two: "show_int (st_Replicas x) = show_int (st_Replicas y) \<and>
      show_int (st_ReadyReplicas x) @ CHR ''-'' # st_Message x = show_int (st_ReadyReplicas y) @ CHR ''-'' # st_Message y"
    using assms(2,4) count_text_cut(1) by (intro cut_inject[of "CHR ''-''"]) (simp_all add: x_def y_def)
  then have three: "show_int (st_ReadyReplicas x) = show_int (st_ReadyReplicas y) \<and> st_Message x = st_Message y"
    using assms(3,5) count_text_cut(1) by (intro cut_inject[of "CHR ''-''"]) (simp_all add: x_def y_def)
  from one two three have "st_Phase x = st_Phase y" "st_Replicas x = st_Replicas y" "st_ReadyReplicas x = st_ReadyReplicas y"
    using phase_text_cut(2) count_text_cut(2) assms(2-5) unfolding x_def y_def by blast+
  with three show ?thesis by (simp add: x_def y_def)
qed

text \<open>Conditions are not part of it: a condition that changes alone is not shown.\<close>

lemma conditions_unwatched: "status_key (s\<lparr>srv_Status := (srv_Status s)\<lparr>st_Conditions := cs\<rparr>\<rparr>) = status_key s"
  by (simp add: status_key_def Let_def)

text \<open>A round panics exactly if its answer is a server without a registry whose key is new and that is to be
  shown for people to read.\<close>

lemma watch_round_panics_iff:
  "fst (watch_round tick cl p format_time clock name namespace output (w, last_key, shown)) \<noteq> None \<longleftrightarrow>
   (\<exists>s. fst (ka_get (cla_servers cl) namespace name (tick w)) = Inr s \<and> status_key s \<noteq> last_key \<and>
      to_lower output \<noteq> ''json'' \<and> to_lower output \<noteq> ''yaml'' \<and> sp_Registry (srv_Spec s) = None)"
proof -
  obtain g w1 where g: "ka_get (cla_servers cl) namespace name (tick w) = (g, w1)" by fastforce
  have panics: "printMCPServerStatus p format_time now s output = Panic \<longleftrightarrow>
      to_lower output \<noteq> ''json'' \<and> to_lower output \<noteq> ''yaml'' \<and> sp_Registry (srv_Spec s) = None" for now s
    by (cases "sp_Registry (srv_Spec s)") (simp_all add: printMCPServerStatus_def printMCPServerStatusHuman_def Let_def)
  show ?thesis
  proof (cases g)
    case (Inr s)
    show ?thesis
    proof (cases "printMCPServerStatus p format_time (clock w1) s output")
      case Panic
      then show ?thesis using panics[of "clock w1" s] by (simp add: watch_round_def g Inr Let_def)
    next
      case (Returns r)
      then have "\<not> (to_lower output \<noteq> ''json'' \<and> to_lower output \<noteq> ''yaml'' \<and> sp_Registry (srv_Spec s) = None)"
        using panics[of "clock w1" s] by simp
      with Returns show ?thesis by (cases r) (auto simp: watch_round_def g Inr Let_def)
    qed
  qed (simp add: watch_round_def g)
qed

lemma watch_as_data_never:
  assumes "to_lower output = ''json'' \<or> to_lower output = ''yaml''"
  shows "watchMCPServerStatus tick cl p format_time clock server namespace output w = None"
  unfolding watchMCPServerStatus_def
proof (rule poll_never)
  show "fst (watch_round tick cl p format_time clock server namespace output state) = None" for state
  proof -
    obtain v k sh where st: "state = (v, k, sh)" by (rule prod_cases3)
    show ?thesis unfolding st
    proof (rule ccontr)
      assume "fst (watch_round tick cl p format_time clock server namespace output (v, k, sh)) \<noteq> None"
      with assms show False unfolding watch_round_panics_iff by auto
    qed
  qed
qed


end
