(* ===== verification/CliRegistry.thy ===== *)
theory CliRegistry
  imports CliServer RegistryCache RegistrySync
begin

section \<open>The commands that look at registries\<close>

text \<open>
  \<open>cmd/mcp/registry.go\<close>: listing the registries of the cluster and the servers of their caches, searching
  and inspecting the public registry, and asking for a refresh. Parameters are as for the commands that
  look at servers; in addition the creation times of ConfigMaps and the HTTP transport.
\<close>

record 'w registry_cluster =
  rcl_registries :: "('w, mcp_registry) kube_api"
  rcl_maps :: "('w, config_map) kube_api"
  rcl_created :: "config_map \<Rightarrow> instant"

definition date_layout :: string where
  "date_layout = ''2006-01-02 15:04:05''"

subsection \<open>Registries\<close>

definition registry_phase_text :: "mcp_registry_phase \<Rightarrow> string" where
  "registry_phase_text p =
     (case p of RegNoPhase \<Rightarrow> [] | RegPending \<Rightarrow> ''Pending'' | RegReady \<Rightarrow> ''Ready'' | RegFailed \<Rightarrow> ''Failed''
      | RegSyncing \<Rightarrow> ''Syncing'')"

definition registry_row :: "(string \<Rightarrow> instant \<Rightarrow> string) \<Rightarrow> mcp_registry \<Rightarrow> string list" where
  "registry_row format_time r =
     [reg_Name r, om_Namespace (reg_Meta r), registry_phase_text (rgs_Phase (reg_Status r)),
      show_int (rgs_ServersDiscovered (reg_Status r)),
      (case rgs_LastSyncTime (reg_Status r) of None \<Rightarrow> ''Never'' | Some t \<Rightarrow> format_time date_layout t)]"

definition printRegistriesTable :: "(string \<Rightarrow> instant \<Rightarrow> string) \<Rightarrow> mcp_registry list \<Rightarrow> string list" where
  "printRegistriesTable format_time rs = tab_table
     ([[''NAME'', ''NAMESPACE'', ''PHASE'', ''SERVERS'', ''LAST SYNC''],
       [''----'', ''---------'', ''-----'', ''-------'', ''---------'']] @ map (registry_row format_time) rs)"

definition runRegistryList ::
  "('c, 'w registry_cluster) kube_access \<Rightarrow> mcp_registry list printers \<Rightarrow> (string \<Rightarrow> instant \<Rightarrow> string) \<Rightarrow> string \<Rightarrow>
   'w \<Rightarrow> (string + string list) \<times> 'w" where
  "runRegistryList a p format_time format w =
     (case createKubernetesClient a [] of
        Inl e \<Rightarrow> (Inl (''failed to create Kubernetes client: '' @ e), w)
      | Inr cl \<Rightarrow>
          (case ka_list (rcl_registries cl) ([], []) w of
             (Inl e, w1) \<Rightarrow> (Inl (''failed to list MCPRegistry resources: '' @ api_msg e), w1)
           | (Inr rs, w1) \<Rightarrow>
               (map_sum id (Cons ''Fetching MCPRegistry resources from cluster...'')
                  (if rs = [] then Inr [''No MCPRegistry resources found in the cluster.'']
                   else printed_as p format (printRegistriesTable format_time) rs), w1)))"

subsection \<open>The public registry\<close>

definition info_row :: "(string \<Rightarrow> instant \<Rightarrow> string) \<Rightarrow> server_info \<Rightarrow> string list" where
  "info_row format_time i =
     [sin_Name i, format_time date_layout (sin_UpdatedAt i), show_int (sin_Size i) @ '' bytes'']"

definition printServersTable :: "(string \<Rightarrow> instant \<Rightarrow> string) \<Rightarrow> server_info list \<Rightarrow> string list" where
  "printServersTable format_time is = tab_table
     ([[''NAME'', ''UPDATED'', ''SIZE''], [''----'', ''-------'', ''----'']] @ map (info_row format_time) is)"

definition runRegistrySearch ::
  "'w http_env \<Rightarrow> codecs \<Rightarrow> string \<Rightarrow> server_info list printers \<Rightarrow> (string \<Rightarrow> instant \<Rightarrow> string) \<Rightarrow> string \<Rightarrow> string \<Rightarrow>
   'w \<Rightarrow> ((string + string list) \<times> 'w) outcome" where
  "runRegistrySearch env cod token p format_time query format w =
     and_then (SearchServers env cod (NewClient token) query w) (\<lambda>(r, w1).
       Returns (case r of
           Inl e \<Rightarrow> Inl (''failed to search servers in registry: '' @ e)
         | Inr is \<Rightarrow> map_sum id (Cons (''Searching for '' @ quoted query @ '' in MCP registry...''))
             (if is = [] then Inr [''No servers found matching '' @ quoted query @ ''.'']
              else printed_as p format (printServersTable format_time) is), w1))"

text \<open>YAML unless it is JSON that is asked for.\<close>

definition runRegistryInspect ::
  "'w http_env \<Rightarrow> codecs \<Rightarrow> string \<Rightarrow> server_template option printers \<Rightarrow> string \<Rightarrow> string \<Rightarrow>
   'w \<Rightarrow> ((string + string list) \<times> 'w) outcome" where
  "runRegistryInspect env cod token p server format w =
     and_then (GetServerSpec env cod (NewClient token) server w) (\<lambda>(r, w1).
       Returns (case r of
           Inl e \<Rightarrow> Inl (if str_contains e ''not found'' then ''server '' @ quoted server @ '' not found in registry''
                       else ''failed to get server specification: '' @ e)
         | Inr spec \<Rightarrow> map_sum id (Cons (''Fetching server specification for '' @ quoted server @ ''...''))
             (printed_as p (if format = ''json'' then format else ''yaml'') (\<lambda>_. []) spec), w1))"

subsection \<open>The cache\<close>

record cached_server_info =
  csi_Name :: string
  csi_Registry :: string
  csi_Namespace :: string
  csi_ConfigMapName :: string
  csi_HasSpec :: bool
  csi_LastUpdated :: instant

definition cached_info :: "(config_map \<Rightarrow> instant) \<Rightarrow> string \<Rightarrow> config_map \<Rightarrow> cached_server_info list" where
  "cached_info created registryName cm =
     (case gm_get (cm_Labels cm) lab_server of
        None \<Rightarrow> []
      | Some n \<Rightarrow> [\<lparr>csi_Name = n, csi_Registry = registryName, csi_Namespace = cm_Namespace cm,
          csi_ConfigMapName = cm_Name cm, csi_HasSpec = (gm_str (cm_Data cm) ''server.yaml'' \<noteq> []),
          csi_LastUpdated = created cm\<rparr>])"

definition cached_row :: "(string \<Rightarrow> instant \<Rightarrow> string) \<Rightarrow> cached_server_info \<Rightarrow> string list" where
  "cached_row format_time i =
     [csi_Name i, csi_Registry i, csi_Namespace i, bool_text (csi_HasSpec i), format_time date_layout (csi_LastUpdated i)]"

definition printCachedServersTable :: "(string \<Rightarrow> instant \<Rightarrow> string) \<Rightarrow> cached_server_info list \<Rightarrow> string list" where
  "printCachedServersTable format_time is = tab_table
     ([[''NAME'', ''REGISTRY'', ''NAMESPACE'', ''HAS-SPEC'', ''LAST-UPDATED''],
       [''----'', ''--------'', ''---------'', ''--------'', ''------------'']] @ map (cached_row format_time) is)"

text \<open>The servers of the cache of the first registry of that name, in whatever namespace it is.\<close>

definition cached_servers ::
  "'w registry_cluster \<Rightarrow> string \<Rightarrow> 'w \<Rightarrow> (string + cached_server_info list) \<times> 'w" where
  "cached_servers cl registryName w =
     (case ka_list (rcl_registries cl) ([], []) w of
        (Inl e, w1) \<Rightarrow> (Inl (''failed to list MCPRegistry resources: '' @ api_msg e), w1)
      | (Inr rs, w1) \<Rightarrow>
          (case find (\<lambda>r. reg_Name r = registryName) rs of
             None \<Rightarrow> (Inl (''registry '' @ quoted registryName @ '' not found in cluster''), w1)
           | Some r \<Rightarrow>
               (case ka_list (rcl_maps cl) (om_Namespace (reg_Meta r), [(lab_registry, registryName)]) w1 of
                  (Inl e, w2) \<Rightarrow>
                    (Inl (''failed to list ConfigMaps for registry '' @ quoted registryName @ '': '' @ api_msg e), w2)
                | (Inr cms, w2) \<Rightarrow> (Inr (concat (map (cached_info (rcl_created cl) registryName) cms)), w2))))"

definition runRegistryServers ::
  "('c, 'w registry_cluster) kube_access \<Rightarrow> cached_server_info list printers \<Rightarrow> (string \<Rightarrow> instant \<Rightarrow> string) \<Rightarrow>
   string \<Rightarrow> string \<Rightarrow> 'w \<Rightarrow> (string + string list) \<times> 'w" where
  "runRegistryServers a p format_time registryName format w =
     (case createKubernetesClient a [] of
        Inl e \<Rightarrow> (Inl (''failed to create Kubernetes client: '' @ e), w)
      | Inr cl \<Rightarrow>
          apfst (\<lambda>r. case r of
              Inl e \<Rightarrow> Inl e
            | Inr is \<Rightarrow> map_sum id (Cons (''Fetching servers from registry '' @ quoted registryName @ '' cache...''))
                (if is = [] then Inr [''No servers found in registry '' @ quoted registryName @ '' cache.'']
                 else printed_as p format (printCachedServersTable format_time) is))
            (cached_servers cl registryName w))"

subsection \<open>Refreshing\<close>

definition sync_trigger :: string where
  "sync_trigger = ''mcp.allbeone.io/sync-trigger''"

definition created_registry :: "string \<Rightarrow> string \<Rightarrow> mcp_registry" where
  "created_registry now namespace = zero_registry\<lparr>
     reg_Meta := zero_meta\<lparr>om_Name := ''default'',
       om_Namespace := (if namespace = [] then ''default'' else namespace),
       om_Annotations := Some [(sync_trigger, now)]\<rparr>,
     reg_Spec := (reg_Spec zero_registry)\<lparr>
       rg_URL := ''https://api.github.com/repos/modelcontextprotocol/servers/contents/src'',
       rg_Type := ''github'', rg_SyncInterval := Some (30 * time_Minute)\<rparr>\<rparr>"

definition createDefaultRegistry ::
  "('w, mcp_registry) kube_api \<Rightarrow> string \<Rightarrow> string \<Rightarrow> 'w \<Rightarrow> go_error \<times> 'w" where
  "createDefaultRegistry api now namespace w =
     (case ka_create api (created_registry now namespace) w of
        (Inl e, w1) \<Rightarrow> (Some (''failed to create default MCPRegistry: '' @ api_msg e), w1)
      | (Inr _, w1) \<Rightarrow> (None, w1))"

text \<open>The registry by name: where it was asked for, or in \<open>default\<close> and then in \<open>mcp-system\<close>.\<close>

definition named_registry ::
  "('w, mcp_registry) kube_api \<Rightarrow> string \<Rightarrow> string \<Rightarrow> 'w \<Rightarrow> (api_error + mcp_registry) \<times> 'w" where
  "named_registry api namespace name w =
     (case ka_get api (if namespace = [] then ''default'' else namespace) name w of
        (Inr r, w1) \<Rightarrow> (Inr r, w1)
      | (Inl e, w1) \<Rightarrow> if namespace = [] then ka_get api ''mcp-system'' name w1 else (Inl e, w1))"

definition triggered :: "string \<Rightarrow> mcp_registry \<Rightarrow> mcp_registry" where
  "triggered now r = r\<lparr>reg_Meta := (reg_Meta r)\<lparr>
     om_Annotations := gm_put sync_trigger now (om_Annotations (reg_Meta r))\<rparr>\<rparr>"

definition trigger_sync :: "('w, mcp_registry) kube_api \<Rightarrow> string \<Rightarrow> mcp_registry \<Rightarrow> 'w \<Rightarrow> go_error \<times> 'w" where
  "trigger_sync api now r w =
     (case ka_update api (triggered now r) w of
        (Inl e, w1) \<Rightarrow> (Some (''failed to trigger registry sync: '' @ api_msg e), w1)
      | (Inr _, w1) \<Rightarrow> (None, w1))"

definition refresh_registry ::
  "('w, mcp_registry) kube_api \<Rightarrow> string \<Rightarrow> string \<Rightarrow> string \<Rightarrow> 'w \<Rightarrow> go_error \<times> 'w" where
  "refresh_registry api now namespace name w =
     (if name \<noteq> [] then
        (case named_registry api namespace name w of
           (Inl e, w1) \<Rightarrow> (Some (''MCPRegistry '' @ quoted name @ '' not found: '' @ api_msg e), w1)
         | (Inr r, w1) \<Rightarrow> trigger_sync api now r w1)
      else
        (case ka_list api (namespace, []) w of
           (Inl e, w1) \<Rightarrow> (Some (''failed to list MCPRegistry resources: '' @ api_msg e), w1)
         | (Inr [], w1) \<Rightarrow> createDefaultRegistry api now namespace w1
         | (Inr [r], w1) \<Rightarrow> trigger_sync api now r w1
         | (Inr _, w1) \<Rightarrow> (Some ''multiple registries found, please specify --name'', w1)))"

definition runRegistryRefresh ::
  "('c, 'w registry_cluster) kube_access \<Rightarrow> string \<Rightarrow> string \<Rightarrow> string \<Rightarrow> string \<Rightarrow> 'w \<Rightarrow> go_error \<times> 'w" where
  "runRegistryRefresh a now namespace name kubeconfig w =
     (case getKubernetesConfigWithPriority a kubeconfig of
        Inl e \<Rightarrow> (Some (''failed to get kubeconfig: '' @ e), w)
      | Inr config \<Rightarrow>
          (case kac_mcp_scheme a of
             Some e \<Rightarrow> (Some (''failed to add MCP scheme: '' @ e), w)
           | None \<Rightarrow>
               (case kac_New a config of
                  Inl e \<Rightarrow> (Some (''failed to create Kubernetes client: '' @ e), w)
                | Inr cl \<Rightarrow> refresh_registry (rcl_registries cl) now namespace name w)))"

section \<open>Correctness\<close>

subsection \<open>What the cache is shown to hold\<close>

text \<open>C26 The command line tool and the cache manager of the operator agree on what a cache holds: the servers
  shown for a registry, which is the first of its name in any namespace, are those that the manager
  lists in the namespace of that registry, in the same order, and the one fails whenever the other
  does.\<close>

theorem shown_as_cached:
  assumes "ka_list (rcl_registries cl) ([], []) w = (Inr rs, w1)"
    and "find (\<lambda>r. reg_Name r = registryName) rs = Some r" and "cac_api cc = rcl_maps cl"
  shows "(\<exists>is. cached_servers cl registryName w = (Inr is, w2) \<and> map csi_Name is = names) \<longleftrightarrow>
    ListCachedServers cc registryName (om_Namespace (reg_Meta r)) w1 = (Inr names, w2)"
proof -
  have one: "map csi_Name (cached_info created n cm) = server_label cm" for created n cm
    by (cases "gm_get (cm_Labels cm) lab_server") (simp_all add: cached_info_def server_label_def)
  have all: "map csi_Name (concat (map (cached_info created n) cms)) = concat (map server_label cms)" for created n cms
    by (induction cms) (simp_all add: one)
  obtain g v where g: "ka_list (rcl_maps cl) (om_Namespace (reg_Meta r), [(lab_registry, registryName)]) w1 = (g, v)"
    by fastforce
  show ?thesis
    by (cases g) (auto simp: cached_servers_def ListCachedServers_def registry_maps_def assms g all)
qed

text \<open>A server whose name is not a label is shown under the name it was given instead of its own.\<close>

lemma shown_name_sanitised:
  "map csi_Name (cached_info created registryName (server_config_map registryName orig yaml r)) = [dns1123Name orig]"
proof -
  have "lab_registry \<noteq> lab_server" by code_simp
  then show ?thesis by (simp add: cached_info_def server_config_map_def Let_def gm_get_def)
qed

text \<open>Of several registries of one name only the first is ever looked at.\<close>

lemma first_registry_shown:
  assumes "ka_list (rcl_registries cl) ([], []) w = (Inr (r # rs), w1)"
    and "ka_list (rcl_registries cl) ([], []) w' = (Inr [r], w1)"
    and "reg_Name r = registryName"
  shows "cached_servers cl registryName w = cached_servers cl registryName w'"
  using assms by (simp add: cached_servers_def)

subsection \<open>Refreshing\<close>

definition searched :: "string \<Rightarrow> string list" where
  "searched namespace = (if namespace = [] then [''default'', ''mcp-system''] else [namespace])"

text \<open>What the trigger leaves of a stored registry: its key and its resource version.\<close>

definition trigger_keeps ::
  "('w, mcp_registry) kube_api \<Rightarrow> ('w \<Rightarrow> string \<times> string \<Rightarrow> mcp_registry option) \<Rightarrow> 'w \<Rightarrow> bool" where
  "trigger_keeps api look w \<longleftrightarrow>
     (\<forall>ns n r now. look w (ns, n) = Some r \<longrightarrow>
        (ka_namespace api (triggered now r), ka_name api (triggered now r)) = (ns, n) \<and>
        ka_version api (triggered now r) = ka_version api r)"

lemma trigger_writes:
  assumes "api_updates api look" and "trigger_keeps api look w" and "look w (ns, name) = Some r"
  shows "\<exists>stored w1. trigger_sync api now r w = (None, w1) \<and> look w1 = (look w)((ns, name) \<mapsto> stored)"
proof -
  have k: "ka_namespace api (triggered now r) = ns" "ka_name api (triggered now r) = name"
    "ka_version api (triggered now r) = ka_version api r"
    using assms(2,3) unfolding trigger_keeps_def by blast+
  obtain stored w1 where "ka_update api (triggered now r) w = (Inr stored, w1)"
      "look w1 = (look w)((ns, name) \<mapsto> stored)"
    using assms(1)[unfolded api_updates_def, rule_format, of w "triggered now r" r] assms(3) k by auto
  then show ?thesis by (intro exI[of _ stored] exI[of _ w1]) (simp add: trigger_sync_def)
qed

lemma named_registry_found:
  assumes "api_reads api look"
  shows "case find (\<lambda>ns. look w (ns, name) \<noteq> None) (searched namespace) of
      None \<Rightarrow> \<exists>e. named_registry api namespace name w = (Inl e, w)
    | Some ns \<Rightarrow> named_registry api namespace name w = (Inr (the (look w (ns, name))), w)"
proof -
  have got: "look w (ns, name) = Some r \<Longrightarrow> ka_get api ns name w = (Inr r, w)" for ns r
    by (rule reads_stored[OF assms])
  have free: "\<exists>m. ka_get api ns name w = (Inl (NotFound m), w)" if none: "look w (ns, name) = None" for ns
  proof -
    obtain m where "ka_get api ns name w = (Inl (NotFound m), w)" by (rule reads_free[OF assms none])
    then show ?thesis ..
  qed
  show ?thesis
  proof (cases "namespace = []")
    case True
    then show ?thesis
      using got[of "''default''"] free[of "''default''"] got[of "''mcp-system''"] free[of "''mcp-system''"]
      by (cases "look w (''default'', name)"; cases "look w (''mcp-system'', name)")
         (auto simp: named_registry_def searched_def)
  next
    case False
    then show ?thesis
      using got[of namespace] free[of namespace]
      by (cases "look w (namespace, name)") (auto simp: named_registry_def searched_def)
  qed
qed

text \<open>C27 On a cluster that keeps its documented behaviour, refreshing a registry by its name writes the
  registry of that name in the namespace given or, without one, in \<open>default\<close> or else in \<open>mcp-system\<close>,
  and nothing else; if there is none, it fails and writes nothing, even if a registry of that name is
  in another namespace.\<close>

theorem refresh_finds:
  assumes "api_reads api look" and "api_updates api look" and "trigger_keeps api look w" and "name \<noteq> []"
  shows "case find (\<lambda>ns. look w (ns, name) \<noteq> None) (searched namespace) of
      None \<Rightarrow> \<exists>e. refresh_registry api now namespace name w = (Some e, w)
    | Some ns \<Rightarrow> \<exists>stored w1. refresh_registry api now namespace name w = (None, w1) \<and>
        look w1 = (look w)((ns, name) \<mapsto> stored)"
proof (cases "find (\<lambda>ns. look w (ns, name) \<noteq> None) (searched namespace)")
  case None
  then obtain e where "named_registry api namespace name w = (Inl e, w)"
    using named_registry_found[OF assms(1), where w = w and name = name and namespace = namespace] by auto
  with None assms(4) show ?thesis by (simp add: refresh_registry_def)
next
  case (Some ns)
  then obtain r where r: "look w (ns, name) = Some r" by (auto simp: find_Some_iff)
  have "named_registry api namespace name w = (Inr r, w)"
    using named_registry_found[OF assms(1), where w = w and name = name and namespace = namespace] Some r by simp
  then have "refresh_registry api now namespace name w = trigger_sync api now r w"
    using assms(4) by (simp add: refresh_registry_def)
  with Some trigger_writes[OF assms(2,3) r] show ?thesis by simp
qed

text \<open>The registry that a refresh creates is not the one that the mutating webhook refers to.\<close>

lemma default_names_differ:
  "reg_Name (created_registry now namespace) = ''default'' \<and> rr_Name (default_registry own None) = ''default-registry''"
  by (simp add: created_registry_def default_registry_def Let_def zero_registry_ref_def)

text \<open>It names a directory of a repository, as the operator reads its URL.\<close>

lemma created_registry_source:
  assumes "url_Parse ''https://api.github.com/repos/modelcontextprotocol/servers/contents/src'' =
    Inr \<lparr>pur_Host = ''api.github.com'', pur_Path = ''/repos/modelcontextprotocol/servers/contents/src'', pur_Ref = []\<rparr>"
  shows "registry_repository url_Parse (reg_Spec (created_registry now namespace)) =
    Inr \<lparr>ghr_Owner = ''modelcontextprotocol'', ghr_Name = ''servers'', ghr_Branch = ''main'', ghr_Path = ''src'',
         ghr_AuthToken = []\<rparr>"
proof -
  have "split_on (CHR ''/'') (trim ''/'' ''/repos/modelcontextprotocol/servers/contents/src'') =
      [''repos'', ''modelcontextprotocol'', ''servers'', ''contents''] @ [''src'']"
    by code_simp
  from parse_api_url[where url_Parse = url_Parse and host = "''api.github.com''" and branch = "[]"
      and path = "''/repos/modelcontextprotocol/servers/contents/src''" and own = "''modelcontextprotocol''" and name = "''servers''" and rest = "[''src'']",
      OF assms refl this] show ?thesis
    by (simp add: registry_repository_def created_registry_def)
qed

text \<open>A cluster with one registry, in \<open>mcp-system\<close>.\<close>

definition system_registry :: mcp_registry where
  "system_registry = zero_registry\<lparr>reg_Meta := zero_meta\<lparr>om_Name := ''docker'', om_Namespace := ''mcp-system''\<rparr>\<rparr>"

definition registry_api :: "(string \<times> string \<Rightarrow> mcp_registry option, mcp_registry) kube_api" where
  "registry_api = meta_api reg_Meta (\<lambda>v r. r\<lparr>reg_Meta := (reg_Meta r)\<lparr>om_UID := v\<rparr>\<rparr>)"

definition one_registry :: "string \<times> string \<Rightarrow> mcp_registry option" where
  "one_registry = Map.empty((''mcp-system'', ''docker'') \<mapsto> system_registry)"

lemma refresh_finds_witness:
  "\<exists>stored w1. refresh_registry registry_api ''now'' [] ''docker'' one_registry = (None, w1) \<and>
     w1 = one_registry((''mcp-system'', ''docker'') \<mapsto> stored)"
proof -
  have laws: "api_reads registry_api (\<lambda>w. w)" "api_updates registry_api (\<lambda>w. w)"
    unfolding registry_api_def by (rule meta_api_laws)+
  have "trigger_keeps registry_api (\<lambda>w. w) one_registry"
    by (auto simp: trigger_keeps_def registry_api_def meta_api_def one_registry_def triggered_def system_registry_def
        split: if_splits)
  moreover have "find (\<lambda>ns. one_registry (ns, ''docker'') \<noteq> None) (searched []) = Some ''mcp-system''"
    by (simp add: searched_def one_registry_def)
  ultimately show ?thesis
    using refresh_finds[OF laws, where w = one_registry and name = "''docker''" and namespace = "[]" and now = "''now''"]
    by simp
qed

definition listed_cluster :: "config_map list registry_cluster" where
  "listed_cluster = \<lparr>rcl_registries = static_api [zero_registry\<lparr>reg_Meta := zero_meta\<lparr>om_Name := ''r''\<rparr>\<rparr>],
     rcl_maps = cac_api maps_manager, rcl_created = (\<lambda>_. 0)\<rparr>"

lemma shown_as_cached_witness:
  "\<exists>is. cached_servers listed_cluster ''r'' underscored_world = (Inr is, underscored_world) \<and> map csi_Name is = [''a-b'']"
proof -
  let ?r = "zero_registry\<lparr>reg_Meta := zero_meta\<lparr>om_Name := ''r''\<rparr>\<rparr>"
  have l: "ka_list (rcl_registries listed_cluster) ([], []) underscored_world = (Inr [?r], underscored_world)"
    by (simp add: listed_cluster_def static_api_def)
  have f: "find (\<lambda>r. reg_Name r = ''r'') [?r] = Some ?r" by simp
  have c: "cac_api maps_manager = rcl_maps listed_cluster" by (simp add: listed_cluster_def)
  have "ListCachedServers maps_manager ''r'' (om_Namespace (reg_Meta ?r)) underscored_world = (Inr [''a-b''], underscored_world)"
    by code_simp
  then show ?thesis unfolding shown_as_cached[OF l f c, symmetric] .
qed

end
