(* ===== verification/PathLaws.thy ===== *)
theory PathLaws
  imports GoText
begin

section \<open>Laws of cleaned paths\<close>

text \<open>
  Cleaning keeps a stack of path elements; here it is shown that cleaning is idempotent and that joining
  step by step gives the same path as joining at once, on which the code relies whenever it builds a
  path from a path it has built before.
\<close>

text \<open>What the stack always is: proper elements, with \<open>..\<close> only at its bottom and only below no root.\<close>

fun settled :: "bool \<Rightarrow> string list \<Rightarrow> bool" where
  "settled rooted [] = True"
| "settled rooted (e # es) =
     (e \<noteq> [] \<and> e \<noteq> ''.'' \<and> CHR ''/'' \<notin> set e \<and> (e = ''..'' \<longrightarrow> \<not> rooted \<and> set es \<subseteq> {''..''}) \<and> settled rooted es)"

lemma clean_step_settled:
  assumes "settled rooted acc" and "CHR ''/'' \<notin> set e"
  shows "settled rooted (clean_step rooted e acc)"
proof (cases "e = ''..''")
  case True
  with assms show ?thesis by (cases acc) (auto simp: clean_step_def)
next
  case False
  with assms show ?thesis by (simp add: clean_step_def)
qed

lemma fold_clean_settled:
  "settled rooted acc \<Longrightarrow> \<forall>e \<in> set es. CHR ''/'' \<notin> set e \<Longrightarrow> settled rooted (fold (clean_step rooted) es acc)"
  by (induction es arbitrary: acc) (simp_all add: clean_step_settled)

lemma clean_step_push:
  "settled rooted (e # es) \<Longrightarrow> clean_step rooted e es = e # es"
  by (cases es) (auto simp: clean_step_def)

lemma fold_clean_rev: "settled rooted acc \<Longrightarrow> fold (clean_step rooted) (rev acc) [] = acc"
proof (induction acc)
  case (Cons e es)
  then have "fold (clean_step rooted) (rev es) [] = es" by simp
  with clean_step_push[OF Cons.prems] show ?case by simp
qed simp

lemma settled_slash_free: "settled rooted acc \<Longrightarrow> \<forall>e \<in> set acc. CHR ''/'' \<notin> set e"
  by (induction acc) auto

subsection \<open>Cleaning twice\<close>

definition rendered :: "bool \<Rightarrow> string list \<Rightarrow> string" where
  "rendered rooted acc =
     (let out = (if rooted then ''/'' else []) @ join ''/'' (rev acc) in if out = [] then ''.'' else out)"

definition parts_of :: "bool \<Rightarrow> string \<Rightarrow> string list" where
  "parts_of rooted s = fold (clean_step rooted) (split_on (CHR ''/'') s) []"

lemma path_Clean_rendered: "path_Clean s = rendered (has_prefix s ''/'') (parts_of (has_prefix s ''/'') s)"
  by (simp add: path_Clean_def rendered_def parts_of_def Let_def)

lemma parts_settled: "settled rooted (parts_of rooted s)"
  unfolding parts_of_def by (rule fold_clean_settled) (auto dest: split_parts)

lemma rendered_not_empty: "rendered rooted acc \<noteq> []"
  by (simp add: rendered_def Let_def)

lemma join_nonempty_hd: "xs \<noteq> [] \<Longrightarrow> hd xs \<noteq> [] \<Longrightarrow> join sep xs \<noteq> [] \<and> hd (join sep xs) = hd (hd xs)"
  by (cases "(sep, xs)" rule: join.cases) simp_all

lemma settled_last: "settled rooted acc \<Longrightarrow> acc \<noteq> [] \<Longrightarrow> last acc \<noteq> [] \<and> CHR ''/'' \<notin> set (last acc)"
  by (induction acc) auto

lemma prefix_slash: "has_prefix s ''/'' \<longleftrightarrow> s \<noteq> [] \<and> hd s = CHR ''/''"
  by (cases s) (simp_all add: has_prefix_def)

lemma rendered_rooted:
  assumes "settled rooted acc"
  shows "has_prefix (rendered rooted acc) ''/'' \<longleftrightarrow> rooted"
proof (cases "rooted \<or> acc = []")
  case True
  then show ?thesis by (auto simp: rendered_def has_prefix_def Let_def)
next
  case False
  then have l: "last acc \<noteq> []" "CHR ''/'' \<notin> set (last acc)" using settled_last[OF assms] by auto
  have "join ''/'' (rev acc) \<noteq> [] \<and> hd (join ''/'' (rev acc)) = hd (last acc)"
    using join_nonempty_hd[of "rev acc" "''/''"] False l by (simp add: hd_rev)
  moreover have "hd (last acc) \<noteq> CHR ''/''" using l by (metis hd_in_set)
  ultimately show ?thesis using False by (simp add: rendered_def prefix_slash)
qed

lemma rendered_parts:
  assumes "settled rooted acc"
  shows "fold (clean_step rooted) (split_on (CHR ''/'') (rendered rooted acc)) [] = acc"
proof (cases "acc = []")
  case True
  then show ?thesis by (cases rooted) (simp_all add: rendered_def clean_step_def)
next
  case False
  then have "split_on (CHR ''/'') (join ''/'' (rev acc)) = rev acc"
    using split_join[of "rev acc"] settled_slash_free[OF assms] by simp
  moreover have "join ''/'' (rev acc) \<noteq> []"
    using join_nonempty_hd[of "rev acc" "''/''"] False settled_last[OF assms False] by (simp add: hd_rev)
  ultimately show ?thesis
    using fold_clean_rev[OF assms] by (cases rooted) (simp_all add: rendered_def clean_step_def)
qed

lemma path_Clean_append:
  assumes "s \<noteq> []"
  shows "path_Clean (path_Clean s @ ''/'' @ t) = path_Clean (s @ ''/'' @ t)"
proof -
  let ?r = "has_prefix s ''/''"
  let ?acc = "parts_of ?r s"
  have c: "path_Clean s = rendered ?r ?acc" by (rule path_Clean_rendered)
  have r1: "has_prefix (s @ ''/'' @ t) ''/'' = ?r" using assms by (simp add: prefix_slash)
  have r2: "has_prefix (rendered ?r ?acc @ ''/'' @ t) ''/'' = ?r"
    using rendered_rooted[OF parts_settled, of ?r s] rendered_not_empty[of ?r ?acc] by (simp add: prefix_slash)
  have "parts_of ?r (rendered ?r ?acc @ ''/'' @ t) = parts_of ?r (s @ ''/'' @ t)"
    using rendered_parts[OF parts_settled, of ?r s] by (simp add: parts_of_def split_concat)
  then show ?thesis
    unfolding c path_Clean_rendered[of "s @ ''/'' @ t"] path_Clean_rendered[of "rendered ?r ?acc @ ''/'' @ t"]
      r1 r2 by simp
qed

lemma path_Clean_idem: "path_Clean (path_Clean s) = path_Clean s"
proof -
  let ?r = "has_prefix s ''/''"
  have c: "path_Clean s = rendered ?r (parts_of ?r s)" by (rule path_Clean_rendered)
  show ?thesis
    unfolding c path_Clean_rendered[of "rendered ?r (parts_of ?r s)"] rendered_rooted[OF parts_settled]
    using rendered_parts[OF parts_settled, of ?r s] by (simp add: parts_of_def)
qed

lemma path_Clean_not_empty: "path_Clean s \<noteq> []"
  unfolding path_Clean_rendered by (rule rendered_not_empty)

lemma path_Join_nested: "path_Join [path_Join [a, b], c] = path_Join [a, b, c]"
proof (cases "a = []")
  case True
  then show ?thesis using path_Clean_append[of b c] path_Clean_not_empty[of b]
    by (cases "b = []") (simp_all add: path_Join_def)
next
  case False
  then show ?thesis using path_Clean_append[of "a @ ''/'' @ b" c] path_Clean_not_empty[of "a @ ''/'' @ b"]
    by (simp add: path_Join_def)
qed

end
