(* ===== verification/Syncer.thy ===== *)
theory Syncer
  imports RegistryClient PathLaws
begin

section \<open>The syncer\<close>

text \<open>
  \<open>pkg/sync/syncer.go\<close>: a directory with the templates of a registry and the sources of its servers.
  The file system, the commands that are run, the pauses and YAML are the record \<open>workspace\<close>; the
  registry is the client of theory RegistryClient. What is printed is left out, except for the counts.
\<close>

text \<open>\<open>Stat\<close> gives the text of its error, if any, and whether it says that the file does not exist.\<close>

record 'w workspace =
  wks_http :: "'w http_env"
  wks_codecs :: codecs
  wks_Stat :: "string \<Rightarrow> 'w \<Rightarrow> (string \<times> bool) option"
  wks_MkdirAll :: "string \<Rightarrow> 'w \<Rightarrow> go_error \<times> 'w"
  wks_RemoveAll :: "string \<Rightarrow> 'w \<Rightarrow> go_error \<times> 'w"
  wks_WriteFile :: "string \<Rightarrow> string \<Rightarrow> 'w \<Rightarrow> go_error \<times> 'w"
  wks_ReadFile :: "string \<Rightarrow> 'w \<Rightarrow> string + string"
  wks_ReadDir :: "string \<Rightarrow> 'w \<Rightarrow> string + (string \<times> bool) list"
  wks_TempDir :: string
  wks_Run :: "string list \<Rightarrow> 'w \<Rightarrow> go_error \<times> 'w"
  wks_Sleep :: "duration \<Rightarrow> 'w \<Rightarrow> 'w"
  wks_Marshal :: "server_template option \<Rightarrow> string + string"
  wks_Unmarshal :: "string \<Rightarrow> string + server_template"
  wks_Unmarshal_yaml :: "string \<Rightarrow> string + server_yaml"

record syncer =
  syr_client :: registry_http
  syr_baseDir :: string
  syr_yamalsDir :: string
  syr_sourcesDir :: string

definition NewSyncer :: "registry_http \<Rightarrow> string \<Rightarrow> syncer" where
  "NewSyncer client baseDir = \<lparr>syr_client = client, syr_baseDir = baseDir,
     syr_yamalsDir = path_Join [baseDir, ''yamls''], syr_sourcesDir = path_Join [baseDir, ''sources'']\<rparr>"

abbreviation wrapped :: "string \<Rightarrow> go_error \<times> 'w \<Rightarrow> go_error \<times> 'w" where
  "wrapped p r \<equiv> apfst (wrap_err p) r"

definition missing :: "'w workspace \<Rightarrow> string \<Rightarrow> 'w \<Rightarrow> bool" where
  "missing ws p w = (case wks_Stat ws p w of None \<Rightarrow> False | Some (e, not_exist) \<Rightarrow> not_exist)"

definition ensureDir :: "'w workspace \<Rightarrow> string \<Rightarrow> 'w \<Rightarrow> go_error \<times> 'w" where
  "ensureDir ws dir w = (if missing ws dir w then wks_MkdirAll ws dir w else (None, w))"

definition spec_file :: "syncer \<Rightarrow> string \<Rightarrow> string" where
  "spec_file s server = path_Join [path_Join [syr_yamalsDir s, server], ''server.yaml'']"

subsection \<open>Templates\<close>

definition save_spec ::
  "'w workspace \<Rightarrow> syncer \<Rightarrow> string \<Rightarrow> server_template option \<Rightarrow> 'w \<Rightarrow> go_error \<times> 'w" where
  "save_spec ws s server spec w =
     and_check (wrapped ''failed to create server directory: ''
         (wks_MkdirAll ws (path_Join [syr_yamalsDir s, server]) w)) (\<lambda>w1.
       case wks_Marshal ws spec of
         Inl e \<Rightarrow> (Some (''failed to marshal spec to YAML: '' @ e), w1)
       | Inr bytes \<Rightarrow> wrapped ''failed to write spec file: '' (wks_WriteFile ws (spec_file s server) bytes w1))"

definition DownloadServerSpec ::
  "'w workspace \<Rightarrow> syncer \<Rightarrow> string \<Rightarrow> 'w \<Rightarrow> (go_error \<times> 'w) outcome" where
  "DownloadServerSpec ws s server w =
     (case ensureDir ws (syr_yamalsDir s) w of
        (Some e, w1) \<Rightarrow> Returns (Some (''failed to create yamls directory: '' @ e), w1)
      | (None, w1) \<Rightarrow>
          and_then (GetServerSpec (wks_http ws) (wks_codecs ws) (syr_client s) server w1) (\<lambda>(r, w2).
            Returns (case r of
              Inl e \<Rightarrow> (Some (''failed to get server spec: '' @ e), w2)
            | Inr spec \<Rightarrow> save_spec ws s server spec w2)))"

text \<open>\<open>left\<close> of the three attempts remain; the pauses are one second, doubled under a rate limit.\<close>

primrec download_attempts ::
  "'w workspace \<Rightarrow> syncer \<Rightarrow> string \<Rightarrow> nat \<Rightarrow> 'w \<Rightarrow> (go_error \<times> 'w) outcome" where
  "download_attempts ws s server 0 w = Returns (Some (''exceeded max retries for '' @ server), w)"
| "download_attempts ws s server (Suc left) w =
     and_then (DownloadServerSpec ws s server w) (\<lambda>(e, w1).
       case e of
         None \<Rightarrow> Returns (None, w1)
       | Some m \<Rightarrow>
           if str_contains m ''429'' \<and> left > 0 then
             download_attempts ws s server left (wks_Sleep ws (time_Second * 2 ^ (2 - left)) w1)
           else if left = 0 then Returns (Some m, w1)
           else download_attempts ws s server left (wks_Sleep ws time_Second w1))"

definition downloadServerSpecWithRetry ::
  "'w workspace \<Rightarrow> syncer \<Rightarrow> string \<Rightarrow> 'w \<Rightarrow> (go_error \<times> 'w) outcome" where
  "downloadServerSpecWithRetry ws s server w = download_attempts ws s server 3 w"

text \<open>The counts that are printed: successes, errors and rate limits.\<close>

type_synonym sync_counts = "nat \<times> nat \<times> nat"

primrec sync_all ::
  "'w workspace \<Rightarrow> syncer \<Rightarrow> server_info list \<Rightarrow> sync_counts \<Rightarrow> 'w \<Rightarrow> (sync_counts \<times> 'w) outcome" where
  "sync_all ws s [] counts w = Returns (counts, w)"
| "sync_all ws s (x # xs) counts w =
     and_then (downloadServerSpecWithRetry ws s (sin_Name x) w) (\<lambda>(e, w1).
       case counts of (good, bad, limited) \<Rightarrow>
         (case e of
            Some m \<Rightarrow>
              if str_contains m ''429''
              then sync_all ws s xs (good, bad, Suc limited) (wks_Sleep ws (2 * time_Second) w1)
              else sync_all ws s xs (good, Suc bad, limited) w1
          | None \<Rightarrow> sync_all ws s xs (Suc good, bad, limited) (wks_Sleep ws (100 * time_Millisecond) w1)))"

definition SyncAllServers ::
  "'w workspace \<Rightarrow> syncer \<Rightarrow> 'w \<Rightarrow> ((string + sync_counts) \<times> 'w) outcome" where
  "SyncAllServers ws s w =
     and_then (ListServers (wks_http ws) (wks_codecs ws) (syr_client s) w) (\<lambda>(r, w1).
       case r of
         Inl e \<Rightarrow> Returns (Inl (''failed to list servers: '' @ e), w1)
       | Inr servers \<Rightarrow> and_then (sync_all ws s servers (0, 0, 0) w1) (\<lambda>(c, w2). Returns (Inr c, w2)))"

definition LoadServerSpec :: "'w workspace \<Rightarrow> syncer \<Rightarrow> string \<Rightarrow> 'w \<Rightarrow> string + server_template" where
  "LoadServerSpec ws s server w =
     (case wks_ReadFile ws (path_Join [syr_yamalsDir s, server, ''server.yaml'']) w of
        Inl e \<Rightarrow> Inl (''failed to read spec file: '' @ e)
      | Inr bytes \<Rightarrow>
          (case wks_Unmarshal ws bytes of
             Inl e \<Rightarrow> Inl (''failed to unmarshal spec: '' @ e)
           | Inr t \<Rightarrow> Inr t))"

definition GetLocalServers :: "'w workspace \<Rightarrow> syncer \<Rightarrow> 'w \<Rightarrow> string + string list" where
  "GetLocalServers ws s w =
     (if missing ws (syr_yamalsDir s) w then Inr []
      else (case wks_ReadDir ws (syr_yamalsDir s) w of
              Inl e \<Rightarrow> Inl (''failed to read yamls directory: '' @ e)
            | Inr entries \<Rightarrow> Inr (map (\<lambda>e. trim_suffix (fst e) ''.yaml'')
                (filter (\<lambda>e. \<not> snd e \<and> has_suffix (fst e) ''.yaml'') entries))))"

definition HasLocalSources :: "'w workspace \<Rightarrow> syncer \<Rightarrow> string \<Rightarrow> 'w \<Rightarrow> bool" where
  "HasLocalSources ws s server w \<longleftrightarrow> wks_Stat ws (path_Join [syr_sourcesDir s, server]) w = None"

subsection \<open>A registry in a directory\<close>

definition spec_of_yaml :: "server_yaml \<Rightarrow> server_template" where
  "spec_of_yaml y = zero_template\<lparr>tpl_Name := sym_Name y, tpl_Description := sym_Description y,
     tpl_Repository := sym_Project y,
     tpl_Runtime := (tpl_Runtime zero_template)\<lparr>trt_Type := sym_Type y, trt_Image := sym_Image y\<rparr>,
     tpl_Keywords := sym_Tags y\<rparr>"

text \<open>What one entry of the directory adds: nothing, an error, or a copy.\<close>

datatype copied = NoTemplate | NotCopied | Copied

definition copy_server ::
  "'w workspace \<Rightarrow> syncer \<Rightarrow> string \<Rightarrow> string \<times> bool \<Rightarrow> 'w \<Rightarrow> copied \<times> 'w" where
  "copy_server ws s serversDir entry w =
     (let server = fst entry; file = path_Join [serversDir, server, ''server.yaml''] in
      if \<not> snd entry \<or> wks_Stat ws file w \<noteq> None then (NoTemplate, w)
      else (case wks_ReadFile ws file w of
         Inl _ \<Rightarrow> (NotCopied, w)
       | Inr content \<Rightarrow>
           (case wks_Unmarshal_yaml ws content of
              Inl _ \<Rightarrow> (NotCopied, w)
            | Inr y \<Rightarrow>
                (case save_spec ws s server (Some (spec_of_yaml y)) w of
                   (Some _, w1) \<Rightarrow> (NotCopied, w1)
                 | (None, w1) \<Rightarrow> (Copied, w1)))))"

primrec copy_servers ::
  "'w workspace \<Rightarrow> syncer \<Rightarrow> string \<Rightarrow> (string \<times> bool) list \<Rightarrow> nat \<times> nat \<Rightarrow> 'w \<Rightarrow> (nat \<times> nat) \<times> 'w" where
  "copy_servers ws s dir [] counts w = (counts, w)"
| "copy_servers ws s dir (e # es) counts w =
     (case copy_server ws s dir e w of
        (NoTemplate, w1) \<Rightarrow> copy_servers ws s dir es counts w1
      | (NotCopied, w1) \<Rightarrow> copy_servers ws s dir es (apsnd Suc counts) w1
      | (Copied, w1) \<Rightarrow> copy_servers ws s dir es (apfst Suc counts) w1)"

definition SyncFromLocalRegistry ::
  "'w workspace \<Rightarrow> syncer \<Rightarrow> string \<Rightarrow> 'w \<Rightarrow> (string + nat \<times> nat) \<times> 'w" where
  "SyncFromLocalRegistry ws s registryPath w =
     (case ensureDir ws (syr_yamalsDir s) w of
        (Some e, w1) \<Rightarrow> (Inl (''failed to create yamls directory: '' @ e), w1)
      | (None, w1) \<Rightarrow>
          (let dir = path_Join [registryPath, ''servers''] in
           case wks_Stat ws dir w1 of
             Some (e, _) \<Rightarrow> (Inl (''local registry servers directory not found at '' @ dir @ '': '' @ e), w1)
           | None \<Rightarrow>
               (case wks_ReadDir ws dir w1 of
                  Inl e \<Rightarrow> (Inl (''failed to read servers directory: '' @ e), w1)
                | Inr entries \<Rightarrow> apfst Inr (copy_servers ws s dir entries (0, 0) w1))))"

subsection \<open>Sources\<close>

definition cloneRepository :: "'w workspace \<Rightarrow> syncer \<Rightarrow> string \<Rightarrow> string \<Rightarrow> 'w \<Rightarrow> go_error \<times> 'w" where
  "cloneRepository ws s repoURL server w =
     (let sourcePath = path_Join [syr_sourcesDir s, server] in
      and_check (wrapped ''failed to remove existing source directory: '' (wks_RemoveAll ws sourcePath w)) (\<lambda>w1.
        wrapped ''failed to clone repository: '' (wks_Run ws [''git'', ''clone'', repoURL, sourcePath] w1)))"

text \<open>The temporary clone is removed however the copy ends.\<close>

definition downloadFromDockerRegistry :: "'w workspace \<Rightarrow> syncer \<Rightarrow> string \<Rightarrow> 'w \<Rightarrow> go_error \<times> 'w" where
  "downloadFromDockerRegistry ws s server w =
     (let sourcePath = path_Join [syr_sourcesDir s, server];
          tempDir = path_Join [wks_TempDir ws, ''mcp-registry-temp''] in
      and_check (wrapped ''failed to remove existing source directory: '' (wks_RemoveAll ws sourcePath w)) (\<lambda>w1.
      and_check (wks_RemoveAll ws tempDir w1) (\<lambda>w2.
      and_check (wrapped ''failed to clone registry: '' (wks_Run ws [''git'', ''clone'', ''--depth'', ''1'',
          ''https://github.com/docker/mcp-registry.git'', tempDir] w2)) (\<lambda>w3.
        let serverDir = path_Join [tempDir, ''servers'', server];
            (e, w4) = (if missing ws serverDir w3 then (Some (''server '' @ server @ '' not found in registry''), w3)
              else wrapped ''failed to copy server sources: ''
                     (wks_Run ws [''cp'', ''-r'', serverDir, sourcePath] w3))
        in (e, snd (wks_RemoveAll ws tempDir w4))))))"

definition getDefaultServerSpec :: "string \<Rightarrow> server_template" where
  "getDefaultServerSpec server =
     (let (ty, image, command) =
        (if str_contains server ''node'' \<or> str_contains server ''js''
         then (''node'', ''node:18-alpine'', [''npm'', ''start''])
         else if str_contains server ''go'' then (''go'', ''golang:1.21-alpine'', [''./main''])
         else (''python'', ''python:3.11-slim'', [''python'', ''-m'', ''mcp_server_'' @ server])) in
      zero_template\<lparr>tpl_Name := server, tpl_Version := ''1.0.0'', tpl_Description := ''MCP server for '' @ server,
        tpl_Runtime := (tpl_Runtime zero_template)\<lparr>trt_Type := ty, trt_Image := image, trt_Command := command\<rparr>,
        tpl_Capabilities := [''tools'', ''resources'']\<rparr>)"

definition dockerfile_node :: "string" where
  "dockerfile_node =
     ''FROM node:18-alpine'' @ [CHR 0x0A, CHR 0x0A] @ ''WORKDIR /app'' @ [CHR 0x0A, CHR 0x0A] @
     ''# '' @ russian [19, 49, 50, 32, 45, 32, 34, 43, 40, 34, 32, 37, 44] @ '' '' @
     russian [39, 32, 34, 40, 49, 40, 44, 46, 49, 50, 40] @ [CHR 0x0A] @ ''COPY package*.json ./'' @
     [CHR 0x0A] @ ''RUN npm ci --only=production'' @ [CHR 0x0A, CHR 0x0A] @ ''# '' @
     russian [10, 46, 47, 40, 48, 51, 37, 44] @ '' '' @ russian [40, 49, 53, 46, 36, 45, 59, 41] @
     '' '' @ russian [42, 46, 36] @ [CHR 0x0A] @ ''COPY . .'' @ [CHR 0x0A, CHR 0x0A] @
     ''EXPOSE 8080'' @ [CHR 0x0A, CHR 0x0A] @ ''CMD ['' @ [CHR 0x22] @ ''npm'' @ [CHR 0x22] @ '', '' @
     [CHR 0x22] @ ''start'' @ [CHR 0x22] @ '']'' @ [CHR 0x0A]"

definition dockerfile_go :: "string" where
  "dockerfile_go =
     ''FROM golang:1.21-alpine AS builder'' @ [CHR 0x0A, CHR 0x0A] @ ''WORKDIR /app'' @
     [CHR 0x0A, CHR 0x0A] @ ''COPY go.mod go.sum ./'' @ [CHR 0x0A] @ ''RUN go mod download'' @
     [CHR 0x0A, CHR 0x0A] @ ''COPY . .'' @ [CHR 0x0A] @
     ''RUN CGO_ENABLED=0 GOOS=linux go build -o main .'' @ [CHR 0x0A, CHR 0x0A] @
     ''FROM alpine:latest'' @ [CHR 0x0A] @ ''RUN apk --no-cache add ca-certificates'' @ [CHR 0x0A] @
     ''WORKDIR /root/'' @ [CHR 0x0A, CHR 0x0A] @ ''COPY --from=builder /app/main .'' @
     [CHR 0x0A, CHR 0x0A] @ ''EXPOSE 8080'' @ [CHR 0x0A] @ ''CMD ['' @ [CHR 0x22] @ ''./main'' @
     [CHR 0x22] @ '']'' @ [CHR 0x0A]"

definition dockerfile_python :: "string \<Rightarrow> string" where
  "dockerfile_python server =
     ''FROM python:3.11-slim'' @ [CHR 0x0A, CHR 0x0A] @ ''WORKDIR /app'' @ [CHR 0x0A, CHR 0x0A] @
     ''# '' @ russian [19, 49, 50, 32, 45, 32, 34, 43, 40, 34, 32, 37, 44] @ '' '' @
     russian [49, 40, 49, 50, 37, 44, 45, 59, 37] @ '' '' @
     russian [39, 32, 34, 40, 49, 40, 44, 46, 49, 50, 40] @ [CHR 0x0A] @
     ''RUN apt-get update && apt-get install -y '' @ [CHR 0x5C, CHR 0x5C, CHR 0x0A] @ ''    git '' @
     [CHR 0x5C, CHR 0x5C, CHR 0x0A] @ ''    && rm -rf /var/lib/apt/lists/*'' @ [CHR 0x0A, CHR 0x0A] @
     ''# '' @ russian [19, 49, 50, 32, 45, 32, 34, 43, 40, 34, 32, 37, 44] @ '' Python '' @
     russian [39, 32, 34, 40, 49, 40, 44, 46, 49, 50, 40] @ [CHR 0x0A] @ ''COPY requirements.txt .'' @
     [CHR 0x0A] @ ''RUN pip install --no-cache-dir -r requirements.txt'' @ [CHR 0x0A, CHR 0x0A] @
     ''# '' @ russian [10, 46, 47, 40, 48, 51, 37, 44] @ '' '' @
     russian [40, 49, 53, 46, 36, 45, 59, 41] @ '' '' @ russian [42, 46, 36] @ [CHR 0x0A] @
     ''COPY . .'' @ [CHR 0x0A, CHR 0x0A] @ ''EXPOSE 8080'' @ [CHR 0x0A, CHR 0x0A] @ ''CMD ['' @
     [CHR 0x22] @ ''python'' @ [CHR 0x22] @ '', '' @ [CHR 0x22] @ ''-m'' @ [CHR 0x22] @ '', '' @
     [CHR 0x22] @ ''mcp_server_'' @ server @ [CHR 0x22] @ '']'' @ [CHR 0x0A]"

definition readme_of :: "string \<Rightarrow> string" where
  "readme_of server =
     ''# MCP Server: '' @ server @ [CHR 0x0A, CHR 0x0A] @ russian [1, 32, 39, 46, 34, 32, 63] @ '' '' @
     russian [49, 50, 48, 51, 42, 50, 51, 48, 32] @ '' '' @ russian [49, 37, 48, 34, 37, 48, 32] @
     '' '' @ server @ '', '' @ russian [49, 46, 39, 36, 32, 45, 45, 32, 63] @ '' '' @
     russian [32, 34, 50, 46, 44, 32, 50, 40, 55, 37, 49, 42, 40] @ ''.'' @ [CHR 0x0A, CHR 0x0A] @
     russian [4, 43, 63] @ '' '' @ russian [47, 46, 43, 51, 55, 37, 45, 40, 63] @ '' '' @
     russian [40, 49, 53, 46, 36, 45, 46, 35, 46] @ '' '' @ russian [42, 46, 36, 32] @ '' '' @
     russian [49, 44] @ ''. '' @ russian [46, 52, 40, 54, 40, 32, 43, 60, 45, 59, 41] @ '' '' @
     russian [48, 37, 47, 46, 39, 40, 50, 46, 48, 40, 41] @
     '': https://github.com/docker/mcp-registry/tree/main/servers/'' @ server @ [CHR 0x0A]"

definition generateDockerfile :: "string \<Rightarrow> string \<Rightarrow> string" where
  "generateDockerfile server runtimeType =
     (if runtimeType = ''node'' then dockerfile_node
      else if runtimeType = ''go'' then dockerfile_go
      else dockerfile_python server)"

definition createBasicServerStructure :: "'w workspace \<Rightarrow> syncer \<Rightarrow> string \<Rightarrow> 'w \<Rightarrow> go_error \<times> 'w" where
  "createBasicServerStructure ws s server w =
     (let sourcePath = path_Join [syr_sourcesDir s, server]; spec = getDefaultServerSpec server in
      and_check (wrapped ''failed to create server directory: '' (wks_MkdirAll ws sourcePath w)) (\<lambda>w1.
      case wks_Marshal ws (Some spec) of
        Inl e \<Rightarrow> (Some (''failed to marshal default spec: '' @ e), w1)
      | Inr bytes \<Rightarrow>
          and_check (wrapped ''failed to create server directory: ''
            (wks_MkdirAll ws (path_Join [syr_yamalsDir s, server]) w1)) (\<lambda>w2.
          and_check (wrapped ''failed to write default spec: ''
            (wks_WriteFile ws (spec_file s server) bytes w2)) (\<lambda>w3.
          and_check (wrapped ''failed to write Dockerfile: ''
            (wks_WriteFile ws (path_Join [sourcePath, ''Dockerfile''])
               (generateDockerfile server (trt_Type (tpl_Runtime spec))) w3)) (\<lambda>w4.
          wrapped ''failed to write README: ''
            (wks_WriteFile ws (path_Join [sourcePath, ''README.md'']) (readme_of server) w4))))))"

text \<open>The repository of the template, then the Docker registry, then files made up from the name.\<close>

definition DownloadServerSources ::
  "'w workspace \<Rightarrow> syncer \<Rightarrow> string \<Rightarrow> 'w \<Rightarrow> (go_error \<times> 'w) outcome" where
  "DownloadServerSources ws s server w =
     (case ensureDir ws (syr_sourcesDir s) w of
        (Some e, w1) \<Rightarrow> Returns (Some (''failed to create sources directory: '' @ e), w1)
      | (None, w1) \<Rightarrow>
          and_then (GetServerSpec (wks_http ws) (wks_codecs ws) (syr_client s) server w1) (\<lambda>(r, w2).
          and_then (case r of
              Inl _ \<Rightarrow> Returns (Some [], w2)
            | Inr spec \<Rightarrow> and_then (deref spec) (\<lambda>t. Returns
                (if tpl_Repository t \<noteq> [] then cloneRepository ws s (tpl_Repository t) server w2
                 else (Some [], w2)))) (\<lambda>(cloned, w3).
            if cloned = None then Returns (None, w3)
            else (case downloadFromDockerRegistry ws s server w3 of
                    (None, w4) \<Rightarrow> Returns (None, w4)
                  | (Some _, w4) \<Rightarrow> Returns (createBasicServerStructure ws s server w4)))))"

section \<open>Correctness\<close>

subsection \<open>What is downloaded can be loaded\<close>

text \<open>A file holds what was written to it last, and YAML is read back as it was written.\<close>

definition keeps_files :: "'w workspace \<Rightarrow> bool" where
  "keeps_files ws \<longleftrightarrow>
     (\<forall>p bytes w w1. wks_WriteFile ws p bytes w = (None, w1) \<longrightarrow> wks_ReadFile ws p w1 = Inr bytes)"

definition reads_yaml :: "'w workspace \<Rightarrow> bool" where
  "reads_yaml ws \<longleftrightarrow> (\<forall>t bytes. wks_Marshal ws (Some t) = Inr bytes \<longrightarrow> wks_Unmarshal ws bytes = Inr t)"

lemma and_check_ok: "and_check r f = (None, w1) \<longleftrightarrow> fst r = None \<and> f (snd r) = (None, w1)"
  by (cases r; cases "fst r") simp_all

lemma wrapped_ok: "wrapped p r = (None, w1) \<longleftrightarrow> r = (None, w1)"
  by (cases r; cases "fst r") (simp_all add: wrap_err_def)

lemma saved_spec_loads:
  assumes "keeps_files ws" and "reads_yaml ws" and "save_spec ws s server (Some t) w = (None, w1)"
  shows "LoadServerSpec ws s server w1 = Inr t"
proof -
  obtain bytes v where m: "wks_Marshal ws (Some t) = Inr bytes"
    and wr: "wks_WriteFile ws (spec_file s server) bytes v = (None, w1)"
    using assms(3) by (auto simp: save_spec_def and_check_ok wrapped_ok split: sum.splits)
  have "wks_ReadFile ws (path_Join [syr_yamalsDir s, server, ''server.yaml'']) w1 = Inr bytes"
    using wr assms(1) unfolding keeps_files_def spec_file_def path_Join_nested by blast
  moreover have "wks_Unmarshal ws bytes = Inr t" using m assms(2) unfolding reads_yaml_def by blast
  ultimately show ?thesis by (simp add: LoadServerSpec_def)
qed


text \<open>
  The listing of what is stored looks for files next to the directories into which the templates are
  written: in a directory with nothing but templates it finds no server.
\<close>

lemma local_listing_finds_none:
  assumes "wks_ReadDir ws (syr_yamalsDir s) w = Inr entries" and "\<forall>e \<in> set entries. snd e"
  shows "GetLocalServers ws s w = Inr []"
  using assms by (simp add: GetLocalServers_def filter_empty_conv)

subsection \<open>All servers\<close>

lemma spec_returns:
  assumes "rht_retry c = DefaultGitHubRetryConfig"
  obtains r w1 where "GetServerSpec env cod c server w = Returns (r, w1)"
proof -
  obtain e y w1 where "retried env c (spec_attempt env cod c server) None w = Returns (e, y, w1)"
    by (rule retried_returns[OF assms])
  then show ?thesis by (intro that) (simp add: GetServerSpec_def split_beta)
qed

lemma download_returns:
  assumes "rht_retry (syr_client s) = DefaultGitHubRetryConfig"
  obtains e w1 where "DownloadServerSpec ws s server w = Returns (e, w1)"
proof -
  obtain e v where d: "ensureDir ws (syr_yamalsDir s) w = (e, v)" by fastforce
  obtain r v1 where r: "GetServerSpec (wks_http ws) (wks_codecs ws) (syr_client s) server v = Returns (r, v1)"
    by (rule spec_returns[OF assms])
  have "\<exists>x. DownloadServerSpec ws s server w = Returns x"
    using d r by (cases e) (simp_all add: DownloadServerSpec_def)
  then show ?thesis using that by auto
qed

lemma attempts_return:
  assumes "rht_retry (syr_client s) = DefaultGitHubRetryConfig"
  obtains e w1 where "download_attempts ws s server n w = Returns (e, w1)"
proof -
  have "\<exists>x. download_attempts ws s server n w = Returns x"
  proof (induction n arbitrary: w)
    case (Suc n)
    obtain e v where "DownloadServerSpec ws s server w = Returns (e, v)" by (rule download_returns[OF assms])
    with Suc show ?case by (cases e) simp_all
  qed simp
  then show ?thesis using that by auto
qed

text \<open>The error that is reported is that of the last download, so the text about exceeded retries is never seen.\<close>

lemma reported_error_is_last:
  "download_attempts ws s server (Suc n) w = Returns (Some m, w1) \<Longrightarrow>
     \<exists>v. DownloadServerSpec ws s server v = Returns (Some m, w1)"
proof (induction n arbitrary: w)
  case 0
  then show ?case
    by (cases "DownloadServerSpec ws s server w") (auto split: prod.splits option.splits)
next
  case (Suc n)
  then show ?case
    by (cases "DownloadServerSpec ws s server w")
       (auto split: prod.splits option.splits if_splits simp del: download_attempts.simps(2)
         simp: download_attempts.simps(2)[of ws s server "Suc n"])
qed

lemma sync_all_counts:
  assumes "rht_retry (syr_client s) = DefaultGitHubRetryConfig"
  shows "\<exists>good bad limited w1. sync_all ws s xs (a, b, c) w = Returns ((good, bad, limited), w1) \<and>
    good + bad + limited = a + b + c + length xs"
proof (induction xs arbitrary: a b c w)
  case (Cons x xs)
  obtain e v where d: "downloadServerSpecWithRetry ws s (sin_Name x) w = Returns (e, v)"
    unfolding downloadServerSpecWithRetry_def by (rule attempts_return[OF assms])
  show ?case
  proof (cases e)
    case None
    with d Cons[of "Suc a" b c "wks_Sleep ws (100 * time_Millisecond) v"] show ?thesis by simp
  next
    case (Some m)
    with d Cons[of a b "Suc c" "wks_Sleep ws (2 * time_Second) v"] Cons[of a "Suc b" c v] show ?thesis
      by (cases "str_contains m ''429''") simp_all
  qed
qed simp

text \<open>Synchronising all servers returns whenever they could be listed, and every server is counted
  exactly once as downloaded, failed or rate limited; failures are no error of the whole.\<close>

theorem sync_all_accounts:
  assumes "rht_retry (syr_client s) = DefaultGitHubRetryConfig"
    and "ListServers (wks_http ws) (wks_codecs ws) (syr_client s) w = Returns (Inr servers, w1)"
  shows "\<exists>good bad limited w2. SyncAllServers ws s w = Returns (Inr (good, bad, limited), w2) \<and>
    good + bad + limited = length servers"
  using sync_all_counts[OF assms(1), of ws servers 0 0 0 w1] assms(2) by (auto simp: SyncAllServers_def)

subsection \<open>Copies and guesses\<close>

lemma copy_servers_counts:
  assumes "copy_servers ws s dir es (a, b) w = ((good, bad), w1)"
  shows "a + b \<le> good + bad \<and> good + bad \<le> a + b + length (filter snd es)"
  using assms
proof (induction es arbitrary: a b w)
  case (Cons e es)
  obtain r v where r: "copy_server ws s dir e w = (r, v)" by fastforce
  have dir: "r \<noteq> NoTemplate \<Longrightarrow> snd e" using r by (auto simp: copy_server_def Let_def split: if_splits)
  show ?case
  proof (cases r)
    case NoTemplate
    with r Cons.prems Cons.IH[of a b v] show ?thesis by auto
  next
    case NotCopied
    with r Cons.prems Cons.IH[of a "Suc b" v] dir show ?thesis by auto
  next
    case Copied
    with r Cons.prems Cons.IH[of "Suc a" b v] dir show ?thesis by auto
  qed
qed simp

text \<open>The language of a server is guessed from three letters anywhere in its name.\<close>

lemma mongodb_runs_on_go:
  "trt_Image (tpl_Runtime (getDefaultServerSpec ''mongodb'')) = ''golang:1.21-alpine''"
  by code_simp

text \<open>Sources are found, or made up: the only failures of the whole are those of writing the made-up files.\<close>

lemma sources_fall_back:
  assumes "DownloadServerSources ws s server w = Returns (Some e, w1)"
    and "ensureDir ws (syr_sourcesDir s) w = (None, v0)"
  shows "\<exists>v. createBasicServerStructure ws s server v = (Some e, w1)"
proof -
  have end_of: "\<exists>v. createBasicServerStructure ws s server v = (Some e, w1)"
    if "(if cloned = None then Returns (None, w3)
         else (case downloadFromDockerRegistry ws s server w3 of
                 (None, w4) \<Rightarrow> Returns (None, w4)
               | (Some _, w4) \<Rightarrow> Returns (createBasicServerStructure ws s server w4))) = Returns (Some e, w1)"
    for cloned :: go_error and w3
    using that by (cases "downloadFromDockerRegistry ws s server w3") (auto split: if_splits option.splits)
  obtain r w2 where g: "GetServerSpec (wks_http ws) (wks_codecs ws) (syr_client s) server v0 = Returns (r, w2)"
    using assms by (cases "GetServerSpec (wks_http ws) (wks_codecs ws) (syr_client s) server v0")
      (auto simp: DownloadServerSources_def)
  show ?thesis
  proof (cases r)
    case (Inl m)
    with assms g show ?thesis by (intro end_of[of "Some []" w2]) (simp add: DownloadServerSources_def)
  next
    case (Inr spec)
    then obtain t where t: "spec = Some t"
      using assms g by (cases spec) (auto simp: DownloadServerSources_def)
    obtain c w3 where "(if tpl_Repository t \<noteq> [] then cloneRepository ws s (tpl_Repository t) server w2
        else (Some [], w2)) = (c, w3)" by fastforce
    with assms g Inr t show ?thesis by (intro end_of[of c w3]) (simp add: DownloadServerSources_def)
  qed
qed

subsection \<open>A concrete workspace\<close>

text \<open>Files are the world; the registry has two servers with the same template; every command fails.\<close>

definition two_server_registry :: "'w http_env" where
  "two_server_registry = \<lparr>hte_new_request = (\<lambda>_. None),
     hte_do = (\<lambda>_ w. (Inr \<lparr>hrp_Response = \<lparr>hr_StatusCode = 200, hr_Header = None\<rparr>, hrp_Body = Inr []\<rparr>, w)),
     hte_now = (\<lambda>_. 0), hte_rand = (\<lambda>w. (0, w)), hte_wait = (\<lambda>_ w. (None, w))\<rparr>"

definition directory_item :: "string \<Rightarrow> registry_response" where
  "directory_item n = \<lparr>rgp_Name = n, rgp_Path = n, rgp_SHA = [], rgp_Size = 0, rgp_URL = [], rgp_HTMLURL = [],
     rgp_GitURL = [], rgp_DownloadURL = [], rgp_Type = ''dir'', rgp_Content = [], rgp_Encoding = []\<rparr>"

definition one_template :: codecs where
  "one_template = \<lparr>cod_listing = (\<lambda>_. Inr [directory_item ''a'', directory_item ''b'']),
     cod_file = (\<lambda>_. Inr (directory_item ''server.yaml'')), cod_contents = (\<lambda>_. Inl []),
     cod_json = (\<lambda>_. Inr zero_template), cod_yaml = (\<lambda>_. Inl []), cod_base64_error = (\<lambda>_. []),
     cod_sha256_hex = (\<lambda>_. [])\<rparr>"

definition file_list :: "(string \<times> string) list workspace" where
  "file_list = \<lparr>wks_http = two_server_registry, wks_codecs = one_template,
     wks_Stat = (\<lambda>p w. if p \<in> fst ` set w then None else Some (''no such file'', True)),
     wks_MkdirAll = (\<lambda>_ w. (None, w)), wks_RemoveAll = (\<lambda>_ w. (None, w)),
     wks_WriteFile = (\<lambda>p bytes w. (None, (p, bytes) # w)),
     wks_ReadFile = (\<lambda>p w. case map_of w p of None \<Rightarrow> Inl ''no such file'' | Some bytes \<Rightarrow> Inr bytes),
     wks_ReadDir = (\<lambda>_ _. Inr []), wks_TempDir = ''/tmp'', wks_Run = (\<lambda>_ w. (Some ''exit status 1'', w)),
     wks_Sleep = (\<lambda>_ w. w),
     wks_Marshal = (\<lambda>t. if t = Some zero_template then Inr ''{}'' else Inl ''unsupported''),
     wks_Unmarshal = (\<lambda>_. Inr zero_template), wks_Unmarshal_yaml = (\<lambda>_. Inl [])\<rparr>"

lemma file_list_laws: "keeps_files file_list" "reads_yaml file_list"
  by (auto simp: keeps_files_def reads_yaml_def file_list_def split: if_splits)

lemma file_list_spec:
  "GetServerSpec two_server_registry one_template (NewClient []) ''a'' (w :: (string \<times> string) list) =
     Returns (Inr (Some zero_template), w)"
  by code_simp

lemma file_list_listing:
  "ListServers two_server_registry one_template (NewClient []) (w :: (string \<times> string) list) =
     Returns (Inr (listed_servers [directory_item ''a'', directory_item ''b'']), w)"
  by code_simp


lemma sync_all_accounts_witness:
  "\<exists>good bad limited w2. SyncAllServers file_list (NewSyncer (NewClient []) ''servers'') [] =
      Returns (Inr (good, bad, limited), w2) \<and> good + bad + limited = 2"
proof -
  let ?s = "NewSyncer (NewClient []) ''servers''"
  have r: "rht_retry (syr_client ?s) = DefaultGitHubRetryConfig" by (simp add: NewSyncer_def NewClient_def)
  have l: "ListServers (wks_http file_list) (wks_codecs file_list) (syr_client ?s) [] =
      Returns (Inr (listed_servers [directory_item ''a'', directory_item ''b'']), [])"
    using file_list_listing[of "[]"] by (simp add: file_list_def NewSyncer_def)
  have "length (listed_servers [directory_item ''a'', directory_item ''b'']) = 2"
    by (simp add: listed_servers_def directory_item_def)
  with sync_all_accounts[OF r l] show ?thesis by simp
qed

end
