(* ===== verification/SyncCommand.thy ===== *)
theory SyncCommand
  imports Syncer
begin

section \<open>The program that fills a directory with templates\<close>

text \<open>
  \<open>cmd/sync.go\<close>: the commands list, download, sources, sync-all and clone-direct over the syncer. The
  texts for people are left out but for the names of the servers that are shown; an end of the program
  other than by returning is a value of \<open>ended\<close>. \<open>git\<close> runs git in a directory and gives its error with
  its output.
\<close>

datatype ended = Usage "string list" | Fatal string | Done

type_synonym 'w git = "string option \<Rightarrow> string list \<Rightarrow> 'w \<Rightarrow> (string \<times> string) option \<times> 'w"

text \<open>How many servers there are, and the names of those that are shown.\<close>

type_synonym listing = "nat \<times> string list"

definition listing_of :: "server_info list \<Rightarrow> listing" where
  "listing_of servers = (length servers, map sin_Name (take 20 servers))"

definition listServers ::
  "('w \<Rightarrow> file_system) \<Rightarrow> 'w http_env \<Rightarrow> codecs \<Rightarrow> registry_http \<Rightarrow> 'w \<Rightarrow> ((string + listing) \<times> 'w) outcome" where
  "listServers fs env cod client w =
     (if HasLocalRegistry (fs w) ''mcp-registry'' then
        Returns (case ListServersLocal (fs w) ''mcp-registry'' of
            Inl e \<Rightarrow> Inl (''failed to list local servers: '' @ e)
          | Inr servers \<Rightarrow> Inr (listing_of servers), w)
      else and_then (ListServers env cod client w) (\<lambda>(r, w1). Returns (case r of
            Inl e \<Rightarrow> Inl (''failed to list servers: '' @ e)
          | Inr servers \<Rightarrow> Inr (listing_of servers), w1)))"

definition downloadServer :: "'w workspace \<Rightarrow> syncer \<Rightarrow> string \<Rightarrow> 'w \<Rightarrow> (go_error \<times> 'w) outcome" where
  "downloadServer ws s server w =
     and_then (DownloadServerSpec ws s server w) (\<lambda>r. Returns (wrapped ''failed to download server spec: '' r))"

definition downloadSources :: "'w workspace \<Rightarrow> syncer \<Rightarrow> string \<Rightarrow> 'w \<Rightarrow> (go_error \<times> 'w) outcome" where
  "downloadSources ws s server w =
     and_then (DownloadServerSources ws s server w) (\<lambda>r. Returns (wrapped ''failed to download server sources: '' r))"

definition syncAllServers :: "'w workspace \<Rightarrow> syncer \<Rightarrow> 'w \<Rightarrow> (go_error \<times> 'w) outcome" where
  "syncAllServers ws s w =
     and_then (SyncAllServers ws s w) (\<lambda>(r, w1). Returns
       (case r of Inl e \<Rightarrow> Some (''failed to sync all servers: '' @ e) | Inr _ \<Rightarrow> None, w1))"

text \<open>The first twenty directories, and whether they have a template.\<close>

definition cloned_servers :: "'w workspace \<Rightarrow> string \<Rightarrow> (string \<times> bool) list \<Rightarrow> 'w \<Rightarrow> (string \<times> bool) list" where
  "cloned_servers ws serversDir entries w =
     map (\<lambda>e. (fst e, wks_Stat ws (path_Join [serversDir, fst e, ''server.yaml'']) w = None))
       (take 20 (filter snd entries))"

definition fetch_registry :: "'w workspace \<Rightarrow> 'w git \<Rightarrow> 'w \<Rightarrow> go_error \<times> 'w" where
  "fetch_registry ws git w =
     (if wks_Stat ws ''mcp-registry'' w = None then
        (case git (Some ''mcp-registry'') [''pull''] w of
           (Some (e, out), w1) \<Rightarrow> (Some (''failed to update registry: '' @ e @ '', output: '' @ out), w1)
         | (None, w1) \<Rightarrow> (None, w1))
      else
        (case git None [''clone'', ''https://github.com/docker/mcp-registry.git'', ''mcp-registry''] w of
           (Some (e, out), w1) \<Rightarrow> (Some (''failed to clone registry: '' @ e @ '', output: '' @ out), w1)
         | (None, w1) \<Rightarrow> (None, w1)))"

definition cloneRegistry ::
  "'w workspace \<Rightarrow> 'w git \<Rightarrow> registry_http \<Rightarrow> 'w \<Rightarrow> (string + nat \<times> (string \<times> bool) list) \<times> 'w" where
  "cloneRegistry ws git client w =
     (case fetch_registry ws git w of
        (Some e, w1) \<Rightarrow> (Inl e, w1)
      | (None, w1) \<Rightarrow>
          (let serversDir = path_Join [''mcp-registry'', ''servers''] in
           case wks_Stat ws serversDir w1 of
             Some (e, _) \<Rightarrow> (Inl (''servers directory not found in cloned repository: '' @ e), w1)
           | None \<Rightarrow>
               (case wks_ReadDir ws serversDir w1 of
                  Inl e \<Rightarrow> (Inl (''failed to read servers directory: '' @ e), w1)
                | Inr entries \<Rightarrow>
                    (Inr (length entries, cloned_servers ws serversDir entries w1),
                     snd (SyncFromLocalRegistry ws (NewSyncer client ''servers'') ''mcp-registry'' w1)))))"

definition ended_with :: "go_error \<times> 'w \<Rightarrow> ended \<times> 'w" where
  "ended_with r = apfst (\<lambda>e. case e of None \<Rightarrow> Done | Some m \<Rightarrow> Fatal m) r"

text \<open>\<open>args\<close> are the arguments after the name of the program, \<open>token\<close> the GITHUB_TOKEN of the environment.\<close>

definition sync_main ::
  "('w \<Rightarrow> file_system) \<Rightarrow> 'w workspace \<Rightarrow> 'w git \<Rightarrow> string \<Rightarrow> string list \<Rightarrow> 'w \<Rightarrow> (ended \<times> 'w) outcome" where
  "sync_main fs ws git token args w =
     (let client = NewClient token; s = NewSyncer client ''servers'' in
      case args of
        [] \<Rightarrow> Returns (Usage [''Usage: sync [list|download|sources|clone-direct] [server-name]''], w)
      | command # rest \<Rightarrow>
          if command = ''list'' then
            and_then (listServers fs (wks_http ws) (wks_codecs ws) client w) (\<lambda>(r, w1).
              Returns (case r of Inl e \<Rightarrow> Fatal e | Inr _ \<Rightarrow> Done, w1))
          else if command = ''download'' then
            (if rest = [] then Returns (Usage [''Usage: sync download <server-name>''], w)
             else and_then (downloadServer ws s (hd rest) w) (\<lambda>r. Returns (ended_with r)))
          else if command = ''sources'' then
            (if rest = [] then Returns (Usage [''Usage: sync sources <server-name>''], w)
             else and_then (downloadSources ws s (hd rest) w) (\<lambda>r. Returns (ended_with r)))
          else if command = ''sync-all'' then
            and_then (syncAllServers ws s w) (\<lambda>r. Returns (ended_with r))
          else if command = ''clone-direct'' then
            (case cloneRegistry ws git client w of
               (Inl e, w1) \<Rightarrow> Returns (Fatal e, w1)
             | (Inr _, w1) \<Rightarrow> Returns (Done, w1))
          else Returns (Usage [''Unknown command: '' @ command,
            ''Available commands: list, download, sources, sync-all, clone-direct''], w))"

section \<open>Correctness\<close>

lemma new_client_retries: "rht_retry (NewClient token) = DefaultGitHubRetryConfig"
  by (simp add: NewClient_def)

text \<open>Synchronising all servers ends the program with an error only if the servers could not be listed:
  that every single download failed is no error.\<close>

theorem sync_all_ends:
  assumes "ListServers (wks_http ws) (wks_codecs ws) (NewClient token) w = Returns (r, w1)"
  shows "\<exists>w2. sync_main fs ws git token [''sync-all''] w =
    Returns (case r of Inl e \<Rightarrow> Fatal (''failed to sync all servers: failed to list servers: '' @ e) | Inr _ \<Rightarrow> Done, w2)"
proof -
  define s where "s = NewSyncer (NewClient token) ''servers''"
  have c: "syr_client s = NewClient token" by (simp add: s_def NewSyncer_def)
  have m: "sync_main fs ws git token [''sync-all''] w = and_then (syncAllServers ws s w) (\<lambda>r. Returns (ended_with r))"
    by (simp add: sync_main_def s_def Let_def)
  show ?thesis
  proof (cases r)
    case (Inl e)
    with assms c show ?thesis
      unfolding m by (simp add: syncAllServers_def SyncAllServers_def ended_with_def)
  next
    case (Inr servers)
    obtain good bad limited w2 where "sync_all ws s servers (0, 0, 0) w1 = Returns ((good, bad, limited), w2)"
      using sync_all_counts[of s ws servers 0 0 0 w1] new_client_retries c by auto
    with assms c Inr show ?thesis
      unfolding m by (simp add: syncAllServers_def SyncAllServers_def ended_with_def)
  qed
qed

lemma sync_all_ends_witness:
  "\<forall>fs git. \<exists>w2. sync_main fs file_list git [] [''sync-all''] [] = Returns (Done, w2)"
proof (intro allI)
  fix fs :: "(string \<times> string) list \<Rightarrow> file_system" and git :: "(string \<times> string) list git"
  have "ListServers (wks_http file_list) (wks_codecs file_list) (NewClient []) [] =
      Returns (Inr (listed_servers [directory_item ''a'', directory_item ''b'']), [])"
    using file_list_listing[of "[]"] by (simp add: file_list_def)
  from sync_all_ends[OF this, of fs git] show "\<exists>w2. sync_main fs file_list git [] [''sync-all''] [] = Returns (Done, w2)"
    by simp
qed

text \<open>A failure to copy the templates is none of the command: it only prints it.\<close>

lemma failed_copy_unreported:
  assumes "fetch_registry ws git w = (None, w1)"
    and "wks_Stat ws (path_Join [''mcp-registry'', ''servers'']) w1 = None"
    and "wks_ReadDir ws (path_Join [''mcp-registry'', ''servers'']) w1 = Inr entries"
    and "SyncFromLocalRegistry ws (NewSyncer (NewClient token) ''servers'') ''mcp-registry'' w1 = (Inl e, w2)"
  shows "sync_main fs ws git token [''clone-direct''] w = Returns (Done, w2)"
  by (simp add: sync_main_def cloneRegistry_def Let_def assms)

end
