(* ===== verification/ServerLookup.thy ===== *)
theory ServerLookup
  imports Reconciler "HOL-Library.Multiset"
begin

section \<open>Looking servers up by index\<close>

text \<open>
  The field indexes of \<open>main.go\<close> and the lookups over them, \<open>GetMCPServerByNameIndexed\<close>,
  \<open>ListMCPServersByRegistryIndexed\<close> and \<open>ListMCPServersEfficient\<close> of
  \<open>controllers/mcpserver_controller.go\<close>. The object cache of the manager, which applies the index
  functions, is a parameter with its documented behaviour as a law.
\<close>

subsection \<open>Index functions\<close>

type_synonym index_function = "mcp_server \<Rightarrow> string list outcome"

definition index_registry_name :: index_function where
  "index_registry_name s =
     (case sp_Registry (srv_Spec s) of
        None \<Rightarrow> Returns []
      | Some r \<Rightarrow> Returns (if rr_Name r = [] then [] else [rr_Name r]))"

definition index_server_name :: index_function where
  "index_server_name s =
     and_then (deref (sp_Registry (srv_Spec s)))
       (\<lambda>r. Returns (if rr_ServerName r = [] then [] else [rr_ServerName r]))"

definition index_name :: index_function where
  "index_name s = Returns [srv_Name s]"

type_synonym indexes = "string \<Rightarrow> index_function option"

definition server_indexes :: indexes where
  "server_indexes =
     [''spec.registry.name'' \<mapsto> index_registry_name, ''spec.registry.serverName'' \<mapsto> index_server_name,
      ''metadata.name'' \<mapsto> index_name]"

subsection \<open>Lookups\<close>

text \<open>A list call with the wanted that must match and a namespace, empty for all.\<close>

type_synonym 'w indexed_list = "(string \<times> string) list \<Rightarrow> string \<Rightarrow> 'w \<Rightarrow> (api_error + mcp_server list) \<times> 'w"

definition lookup_key :: "string \<Rightarrow> string \<Rightarrow> string" where
  "lookup_key namespace name = ''mcpserver:'' @ namespace @ '':'' @ name"

definition cached_server ::
  "instant \<Rightarrow> string \<Rightarrow> cache_service option \<Rightarrow> mcp_server option \<times> cache_service option" where
  "cached_server now key cache =
     (case cache of
        None \<Rightarrow> (None, None)
      | Some c \<Rightarrow> apsnd Some (GetMCPServer now key c))"

definition GetMCPServerByNameIndexed ::
  "'w indexed_list \<Rightarrow> ('w \<Rightarrow> instant) \<Rightarrow> string \<Rightarrow> string \<Rightarrow> cache_service option \<Rightarrow> 'w \<Rightarrow>
   (string + mcp_server) \<times> cache_service option \<times> 'w" where
  "GetMCPServerByNameIndexed list_by clock name namespace cache w =
     (case cached_server (clock w) (lookup_key namespace name) cache of
        (Some s, c1) \<Rightarrow> (Inr s, c1, w)
      | (None, c1) \<Rightarrow>
          (case list_by [(''metadata.name'', name)] namespace w of
             (Inl e, w1) \<Rightarrow> (Inl (api_msg e), c1, w1)
           | (Inr [], w1) \<Rightarrow> (Inl (''MCPServer '' @ name @ '' not found in namespace '' @ namespace), c1, w1)
           | (Inr [s], w1) \<Rightarrow>
               (Inr s, map_option (SetMCPServer (clock w1) (lookup_key namespace name) s (5 * time_Minute)) c1, w1)
           | (Inr _, w1) \<Rightarrow>
               (Inl (''multiple MCPServers found with name '' @ name @ '' in namespace '' @ namespace), c1, w1)))"

definition ListMCPServersByRegistryIndexed ::
  "'w indexed_list \<Rightarrow> string \<Rightarrow> string \<Rightarrow> 'w \<Rightarrow> (api_error + mcp_server list) \<times> 'w" where
  "ListMCPServersByRegistryIndexed list_by registryName namespace =
     list_by [(''spec.registry.name'', registryName)] namespace"

definition ListMCPServersEfficient ::
  "'w indexed_list \<Rightarrow> string \<Rightarrow> string \<Rightarrow> 'w \<Rightarrow> (api_error + mcp_server list) \<times> 'w" where
  "ListMCPServersEfficient list_by namespace registryName =
     list_by (if registryName \<noteq> [] then [(''spec.registry.name'', registryName)] else []) namespace"

section \<open>The object cache\<close>

definition has_value :: "indexes \<Rightarrow> string \<times> string \<Rightarrow> mcp_server \<Rightarrow> bool" where
  "has_value idx fv s =
     (case idx (fst fv) of None \<Rightarrow> False | Some f \<Rightarrow> (case f s of Panic \<Rightarrow> False | Returns vs \<Rightarrow> snd fv \<in> set vs))"

definition matching :: "indexes \<Rightarrow> (string \<times> string) list \<Rightarrow> string \<Rightarrow> mcp_server list \<Rightarrow> mcp_server list" where
  "matching idx wanted namespace ss =
     filter (\<lambda>s. (namespace = [] \<or> srv_Namespace s = namespace) \<and> list_all (\<lambda>fv. has_value idx fv s) wanted) ss"

text \<open>
  The documented behaviour: a list by a field without an index fails, any other gives the objects that
  are stored under the value, in some order, and changes nothing.
\<close>

definition lists_by_index ::
  "indexes \<Rightarrow> 'w indexed_list \<Rightarrow> ('w \<Rightarrow> mcp_server list) \<Rightarrow> bool" where
  "lists_by_index idx list_by servers \<longleftrightarrow>
     (\<forall>wanted namespace w.
        if list_all (\<lambda>fv. idx (fst fv) \<noteq> None) wanted
        then \<exists>items. list_by wanted namespace w = (Inr items, w) \<and>
               mset items = mset (matching idx wanted namespace (servers w))
        else \<exists>e. list_by wanted namespace w = (Inl e, w))"

lemma lists_found:
  assumes "lists_by_index idx list_by servers" and "list_all (\<lambda>fv. idx (fst fv) \<noteq> None) wanted"
  obtains items where "list_by wanted namespace w = (Inr items, w)"
    and "mset items = mset (matching idx wanted namespace (servers w))"
  using assms(1)[unfolded lists_by_index_def, rule_format, of wanted namespace w] assms(2) by auto

lemma lists_fail:
  assumes "lists_by_index idx list_by servers" and "\<not> list_all (\<lambda>fv. idx (fst fv) \<noteq> None) wanted"
  obtains e where "list_by wanted namespace w = (Inl e, w)"
  using assms(1)[unfolded lists_by_index_def, rule_format, of wanted namespace w] assms(2) by auto

section \<open>Correctness\<close>

subsection \<open>Index functions\<close>

lemma index_panics_iff:
  "index_server_name s = Panic \<longleftrightarrow> sp_Registry (srv_Spec s) = None"
  "index_registry_name s \<noteq> Panic" "index_name s \<noteq> Panic"
  by (cases "sp_Registry (srv_Spec s)";
      simp add: index_server_name_def index_registry_name_def index_name_def)+

lemma has_registry_name:
  "has_value server_indexes (''spec.registry.name'', v) s \<longleftrightarrow>
     v \<noteq> [] \<and> (\<exists>r. sp_Registry (srv_Spec s) = Some r \<and> rr_Name r = v)"
  by (cases "sp_Registry (srv_Spec s)") (auto simp: has_value_def server_indexes_def index_registry_name_def)

lemma has_name: "has_value server_indexes (''metadata.name'', v) s \<longleftrightarrow> srv_Name s = v"
  by (auto simp: has_value_def server_indexes_def index_name_def)

text \<open>
  The index of registries holds exactly the servers that name one in the present field, whereas the
  watch on cached templates also honours the older field.
\<close>

lemma matching_registry:
  "matching server_indexes [(''spec.registry.name'', v)] namespace ss =
     filter (\<lambda>s. (namespace = [] \<or> srv_Namespace s = namespace) \<and>
       v \<noteq> [] \<and> (\<exists>r. sp_Registry (srv_Spec s) = Some r \<and> rr_Name r = v)) ss"
  unfolding matching_def list.pred_inject(2) has_registry_name by (simp add: conj_assoc)

lemma registry_index_exact:
  assumes "lists_by_index server_indexes list_by servers"
  shows "\<exists>items. ListMCPServersByRegistryIndexed list_by registryName namespace w = (Inr items, w) \<and>
    mset items = mset (filter (\<lambda>s. (namespace = [] \<or> srv_Namespace s = namespace) \<and>
      registryName \<noteq> [] \<and> (\<exists>r. sp_Registry (srv_Spec s) = Some r \<and> rr_Name r = registryName)) (servers w))"
proof -
  have "list_all (\<lambda>fv. server_indexes (fst fv) \<noteq> None) [(''spec.registry.name'', registryName)]"
    by (simp add: server_indexes_def)
  from lists_found[OF assms this, of namespace w] obtain items where
    "list_by [(''spec.registry.name'', registryName)] namespace w = (Inr items, w)"
    "mset items = mset (matching server_indexes [(''spec.registry.name'', registryName)] namespace (servers w))" .
  then show ?thesis
    unfolding ListMCPServersByRegistryIndexed_def matching_registry by (intro exI conjI)
qed

lemma index_misses_alias:
  assumes "sp_Registry (srv_Spec s) = Some r" and "rr_Name r = []" and "rr_Registry r = registryName"
    and "registryName \<noteq> []"
  shows "uses_cache_entry registryName (ref_server (srv_Name s) r) s \<and>
    \<not> has_value server_indexes (''spec.registry.name'', registryName) s"
  unfolding has_registry_name using assms by (simp add: uses_cache_entry_def ref_registry_def)

subsection \<open>How old an answer can be\<close>

definition named :: "string \<Rightarrow> string \<Rightarrow> mcp_server \<Rightarrow> bool" where
  "named namespace name s \<longleftrightarrow> (namespace = [] \<or> srv_Namespace s = namespace) \<and> srv_Name s = name"

lemma matching_name:
  "matching server_indexes [(''metadata.name'', name)] namespace ss = filter (named namespace name) ss"
  unfolding matching_def list.pred_inject has_name named_def by simp

lemma lookup_key_inject:
  assumes "CHR '':'' \<notin> set ns" and "CHR '':'' \<notin> set ns'" and "lookup_key ns n = lookup_key ns' n'"
  shows "ns = ns' \<and> n = n'"
  using assms(3) by (intro cut_inject[OF assms(1,2)]) (simp add: lookup_key_def)

lemma reconciler_key: "server_cache_key s = lookup_key (srv_Namespace s) (srv_Name s)"
  by (simp add: server_cache_key_def lookup_key_def)

text \<open>
  What goes on around the lookups: the cluster moves on while the clock does not go back, the
  reconciler invalidates entries, the periodic clean-up sweeps. The worlds seen are kept, latest first.
\<close>

inductive lookups :: "'w indexed_list \<Rightarrow> ('w \<Rightarrow> instant) \<Rightarrow> cache_service \<Rightarrow> 'w list \<Rightarrow> bool"
  for list_by clock where
  fresh: "lookups list_by clock NewDefaultCacheService [w]"
| moved: "lookups list_by clock c (v # vs) \<Longrightarrow> clock v \<le> clock w \<Longrightarrow> lookups list_by clock c (w # v # vs)"
| looked: "lookups list_by clock c (w # vs) \<Longrightarrow> CHR '':'' \<notin> set namespace \<Longrightarrow>
    GetMCPServerByNameIndexed list_by clock name namespace (Some c) w = (r, Some c1, w1) \<Longrightarrow>
    lookups list_by clock c1 (w1 # vs)"
| invalidated: "lookups list_by clock c ws \<Longrightarrow> lookups list_by clock (InvalidateMCPServer (server_cache_key s) c) ws"
| swept: "lookups list_by clock c (w # vs) \<Longrightarrow> lookups list_by clock (ClearExpired (clock w) c) (w # vs)"

definition honest ::
  "('w \<Rightarrow> mcp_server list) \<Rightarrow> ('w \<Rightarrow> instant) \<Rightarrow> cache_service \<Rightarrow> 'w set \<Rightarrow> bool" where
  "honest servers clock c seen \<longleftrightarrow> cache_wf c \<and>
     (\<forall>ns n s e. CHR '':'' \<notin> set ns \<longrightarrow> stored (chs_mcpServerCache c) (lookup_key ns n) = Some (s, e) \<longrightarrow>
        (\<exists>u \<in> seen. e = clock u + 5 * time_Minute \<and> filter (named ns n) (servers u) = [s]))"

lemma honest_grows: "honest servers clock c seen \<Longrightarrow> seen \<subseteq> seen' \<Longrightarrow> honest servers clock c seen'"
  unfolding honest_def by blast

text \<open>An operation that only drops entries keeps the cache honest.\<close>

lemma honest_drops:
  assumes "honest servers clock c seen" and "cache_wf c'"
    and "\<And>k. stored (chs_mcpServerCache c') k \<in> {stored (chs_mcpServerCache c) k, None}"
  shows "honest servers clock c' seen"
  unfolding honest_def
proof (intro conjI allI impI)
  show "cache_wf c'" by fact
  fix ns n s e assume p: "CHR '':'' \<notin> set ns" "stored (chs_mcpServerCache c') (lookup_key ns n) = Some (s, e)"
  then have "stored (chs_mcpServerCache c) (lookup_key ns n) = Some (s, e)"
    using assms(3)[of "lookup_key ns n"] by auto
  with p(1) assms(1) show "\<exists>u \<in> seen. e = clock u + 5 * time_Minute \<and> filter (named ns n) (servers u) = [s]"
    unfolding honest_def by blast
qed

text \<open>The three ways a lookup goes.\<close>

lemma lookup_cases:
  assumes "lists_by_index server_indexes list_by servers"
    and hit_def: "hit = GetMCPServer (clock w) (lookup_key ns n) c"
    and r_def: "r = GetMCPServerByNameIndexed list_by clock n ns (Some c) w"
  shows "(\<exists>s. fst hit = Some s \<and> r = (Inr s, Some (snd hit), w)) \<or>
    (fst hit = None \<and> (\<exists>s. filter (named ns n) (servers w) = [s] \<and>
       r = (Inr s, Some (SetMCPServer (clock w) (lookup_key ns n) s (5 * time_Minute) (snd hit)), w))) \<or>
    (fst hit = None \<and> length (filter (named ns n) (servers w)) \<noteq> 1 \<and> (\<exists>e. r = (Inl e, Some (snd hit), w)))"
proof (cases "fst hit")
  case (Some s)
  then obtain c1 where h: "hit = (Some s, c1)" by (cases hit) auto
  show ?thesis
    unfolding r_def GetMCPServerByNameIndexed_def cached_server_def option.case hit_def[symmetric] h by simp
next
  case None
  then obtain c1 where h: "hit = (None, c1)" by (cases hit) auto
  have "list_all (\<lambda>fv. server_indexes (fst fv) \<noteq> None) [(''metadata.name'', n)]" by (simp add: server_indexes_def)
  from lists_found[OF assms(1) this, of ns w] obtain items where
    l: "list_by [(''metadata.name'', n)] ns w = (Inr items, w)" and m: "mset items = mset (filter (named ns n) (servers w))"
    unfolding matching_name by blast
  have len: "length items = length (filter (named ns n) (servers w))" using m by (metis size_mset)
  have r: "r = (case items of
        [] \<Rightarrow> (Inl (''MCPServer '' @ n @ '' not found in namespace '' @ ns), Some (snd hit), w)
      | [s] \<Rightarrow> (Inr s, Some (SetMCPServer (clock w) (lookup_key ns n) s (5 * time_Minute) (snd hit)), w)
      | _ \<Rightarrow> (Inl (''multiple MCPServers found with name '' @ n @ '' in namespace '' @ ns), Some (snd hit), w))"
    unfolding r_def GetMCPServerByNameIndexed_def cached_server_def option.case hit_def[symmetric] h
    by (simp add: l split: list.split)
  have c1: "snd hit = c1" by (simp add: h)
  consider "items = []" | s where "items = [s]" | a b rest where "items = a # b # rest" by (metis list.exhaust)
  then show ?thesis
  proof cases
    case 2
    then have "filter (named ns n) (servers w) = [s]" using m by (metis mset_single_iff mset.simps)
    with None r 2 show ?thesis by simp
  qed (use None r len in auto)
qed

lemma get_keeps_honest:
  assumes "honest servers clock c seen"
  shows "honest servers clock (snd (GetMCPServer now k c)) seen"
  using assms server_cache.inv_kept[of c now k] server_cache.get_look[of now k c]
  by (intro honest_drops[OF assms]) (simp_all add: honest_def)

lemma set_keeps_honest:
  assumes "honest servers clock c seen" and "w \<in> seen" and "CHR '':'' \<notin> set ns"
    and "filter (named ns n) (servers w) = [s]"
  shows "honest servers clock (SetMCPServer (clock w) (lookup_key ns n) s (5 * time_Minute) c) seen"
  unfolding honest_def
proof (intro conjI allI impI)
  show "cache_wf (SetMCPServer (clock w) (lookup_key ns n) s (5 * time_Minute) c)"
    using assms(1) server_cache.inv_kept[of c] by (simp add: honest_def)
  fix ns' n' t e
  assume p: "CHR '':'' \<notin> set ns'"
    "stored (chs_mcpServerCache (SetMCPServer (clock w) (lookup_key ns n) s (5 * time_Minute) c)) (lookup_key ns' n') = Some (t, e)"
  show "\<exists>u \<in> seen. e = clock u + 5 * time_Minute \<and> filter (named ns' n') (servers u) = [t]"
  proof (cases "lookup_key ns' n' = lookup_key ns n")
    case True
    then have "ns' = ns \<and> n' = n" by (rule lookup_key_inject[OF p(1) assms(3)])
    with p(2) assms(2,4) show ?thesis by (auto simp: server_cache.put_look)
  next
    case False
    with p(2) have "stored (chs_mcpServerCache c) (lookup_key ns' n') = Some (t, e)"
      by (simp add: server_cache.put_look)
    with p(1) assms(1) show ?thesis unfolding honest_def by blast
  qed
qed

lemma lookups_honest:
  assumes "lists_by_index server_indexes list_by servers" and "lookups list_by clock c ws"
  shows "ws \<noteq> [] \<and> honest servers clock c (set ws)"
  using assms(2)
proof (induction rule: lookups.induct)
  case (fresh w)
  then show ?case by (simp add: honest_def)
next
  case (moved c v vs w)
  then show ?case using honest_grows[of servers clock c "set (v # vs)" "set (w # v # vs)"] by auto
next
  case (looked c w vs namespace name r c1 w1)
  have h: "honest servers clock c (set (w # vs))" using looked.IH by simp
  then have g: "honest servers clock (snd (GetMCPServer (clock w) (lookup_key namespace name) c)) (set (w # vs))"
    by (rule get_keeps_honest)
  have "w1 = w \<and> honest servers clock c1 (set (w # vs))"
    using lookup_cases[OF assms(1) refl refl, of clock w namespace name c] g
      set_keeps_honest[OF g _ looked.hyps(2), of w name] looked.hyps(3)
    by auto
  then show ?case by simp
next
  case (invalidated c ws s)
  then show ?case
    using server_cache.inv_kept[of c] by (auto intro!: honest_drops simp: honest_def server_cache.invalidate_look)
next
  case (swept c w vs)
  then have h: "honest servers clock c (set (w # vs))" and wf: "cache_wf c" by (simp_all add: honest_def)
  have "stored (chs_mcpServerCache (ClearExpired (clock w) c)) k \<in> {stored (chs_mcpServerCache c) k, None}" for k
    using wf by (auto simp: server_cache.clear_expired_look split: option.splits)
  moreover have "cache_wf (ClearExpired (clock w) c)" using server_cache.inv_kept[OF wf] by simp
  ultimately show ?case using honest_drops[OF h] by simp
qed

text \<open>C32 A lookup by name never answers with a server that it was not asked for, nor with an old one: whatever
  was looked up, invalidated, swept and changed in the cluster before, a server it returns was the only
  one of that name and namespace in the cluster, at most five minutes ago.\<close>

theorem lookup_at_most_stale:
  assumes "lists_by_index server_indexes list_by servers" and "lookups list_by clock c (w # past)"
    and "CHR '':'' \<notin> set namespace"
    and "GetMCPServerByNameIndexed list_by clock name namespace (Some c) w = (Inr s, c1, w1)"
  shows "\<exists>u \<in> set (w # past). clock w \<le> clock u + 5 * time_Minute \<and> filter (named namespace name) (servers u) = [s]"
proof -
  have h: "honest servers clock c (set (w # past))" using lookups_honest[OF assms(1,2)] by simp
  have five: "clock w \<le> clock w + 5 * time_Minute" by (simp add: time_Minute_def time_Second_def)
  have "fst (GetMCPServer (clock w) (lookup_key namespace name) c) = Some s \<or>
      filter (named namespace name) (servers w) = [s]"
    using lookup_cases[OF assms(1) refl refl, of clock w namespace name c] assms(4) by auto
  then show ?thesis
  proof
    assume "fst (GetMCPServer (clock w) (lookup_key namespace name) c) = Some s"
    then obtain e where e: "stored (chs_mcpServerCache c) (lookup_key namespace name) = Some (s, e)" "clock w \<le> e"
      using h server_cache.get_val[of c] by (auto simp: honest_def split: option.splits if_splits)
    then obtain u where "u \<in> set (w # past)" "e = clock u + 5 * time_Minute" "filter (named namespace name) (servers u) = [s]"
      using h assms(3) unfolding honest_def by blast
    with e(2) show ?thesis by blast
  next
    assume "filter (named namespace name) (servers w) = [s]"
    with five show ?thesis by (intro bexI[of _ w]) simp_all
  qed
qed

text \<open>A cluster that lists as documented.\<close>

definition indexed_api :: "indexes \<Rightarrow> ('w \<Rightarrow> mcp_server list) \<Rightarrow> 'w indexed_list" where
  "indexed_api idx servers wanted namespace w =
     (if list_all (\<lambda>fv. idx (fst fv) \<noteq> None) wanted then (Inr (matching idx wanted namespace (servers w)), w)
      else (Inl (OtherError ''Index with name field does not exist''), w))"

lemma indexed_api_lists: "lists_by_index idx (indexed_api idx servers) servers"
  by (simp add: lists_by_index_def indexed_api_def)

text \<open>A server that was looked up, then deleted, is still found a minute later.\<close>

definition watched :: "(mcp_server list \<times> instant) indexed_list" where
  "watched = indexed_api server_indexes fst"

lemma lookup_at_most_stale_witness:
  "\<exists>c c1. GetMCPServerByNameIndexed watched snd [] [] (Some c) ([], time_Minute) = (Inr zero_server, c1, ([], time_Minute)) \<and>
     (\<exists>u \<in> {([], time_Minute), ([zero_server], 0)}. filter (named [] []) (fst u) = [zero_server])"
proof -
  let ?k = "lookup_key [] []" and ?w = "([zero_server], 0)" and ?v = "([], time_Minute)"
  define c0 where "c0 = snd (GetMCPServer 0 ?k NewDefaultCacheService)"
  define c where "c = SetMCPServer 0 ?k zero_server (5 * time_Minute) c0"
  have l: "lists_by_index server_indexes watched fst" unfolding watched_def by (rule indexed_api_lists)
  have one: "filter (named [] []) [zero_server] = [zero_server]" by (simp add: named_def zero_server_def zero_meta_def)
  have "fst (GetMCPServer 0 ?k NewDefaultCacheService) = None" by (simp add: server_cache.get_val)
  then have "GetMCPServerByNameIndexed watched snd [] [] (Some NewDefaultCacheService) ?w = (Inr zero_server, Some c, ?w)"
    using lookup_cases[OF l refl refl, of snd ?w "[]" "[]" NewDefaultCacheService] one by (simp add: c_def c0_def)
  from lookups.looked[OF lookups.fresh _ this] have "lookups watched snd c [?w]" by simp
  from lookups.moved[OF this, of ?v] have r: "lookups watched snd c [?v, ?w]"
    by (simp add: time_Minute_def time_Second_def)
  have "cache_wf c" using lookups_honest[OF l r] by (simp add: honest_def)
  then have "fst (GetMCPServer time_Minute ?k c) = Some zero_server"
    by (simp add: server_cache.get_val c_def server_cache.put_look time_Minute_def time_Second_def)
  then obtain c1 where "GetMCPServerByNameIndexed watched snd [] [] (Some c) ?v = (Inr zero_server, c1, ?v)"
    using lookup_cases[OF l refl refl, of snd ?v "[]" "[]" c] by auto
  with lookup_at_most_stale[OF l r _ this] show ?thesis by auto
qed

text \<open>
  A lookup in all namespaces caches under a key of its own, which no invalidation of the reconciler
  touches: a deleted server is found for as long as its entry lives.
\<close>

lemma anonymous_entry_survives:
  assumes "srv_Namespace s \<noteq> []" and "CHR '':'' \<notin> set (srv_Namespace s)"
  shows "stored (chs_mcpServerCache (InvalidateMCPServer (server_cache_key s) c)) (lookup_key [] name) =
    stored (chs_mcpServerCache c) (lookup_key [] name)"
proof -
  have "lookup_key [] name \<noteq> server_cache_key s"
    using lookup_key_inject[of "[]" "srv_Namespace s" name "srv_Name s"] assms by (auto simp: reconciler_key)
  then show ?thesis by (simp add: server_cache.invalidate_look)
qed

text \<open>Without the indexes, every lookup that misses the cache fails, whatever is in the cluster.\<close>

lemma lookup_needs_index:
  assumes "lists_by_index Map.empty list_by servers"
  shows "\<exists>e. GetMCPServerByNameIndexed list_by clock name namespace None w = (Inl e, None, w)"
proof -
  have "\<not> list_all (\<lambda>fv. (Map.empty :: indexes) (fst fv) \<noteq> None) [(''metadata.name'', name)]" by simp
  from lists_fail[OF assms this, of namespace w] obtain e where "list_by [(''metadata.name'', name)] namespace w = (Inl e, w)" .
  then show ?thesis by (simp add: GetMCPServerByNameIndexed_def cached_server_def)
qed

end
