(* ===== verification/Spec2Isabelle.thy ===== *)
theory Spec2Isabelle
  imports Webhook CircuitBreaker PeriodicSync IstioController RegistryController
    BackupLifecycle CliSecrets CliRegistry SyncCommand ServerLookup
begin

text \<open>
  \<^bold>\<open>The MCP operator.\<close>
  The program is a Kubernetes operator in Go. An \<open>MCPServer\<close> names a server of a registry; the
  operator fills in what the registry knows of the server, validates the result, builds the
  Kubernetes objects that run it, applies them and reports the state of the deployment. An
  \<open>MCPRegistry\<close> names a GitHub repository whose templates are copied into ConfigMaps. An
  \<open>MCPServerBackup\<close> keeps the specification of a server, once or on a schedule.

  \<^bold>\<open>Parts, theories and sources.\<close>
  \<^item> \<open>Prelude\<close>, \<open>GoText\<close>: Go values in HOL (strings as bytes, errors as options, maps as association
    lists under option, wrap-around of int32 and int64, panics as \<open>outcome\<close>) and the functions of the
    standard library in use.
  \<^item> \<open>ApiTypes\<close>: \<open>api/v1/mcpserver_types.go\<close>, \<open>mcpregistry_types.go\<close>; one record per struct.
  \<^item> \<open>Conditions\<close>: the contract of a condition list, a locale with one interpretation per setter.
  \<^item> \<open>KubeClient\<close>: \<open>pkg/services/kubernetes_client_service.go\<close> over an API server that is a parameter
    (record \<open>kube_api\<close>) with its documented laws as named predicates.
  \<^item> \<open>StatusService\<close>, \<open>Validation\<close>, \<open>RegistryService\<close>, \<open>TtlCache\<close>, \<open>AutoUpdate\<close> and \<open>PeriodicSync\<close>,
    \<open>DeploymentService\<close>: the services of \<open>pkg/services\<close>; \<open>PodBuilder\<close>, \<open>WorkloadBuilder\<close> and
    \<open>PolicyBuilder\<close> are \<open>resource_builder_service.go\<close>, \<open>SimpleBuilder\<close> its simple variant, and
    \<open>ResourceBuilder\<close> the interface of both as a locale; \<open>KubeObjects\<close> holds the objects they build.
  \<^item> \<open>Renderer\<close>: \<open>pkg/render/renderer.go\<close>, the stages of rendering over either builder.
  \<^item> \<open>Webhook\<close>: \<open>pkg/webhook/mcpserver_webhook.go\<close>, defaulting and admission.
  \<^item> \<open>CircuitBreaker\<close>: \<open>pkg/circuitbreaker\<close>. \<open>FloatTime\<close>, \<open>RetryLoop\<close>, \<open>GitHubRetry\<close>: \<open>pkg/retry\<close> and
    \<open>retry_service.go\<close>, with float64 arithmetic as rounding of rationals.
  \<^item> \<open>RegistryClient\<close>, \<open>RegistrySync\<close>: \<open>pkg/registry/client.go\<close> and \<open>github/github_client.go\<close>;
    \<open>RegistryCache\<close>: \<open>pkg/registry/cache\<close>; \<open>RegistryController\<close>:
    \<open>controllers/mcpregistry_controller.go\<close> over the three.
  \<^item> \<open>BackupTypes\<close>: \<open>api/v1/mcpserverbackup_types.go\<close>; \<open>BackupFiles\<close>, \<open>BackupS3\<close>, \<open>BackupController\<close>:
    \<open>controllers/mcpserverbackup_controller.go\<close>, its clean-up of files, of S3, and the rest;
    \<open>BackupLifecycle\<close>: what follows for retention, deletion and conditions. \<open>VersionInfo\<close>:
    \<open>pkg/version\<close>.
  \<^item> \<open>Syncer\<close>: \<open>pkg/sync/syncer.go\<close>, over \<open>PathLaws\<close>, what \<open>filepath.Join\<close> does with joined paths.
    \<open>SyncCommand\<close>: \<open>cmd/sync.go\<close>, the program over it.
  \<^item> \<open>CliText\<close>, \<open>CliDeploy\<close>: the commands deploy and update of \<open>cmd/mcp\<close>; \<open>CliSecrets\<close>:
    \<open>secrets_sync.go\<close>; \<open>CliServer\<close>, over \<open>DurationText\<close> for the texts of ages: \<open>server.go\<close> and
    \<open>status.go\<close>; \<open>CliRegistry\<close>: \<open>registry.go\<close>. \<open>Polling\<close>: the loops that wait, as one definition.
  \<^item> \<open>Istio\<close>, \<open>IstioController\<close>: \<open>controllers/istio\<close>. \<open>Reconciler\<close>:
    \<open>controllers/mcpserver_controller.go\<close>, the whole reconcile loop over the services above.
    \<open>ServerLookup\<close>: its lookups by index over the cache service, and the index functions of \<open>main.go\<close>.

  \<^bold>\<open>State and operations.\<close>
  State is passed explicitly: the cluster is a type \<open>'w\<close> that every call takes and returns; an object
  is the record of its struct; a service is a record of its fields. A function of the code is a
  definition of the same name. A call that may panic returns \<open>outcome\<close>, an API call a sum of
  \<open>api_error\<close> and its result. Loops are structural recursion, or recursion on the attempts left
  (\<open>RetryLoop\<close>, \<open>GitHubRetry\<close>), with termination by that number; the loops over the pages of an S3
  listing and those that wait for a server (\<open>poll\<close>) may run for ever and are
  \<open>partial_function (option)\<close>, so that a call that does not return is \<open>None\<close>. No fuel is used anywhere.

  \<^bold>\<open>Interfaces.\<close>
  \<open>condition_setter\<close> and \<open>transition_keeper\<close> (condition lists), \<open>bounded_retry\<close> (the retry loops),
  \<open>resource_building\<close> (both builders), the cache contract of \<open>TtlCache\<close>: each is a locale, interpreted
  on the definitions that provide it in the theory of the provider.

  \<^bold>\<open>What is shown.\<close>
  The reconciler: which stages it reaches, when it panics, that the finalizer is held until the
  clean-up returns, how old the answer of a lookup through the cache can be. The builders and the renderer: that a service reaches the pods of its deployment,
  which policies select nothing, which labels every object carries. The services: that validation
  and admission accept exactly the resources described by a predicate, that status follows the
  deployment, that updates converge, that caches, breakers and backoffs are what their histories say.
  The retry loops: how many attempts, when they succeed, that delays stay in range. The registry:
  what a synchronisation collects and what its errors say, how a pass of its controller ends, which
  cached templates are found again. Backups: what a pass stores, which backups retention deletes,
  when the finalizer is released, what the conditions can tell, when a clean-up does not return. The
  programs for people: that what they write passes the webhooks, that what they read is what was
  written (ports, templates, environment files), which objects of the cluster they find, when their
  waiting ends, and that they show what the operator stored.

  \<^bold>\<open>Parameters.\<close>
  The API server, HTTP transport, clock, random numbers, decoders and encoders of JSON and YAML,
  the file system, git, the terminal, SHA-256, quantities and \<open>url.Parse\<close> are arguments of the definitions. What is assumed of them is a
  named hypothesis of the theorem that needs it, and every such theorem has a witness on a concrete
  instance.

  \<^bold>\<open>Not modelled.\<close>
  The main programs (wiring and flags) but for the index functions they register, metrics, the event recorder, generated deep copies (values
  have none), logging, and of the command line tool the declarations of flags and help texts.
\<close>

end
